(* ===== verification/CrmPrelude.thy ===== *)
theory CrmPrelude
  imports Main "HOL-Library.Char_ord" "HOL-Library.List_Lexorder" "HOL-Library.Product_Lexorder"
begin

text \<open>
  Shared vocabulary of the development: Python text, timezone-aware datetimes, exceptions as
  values of a sum type with their composition, decimal printing, the first minimum of a sequence,
  and the theorem collections the component theories fill.

  Python \<open>str\<close> is \<^typ>\<open>string\<close>, one \<^typ>\<open>char\<close> per code point; the model covers the
  code points below 256, on which \<open>is_space\<close> and \<open>lower_char\<close> are Python's \<open>str.isspace\<close> and
  \<open>str.lower\<close>. Comparison of texts is Python's: lexicographic by code point.
\<close>

section \<open>Theorem collections\<close>

named_theorems error_simps \<open>equations that decide when a checked constructor or a guard succeeds\<close>
named_theorems frame_simps \<open>fields an operation leaves alone\<close>
named_theorems inv_intros \<open>operations preserve invariants\<close>

section \<open>Exceptions\<close>

text \<open>
  A Python exception is its class and its message. \<open>InvalidTransition\<close> stands for the two
  subclasses of \<open>ValueError\<close> the state machines raise.
\<close>

datatype py_error =
    ValueError string
  | TypeError string
  | RuntimeError string
  | KeyError string
  | InvalidTransition string
  | DatabaseError string

text \<open>A statement that may raise, followed by the rest of the function.\<close>

definition bindE :: "'e + 'a \<Rightarrow> ('a \<Rightarrow> 'e + 'b) \<Rightarrow> 'e + 'b" where
  "bindE m f = (case m of Inl e \<Rightarrow> Inl e | Inr x \<Rightarrow> f x)"

lemma bindE_simps [simp]:
  "bindE (Inl e) f = Inl e"
  "bindE (Inr x) f = f x"
  by (simp_all add: bindE_def)

lemma bindE_Inr_iff [simp]: "bindE m f = Inr y \<longleftrightarrow> (\<exists>x. m = Inr x \<and> f x = Inr y)"
  by (cases m) auto

lemma returned: "\<not> isl x \<Longrightarrow> x = Inr (fst (projr x), snd (projr x))"
  by (cases x) auto

lemma bindE_InrE:
  assumes "bindE m f = Inr y"
  obtains x where "m = Inr x" "f x = Inr y"
  using assms by auto

lemma bindE_Inl_iff: "bindE m f = Inl e \<longleftrightarrow> m = Inl e \<or> (\<exists>x. m = Inr x \<and> f x = Inl e)"
  by (cases m) auto

lemma bindE_Inr_right [simp]: "bindE m Inr = m"
  by (cases m) auto

lemma bindE_assoc: "bindE (bindE m f) g = bindE m (\<lambda>x. bindE (f x) g)"
  by (cases m) auto

text \<open>\<open>if not b: raise e\<close>.\<close>

definition require :: "bool \<Rightarrow> 'e \<Rightarrow> 'e + unit" where
  "require b e = (if b then Inr () else Inl e)"

lemma require_Inr_iff [simp]: "require b e = Inr u \<longleftrightarrow> b"
  by (simp add: require_def)

lemma require_True [simp]: "require True e = Inr ()"
  by (simp add: require_def)

lemma require_False [simp]: "require False e = Inl e"
  by (simp add: require_def)

text \<open>A loop that calls a raising function on every element and keeps the results in order.\<close>

fun traverseE :: "('a \<Rightarrow> 'e + 'b) \<Rightarrow> 'a list \<Rightarrow> 'e + 'b list" where
  "traverseE f [] = Inr []"
| "traverseE f (x # xs) = bindE (f x) (\<lambda>y. bindE (traverseE f xs) (\<lambda>ys. Inr (y # ys)))"

lemma traverseE_Inr_iff:
  "traverseE f xs = Inr ys \<longleftrightarrow> list_all2 (\<lambda>x y. f x = Inr y) xs ys"
proof (induction xs arbitrary: ys)
  case Nil
  show ?case by (auto simp: eq_commute)
next
  case (Cons x xs)
  show ?case by (cases ys) (auto simp: Cons.IH)
qed

lemma traverseE_length: "traverseE f xs = Inr ys \<Longrightarrow> length ys = length xs"
  by (auto simp: traverseE_Inr_iff dest: list_all2_lengthD)

lemma traverseE_set:
  "traverseE f xs = Inr ys \<Longrightarrow> y \<in> set ys \<Longrightarrow> \<exists>x\<in>set xs. f x = Inr y"
  by (auto simp: traverseE_Inr_iff list_all2_conv_all_nth in_set_conv_nth intro!: bexI nth_mem)

lemma traverseE_map:
  assumes "\<forall>x \<in> set xs. f x = Inr (g x)"
  shows "traverseE f xs = Inr (map g xs)"
  using assms by (induction xs) auto

lemma traverseE_total: "\<forall>x \<in> set xs. \<exists>y. f x = Inr y \<Longrightarrow> \<exists>ys. traverseE f xs = Inr ys"
  by (induction xs) auto

lemma traverseE_append:
  "traverseE f (xs @ ys) = bindE (traverseE f xs) (\<lambda>us. bindE (traverseE f ys) (\<lambda>vs. Inr (us @ vs)))"
  by (induction xs) (auto simp: bindE_def split: sum.splits)

section \<open>Text\<close>

text \<open>
  \<open>str.isspace\<close> on the code points below 256: the controls 9 to 13 and 28 to 31, the blank,
  NEL and the no-break space.
\<close>

definition is_space :: "char \<Rightarrow> bool" where
  "is_space c \<longleftrightarrow> (let n = (of_char c :: nat) in
     9 \<le> n \<and> n \<le> 13 \<or> 28 \<le> n \<and> n \<le> 32 \<or> n = 133 \<or> n = 160)"

lemma is_space_blank: "is_space CHR '' ''"
  by code_simp

definition strip :: "string \<Rightarrow> string" where
  "strip s = rev (dropWhile is_space (rev (dropWhile is_space s)))"

text \<open>\<open>not value or not value.strip()\<close>, the guard of every non-empty text field.\<close>

definition blank :: "string \<Rightarrow> bool" where
  "blank s \<longleftrightarrow> strip s = []"

text \<open>The check of an optional value, executable.\<close>

lemma pred_option_code [code]: "pred_option P x = (case x of None \<Rightarrow> True | Some v \<Rightarrow> P v)"
  by (cases x) simp_all

lemma blank_iff: "blank s \<longleftrightarrow> list_all is_space s"
proof -
  have "strip s = [] \<longleftrightarrow> (\<forall>c \<in> set (dropWhile is_space s). is_space c)"
    by (simp add: strip_def dropWhile_eq_Nil_conv)
  also have "\<dots> \<longleftrightarrow> (\<forall>c \<in> set s. is_space c)"
    by (metis dropWhile_eq_Nil_conv hd_dropWhile hd_in_set set_dropWhileD)
  finally show ?thesis by (simp add: blank_def list_all_iff)
qed

lemma blank_Nil [simp]: "blank []"
  by (simp add: blank_iff)

lemma not_blank_append [simp]: "\<not> blank s \<Longrightarrow> \<not> blank (s @ t)"
  by (auto simp: blank_iff)

lemma blank_Cons [simp]: "blank (c # s) \<longleftrightarrow> is_space c \<and> blank s"
  by (simp add: blank_iff)

text \<open>
  \<open>str.lower\<close> on the code points below 256: ASCII and the accented capitals, which all sit 32
  below their lower-case forms.
\<close>

definition lower_char :: "char \<Rightarrow> char" where
  "lower_char c = (let n = (of_char c :: nat) in
     if 65 \<le> n \<and> n \<le> 90 \<or> 192 \<le> n \<and> n \<le> 222 \<and> n \<noteq> 215 then char_of (n + 32) else c)"

definition lower :: "string \<Rightarrow> string" where
  "lower s = map lower_char s"

text \<open>\<open>str(n)\<close> of a non-negative integer.\<close>

fun nat_str :: "nat \<Rightarrow> string" where
  "nat_str n = (if n < 10 then [char_of (48 + n)]
                else nat_str (n div 10) @ [char_of (48 + n mod 10)])"

declare nat_str.simps [simp del]

definition digits_value :: "string \<Rightarrow> nat" where
  "digits_value s = foldl (\<lambda>a c. 10 * a + (of_char c - 48)) 0 s"

lemma of_char_digit: "n < 10 \<Longrightarrow> (of_char (char_of (48 + n :: nat) :: char) :: nat) = 48 + n"
  by (simp add: of_char_of)

lemma digits_value_nat_str: "digits_value (nat_str n) = n"
proof (induction n rule: nat_str.induct)
  case (1 n)
  show ?case
  proof (cases "n < 10")
    case True
    then show ?thesis by (subst nat_str.simps) (simp add: digits_value_def of_char_digit)
  next
    case False
    with "1.IH" have "digits_value (nat_str (n div 10)) = n div 10" by simp
    moreover have "(of_char (char_of (48 + n mod 10 :: nat) :: char) :: nat) = 48 + n mod 10"
      by (rule of_char_digit) simp
    ultimately show ?thesis
      using False by (subst nat_str.simps) (simp add: digits_value_def)
  qed
qed

lemma nat_str_inj: "nat_str m = nat_str n \<longleftrightarrow> m = n"
  by (metis digits_value_nat_str)

lemma nat_str_no_colon: "CHR '':'' \<notin> set (nat_str n)"
proof (induction n rule: nat_str.induct)
  case (1 n)
  have "char_of (48 + k) \<noteq> CHR '':''" if "k < 10" for k :: nat
  proof
    assume "char_of (48 + k) = CHR '':''"
    then have "(of_char (char_of (48 + k) :: char) :: nat) = of_char CHR '':''" by (rule arg_cong)
    with that show False by (simp only: of_char_digit) simp
  qed
  from this [of n] this [of "n mod 10"] 1 show ?case by (subst nat_str.simps) auto
qed

text \<open>A number before a colon can be read back.\<close>

lemma nat_str_colon: "nat_str m @ CHR '':'' # s = nat_str n @ CHR '':'' # t \<longleftrightarrow> m = n \<and> s = t"
proof
  assume eq: "nat_str m @ CHR '':'' # s = nat_str n @ CHR '':'' # t"
  have take: "takeWhile (\<lambda>c. c \<noteq> CHR '':'') (nat_str k @ CHR '':'' # u) = nat_str k" for k u
    using nat_str_no_colon [of k] by (subst takeWhile_append2) auto
  from eq take have "nat_str m = nat_str n" by metis
  with eq show "m = n \<and> s = t" by (simp add: nat_str_inj)
qed simp

lemma nat_str_nonempty [simp]: "nat_str n \<noteq> []"
  by (subst nat_str.simps) simp

section \<open>JSON payloads\<close>

text \<open>
  A \<open>Mapping[str, object]\<close> that travels through a JSONB column: its entries in order, keys
  distinct as in a dict. A float is kept as its printed form.
\<close>

datatype json =
    JNull
  | JBool bool
  | JInt int
  | JFloat string
  | JStr string
  | JArray "json list"
  | JObject "(string \<times> json) list"

type_synonym payload = "(string \<times> json) list"

text \<open>\<open>payload.get(key)\<close>; a stored JSON null reads as Python's \<open>None\<close> too.\<close>

definition payload_get :: "payload \<Rightarrow> string \<Rightarrow> json option" where
  "payload_get p k = (case map_of p k of Some JNull \<Rightarrow> None | v \<Rightarrow> v)"

text \<open>A raising function under \<open>x if x is not None else None\<close>.\<close>

fun optE :: "('a \<Rightarrow> 'e + 'b) \<Rightarrow> 'a option \<Rightarrow> 'e + 'b option" where
  "optE f None = Inr None"
| "optE f (Some x) = bindE (f x) (\<lambda>y. Inr (Some y))"

section \<open>Datetimes\<close>

text \<open>
  An aware \<open>datetime\<close> is the instant it names, in microseconds from a fixed origin; a naive one
  is its wall clock. Comparing an aware with a naive datetime raises \<open>TypeError\<close>.
\<close>

datatype utc = Utc (utc_micros: int)

instantiation utc :: linorder
begin

definition less_eq_utc :: "utc \<Rightarrow> utc \<Rightarrow> bool" where
  "less_eq_utc a b \<longleftrightarrow> utc_micros a \<le> utc_micros b"

definition less_utc :: "utc \<Rightarrow> utc \<Rightarrow> bool" where
  "less_utc a b \<longleftrightarrow> utc_micros a < utc_micros b"

instance
  by standard (auto simp: less_eq_utc_def less_utc_def intro: utc.expand)

end

lemma utc_le [simp]: "Utc a \<le> Utc b \<longleftrightarrow> a \<le> b"
  by (simp add: less_eq_utc_def)

lemma utc_less [simp]: "Utc a < Utc b \<longleftrightarrow> a < b"
  by (simp add: less_utc_def)

datatype datetime = Aware utc | Naive int

text \<open>\<open>value.tzinfo is not None and value.utcoffset() is not None\<close>.\<close>

fun tz_aware :: "datetime \<Rightarrow> bool" where
  "tz_aware (Aware _) = True"
| "tz_aware (Naive _) = False"

lemma tz_aware_iff: "tz_aware d \<longleftrightarrow> (\<exists>t. d = Aware t)"
  by (cases d) auto

text \<open>\<open>a <= b\<close> and \<open>a < b\<close> on datetimes.\<close>

fun dt_le :: "datetime \<Rightarrow> datetime \<Rightarrow> py_error + bool" where
  "dt_le (Aware a) (Aware b) = Inr (a \<le> b)"
| "dt_le (Naive a) (Naive b) = Inr (a \<le> b)"
| "dt_le _ _ = Inl (TypeError ''can't compare offset-naive and offset-aware datetimes'')"

fun dt_less :: "datetime \<Rightarrow> datetime \<Rightarrow> py_error + bool" where
  "dt_less (Aware a) (Aware b) = Inr (a < b)"
| "dt_less (Naive a) (Naive b) = Inr (a < b)"
| "dt_less _ _ = Inl (TypeError ''can't compare offset-naive and offset-aware datetimes'')"

section \<open>The first minimum of a sequence\<close>

text \<open>Python's \<open>min(xs, key=f)\<close>, guarded by \<open>if not xs: return None\<close>: the first of the least.\<close>

fun min_by :: "('a \<Rightarrow> 'k::linorder) \<Rightarrow> 'a list \<Rightarrow> 'a option" where
  "min_by f [] = None"
| "min_by f (x # xs) = (case min_by f xs of None \<Rightarrow> Some x
     | Some m \<Rightarrow> Some (if f x \<le> f m then x else m))"

lemma min_by_None [simp]: "min_by f xs = None \<longleftrightarrow> xs = []"
  by (cases xs) (auto split: option.splits)

lemma min_by_SomeD: "min_by f xs = Some m \<Longrightarrow> m \<in> set xs \<and> (\<forall>x \<in> set xs. f m \<le> f x)"
proof (induction xs arbitrary: m)
  case Nil
  then show ?case by simp
next
  case (Cons x xs)
  show ?case
  proof (cases "min_by f xs")
    case None
    with Cons.prems show ?thesis by auto
  next
    case (Some m')
    with Cons.IH have "m' \<in> set xs" "\<forall>x \<in> set xs. f m' \<le> f x" by auto
    with Cons.prems Some show ?thesis by (fastforce split: if_splits)
  qed
qed

lemma min_by_in: "min_by f xs = Some m \<Longrightarrow> m \<in> set xs"
  by (auto dest: min_by_SomeD)

lemma min_by_le: "min_by f xs = Some m \<Longrightarrow> x \<in> set xs \<Longrightarrow> f m \<le> f x"
  by (auto dest: min_by_SomeD)

lemma min_by_exists: "xs \<noteq> [] \<Longrightarrow> \<exists>m. min_by f xs = Some m"
  by (cases "min_by f xs") auto

lemma min_by_filter:
  "min_by f (filter P xs) = Some m \<Longrightarrow> m \<in> set xs \<and> P m \<and> (\<forall>x \<in> set xs. P x \<longrightarrow> f m \<le> f x)"
  by (auto dest: min_by_SomeD)

section \<open>Lists\<close>

lemma length_filter_map_id: "(\<And>x. x \<in> set xs \<Longrightarrow> P (f x) = P x) \<Longrightarrow>
    length (filter P (map f xs)) = length (filter P xs)"
  by (induction xs) auto

lemma find_Some_in: "List.find P xs = Some x \<Longrightarrow> x \<in> set xs \<and> P x"
  by (auto simp: find_Some_iff)

lemma find_append_Some: "List.find P xs = Some x \<Longrightarrow> List.find P (xs @ ys) = Some x"
  by (induction xs) (auto split: if_splits)

lemma find_append_None: "List.find P xs = None \<Longrightarrow> List.find P (xs @ ys) = List.find P ys"
  by (induction xs) (auto split: if_splits)

lemma find_distinct_key:
  "distinct (map k xs) \<Longrightarrow> x \<in> set xs \<Longrightarrow> List.find (\<lambda>y. k y = k x) xs = Some x"
  by (induction xs) (auto simp: rev_image_eqI)

lemma find_unique:
  assumes "distinct (map k xs)" "x \<in> set xs" "P x" "\<And>y. P y \<Longrightarrow> k y = k x"
  shows "List.find P xs = Some x"
proof (cases "List.find P xs")
  case None
  with assms(2,3) show ?thesis by (auto simp: find_None_iff)
next
  case (Some y)
  then have "y \<in> set xs" "P y" by (auto dest: find_Some_in)
  then have "y = x" using assms(1,2) assms(4) [of y] by (auto simp: distinct_map dest: inj_onD)
  with Some show ?thesis by simp
qed

section \<open>Searching loops\<close>

text \<open>A loop that returns the first result other than \<open>None\<close> of a function that may raise.\<close>

fun firstE :: "('a \<Rightarrow> 'e + 'b option) \<Rightarrow> 'a list \<Rightarrow> 'e + 'b option" where
  "firstE f [] = Inr None"
| "firstE f (x # xs) = bindE (f x) (\<lambda>r. case r of None \<Rightarrow> firstE f xs | Some y \<Rightarrow> Inr (Some y))"

lemma firstE_Some: "firstE f xs = Inr (Some y) \<Longrightarrow> \<exists>x \<in> set xs. f x = Inr (Some y)"
  by (induction xs) (auto split: option.splits)

lemma firstE_None: "firstE f xs = Inr None \<longleftrightarrow> (\<forall>x \<in> set xs. f x = Inr None)"
  by (induction xs) (auto split: option.splits)

lemma firstE_total: "(\<And>x. x \<in> set xs \<Longrightarrow> \<exists>r. f x = Inr r) \<Longrightarrow> \<exists>r. firstE f xs = Inr r"
proof (induction xs)
  case (Cons x xs)
  from Cons.prems [of x] obtain r where "f x = Inr r" by auto
  with Cons show ?case by (cases r) auto
qed simp

text \<open>The same loop over a function that does not raise.\<close>

fun first_opt :: "('a \<Rightarrow> 'b option) \<Rightarrow> 'a list \<Rightarrow> 'b option" where
  "first_opt g [] = None"
| "first_opt g (x # xs) = (case g x of None \<Rightarrow> first_opt g xs | Some y \<Rightarrow> Some y)"

lemma first_opt_Some: "first_opt g xs = Some y \<Longrightarrow> \<exists>x \<in> set xs. g x = Some y"
  by (induction xs) (auto split: option.splits)

lemma first_opt_None [simp]: "first_opt g xs = None \<longleftrightarrow> (\<forall>x \<in> set xs. g x = None)"
  by (induction xs) (auto split: option.splits)

lemma firstE_value: "(\<And>x. x \<in> set xs \<Longrightarrow> f x = Inr (g x)) \<Longrightarrow> firstE f xs = Inr (first_opt g xs)"
  by (induction xs) (auto split: option.splits)

end
