(* ===== verification/Lifecycle.thy ===== *)
theory Lifecycle
  imports CrmPrelude
begin

text \<open>
  The contract the status machines of the program share: a step relation on states, a validity
  invariant, the states whose entity has a final status, what a client sees of the entity, and its
  attempt counter. What a client of a status machine relies on along a whole run is proved once
  here; the theories of the work items, of the work item tables and of the LLM tasks discharge the
  laws for their machines.
\<close>

locale lifecycle =
  fixes step :: "'s \<Rightarrow> 's \<Rightarrow> bool"
    and valid :: "'s \<Rightarrow> bool"
    and final :: "'s \<Rightarrow> bool"
    and view :: "'s \<Rightarrow> 'v"
    and attempts :: "'s \<Rightarrow> int"
  assumes step_valid: "step s t \<Longrightarrow> valid s \<Longrightarrow> valid t"
    and final_step: "step s t \<Longrightarrow> valid s \<Longrightarrow> final s \<Longrightarrow> final t \<and> view t = view s"
    and attempts_step: "step s t \<Longrightarrow> valid s \<Longrightarrow> attempts s \<le> attempts t \<and> attempts t \<le> attempts s + 1"
begin

lemma valid_run: "step\<^sup>*\<^sup>* s t \<Longrightarrow> valid s \<Longrightarrow> valid t"
  by (induction rule: rtranclp_induct) (auto intro: step_valid)

lemma final_run: "step\<^sup>*\<^sup>* s t \<Longrightarrow> valid s \<Longrightarrow> final s \<Longrightarrow> final t \<and> view t = view s"
proof (induction rule: rtranclp_induct)
  case base
  then show ?case by simp
next
  case (step t u)
  then show ?case using valid_run [of s t] final_step [of t u] by simp
qed

lemma attempts_run: "step\<^sup>*\<^sup>* s t \<Longrightarrow> valid s \<Longrightarrow> attempts s \<le> attempts t"
proof (induction rule: rtranclp_induct)
  case base
  then show ?case by simp
next
  case (step t u)
  then show ?case using valid_run [of s t] attempts_step [of t u] by simp
qed

lemma attempts_bounded_run: "(step ^^ n) s t \<Longrightarrow> valid s \<Longrightarrow> attempts t \<le> attempts s + int n"
proof (induction n arbitrary: t)
  case 0
  then show ?case by simp
next
  case (Suc n)
  then obtain u where u: "(step ^^ n) s u" "step u t" by auto
  then have "valid u" using valid_run Suc.prems(2) by (blast dest: relpowp_imp_rtranclp)
  with Suc.IH [OF u(1) Suc.prems(2)] attempts_step [OF u(2)] show ?case by simp
qed

end

end
