(* ===== verification/WorkItem.thy ===== *)
theory WorkItem
  imports Lifecycle
begin

text \<open>
  The generic unit of executable work of the execution runtime
  (\<open>src/src/contexts/execution_runtime/domain\<close>): its value objects, the entity with the checks of
  its constructor, the attempt record, the retry policy and the state machine. A frozen dataclass
  is a record; \<open>replace\<close> runs the constructor's checks again, so every transition ends in
  \<open>work_item_post_init\<close>.
\<close>

section \<open>Value objects\<close>

datatype work_item_status =
    WI_READY | WI_LEASED | WI_COMPLETED | WI_RETRYABLE_FAILED | WI_TERMINAL_FAILED
  | WI_CANCELLED | WI_SPLIT_SUPERSEDED | WI_USER_ACTION_REQUIRED

fun wi_status_value :: "work_item_status \<Rightarrow> string" where
  "wi_status_value WI_READY = ''ready''"
| "wi_status_value WI_LEASED = ''leased''"
| "wi_status_value WI_COMPLETED = ''completed''"
| "wi_status_value WI_RETRYABLE_FAILED = ''retryable_failed''"
| "wi_status_value WI_TERMINAL_FAILED = ''terminal_failed''"
| "wi_status_value WI_CANCELLED = ''cancelled''"
| "wi_status_value WI_SPLIT_SUPERSEDED = ''split_superseded''"
| "wi_status_value WI_USER_ACTION_REQUIRED = ''user_action_required''"

definition wi_is_terminal :: "work_item_status \<Rightarrow> bool" where
  "wi_is_terminal s \<longleftrightarrow> s \<in> {WI_COMPLETED, WI_TERMINAL_FAILED, WI_CANCELLED,
     WI_SPLIT_SUPERSEDED, WI_USER_ACTION_REQUIRED}"

definition wi_is_waiting :: "work_item_status \<Rightarrow> bool" where
  "wi_is_waiting s \<longleftrightarrow> s \<in> {WI_READY, WI_RETRYABLE_FAILED}"

datatype work_item_retry_plan =
    RETRY_SAME_ROUTE | RETRY_ALTERNATE_ROUTE | RETRY_VALIDATION_CHECK_ROUTE
  | RETRY_LARGER_INPUT_LIMIT_ROUTE | RETRY_LARGER_OUTPUT_LIMIT_ROUTE
  | RETRY_DAILY_FALLBACK_ROUTE | WAIT_NEAREST_ADMISSION_WINDOW | SPLIT_WORK_PAYLOAD
  | WAIT_DAILY_ADMISSION_RESET | RETRY_PLAN_TERMINAL

datatype work_kind = WorkKind (work_kind_value: string)
datatype worker_ref = WorkerRef (worker_ref_value: string)
datatype lease_token = LeaseToken (lease_token_value: string)

definition mk_work_kind :: "string \<Rightarrow> py_error + work_kind" where
  "mk_work_kind value =
     (let v = strip value in
      if v = [] then Inl (ValueError ''WorkKind.value must be non-empty'')
      else if CHR '' '' \<in> set v then Inl (ValueError ''WorkKind.value must not contain spaces'')
      else if v \<noteq> lower v then Inl (ValueError ''WorkKind.value must be lowercase'')
      else Inr (WorkKind value))"

definition mk_worker_ref :: "string \<Rightarrow> py_error + worker_ref" where
  "mk_worker_ref value =
     (if blank value then Inl (ValueError ''WorkerRef.value must be non-empty'')
      else Inr (WorkerRef value))"

definition mk_lease_token :: "string \<Rightarrow> py_error + lease_token" where
  "mk_lease_token value =
     (if blank value then Inl (ValueError ''LeaseToken.value must be non-empty'')
      else Inr (LeaseToken value))"

section \<open>The entity\<close>

record work_item =
  wi_id :: string
  wi_kind :: work_kind
  wi_status :: work_item_status
  wi_attempt_count :: int
  wi_leased_by :: "worker_ref option"
  wi_lease_token :: "lease_token option"
  wi_lease_expires_at :: "datetime option"
  wi_last_error_kind :: "string option"
  wi_retry_plan :: "work_item_retry_plan option"

definition work_item_post_init :: "work_item \<Rightarrow> py_error + work_item" where
  "work_item_post_init i =
     (if blank (wi_id i) then Inl (ValueError ''WorkItem.work_item_id must be non-empty'')
      else if wi_attempt_count i < 0 then Inl (ValueError ''WorkItem.attempt_count must be >= 0'')
      else if wi_status i = WI_LEASED then
        (if wi_leased_by i = None then Inl (ValueError ''LEASED WorkItem must have leased_by'')
         else if wi_lease_token i = None then Inl (ValueError ''LEASED WorkItem must have lease_token'')
         else case wi_lease_expires_at i of
           None \<Rightarrow> Inl (ValueError ''LEASED WorkItem must have lease_expires_at'')
         | Some t \<Rightarrow> if \<not> tz_aware t then Inl (ValueError ''lease_expires_at must be timezone-aware'')
             else Inr i)
      else if wi_leased_by i \<noteq> None \<or> wi_lease_token i \<noteq> None \<or> wi_lease_expires_at i \<noteq> None
        then Inl (ValueError ''Only LEASED WorkItem may carry lease fields'')
      else Inr i)"

text \<open>A fresh item, as \<open>WorkItem(work_item_id=..., work_kind=...)\<close> builds it.\<close>

definition new_work_item :: "string \<Rightarrow> work_kind \<Rightarrow> py_error + work_item" where
  "new_work_item i k = work_item_post_init
     \<lparr>wi_id = i, wi_kind = k, wi_status = WI_READY, wi_attempt_count = 0, wi_leased_by = None,
      wi_lease_token = None, wi_lease_expires_at = None, wi_last_error_kind = None,
      wi_retry_plan = None\<rparr>"

text \<open>What the constructor guarantees of every work item that exists.\<close>

definition lease_shape :: "work_item \<Rightarrow> bool" where
  "lease_shape i \<longleftrightarrow>
     (if wi_status i = WI_LEASED
      then wi_leased_by i \<noteq> None \<and> wi_lease_token i \<noteq> None \<and> (\<exists>t. wi_lease_expires_at i = Some (Aware t))
      else wi_leased_by i = None \<and> wi_lease_token i = None \<and> wi_lease_expires_at i = None)"

definition work_item_ok :: "work_item \<Rightarrow> bool" where
  "work_item_ok i \<longleftrightarrow> \<not> blank (wi_id i) \<and> 0 \<le> wi_attempt_count i \<and> lease_shape i"

lemma work_item_post_init_Inr [error_simps]:
  "work_item_post_init i = Inr j \<longleftrightarrow> j = i \<and> work_item_ok i"
  by (auto simp: work_item_post_init_def work_item_ok_def lease_shape_def tz_aware_iff
      split: option.splits)

lemma new_work_item_Inr [error_simps]:
  "new_work_item i k = Inr j \<longleftrightarrow> \<not> blank i \<and> j =
     \<lparr>wi_id = i, wi_kind = k, wi_status = WI_READY, wi_attempt_count = 0, wi_leased_by = None,
      wi_lease_token = None, wi_lease_expires_at = None, wi_last_error_kind = None,
      wi_retry_plan = None\<rparr>"
  by (auto simp: new_work_item_def error_simps work_item_ok_def lease_shape_def)

definition has_active_lease :: "work_item \<Rightarrow> datetime \<Rightarrow> py_error + bool" where
  "has_active_lease i now =
     (case wi_lease_expires_at i of
        None \<Rightarrow> Inr False
      | Some e \<Rightarrow>
          if wi_status i \<noteq> WI_LEASED then Inr False
          else if \<not> tz_aware now then Inl (ValueError ''now must be timezone-aware'')
          else dt_less now e)"

definition is_due :: "work_item \<Rightarrow> datetime \<Rightarrow> py_error + bool" where
  "is_due i now =
     (if \<not> tz_aware now then Inl (ValueError ''now must be timezone-aware'')
      else Inr (wi_status i \<in> {WI_READY, WI_RETRYABLE_FAILED}))"

section \<open>The attempt record\<close>

record work_item_attempt =
  at_id :: string
  at_work_item_id :: string
  at_number :: int
  at_started_at :: datetime
  at_finished_at :: "datetime option"
  at_outcome_status :: "string option"
  at_error_kind :: "string option"

definition work_item_attempt_post_init :: "work_item_attempt \<Rightarrow> py_error + work_item_attempt" where
  "work_item_attempt_post_init a =
     (if blank (at_id a) then Inl (ValueError ''WorkItemAttempt.attempt_id must be non-empty'')
      else if blank (at_work_item_id a)
        then Inl (ValueError ''WorkItemAttempt.work_item_id must be non-empty'')
      else if at_number a < 1 then Inl (ValueError ''WorkItemAttempt.attempt_number must be >= 1'')
      else if \<not> tz_aware (at_started_at a) then Inl (ValueError ''started_at must be timezone-aware'')
      else case at_finished_at a of
        None \<Rightarrow> Inr a
      | Some f \<Rightarrow>
          if \<not> tz_aware f then Inl (ValueError ''finished_at must be timezone-aware'')
          else bindE (dt_less f (at_started_at a)) (\<lambda>before.
            if before then Inl (ValueError ''finished_at must be >= started_at'') else Inr a))"

section \<open>The retry policy\<close>

record retry_policy =
  max_attempts :: int
  base_delay_seconds :: int
  max_delay_seconds :: int

definition mk_retry_policy :: "int \<Rightarrow> int \<Rightarrow> int \<Rightarrow> py_error + retry_policy" where
  "mk_retry_policy m b x =
     (if m < 0 then Inl (ValueError ''RetryPolicy.max_attempts must be >= 0'')
      else if b < 0 then Inl (ValueError ''RetryPolicy.base_delay_seconds must be >= 0'')
      else if x < b then Inl (ValueError ''RetryPolicy.max_delay_seconds must be >= base_delay_seconds'')
      else Inr \<lparr>max_attempts = m, base_delay_seconds = b, max_delay_seconds = x\<rparr>)"

definition can_retry :: "retry_policy \<Rightarrow> int \<Rightarrow> bool" where
  "can_retry p attempt_count \<longleftrightarrow> attempt_count < max_attempts p"

definition delay_for_attempt :: "retry_policy \<Rightarrow> int \<Rightarrow> int" where
  "delay_for_attempt p attempt_count =
     (if base_delay_seconds p = 0 then 0
      else min (base_delay_seconds p * 2 ^ nat (max (attempt_count - 1) 0)) (max_delay_seconds p))"

end
