(* ===== verification/WorkItemMachine.thy ===== *)
theory WorkItemMachine
  imports WorkItem
begin

text \<open>
  \<open>WorkItemStateMachine\<close>
  (\<open>src/src/contexts/execution_runtime/domain/state_machines/work_item_state_machine.py\<close>): one
  definition per static method, the step relation they make, the abstract status graph it refines
  and the lifecycle contract it discharges.
\<close>

section \<open>The transitions\<close>

text \<open>
  The \<open>replace\<close> call of every transition that ends outside \<open>LEASED\<close>: it drops the lease fields
  and sets status, error kind and retry plan, and the constructor checks the result.
\<close>

definition unleased :: "work_item \<Rightarrow> work_item_status \<Rightarrow> string option \<Rightarrow>
    work_item_retry_plan option \<Rightarrow> work_item" where
  "unleased i s e p = i\<lparr>wi_status := s, wi_leased_by := None, wi_lease_token := None,
     wi_lease_expires_at := None, wi_last_error_kind := e, wi_retry_plan := p\<rparr>"

definition refuse :: "string \<Rightarrow> work_item \<Rightarrow> py_error" where
  "refuse action i = InvalidTransition
     (''Cannot '' @ action @ '' work item from status '' @ wi_status_value (wi_status i))"

definition require_leased :: "work_item \<Rightarrow> string \<Rightarrow> py_error + unit" where
  "require_leased i action = require (wi_status i = WI_LEASED) (refuse action i)"

definition require_user_action_required :: "work_item \<Rightarrow> string \<Rightarrow> py_error + unit" where
  "require_user_action_required i action =
     require (wi_status i = WI_USER_ACTION_REQUIRED) (refuse action i)"

definition lease_ready :: "work_item \<Rightarrow> worker_ref \<Rightarrow> lease_token \<Rightarrow> datetime \<Rightarrow> datetime \<Rightarrow>
    py_error + work_item" where
  "lease_ready i worker token expires now =
     (if wi_status i \<notin> {WI_READY, WI_RETRYABLE_FAILED} then Inl (refuse ''lease'' i)
      else bindE (dt_le expires now) (\<lambda>past.
        if past then Inl (InvalidTransition ''lease_expires_at must be in the future'')
        else work_item_post_init (i\<lparr>wi_status := WI_LEASED,
          wi_attempt_count := wi_attempt_count i + 1, wi_leased_by := Some worker,
          wi_lease_token := Some token, wi_lease_expires_at := Some expires,
          wi_last_error_kind := None, wi_retry_plan := None\<rparr>)))"

definition complete_leased :: "work_item \<Rightarrow> py_error + work_item" where
  "complete_leased i = bindE (require_leased i ''complete'') (\<lambda>_.
     work_item_post_init (unleased i WI_COMPLETED None None))"

definition fail_leased_retryable :: "work_item \<Rightarrow> string \<Rightarrow> work_item_retry_plan \<Rightarrow>
    py_error + work_item" where
  "fail_leased_retryable i error_kind plan =
     bindE (require_leased i ''mark retryable failed'') (\<lambda>_.
       if blank error_kind then Inl (ValueError ''error_kind must be non-empty'')
       else work_item_post_init (unleased i WI_RETRYABLE_FAILED (Some error_kind) (Some plan)))"

definition fail_leased_terminal :: "work_item \<Rightarrow> string \<Rightarrow> py_error + work_item" where
  "fail_leased_terminal i error_kind =
     bindE (require_leased i ''mark terminal failed'') (\<lambda>_.
       if blank error_kind then Inl (ValueError ''error_kind must be non-empty'')
       else work_item_post_init (unleased i WI_TERMINAL_FAILED (Some error_kind) None))"

definition cancel :: "work_item \<Rightarrow> string option \<Rightarrow> py_error + work_item" where
  "cancel i error_kind =
     (if wi_is_terminal (wi_status i) \<and> wi_status i \<noteq> WI_USER_ACTION_REQUIRED
      then Inl (InvalidTransition
        (''Cannot cancel terminal work item from status '' @ wi_status_value (wi_status i)))
      else work_item_post_init (unleased i WI_CANCELLED error_kind None))"

definition mark_split_superseded_leased :: "work_item \<Rightarrow> py_error + work_item" where
  "mark_split_superseded_leased i =
     bindE (require_leased i ''mark split superseded'') (\<lambda>_.
       work_item_post_init (unleased i WI_SPLIT_SUPERSEDED None None))"

definition mark_split_superseded_waiting :: "work_item \<Rightarrow> py_error + work_item" where
  "mark_split_superseded_waiting i =
     (if \<not> wi_is_waiting (wi_status i) then Inl (InvalidTransition
        (''Cannot mark split superseded waiting work item from status '' @
         wi_status_value (wi_status i)))
      else work_item_post_init (unleased i WI_SPLIT_SUPERSEDED None None))"

definition require_user_action_leased :: "work_item \<Rightarrow> string \<Rightarrow> py_error + work_item" where
  "require_user_action_leased i error_kind =
     bindE (require_leased i ''require user action'') (\<lambda>_.
       if blank error_kind then Inl (ValueError ''error_kind must be non-empty'')
       else work_item_post_init (unleased i WI_USER_ACTION_REQUIRED (Some error_kind) None))"

definition blank_reason :: "string option \<Rightarrow> bool" where
  "blank_reason reason \<longleftrightarrow> (case reason of None \<Rightarrow> False | Some r \<Rightarrow> blank r)"

definition resolve_user_action_required_to_ready ::
    "work_item \<Rightarrow> string option \<Rightarrow> py_error + work_item" where
  "resolve_user_action_required_to_ready i reason =
     bindE (require_user_action_required i ''resolve to ready'') (\<lambda>_.
       if blank_reason reason then Inl (ValueError ''reason must be non-empty when provided'')
       else work_item_post_init (unleased i WI_READY reason None))"

definition resolve_user_action_required_to_retryable_failed ::
    "work_item \<Rightarrow> string option \<Rightarrow> work_item_retry_plan \<Rightarrow> py_error + work_item" where
  "resolve_user_action_required_to_retryable_failed i reason plan =
     bindE (require_user_action_required i ''resolve to retryable failed'') (\<lambda>_.
       if blank_reason reason then Inl (ValueError ''reason must be non-empty when provided'')
       else work_item_post_init (unleased i WI_RETRYABLE_FAILED reason (Some plan)))"

definition release_leased_to_ready :: "work_item \<Rightarrow> string option \<Rightarrow> py_error + work_item" where
  "release_leased_to_ready i reason =
     bindE (require_leased i ''release to ready'') (\<lambda>_.
       if blank_reason reason then Inl (ValueError ''reason must be non-empty when provided'')
       else work_item_post_init (unleased i WI_READY reason None))"

definition reclaim_expired_lease :: "work_item \<Rightarrow> datetime \<Rightarrow> py_error + work_item" where
  "reclaim_expired_lease i now =
     (if wi_status i \<noteq> WI_LEASED then Inr i
      else case wi_lease_expires_at i of
        None \<Rightarrow> Inl (InvalidTransition ''LEASED work item is missing lease_expires_at'')
      | Some e \<Rightarrow> bindE (dt_less now e) (\<lambda>active.
          if active then Inr i
          else work_item_post_init (unleased i WI_READY (Some ''lease_expired'') None)))"

lemmas transition_defs =
  complete_leased_def fail_leased_retryable_def fail_leased_terminal_def cancel_def
  mark_split_superseded_leased_def mark_split_superseded_waiting_def
  require_user_action_leased_def resolve_user_action_required_to_ready_def
  resolve_user_action_required_to_retryable_failed_def release_leased_to_ready_def
  reclaim_expired_lease_def require_leased_def require_user_action_required_def

lemma unleased_fields [simp]:
  "wi_id (unleased i s e p) = wi_id i"
  "wi_kind (unleased i s e p) = wi_kind i"
  "wi_status (unleased i s e p) = s"
  "wi_attempt_count (unleased i s e p) = wi_attempt_count i"
  "wi_leased_by (unleased i s e p) = None"
  "wi_lease_token (unleased i s e p) = None"
  "wi_lease_expires_at (unleased i s e p) = None"
  "wi_last_error_kind (unleased i s e p) = e"
  "wi_retry_plan (unleased i s e p) = p"
  by (simp_all add: unleased_def)

lemma unleased_ok [simp]: "work_item_ok i \<Longrightarrow> s \<noteq> WI_LEASED \<Longrightarrow> work_item_ok (unleased i s e p)"
  by (simp add: work_item_ok_def lease_shape_def)

section \<open>The step relation\<close>

inductive wi_step :: "work_item \<Rightarrow> work_item \<Rightarrow> bool" where
  lease: "lease_ready i w k e n = Inr j \<Longrightarrow> wi_step i j"
| complete: "complete_leased i = Inr j \<Longrightarrow> wi_step i j"
| fail_retryable: "fail_leased_retryable i err p = Inr j \<Longrightarrow> wi_step i j"
| fail_terminal: "fail_leased_terminal i err = Inr j \<Longrightarrow> wi_step i j"
| cancel: "cancel i r = Inr j \<Longrightarrow> wi_step i j"
| split_leased: "mark_split_superseded_leased i = Inr j \<Longrightarrow> wi_step i j"
| split_waiting: "mark_split_superseded_waiting i = Inr j \<Longrightarrow> wi_step i j"
| require_user: "require_user_action_leased i err = Inr j \<Longrightarrow> wi_step i j"
| resolve_ready: "resolve_user_action_required_to_ready i r = Inr j \<Longrightarrow> wi_step i j"
| resolve_retry: "resolve_user_action_required_to_retryable_failed i r p = Inr j \<Longrightarrow> wi_step i j"
| release: "release_leased_to_ready i r = Inr j \<Longrightarrow> wi_step i j"
| reclaim: "reclaim_expired_lease i n = Inr j \<Longrightarrow> wi_step i j"

text \<open>The statuses no step leaves.\<close>

definition wi_final :: "work_item \<Rightarrow> bool" where
  "wi_final i \<longleftrightarrow> wi_is_terminal (wi_status i) \<and> wi_status i \<noteq> WI_USER_ACTION_REQUIRED"

text \<open>The abstract status graph: which status may follow which.\<close>

fun status_edge :: "work_item_status \<Rightarrow> work_item_status \<Rightarrow> bool" where
  "status_edge WI_READY t = (t \<in> {WI_LEASED, WI_CANCELLED, WI_SPLIT_SUPERSEDED})"
| "status_edge WI_RETRYABLE_FAILED t = (t \<in> {WI_LEASED, WI_CANCELLED, WI_SPLIT_SUPERSEDED})"
| "status_edge WI_LEASED t = (t \<in> {WI_READY, WI_COMPLETED, WI_RETRYABLE_FAILED,
     WI_TERMINAL_FAILED, WI_CANCELLED, WI_SPLIT_SUPERSEDED, WI_USER_ACTION_REQUIRED})"
| "status_edge WI_USER_ACTION_REQUIRED t = (t \<in> {WI_READY, WI_RETRYABLE_FAILED, WI_CANCELLED})"
| "status_edge _ t = False"

lemma lease_ready_Inr [error_simps]:
  "lease_ready i w k (Aware e) (Aware n) = Inr j \<longleftrightarrow>
     wi_status i \<in> {WI_READY, WI_RETRYABLE_FAILED} \<and> n < e \<and>
     \<not> blank (wi_id i) \<and> 0 \<le> wi_attempt_count i + 1 \<and>
     j = i\<lparr>wi_status := WI_LEASED, wi_attempt_count := wi_attempt_count i + 1,
           wi_leased_by := Some w, wi_lease_token := Some k, wi_lease_expires_at := Some (Aware e),
           wi_last_error_kind := None, wi_retry_plan := None\<rparr>"
  by (auto simp: lease_ready_def error_simps work_item_ok_def lease_shape_def)

lemma lease_ready_step:
  assumes "lease_ready i w k e n = Inr j"
  shows "wi_status i \<in> {WI_READY, WI_RETRYABLE_FAILED} \<and> work_item_ok j \<and>
     wi_status j = WI_LEASED \<and> wi_attempt_count j = wi_attempt_count i + 1 \<and>
     wi_id j = wi_id i \<and> wi_kind j = wi_kind i"
  using assms by (auto simp: lease_ready_def error_simps split: if_splits)

text \<open>Every other step keeps the counter and moves the status along the graph.\<close>

lemma wi_step_cases:
  assumes "wi_step i j"
  shows "j = i \<or> (status_edge (wi_status i) (wi_status j) \<and> work_item_ok j \<and>
     wi_id j = wi_id i \<and> wi_kind j = wi_kind i \<and>
     wi_attempt_count j = wi_attempt_count i + (if wi_status j = WI_LEASED then 1 else 0))"
  using assms
proof cases
  case (lease w k e n)
  then show ?thesis using lease_ready_step [OF lease] by auto
next
  case (cancel r)
  then show ?thesis
    by (cases "wi_status i")
      (auto simp: transition_defs error_simps wi_is_terminal_def split: if_splits)
qed (auto simp: transition_defs error_simps wi_is_waiting_def split: if_splits option.splits)

lemma wi_final_no_edge: "wi_final i \<Longrightarrow> \<not> status_edge (wi_status i) s"
  by (cases "wi_status i") (auto simp: wi_final_def wi_is_terminal_def)

interpretation wi: lifecycle wi_step work_item_ok wi_final "\<lambda>i. i" wi_attempt_count
proof unfold_locales
  show "work_item_ok t" if "wi_step s t" "work_item_ok s" for s t
    using wi_step_cases [OF that(1)] that(2) by auto
  show "wi_final t \<and> t = s" if "wi_step s t" "work_item_ok s" "wi_final s" for s t
    using wi_step_cases [OF that(1)] wi_final_no_edge [OF that(3)] that(3) by auto
  show "wi_attempt_count s \<le> wi_attempt_count t \<and> wi_attempt_count t \<le> wi_attempt_count s + 1"
    if "wi_step s t" "work_item_ok s" for s t
    using wi_step_cases [OF that(1)] by auto
qed

text \<open>Each transition as a step that is enabled on every valid item with the right status.\<close>

lemma text_x [simp]: "\<not> blank ''x''"
  by (simp add: is_space_def)

lemma moves_from_waiting:
  assumes "work_item_ok i" "wi_status i \<in> {WI_READY, WI_RETRYABLE_FAILED}"
  shows "wi_step i (unleased i WI_CANCELLED None None)"
    and "wi_step i (unleased i WI_SPLIT_SUPERSEDED None None)"
    and "\<exists>j. wi_step i j \<and> wi_status j = WI_LEASED"
proof -
  show "wi_step i (unleased i WI_CANCELLED None None)"
    using assms by (auto intro!: wi_step.cancel [where r = None]
        simp: transition_defs error_simps wi_is_terminal_def)
  show "wi_step i (unleased i WI_SPLIT_SUPERSEDED None None)"
    using assms by (auto intro!: wi_step.split_waiting
        simp: transition_defs error_simps wi_is_waiting_def)
  have "\<exists>j. lease_ready i (WorkerRef ''w'') (LeaseToken ''t'') (Aware (Utc 1)) (Aware (Utc 0)) = Inr j"
    using assms by (simp add: error_simps work_item_ok_def)
  then show "\<exists>j. wi_step i j \<and> wi_status j = WI_LEASED"
    by (blast intro: wi_step.lease dest: lease_ready_step)
qed

lemma moves_from_leased:
  assumes "work_item_ok i" "wi_status i = WI_LEASED"
  shows "wi_step i (unleased i WI_READY None None)"
    and "wi_step i (unleased i WI_COMPLETED None None)"
    and "wi_step i (unleased i WI_RETRYABLE_FAILED (Some ''x'') (Some RETRY_SAME_ROUTE))"
    and "wi_step i (unleased i WI_TERMINAL_FAILED (Some ''x'') None)"
    and "wi_step i (unleased i WI_CANCELLED None None)"
    and "wi_step i (unleased i WI_SPLIT_SUPERSEDED None None)"
    and "wi_step i (unleased i WI_USER_ACTION_REQUIRED (Some ''x'') None)"
  using assms
  by (auto intro: wi_step.release [where r = None] wi_step.complete
      wi_step.fail_retryable [where err = "''x''" and p = RETRY_SAME_ROUTE]
      wi_step.fail_terminal [where err = "''x''"] wi_step.cancel [where r = None]
      wi_step.split_leased wi_step.require_user [where err = "''x''"]
      simp: transition_defs error_simps wi_is_terminal_def blank_reason_def
      simp del: blank_Cons)

lemma moves_from_user_action:
  assumes "work_item_ok i" "wi_status i = WI_USER_ACTION_REQUIRED"
  shows "wi_step i (unleased i WI_READY None None)"
    and "wi_step i (unleased i WI_RETRYABLE_FAILED None (Some RETRY_SAME_ROUTE))"
    and "wi_step i (unleased i WI_CANCELLED None None)"
  using assms
  by (auto intro: wi_step.resolve_ready [where r = None] wi_step.cancel [where r = None]
      wi_step.resolve_retry [where r = None and p = RETRY_SAME_ROUTE]
      simp: transition_defs error_simps wi_is_terminal_def blank_reason_def)

lemma move_exists: "wi_step i (unleased i s e p) \<Longrightarrow> \<exists>j. wi_step i j \<and> wi_status j = s"
  by (intro exI [of _ "unleased i s e p"]) simp

lemma status_edge_realised:
  assumes ok: "work_item_ok i" and edge: "status_edge (wi_status i) s"
  shows "\<exists>j. wi_step i j \<and> wi_status j = s"
proof (cases "wi_status i")
  case WI_LEASED
  with edge show ?thesis
    by (auto intro: moves_from_leased [OF ok WI_LEASED, THEN move_exists])
next
  case WI_USER_ACTION_REQUIRED
  with edge show ?thesis
    by (auto intro: moves_from_user_action [OF ok WI_USER_ACTION_REQUIRED, THEN move_exists])
qed (use edge moves_from_waiting [OF ok] in \<open>auto intro: move_exists\<close>)

section \<open>Properties\<close>

text \<open>
  The state machine implements the status graph exactly: from a valid work item some method
  produces a different item with status \<open>s\<close> if and only if the graph has the edge from the item's
  status to \<open>s\<close>.
\<close>

theorem wi_machine_refines_status_graph:
  assumes "work_item_ok i"
  shows "(\<exists>j. wi_step i j \<and> j \<noteq> i \<and> wi_status j = s) \<longleftrightarrow> status_edge (wi_status i) s"
proof
  assume "\<exists>j. wi_step i j \<and> j \<noteq> i \<and> wi_status j = s"
  then show "status_edge (wi_status i) s" by (auto dest: wi_step_cases)
next
  assume edge: "status_edge (wi_status i) s"
  then have "s \<noteq> wi_status i" by (cases "wi_status i") auto
  with status_edge_realised [OF assms edge] show "\<exists>j. wi_step i j \<and> j \<noteq> i \<and> wi_status j = s"
    by auto
qed

definition sample_item :: work_item where
  "sample_item = \<lparr>wi_id = ''w1'', wi_kind = WorkKind ''k'', wi_status = WI_READY,
     wi_attempt_count = 0, wi_leased_by = None, wi_lease_token = None, wi_lease_expires_at = None,
     wi_last_error_kind = None, wi_retry_plan = None\<rparr>"

lemma sample_item_ok: "work_item_ok sample_item"
  by (simp add: sample_item_def work_item_ok_def lease_shape_def is_space_def)

theorem wi_machine_refines_status_graph_witness:
  "(\<exists>j. wi_step sample_item j \<and> j \<noteq> sample_item \<and> wi_status j = WI_LEASED) \<and>
   \<not> (\<exists>j. wi_step sample_item j \<and> j \<noteq> sample_item \<and> wi_status j = WI_COMPLETED)"
  using wi_machine_refines_status_graph [OF sample_item_ok, of WI_LEASED]
    wi_machine_refines_status_graph [OF sample_item_ok, of WI_COMPLETED]
  by (simp add: sample_item_def)

text \<open>
  Along every run of the state machine a valid item stays valid, a finally closed item never
  changes again, and the attempt counter never decreases.
\<close>

theorem wi_run_lifecycle:
  assumes "wi_step\<^sup>*\<^sup>* i j" and "work_item_ok i"
  shows "work_item_ok j \<and> (wi_final i \<longrightarrow> j = i) \<and> wi_attempt_count i \<le> wi_attempt_count j"
  using assms wi.valid_run [OF assms] wi.attempts_run [OF assms] wi.final_run [OF assms(1)] by auto

definition sample_leased :: work_item where
  "sample_leased = sample_item\<lparr>wi_status := WI_LEASED, wi_attempt_count := 1,
     wi_leased_by := Some (WorkerRef ''w''), wi_lease_token := Some (LeaseToken ''t''),
     wi_lease_expires_at := Some (Aware (Utc 9))\<rparr>"

lemma sample_step: "wi_step\<^sup>*\<^sup>* sample_item sample_leased"
proof -
  have "lease_ready sample_item (WorkerRef ''w'') (LeaseToken ''t'') (Aware (Utc 9)) (Aware (Utc 1))
      = Inr sample_leased"
    by (simp add: error_simps sample_leased_def sample_item_def is_space_def)
  then show ?thesis by (rule r_into_rtranclp [where r = wi_step, OF wi_step.lease])
qed

lemma sample_leased_ok: "work_item_ok sample_leased"
  by (rule wi.valid_run [OF sample_step sample_item_ok])

lemma sample_leased_status: "wi_status sample_leased = WI_LEASED"
  by (simp add: sample_leased_def)

theorem wi_run_lifecycle_witness:
  "work_item_ok sample_leased \<and> wi_attempt_count sample_item \<le> wi_attempt_count sample_leased"
  using wi_run_lifecycle [OF sample_step sample_item_ok] by blast

text \<open>
  A lease is reclaimed exactly when it is no longer active: on a valid leased item the reclaim
  of the state machine returns the item itself while \<open>has_active_lease\<close> holds, and otherwise a
  ready item without lease fields that records \<open>lease_expired\<close>.
\<close>

theorem reclaim_iff_lease_inactive:
  assumes "work_item_ok i" and "wi_status i = WI_LEASED"
  shows "\<exists>active. has_active_lease i (Aware now) = Inr active \<and>
     reclaim_expired_lease i (Aware now) =
       Inr (if active then i else unleased i WI_READY (Some ''lease_expired'') None)"
proof -
  from assms obtain e where e: "wi_lease_expires_at i = Some (Aware e)"
    by (auto simp: work_item_ok_def lease_shape_def)
  have "work_item_post_init (unleased i WI_READY r None) = Inr (unleased i WI_READY r None)" for r
    using assms(1) by (simp add: error_simps)
  with e assms(2) show ?thesis by (simp add: has_active_lease_def reclaim_expired_lease_def)
qed

theorem reclaim_iff_lease_inactive_witness:
  "\<exists>active. has_active_lease sample_leased (Aware (Utc 9)) = Inr active \<and>
     reclaim_expired_lease sample_leased (Aware (Utc 9)) =
       Inr (if active then sample_leased
            else unleased sample_leased WI_READY (Some ''lease_expired'') None)"
  by (rule reclaim_iff_lease_inactive [OF sample_leased_ok sample_leased_status])

text \<open>
  The retry delay of every policy the constructor accepts lies between the base delay and the
  maximal delay (zero for a zero base), never decreases with the attempt number, and doubles from
  attempt to attempt until the cap.
\<close>

theorem retry_delay_bounds:
  assumes "mk_retry_policy m b x = Inr p" and "a \<le> a'"
  shows "b \<le> delay_for_attempt p a \<and> delay_for_attempt p a \<le> x \<and>
     delay_for_attempt p a \<le> delay_for_attempt p a' \<and>
     (1 \<le> a \<longrightarrow> delay_for_attempt p (a + 1) = min (2 * delay_for_attempt p a) x)"
proof -
  have p: "p = \<lparr>max_attempts = m, base_delay_seconds = b, max_delay_seconds = x\<rparr>"
    and b: "0 \<le> b" "b \<le> x"
    using assms(1) by (auto simp: mk_retry_policy_def split: if_splits)
  let ?e = "\<lambda>n. b * 2 ^ nat (max (n - 1) 0)"
  have "b * 1 \<le> ?e a" using b(1) by (intro mult_left_mono) auto
  moreover have "?e a \<le> ?e a'"
    using assms(2) b(1) by (intro mult_left_mono power_increasing) auto
  moreover have "?e (a + 1) = 2 * ?e a" if "1 \<le> a"
  proof -
    from that have "nat (max (a + 1 - 1) 0) = Suc (nat (max (a - 1) 0))" by simp
    then show ?thesis by (simp only: power_Suc mult.left_commute)
  qed
  ultimately have "b \<le> min (?e a) x" "min (?e a) x \<le> min (?e a') x"
    "1 \<le> a \<Longrightarrow> min (?e (a + 1)) x = min (2 * min (?e a) x) x"
    using b by (auto simp: min_def)
  then show ?thesis using b by (auto simp: delay_for_attempt_def p simp del: max_0L max_0R)
qed

theorem retry_delay_bounds_witness:
  "\<exists>p. mk_retry_policy 5 10 60 = Inr p \<and> 10 \<le> delay_for_attempt p 3 \<and> delay_for_attempt p 3 \<le> 60"
proof -
  have "mk_retry_policy 5 10 60 =
      Inr \<lparr>max_attempts = 5, base_delay_seconds = 10, max_delay_seconds = 60\<rparr>"
    by (simp add: mk_retry_policy_def)
  from retry_delay_bounds [OF this, of 3 4] this show ?thesis by auto
qed

end
