(* ===== verification/ExecTables.thy ===== *)
theory ExecTables
  imports WorkItemMachine
begin

text \<open>
  The tables of the execution runtime as the repositories under
  \<open>src/src/contexts/execution_runtime/infrastructure/postgres\<close> read and write them: the rows with
  the constraints their migrations declare, the hydration of a row into the entity, and the
  parameters of the statements. A table is the list of its rows. A constraint that a statement
  violates is \<open>DatabaseError\<close>, which aborts the transaction like every other exception.
\<close>

section \<open>Rows\<close>

record wi_row =
  row_id :: string
  row_kind :: string
  row_status :: string
  row_attempt_count :: int
  row_leased_by :: "string option"
  row_lease_token :: "string option"
  row_lease_expires_at :: "utc option"
  row_last_error_kind :: "string option"
  row_retry_plan :: "string option"
  row_created_at :: utc
  row_updated_at :: utc

record schedule_row =
  sr_work_item_id :: string
  sr_idempotency_key :: string
  sr_payload_hash :: string
  sr_payload :: payload

record attempt_row =
  ar_attempt_id :: string
  ar_work_item_id :: string
  ar_attempt_number :: int
  ar_started_at :: utc
  ar_finished_at :: "utc option"
  ar_outcome_status :: "string option"
  ar_error_kind :: "string option"
  ar_validation_metadata :: "payload option"
  ar_llm_output_payload :: "payload option"

record dispatch_row =
  dr_attempt_id :: string
  dr_work_item_id :: string
  dr_attempt_number :: int
  dr_lease_token :: string
  dr_worker_ref :: string
  dr_schedule_payload :: payload
  dr_llm_allocation_payload :: payload
  dr_dispatch_payload :: payload

record exec_db =
  db_items :: "wi_row list"
  db_schedules :: "schedule_row list"
  db_attempts :: "attempt_row list"
  db_dispatches :: "dispatch_row list"

section \<open>Enumerations as text\<close>

fun retry_plan_value :: "work_item_retry_plan \<Rightarrow> string" where
  "retry_plan_value RETRY_SAME_ROUTE = ''retry_same_route''"
| "retry_plan_value RETRY_ALTERNATE_ROUTE = ''retry_alternate_route''"
| "retry_plan_value RETRY_VALIDATION_CHECK_ROUTE = ''retry_validation_check_route''"
| "retry_plan_value RETRY_LARGER_INPUT_LIMIT_ROUTE = ''retry_larger_input_limit_route''"
| "retry_plan_value RETRY_LARGER_OUTPUT_LIMIT_ROUTE = ''retry_larger_output_limit_route''"
| "retry_plan_value RETRY_DAILY_FALLBACK_ROUTE = ''retry_daily_fallback_route''"
| "retry_plan_value WAIT_NEAREST_ADMISSION_WINDOW = ''wait_nearest_admission_window''"
| "retry_plan_value SPLIT_WORK_PAYLOAD = ''split_work_payload''"
| "retry_plan_value WAIT_DAILY_ADMISSION_RESET = ''wait_daily_admission_reset''"
| "retry_plan_value RETRY_PLAN_TERMINAL = ''terminal''"

definition all_statuses :: "work_item_status list" where
  "all_statuses = [WI_READY, WI_LEASED, WI_COMPLETED, WI_RETRYABLE_FAILED, WI_TERMINAL_FAILED,
     WI_CANCELLED, WI_SPLIT_SUPERSEDED, WI_USER_ACTION_REQUIRED]"

definition all_retry_plans :: "work_item_retry_plan list" where
  "all_retry_plans = [RETRY_SAME_ROUTE, RETRY_ALTERNATE_ROUTE, RETRY_VALIDATION_CHECK_ROUTE,
     RETRY_LARGER_INPUT_LIMIT_ROUTE, RETRY_LARGER_OUTPUT_LIMIT_ROUTE, RETRY_DAILY_FALLBACK_ROUTE,
     WAIT_NEAREST_ADMISSION_WINDOW, SPLIT_WORK_PAYLOAD, WAIT_DAILY_ADMISSION_RESET,
     RETRY_PLAN_TERMINAL]"

text \<open>\<open>WorkItemStatus(value)\<close> and \<open>WorkItemRetryPlan(value)\<close>.\<close>

definition parse_status :: "string \<Rightarrow> py_error + work_item_status" where
  "parse_status v = (case List.find (\<lambda>s. wi_status_value s = v) all_statuses of
     Some s \<Rightarrow> Inr s
   | None \<Rightarrow> Inl (ValueError (v @ '' is not a valid WorkItemStatus'')))"

definition parse_retry_plan :: "string \<Rightarrow> py_error + work_item_retry_plan" where
  "parse_retry_plan v = (case List.find (\<lambda>p. retry_plan_value p = v) all_retry_plans of
     Some p \<Rightarrow> Inr p
   | None \<Rightarrow> Inl (ValueError (v @ '' is not a valid WorkItemRetryPlan'')))"

lemma parse_status_value [simp]: "parse_status (wi_status_value s) = Inr s"
  by (induct s; code_simp)

lemma parse_retry_plan_value [simp]: "parse_retry_plan (retry_plan_value p) = Inr p"
  by (induct p; code_simp)

lemma parse_status_Inr [simp]: "parse_status v = Inr s \<longleftrightarrow> v = wi_status_value s"
proof
  assume "parse_status v = Inr s"
  then show "v = wi_status_value s"
    by (auto simp: parse_status_def split: option.splits dest: find_Some_in)
qed simp

lemma status_value_eq [simp]: "wi_status_value s = wi_status_value t \<longleftrightarrow> s = t"
  by (metis parse_status_value sum.inject(2))

section \<open>Constraints\<close>

text \<open>\<open>length(trim(v)) > 0\<close>: SQL's \<open>trim\<close> removes blanks only.\<close>

definition sql_non_empty :: "string \<Rightarrow> bool" where
  "sql_non_empty v \<longleftrightarrow> (\<exists>c \<in> set v. c \<noteq> CHR '' '')"

lemma not_blank_sql:
  assumes "\<not> blank v"
  shows "sql_non_empty v"
proof -
  from assms obtain c where "c \<in> set v" "\<not> is_space c"
    by (auto simp: blank_iff list_all_iff)
  moreover from this(2) have "c \<noteq> CHR '' ''" using is_space_blank by metis
  ultimately show ?thesis unfolding sql_non_empty_def by metis
qed

definition row_lease_shape :: "wi_row \<Rightarrow> bool" where
  "row_lease_shape r \<longleftrightarrow>
     (if row_status r = ''leased''
      then row_leased_by r \<noteq> None \<and> row_lease_token r \<noteq> None \<and> row_lease_expires_at r \<noteq> None
      else row_leased_by r = None \<and> row_lease_token r = None \<and> row_lease_expires_at r = None)"

definition row_check :: "wi_row \<Rightarrow> bool" where
  "row_check r \<longleftrightarrow> sql_non_empty (row_id r) \<and> sql_non_empty (row_kind r) \<and>
     row_status r \<in> set (map wi_status_value all_statuses) \<and> 0 \<le> row_attempt_count r \<and>
     row_lease_shape r \<and> row_created_at r \<le> row_updated_at r \<and>
     (case row_retry_plan r of None \<Rightarrow> True | Some p \<Rightarrow> p \<in> set (map retry_plan_value all_retry_plans))"

definition attempt_check :: "attempt_row \<Rightarrow> bool" where
  "attempt_check a \<longleftrightarrow> sql_non_empty (ar_attempt_id a) \<and> sql_non_empty (ar_work_item_id a) \<and>
     1 \<le> ar_attempt_number a \<and>
     (case ar_finished_at a of None \<Rightarrow> True | Some f \<Rightarrow> ar_started_at a \<le> f)"

section \<open>Hydration\<close>

text \<open>
  \<open>_hydrate_work_item\<close>. The lease, scheduling and supersede repositories leave out the
  \<open>retry_plan\<close> column (their entities carry \<open>None\<close>); the outcome repository reads it.
\<close>

definition hydrate_columns :: "string option \<Rightarrow> wi_row \<Rightarrow> py_error + work_item" where
  "hydrate_columns plan r =
     bindE (mk_work_kind (row_kind r)) (\<lambda>kind.
     bindE (parse_status (row_status r)) (\<lambda>status.
     bindE (optE mk_worker_ref (row_leased_by r)) (\<lambda>worker.
     bindE (optE mk_lease_token (row_lease_token r)) (\<lambda>token.
     bindE (optE parse_retry_plan plan) (\<lambda>retry.
       work_item_post_init
         \<lparr>wi_id = row_id r, wi_kind = kind, wi_status = status,
          wi_attempt_count = row_attempt_count r, wi_leased_by = worker, wi_lease_token = token,
          wi_lease_expires_at = map_option Aware (row_lease_expires_at r),
          wi_last_error_kind = row_last_error_kind r, wi_retry_plan = retry\<rparr>)))))"

definition hydrate_without_plan :: "wi_row \<Rightarrow> py_error + work_item" where
  "hydrate_without_plan r = hydrate_columns None r"

definition hydrate_work_item :: "wi_row \<Rightarrow> py_error + work_item" where
  "hydrate_work_item r = hydrate_columns (row_retry_plan r) r"

text \<open>The columns a statement writes from an entity, other than \<open>retry_plan\<close>.\<close>

definition utc_column :: "datetime option \<Rightarrow> utc option" where
  "utc_column d = (case d of Some (Aware t) \<Rightarrow> Some t | _ \<Rightarrow> None)"

definition set_item_columns :: "work_item \<Rightarrow> wi_row \<Rightarrow> wi_row" where
  "set_item_columns i r = r\<lparr>row_status := wi_status_value (wi_status i),
     row_attempt_count := wi_attempt_count i,
     row_leased_by := map_option worker_ref_value (wi_leased_by i),
     row_lease_token := map_option lease_token_value (wi_lease_token i),
     row_lease_expires_at := utc_column (wi_lease_expires_at i),
     row_last_error_kind := wi_last_error_kind i\<rparr>"

definition set_retry_plan_column :: "work_item \<Rightarrow> wi_row \<Rightarrow> wi_row" where
  "set_retry_plan_column i r = r\<lparr>row_retry_plan := map_option retry_plan_value (wi_retry_plan i)\<rparr>"

end
