(* ===== verification/ExecStore.thy ===== *)
theory ExecStore
  imports ExecTables
begin

text \<open>
  The repositories of the execution runtime as functions on the tables: leasing a due item,
  starting a dispatch attempt, recording its outcome, completing after the domain result was
  applied, reclaiming expired leases, scheduling and superseding. An exception aborts the caller's
  transaction, so a raising operation returns no new tables. Parameters stand for what the
  database decides: \<open>collate\<close> (the sort key of its collation), \<open>locked\<close> (the rows other
  transactions hold, which \<open>SKIP LOCKED\<close> passes over), \<open>db_now\<close> (its clock).
\<close>

section \<open>Statements\<close>

definition row_of :: "exec_db \<Rightarrow> string \<Rightarrow> wi_row option" where
  "row_of db i = List.find (\<lambda>r. row_id r = i) (db_items db)"

text \<open>\<open>UPDATE execution_work_items SET f WHERE P\<close>, under the table's checks.\<close>

definition update_items :: "(wi_row \<Rightarrow> bool) \<Rightarrow> (wi_row \<Rightarrow> wi_row) \<Rightarrow> exec_db \<Rightarrow> py_error + exec_db" where
  "update_items P f db =
     (let rows = map (\<lambda>r. if P r then f r else r) (db_items db) in
      if list_all row_check rows then Inr (db\<lparr>db_items := rows\<rparr>)
      else Inl (DatabaseError ''check constraint on execution_work_items''))"

definition update_item :: "string \<Rightarrow> (wi_row \<Rightarrow> wi_row) \<Rightarrow> exec_db \<Rightarrow> py_error + exec_db" where
  "update_item i f db = update_items (\<lambda>r. row_id r = i) f db"

definition update_attempts :: "(attempt_row \<Rightarrow> bool) \<Rightarrow> (attempt_row \<Rightarrow> attempt_row) \<Rightarrow> exec_db \<Rightarrow>
    py_error + exec_db" where
  "update_attempts P f db =
     (let rows = map (\<lambda>a. if P a then f a else a) (db_attempts db) in
      if list_all attempt_check rows then Inr (db\<lparr>db_attempts := rows\<rparr>)
      else Inl (DatabaseError ''check constraint on execution_work_item_attempts''))"

text \<open>\<open>FROM execution_work_items JOIN execution_work_item_schedules\<close> on the work item.\<close>

definition scheduled_rows :: "exec_db \<Rightarrow> (wi_row \<times> schedule_row) list" where
  "scheduled_rows db = concat (map (\<lambda>r. map (Pair r)
     (filter (\<lambda>s. sr_work_item_id s = row_id r) (db_schedules db))) (db_items db))"

definition due_rows :: "work_kind \<Rightarrow> exec_db \<Rightarrow> (wi_row \<times> schedule_row) list" where
  "due_rows kind db = filter (\<lambda>(r, s). row_kind r = work_kind_value kind \<and>
     row_status r \<in> {''ready'', ''retryable_failed''}) (scheduled_rows db)"

definition status_rank :: "string \<Rightarrow> nat" where
  "status_rank v = (if v = ''retryable_failed'' then 0 else if v = ''ready'' then 1 else 2)"

definition due_order :: "(string \<Rightarrow> string) \<Rightarrow> wi_row \<times> schedule_row \<Rightarrow> nat \<times> utc \<times> string" where
  "due_order collate x = (status_rank (row_status (fst x)), row_updated_at (fst x), collate (row_id (fst x)))"

section \<open>Leasing\<close>

record leased_work_item_record =
  lr_work_item :: work_item
  lr_schedule_payload :: payload

definition mk_leased_record :: "work_item \<Rightarrow> payload \<Rightarrow> py_error + leased_work_item_record" where
  "mk_leased_record i p =
     (if wi_status i \<noteq> WI_LEASED then Inl (ValueError ''work_item must be leased'')
      else Inr \<lparr>lr_work_item = i, lr_schedule_payload = p\<rparr>)"

record due_work_item_record =
  du_work_item :: work_item
  du_schedule_payload :: payload

definition mk_due_record :: "work_item \<Rightarrow> payload \<Rightarrow> py_error + due_work_item_record" where
  "mk_due_record i p =
     (if wi_status i \<notin> {WI_READY, WI_RETRYABLE_FAILED}
      then Inl (ValueError ''work_item must be due and not leased'')
      else Inr \<lparr>du_work_item = i, du_schedule_payload = p\<rparr>)"

definition peek_due_work_items :: "(string \<Rightarrow> string) \<Rightarrow> work_kind \<Rightarrow> int \<Rightarrow> exec_db \<Rightarrow>
    py_error + due_work_item_record list" where
  "peek_due_work_items collate kind requested_items db =
     (if requested_items \<le> 0 then Inl (ValueError ''requested_items must be > 0'')
      else traverseE (\<lambda>(r, s). bindE (hydrate_without_plan r) (\<lambda>i. mk_due_record i (sr_payload s)))
        (take (nat requested_items) (sort_key (due_order collate) (due_rows kind db))))"

text \<open>
  The update both lease methods issue: it writes the lease and clears the error, and leaves the
  \<open>retry_plan\<close> column as it is.
\<close>

definition lease_update :: "work_item \<Rightarrow> utc \<Rightarrow> wi_row \<Rightarrow> wi_row" where
  "lease_update leased now r = (set_item_columns leased r)
     \<lparr>row_last_error_kind := None, row_updated_at := max now (row_created_at r)\<rparr>"

fun utc_of :: "datetime \<Rightarrow> utc" where
  "utc_of (Aware t) = t"
| "utc_of (Naive n) = Utc n"

definition lease_selected_row :: "wi_row \<times> schedule_row \<Rightarrow> worker_ref \<Rightarrow> lease_token \<Rightarrow> datetime \<Rightarrow>
    datetime \<Rightarrow> exec_db \<Rightarrow> py_error + (leased_work_item_record option \<times> exec_db)" where
  "lease_selected_row x worker token expires now db =
     bindE (hydrate_without_plan (fst x)) (\<lambda>item.
     bindE (lease_ready item worker token expires now) (\<lambda>leased.
     bindE (update_item (wi_id leased) (lease_update leased (utc_of now)) db) (\<lambda>db'.
     bindE (mk_leased_record leased (sr_payload (snd x))) (\<lambda>rec. Inr (Some rec, db')))))"

definition lease_due_work_item :: "(string \<Rightarrow> string) \<Rightarrow> (string \<Rightarrow> bool) \<Rightarrow> work_kind \<Rightarrow> worker_ref \<Rightarrow>
    lease_token \<Rightarrow> datetime \<Rightarrow> datetime \<Rightarrow> exec_db \<Rightarrow>
    py_error + (leased_work_item_record option \<times> exec_db)" where
  "lease_due_work_item collate locked kind worker token expires now db =
     (case min_by (due_order collate) (filter (\<lambda>x. \<not> locked (row_id (fst x))) (due_rows kind db)) of
        None \<Rightarrow> Inr (None, db)
      | Some x \<Rightarrow> lease_selected_row x worker token expires now db)"

definition lease_due_work_item_by_id :: "(string \<Rightarrow> bool) \<Rightarrow> work_kind \<Rightarrow> string \<Rightarrow> worker_ref \<Rightarrow>
    lease_token \<Rightarrow> datetime \<Rightarrow> datetime \<Rightarrow> exec_db \<Rightarrow>
    py_error + (leased_work_item_record option \<times> exec_db)" where
  "lease_due_work_item_by_id locked kind i worker token expires now db =
     (if blank i then Inl (ValueError ''work_item_id must be non-empty'')
      else case List.find (\<lambda>x. row_id (fst x) = i \<and> \<not> locked i) (due_rows kind db) of
        None \<Rightarrow> Inr (None, db)
      | Some x \<Rightarrow> lease_selected_row x worker token expires now db)"

section \<open>Outcomes\<close>

datatype attempt_outcome_status = OC_SUCCEEDED | OC_RETRYABLE_FAILED | OC_TERMINAL_FAILED

fun outcome_value :: "attempt_outcome_status \<Rightarrow> string" where
  "outcome_value OC_SUCCEEDED = ''succeeded''"
| "outcome_value OC_RETRYABLE_FAILED = ''retryable_failed''"
| "outcome_value OC_TERMINAL_FAILED = ''terminal_failed''"

record outcome_record =
  oc_attempt_id :: string
  oc_work_item_id :: string
  oc_attempt_number :: int
  oc_lease_token :: lease_token
  oc_finished_at :: datetime
  oc_outcome_status :: attempt_outcome_status
  oc_error_kind :: "string option"
  oc_retry_plan :: "work_item_retry_plan option"
  oc_validation_metadata :: "payload option"
  oc_llm_output_payload :: "payload option"

definition outcome_record_post_init :: "outcome_record \<Rightarrow> py_error + outcome_record" where
  "outcome_record_post_init r =
     (if blank (oc_attempt_id r) then Inl (ValueError ''attempt_id must be non-empty'')
      else if blank (oc_work_item_id r) then Inl (ValueError ''work_item_id must be non-empty'')
      else if oc_attempt_number r \<le> 0 then Inl (ValueError ''attempt_number must be > 0'')
      else if \<not> tz_aware (oc_finished_at r) then Inl (ValueError ''finished_at must be timezone-aware'')
      else if oc_outcome_status r = OC_SUCCEEDED then
        (if oc_error_kind r \<noteq> None
         then Inl (ValueError ''error_kind must be None for succeeded outcome'')
         else if oc_retry_plan r \<noteq> None
         then Inl (ValueError ''retry_plan must be None for succeeded outcome'')
         else Inr r)
      else case oc_error_kind r of
        None \<Rightarrow> Inl (ValueError ''error_kind is required for failed outcomes'')
      | Some e \<Rightarrow>
          if blank e then Inl (ValueError ''error_kind must be non-empty'')
          else if oc_outcome_status r = OC_TERMINAL_FAILED \<and> oc_retry_plan r \<noteq> None
            then Inl (ValueError ''retry_plan must be None for terminal failed outcome'')
          else if oc_outcome_status r = OC_RETRYABLE_FAILED \<and> oc_retry_plan r = None
            then Inl (ValueError ''retry_plan is required for retryable outcomes'')
          else Inr r)"

definition validate_current_lease :: "work_item \<Rightarrow> outcome_record \<Rightarrow> py_error + unit" where
  "validate_current_lease current r =
     (if wi_status current \<noteq> WI_LEASED
      then Inl (ValueError ''work item must be leased to record attempt outcome'')
      else if wi_lease_token current \<noteq> Some (oc_lease_token r)
      then Inl (ValueError ''lease_token does not match current work item lease'')
      else if wi_attempt_count current \<noteq> oc_attempt_number r
      then Inl (ValueError ''attempt_number does not match current work item attempt_count'')
      else Inr ())"

definition validate_completion_lease :: "work_item \<Rightarrow> lease_token \<Rightarrow> py_error + unit" where
  "validate_completion_lease current token =
     (if wi_status current \<noteq> WI_LEASED
      then Inl (ValueError ''work item must be leased to complete after domain apply'')
      else if wi_lease_token current \<noteq> Some token
      then Inl (ValueError ''lease_token does not match current work item lease'')
      else Inr ())"

definition transition_work_item :: "work_item \<Rightarrow> outcome_record \<Rightarrow> py_error + work_item" where
  "transition_work_item current r =
     (if oc_outcome_status r = OC_SUCCEEDED then Inr current
      else case oc_error_kind r of
        None \<Rightarrow> Inl (ValueError ''error_kind is required for failed/deferred outcomes'')
      | Some e \<Rightarrow>
          if oc_outcome_status r = OC_RETRYABLE_FAILED then
            (case oc_retry_plan r of
               None \<Rightarrow> Inl (ValueError ''retry_plan is required for retryable/deferred outcomes'')
             | Some p \<Rightarrow> fail_leased_retryable current e p)
          else fail_leased_terminal current e)"

definition outcome_update :: "work_item \<Rightarrow> utc \<Rightarrow> wi_row \<Rightarrow> wi_row" where
  "outcome_update t db_now r =
     (set_retry_plan_column t (set_item_columns t r))\<lparr>row_updated_at := db_now\<rparr>"

definition attempt_outcome_update :: "outcome_record \<Rightarrow> attempt_row \<Rightarrow> attempt_row" where
  "attempt_outcome_update r a = a\<lparr>ar_finished_at := Some (utc_of (oc_finished_at r)),
     ar_outcome_status := Some (outcome_value (oc_outcome_status r)),
     ar_error_kind := oc_error_kind r, ar_validation_metadata := oc_validation_metadata r,
     ar_llm_output_payload := oc_llm_output_payload r\<rparr>"

definition attempt_matches :: "outcome_record \<Rightarrow> attempt_row \<Rightarrow> bool" where
  "attempt_matches r a \<longleftrightarrow> ar_attempt_id a = oc_attempt_id r \<and>
     ar_work_item_id a = oc_work_item_id r \<and> ar_attempt_number a = oc_attempt_number r"

definition record_attempt_outcome :: "utc \<Rightarrow> outcome_record \<Rightarrow> exec_db \<Rightarrow>
    py_error + (work_item \<times> exec_db)" where
  "record_attempt_outcome db_now r db =
     (case row_of db (oc_work_item_id r) of
        None \<Rightarrow> Inl (ValueError ''work item does not exist'')
      | Some row \<Rightarrow>
          bindE (hydrate_work_item row) (\<lambda>current.
          bindE (validate_current_lease current r) (\<lambda>_.
          bindE (transition_work_item current r) (\<lambda>t.
          bindE (update_attempts (attempt_matches r) (attempt_outcome_update r) db) (\<lambda>db1.
          bindE (require (length (filter (attempt_matches r) (db_attempts db)) = 1)
            (RuntimeError ''attempt outcome update must affect exactly one row'')) (\<lambda>_.
          bindE (update_item (wi_id t) (outcome_update t db_now) db1) (\<lambda>db2.
          bindE (require (length (filter (\<lambda>x. row_id x = wi_id t) (db_items db)) = 1)
            (RuntimeError ''work item outcome update must affect exactly one row'')) (\<lambda>_.
            Inr (t, db2)))))))))"

definition complete_work_item_after_domain_apply :: "utc \<Rightarrow> string \<Rightarrow> lease_token \<Rightarrow> exec_db \<Rightarrow>
    py_error + (work_item \<times> exec_db)" where
  "complete_work_item_after_domain_apply db_now i token db =
     (case row_of db i of
        None \<Rightarrow> Inl (ValueError ''work item does not exist'')
      | Some row \<Rightarrow>
          bindE (hydrate_work_item row) (\<lambda>current.
          bindE (validate_completion_lease current token) (\<lambda>_.
          bindE (complete_leased current) (\<lambda>t.
          bindE (update_item (wi_id t) (outcome_update t db_now) db) (\<lambda>db1.
          bindE (require (length (filter (\<lambda>x. row_id x = wi_id t) (db_items db)) = 1)
            (RuntimeError ''work item domain completion update must affect exactly one row'')) (\<lambda>_.
            Inr (t, db1)))))))"

end
