(* ===== verification/ExecMaintenance.thy ===== *)
theory ExecMaintenance
  imports ExecStore
begin

text \<open>
  The remaining repositories and use cases of the execution runtime: recovery of expired leases,
  idempotent scheduling, superseding waiting items by a split, starting a dispatch attempt, the
  progress summary.
\<close>

section \<open>Recovery of expired leases\<close>

definition lease_expired :: "utc \<Rightarrow> wi_row \<Rightarrow> bool" where
  "lease_expired now r \<longleftrightarrow> row_status r = ''leased'' \<and>
     (case row_lease_expires_at r of None \<Rightarrow> False | Some e \<Rightarrow> e \<le> now)"

definition expiry_order :: "(string \<Rightarrow> string) \<Rightarrow> wi_row \<Rightarrow> utc \<times> string" where
  "expiry_order collate r =
     (case row_lease_expires_at r of None \<Rightarrow> Utc 0 | Some e \<Rightarrow> e, collate (row_id r))"

definition expired_rows :: "(string \<Rightarrow> string) \<Rightarrow> (string \<Rightarrow> bool) \<Rightarrow> utc \<Rightarrow> nat \<Rightarrow> exec_db \<Rightarrow> wi_row list" where
  "expired_rows collate locked now limit db =
     take limit (sort_key (expiry_order collate)
       (filter (\<lambda>r. lease_expired now r \<and> \<not> locked (row_id r)) (db_items db)))"

definition coalesce :: "'a option \<Rightarrow> 'a \<Rightarrow> 'a option" where
  "coalesce v d = (case v of None \<Rightarrow> Some d | Some x \<Rightarrow> Some x)"

definition close_abandoned :: "utc \<Rightarrow> attempt_row \<Rightarrow> attempt_row" where
  "close_abandoned now a = a\<lparr>ar_finished_at := coalesce (ar_finished_at a) now,
     ar_outcome_status := coalesce (ar_outcome_status a) ''retryable_failed'',
     ar_error_kind := coalesce (ar_error_kind a) ''lease_expired''\<rparr>"

definition release_expired :: "utc \<Rightarrow> wi_row \<Rightarrow> wi_row" where
  "release_expired now r = r\<lparr>row_status := ''ready'', row_leased_by := None,
     row_lease_token := None, row_lease_expires_at := None,
     row_last_error_kind := Some ''lease_expired'', row_retry_plan := None,
     row_updated_at := max now (row_created_at r)\<rparr>"

definition required_text :: "string \<Rightarrow> py_error + string" where
  "required_text v = (if blank v then Inl (ValueError ''work_item_id must be non-empty text'') else Inr v)"

record expired_lease_recovery =
  reclaimed_work_item_ids :: "string list"
  closed_attempt_ids :: "string list"

definition abandoned_by :: "wi_row list \<Rightarrow> attempt_row \<Rightarrow> bool" where
  "abandoned_by expired a \<longleftrightarrow> (\<exists>r \<in> set expired.
     ar_work_item_id a = row_id r \<and> ar_attempt_number a = row_attempt_count r)"

definition reclaim_expired :: "(string \<Rightarrow> string) \<Rightarrow> (string \<Rightarrow> bool) \<Rightarrow> datetime \<Rightarrow> int \<Rightarrow> exec_db \<Rightarrow>
    py_error + (expired_lease_recovery \<times> exec_db)" where
  "reclaim_expired collate locked now limit db =
     (case now of
        Naive _ \<Rightarrow> Inl (ValueError ''now must be timezone-aware'')
      | Aware t \<Rightarrow>
          if limit \<le> 0 then Inl (ValueError ''limit must be > 0'')
          else
            let expired = expired_rows collate locked t (nat limit) db;
                ids = sort_key collate (map row_id expired)
            in
            bindE (update_attempts (abandoned_by expired) (close_abandoned t) db) (\<lambda>db1.
            bindE (update_items (\<lambda>r. row_id r \<in> set (map row_id expired)) (release_expired t) db1) (\<lambda>db2.
            bindE (traverseE required_text ids) (\<lambda>reclaimed.
            bindE (traverseE required_text (concat (map (\<lambda>i. map ar_attempt_id
                (filter (\<lambda>a. ar_work_item_id a = i \<and> abandoned_by expired a) (db_attempts db))) ids)))
              (\<lambda>closed. Inr (\<lparr>reclaimed_work_item_ids = reclaimed, closed_attempt_ids = closed\<rparr>, db2))))))"

section \<open>Scheduling\<close>

record work_item_schedule_plan =
  sp_work_item_id :: string
  sp_work_kind :: work_kind
  sp_idempotency_key :: string
  sp_payload :: payload

definition schedule_plan_post_init :: "work_item_schedule_plan \<Rightarrow> py_error + work_item_schedule_plan" where
  "schedule_plan_post_init p =
     (if blank (sp_work_item_id p) then Inl (ValueError ''work_item_id must be non-empty'')
      else if blank (sp_idempotency_key p) then Inl (ValueError ''idempotency_key must be non-empty'')
      else Inr p)"

text \<open>\<open>EnsureWorkItemsScheduledCommand\<close>: the ids of the plans are distinct.\<close>

fun unique_plan_ids :: "string list \<Rightarrow> work_item_schedule_plan list \<Rightarrow> py_error + unit" where
  "unique_plan_ids seen [] = Inr ()"
| "unique_plan_ids seen (p # ps) =
     (if sp_work_item_id p \<in> set seen then Inl (ValueError ''work_item_id must be unique'')
      else unique_plan_ids (sp_work_item_id p # seen) ps)"

definition get_work_item :: "string \<Rightarrow> exec_db \<Rightarrow> py_error + work_item option" where
  "get_work_item i db = optE hydrate_without_plan (row_of db i)"

definition get_schedule_payload_hash :: "string \<Rightarrow> exec_db \<Rightarrow> string option" where
  "get_schedule_payload_hash i db =
     map_option sr_payload_hash (List.find (\<lambda>s. sr_work_item_id s = i) (db_schedules db))"

definition inserted_row :: "utc \<Rightarrow> work_item \<Rightarrow> wi_row" where
  "inserted_row db_now i = set_item_columns i
     \<lparr>row_id = wi_id i, row_kind = work_kind_value (wi_kind i), row_status = ''ready'',
      row_attempt_count = 0, row_leased_by = None, row_lease_token = None,
      row_lease_expires_at = None, row_last_error_kind = None, row_retry_plan = None,
      row_created_at = db_now, row_updated_at = db_now\<rparr>"

definition insert_item :: "wi_row \<Rightarrow> exec_db \<Rightarrow> py_error + exec_db" where
  "insert_item r db =
     (if row_id r \<in> set (map row_id (db_items db))
      then Inl (DatabaseError ''duplicate key in execution_work_items'')
      else if \<not> row_check r then Inl (DatabaseError ''check constraint on execution_work_items'')
      else Inr (db\<lparr>db_items := db_items db @ [r]\<rparr>))"

definition insert_schedule :: "schedule_row \<Rightarrow> exec_db \<Rightarrow> py_error + exec_db" where
  "insert_schedule s db =
     (if sr_work_item_id s \<in> set (map sr_work_item_id (db_schedules db)) \<or>
         sr_idempotency_key s \<in> set (map sr_idempotency_key (db_schedules db))
      then Inl (DatabaseError ''duplicate key in execution_work_item_schedules'')
      else if sr_work_item_id s \<notin> set (map row_id (db_items db)) \<or>
         \<not> sql_non_empty (sr_work_item_id s) \<or> \<not> sql_non_empty (sr_idempotency_key s) \<or>
         \<not> sql_non_empty (sr_payload_hash s)
      then Inl (DatabaseError ''constraint on execution_work_item_schedules'')
      else Inr (db\<lparr>db_schedules := db_schedules db @ [s]\<rparr>))"

definition save_scheduled_work_item :: "utc \<Rightarrow> work_item \<Rightarrow> string \<Rightarrow> string \<Rightarrow> payload \<Rightarrow> exec_db \<Rightarrow>
    py_error + exec_db" where
  "save_scheduled_work_item db_now i key hash p db =
     bindE (insert_item (inserted_row db_now i) db) (\<lambda>db1.
     bindE (insert_schedule \<lparr>sr_work_item_id = wi_id i, sr_idempotency_key = key,
         sr_payload_hash = hash, sr_payload = p\<rparr> db1) (\<lambda>db2.
     case List.find (\<lambda>s. sr_work_item_id s = wi_id i) (db_schedules db2) of
       None \<Rightarrow> Inl (RuntimeError ''scheduled work item was saved without schedule payload'')
     | Some s \<Rightarrow>
         if sr_idempotency_key s \<noteq> key
         then Inl (ValueError ''scheduled work item idempotency key conflict'')
         else if sr_payload_hash s \<noteq> hash
         then Inl (ValueError ''scheduled work item payload hash conflict'')
         else Inr db2))"

datatype ensure_status = ES_CREATED | ES_ALREADY_EXISTS | ES_CONFLICT

record ensure_outcome =
  eo_plan :: work_item_schedule_plan
  eo_status :: ensure_status
  eo_existing :: "work_item option"

text \<open>\<open>payload_hash\<close> is the SHA-256 of the payload's canonical JSON.\<close>

definition ensure_plan :: "(payload \<Rightarrow> string) \<Rightarrow> utc \<Rightarrow> work_item_schedule_plan \<Rightarrow> exec_db \<Rightarrow>
    py_error + (ensure_outcome \<times> exec_db)" where
  "ensure_plan payload_hash db_now p db =
     bindE (get_work_item (sp_work_item_id p) db) (\<lambda>existing.
       let hash = payload_hash (sp_payload p) in
       case existing of
         None \<Rightarrow>
           bindE (new_work_item (sp_work_item_id p) (sp_work_kind p)) (\<lambda>i.
           bindE (save_scheduled_work_item db_now i (sp_idempotency_key p) hash (sp_payload p) db) (\<lambda>db'.
             Inr (\<lparr>eo_plan = p, eo_status = ES_CREATED, eo_existing = None\<rparr>, db')))
       | Some i \<Rightarrow>
           if get_schedule_payload_hash (sp_work_item_id p) db = Some hash
           then Inr (\<lparr>eo_plan = p, eo_status = ES_ALREADY_EXISTS, eo_existing = Some i\<rparr>, db)
           else Inr (\<lparr>eo_plan = p, eo_status = ES_CONFLICT, eo_existing = Some i\<rparr>, db))"

fun ensure_plans :: "(payload \<Rightarrow> string) \<Rightarrow> utc \<Rightarrow> work_item_schedule_plan list \<Rightarrow> exec_db \<Rightarrow>
    py_error + (ensure_outcome list \<times> exec_db)" where
  "ensure_plans payload_hash db_now [] db = Inr ([], db)"
| "ensure_plans payload_hash db_now (p # ps) db =
     bindE (ensure_plan payload_hash db_now p db) (\<lambda>(o1, db1).
     bindE (ensure_plans payload_hash db_now ps db1) (\<lambda>(os, db2). Inr (o1 # os, db2)))"

definition ensure_work_items_scheduled :: "(payload \<Rightarrow> string) \<Rightarrow> utc \<Rightarrow>
    work_item_schedule_plan list \<Rightarrow> exec_db \<Rightarrow> py_error + (ensure_outcome list \<times> exec_db)" where
  "ensure_work_items_scheduled payload_hash db_now plans db =
     bindE (unique_plan_ids [] plans) (\<lambda>_. ensure_plans payload_hash db_now plans db)"

definition outcome_count :: "ensure_status \<Rightarrow> ensure_outcome list \<Rightarrow> nat" where
  "outcome_count s os = length (filter (\<lambda>x. eo_status x = s) os)"

section \<open>Superseding by a split\<close>

definition load_work_item :: "string \<Rightarrow> exec_db \<Rightarrow> py_error + work_item option" where
  "load_work_item i db =
     (if blank i then Inl (ValueError ''work_item_id must be non-empty'')
      else optE hydrate_without_plan (row_of db i))"

text \<open>The update leaves the \<open>retry_plan\<close> column as it is.\<close>

definition save_work_item :: "utc \<Rightarrow> work_item \<Rightarrow> exec_db \<Rightarrow> py_error + exec_db" where
  "save_work_item db_now i db =
     update_item (wi_id i) (\<lambda>r. (set_item_columns i r)\<lparr>row_updated_at := db_now\<rparr>) db"

fun supersede_all :: "utc \<Rightarrow> string list \<Rightarrow> exec_db \<Rightarrow> py_error + (string list \<times> exec_db)" where
  "supersede_all db_now [] db = Inr ([], db)"
| "supersede_all db_now (i # is) db =
     bindE (load_work_item i db) (\<lambda>found.
       case found of
         None \<Rightarrow> Inl (ValueError (''work item not found: '' @ i))
       | Some item \<Rightarrow>
           if wi_status item = WI_SPLIT_SUPERSEDED
           then bindE (supersede_all db_now is db) (\<lambda>(done_ids, db'). Inr (wi_id item # done_ids, db'))
           else bindE (mark_split_superseded_waiting item) (\<lambda>t.
                bindE (save_work_item db_now t db) (\<lambda>db1.
                bindE (supersede_all db_now is db1) (\<lambda>(done_ids, db'). Inr (wi_id t # done_ids, db')))))"

definition require_text_tuple :: "string \<Rightarrow> string list \<Rightarrow> py_error + unit" where
  "require_text_tuple field_name v =
     (if v = [] then Inl (ValueError (field_name @ '' must be non-empty''))
      else if list_ex blank v then Inl (ValueError (field_name @ '' must contain non-empty text''))
      else Inr ())"

definition supersede_waiting_work_items_for_split :: "utc \<Rightarrow> string list \<Rightarrow> exec_db \<Rightarrow>
    py_error + (string list \<times> exec_db)" where
  "supersede_waiting_work_items_for_split db_now ids db =
     bindE (require_text_tuple ''work_item_ids'' ids) (\<lambda>_.
     bindE (supersede_all db_now ids db) (\<lambda>(done_ids, db').
     bindE (require_text_tuple ''superseded_work_item_ids'' done_ids) (\<lambda>_. Inr (done_ids, db'))))"

end
