(* ===== verification/ExecDispatch.thy ===== *)
theory ExecDispatch
  imports ExecMaintenance
begin

text \<open>
  Starting a dispatch attempt (\<open>postgres_work_item_attempt_dispatch_repository.py\<close>). \<open>dumps\<close> is the
  canonical JSON text the idempotency comparison uses.
\<close>

record dispatch_record =
  dp_attempt_id :: string
  dp_work_item_id :: string
  dp_attempt_number :: int
  dp_lease_token :: string
  dp_worker_ref :: string
  dp_schedule_payload :: payload
  dp_llm_allocation_payload :: payload
  dp_dispatch_payload :: payload
  dp_started_at :: datetime

definition dispatch_record_post_init :: "dispatch_record \<Rightarrow> py_error + dispatch_record" where
  "dispatch_record_post_init d =
     (if blank (dp_attempt_id d) then Inl (ValueError ''attempt_id must be non-empty'')
      else if blank (dp_work_item_id d) then Inl (ValueError ''work_item_id must be non-empty'')
      else if dp_attempt_number d \<le> 0 then Inl (ValueError ''attempt_number must be > 0'')
      else if blank (dp_lease_token d) then Inl (ValueError ''lease_token must be non-empty'')
      else if blank (dp_worker_ref d) then Inl (ValueError ''worker_ref must be non-empty'')
      else if \<not> tz_aware (dp_started_at d) then Inl (ValueError ''started_at must be timezone-aware'')
      else Inr d)"

definition started_attempt_row :: "dispatch_record \<Rightarrow> attempt_row" where
  "started_attempt_row d = \<lparr>ar_attempt_id = dp_attempt_id d, ar_work_item_id = dp_work_item_id d,
     ar_attempt_number = dp_attempt_number d, ar_started_at = utc_of (dp_started_at d),
     ar_finished_at = None, ar_outcome_status = None, ar_error_kind = None,
     ar_validation_metadata = None, ar_llm_output_payload = None\<rparr>"

definition started_dispatch_row :: "dispatch_record \<Rightarrow> dispatch_row" where
  "started_dispatch_row d = \<lparr>dr_attempt_id = dp_attempt_id d, dr_work_item_id = dp_work_item_id d,
     dr_attempt_number = dp_attempt_number d, dr_lease_token = dp_lease_token d,
     dr_worker_ref = dp_worker_ref d, dr_schedule_payload = dp_schedule_payload d,
     dr_llm_allocation_payload = dp_llm_allocation_payload d,
     dr_dispatch_payload = dp_dispatch_payload d\<rparr>"

text \<open>\<open>INSERT INTO execution_work_item_attempts ... ON CONFLICT (attempt_id) DO NOTHING\<close>.\<close>

definition insert_attempt :: "attempt_row \<Rightarrow> exec_db \<Rightarrow> py_error + exec_db" where
  "insert_attempt a db =
     (if \<not> attempt_check a then Inl (DatabaseError ''check constraint on execution_work_item_attempts'')
      else if ar_attempt_id a \<in> set (map ar_attempt_id (db_attempts db)) then Inr db
      else if (ar_work_item_id a, ar_attempt_number a) \<in>
          set (map (\<lambda>b. (ar_work_item_id b, ar_attempt_number b)) (db_attempts db))
      then Inl (DatabaseError ''duplicate key in execution_work_item_attempts'')
      else if ar_work_item_id a \<notin> set (map row_id (db_items db))
      then Inl (DatabaseError ''foreign key of execution_work_item_attempts'')
      else Inr (db\<lparr>db_attempts := db_attempts db @ [a]\<rparr>))"

text \<open>\<open>INSERT INTO execution_work_item_attempt_dispatches\<close>, with no conflict clause.\<close>

definition insert_dispatch :: "dispatch_row \<Rightarrow> exec_db \<Rightarrow> py_error + exec_db" where
  "insert_dispatch d db =
     (if \<not> sql_non_empty (dr_attempt_id d) \<or> \<not> sql_non_empty (dr_work_item_id d) \<or>
         dr_attempt_number d < 1 \<or> \<not> sql_non_empty (dr_lease_token d) \<or> \<not> sql_non_empty (dr_worker_ref d)
      then Inl (DatabaseError ''check constraint on execution_work_item_attempt_dispatches'')
      else if dr_attempt_id d \<in> set (map dr_attempt_id (db_dispatches db)) \<or>
         (dr_work_item_id d, dr_attempt_number d) \<in>
           set (map (\<lambda>b. (dr_work_item_id b, dr_attempt_number b)) (db_dispatches db))
      then Inl (DatabaseError ''duplicate key in execution_work_item_attempt_dispatches'')
      else if dr_attempt_id d \<notin> set (map ar_attempt_id (db_attempts db)) \<or>
         dr_work_item_id d \<notin> set (map row_id (db_items db))
      then Inl (DatabaseError ''foreign key of execution_work_item_attempt_dispatches'')
      else Inr (db\<lparr>db_dispatches := db_dispatches db @ [d]\<rparr>))"

definition idempotency_conflict :: "string \<Rightarrow> py_error" where
  "idempotency_conflict field =
     ValueError (''attempt dispatch idempotency conflict has different '' @ field)"

definition assert_started_dispatch_attempt_is_same :: "(payload \<Rightarrow> string) \<Rightarrow> dispatch_record \<Rightarrow>
    dispatch_row \<Rightarrow> py_error + unit" where
  "assert_started_dispatch_attempt_is_same dumps expected existing =
     (if dr_work_item_id existing \<noteq> dp_work_item_id expected
        then Inl (idempotency_conflict ''work_item_id'')
      else if dr_attempt_number existing \<noteq> dp_attempt_number expected
        then Inl (idempotency_conflict ''attempt_number'')
      else if dr_lease_token existing \<noteq> dp_lease_token expected
        then Inl (idempotency_conflict ''lease_token'')
      else if dr_worker_ref existing \<noteq> dp_worker_ref expected
        then Inl (idempotency_conflict ''worker_ref'')
      else if dumps (dr_schedule_payload existing) \<noteq> dumps (dp_schedule_payload expected)
        then Inl (idempotency_conflict ''schedule_payload'')
      else if dumps (dr_llm_allocation_payload existing) \<noteq> dumps (dp_llm_allocation_payload expected)
        then Inl (idempotency_conflict ''llm_allocation_payload'')
      else if dumps (dr_dispatch_payload existing) \<noteq> dumps (dp_dispatch_payload expected)
        then Inl (idempotency_conflict ''dispatch_payload'')
      else Inr ())"

definition save_started_dispatch_attempt :: "(payload \<Rightarrow> string) \<Rightarrow> dispatch_record \<Rightarrow> exec_db \<Rightarrow>
    py_error + exec_db" where
  "save_started_dispatch_attempt dumps d db =
     bindE (insert_attempt (started_attempt_row d) db) (\<lambda>db1.
     bindE (insert_dispatch (started_dispatch_row d) db1) (\<lambda>db2.
     case List.find (\<lambda>x. dr_attempt_id x = dp_attempt_id d) (db_dispatches db2) of
       None \<Rightarrow> Inl (RuntimeError ''started dispatch attempt was saved without dispatch row'')
     | Some x \<Rightarrow> bindE (assert_started_dispatch_attempt_is_same dumps d x) (\<lambda>_. Inr db2)))"

end
