(* ===== verification/ExecRows.thy ===== *)
theory ExecRows
  imports ExecDispatch
begin

text \<open>
  Rows against entities: what hydration accepts, the round trip of the columns a statement writes
  through the hydration that reads them back, and the lookup of a row after an update of the table.
\<close>

section \<open>Hydration decided\<close>

lemma mk_worker_ref_Inr [error_simps]: "mk_worker_ref v = Inr w \<longleftrightarrow> w = WorkerRef v \<and> \<not> blank v"
  by (auto simp: mk_worker_ref_def)

lemma mk_lease_token_Inr [error_simps]: "mk_lease_token v = Inr k \<longleftrightarrow> k = LeaseToken v \<and> \<not> blank v"
  by (auto simp: mk_lease_token_def)

lemma mk_work_kind_value: "mk_work_kind v = Inr k \<Longrightarrow> k = WorkKind v"
  by (auto simp: mk_work_kind_def Let_def split: if_splits)

lemma mk_work_kind_again: "mk_work_kind v = Inr k \<Longrightarrow> mk_work_kind (work_kind_value k) = Inr k"
  using mk_work_kind_value [of v k] by simp

lemma optE_Inr_iff: "optE f v = Inr w \<longleftrightarrow>
    (case v of None \<Rightarrow> w = None | Some x \<Rightarrow> (\<exists>y. f x = Inr y \<and> w = Some y))"
  by (cases v) auto

lemma parse_retry_plan_Inr [simp]: "parse_retry_plan v = Inr p \<longleftrightarrow> v = retry_plan_value p"
proof
  assume "parse_retry_plan v = Inr p"
  then show "v = retry_plan_value p"
    by (auto simp: parse_retry_plan_def split: option.splits dest: find_Some_in)
qed simp

lemma hydrate_columns_iff:
  "hydrate_columns p r = Inr i \<longleftrightarrow>
     mk_work_kind (row_kind r) = Inr (wi_kind i) \<and> row_status r = wi_status_value (wi_status i) \<and>
     optE mk_worker_ref (row_leased_by r) = Inr (wi_leased_by i) \<and>
     optE mk_lease_token (row_lease_token r) = Inr (wi_lease_token i) \<and>
     optE parse_retry_plan p = Inr (wi_retry_plan i) \<and>
     wi_id i = row_id r \<and> wi_attempt_count i = row_attempt_count r \<and>
     wi_lease_expires_at i = map_option Aware (row_lease_expires_at r) \<and>
     wi_last_error_kind i = row_last_error_kind r \<and> work_item_ok i"
  (is "?l \<longleftrightarrow> ?r")
proof
  assume ?l
  then show ?r by (auto simp: hydrate_columns_def error_simps)
next
  assume ?r
  then show ?l by (cases i) (simp add: hydrate_columns_def error_simps)
qed

lemma hydrate_ok: "hydrate_columns p r = Inr i \<Longrightarrow> work_item_ok i"
  by (simp add: hydrate_columns_iff)

lemma hydrate_columns_frame:
  "row_kind r = row_kind s \<Longrightarrow> row_status r = row_status s \<Longrightarrow> row_leased_by r = row_leased_by s \<Longrightarrow>
   row_lease_token r = row_lease_token s \<Longrightarrow> row_id r = row_id s \<Longrightarrow>
   row_attempt_count r = row_attempt_count s \<Longrightarrow> row_lease_expires_at r = row_lease_expires_at s \<Longrightarrow>
   row_last_error_kind r = row_last_error_kind s \<Longrightarrow> hydrate_columns p r = hydrate_columns p s"
  by (simp add: hydrate_columns_def)

text \<open>What a hydrated row says of its entity.\<close>

definition drop_plan :: "work_item \<Rightarrow> work_item" where
  "drop_plan i = i\<lparr>wi_retry_plan := None\<rparr>"

lemma drop_plan_fields [simp]:
  "wi_id (drop_plan i) = wi_id i" "wi_kind (drop_plan i) = wi_kind i"
  "wi_status (drop_plan i) = wi_status i" "wi_attempt_count (drop_plan i) = wi_attempt_count i"
  "wi_leased_by (drop_plan i) = wi_leased_by i" "wi_lease_token (drop_plan i) = wi_lease_token i"
  "wi_lease_expires_at (drop_plan i) = wi_lease_expires_at i"
  "wi_last_error_kind (drop_plan i) = wi_last_error_kind i" "wi_retry_plan (drop_plan i) = None"
  by (simp_all add: drop_plan_def)

lemma drop_plan_ok [simp]: "work_item_ok (drop_plan i) = work_item_ok i"
  by (simp add: work_item_ok_def lease_shape_def)

lemma hydrate_without_plan_iff:
  "hydrate_work_item r = Inr i \<Longrightarrow> hydrate_without_plan r = Inr (drop_plan i)"
  by (simp add: hydrate_work_item_def hydrate_without_plan_def hydrate_columns_iff)

section \<open>Round trip of the written columns\<close>

text \<open>The value objects inside an entity passed their constructors.\<close>

definition item_texts_ok :: "work_item \<Rightarrow> bool" where
  "item_texts_ok i \<longleftrightarrow> mk_work_kind (work_kind_value (wi_kind i)) = Inr (wi_kind i) \<and>
     (\<forall>w. wi_leased_by i = Some w \<longrightarrow> \<not> blank (worker_ref_value w)) \<and>
     (\<forall>k. wi_lease_token i = Some k \<longrightarrow> \<not> blank (lease_token_value k))"

lemma hydrate_texts_ok: "hydrate_columns p r = Inr i \<Longrightarrow> item_texts_ok i"
  by (auto simp: hydrate_columns_iff item_texts_ok_def optE_Inr_iff error_simps
      intro: mk_work_kind_again split: option.splits)

lemma hydrate_kind: "hydrate_columns p r = Inr i \<Longrightarrow> work_kind_value (wi_kind i) = row_kind r"
  by (auto simp: hydrate_columns_iff dest: mk_work_kind_value)

lemma hydrate_facts:
  assumes "hydrate_columns p r = Inr i"
  shows "wi_id i = row_id r" "work_kind_value (wi_kind i) = row_kind r"
    "row_status r = wi_status_value (wi_status i)" "wi_attempt_count i = row_attempt_count r"
    "item_texts_ok i" "work_item_ok i"
    "row_lease_token r = map_option lease_token_value (wi_lease_token i)"
  using assms hydrate_texts_ok [OF assms] hydrate_kind [OF assms]
  by (auto simp: hydrate_columns_iff optE_Inr_iff error_simps split: option.splits)

lemma utc_column_ok:
  assumes "work_item_ok i"
  shows "map_option Aware (utc_column (wi_lease_expires_at i)) = wi_lease_expires_at i"
  using assms by (auto simp: work_item_ok_def lease_shape_def utc_column_def split: if_splits)

lemma written_columns [simp]:
  "row_id (set_item_columns i r) = row_id r" "row_kind (set_item_columns i r) = row_kind r"
  "row_status (set_item_columns i r) = wi_status_value (wi_status i)"
  "row_attempt_count (set_item_columns i r) = wi_attempt_count i"
  "row_leased_by (set_item_columns i r) = map_option worker_ref_value (wi_leased_by i)"
  "row_lease_token (set_item_columns i r) = map_option lease_token_value (wi_lease_token i)"
  "row_lease_expires_at (set_item_columns i r) = utc_column (wi_lease_expires_at i)"
  "row_last_error_kind (set_item_columns i r) = wi_last_error_kind i"
  "row_retry_plan (set_item_columns i r) = row_retry_plan r"
  "row_created_at (set_item_columns i r) = row_created_at r"
  "row_updated_at (set_item_columns i r) = row_updated_at r"
  by (simp_all add: set_item_columns_def)

lemma hydrate_written:
  assumes "work_item_ok i" "item_texts_ok i" "row_id r = wi_id i"
    "row_kind r = work_kind_value (wi_kind i)" "optE parse_retry_plan p = Inr q"
  shows "hydrate_columns p (set_item_columns i r) = Inr (i\<lparr>wi_retry_plan := q\<rparr>)"
proof -
  have "optE mk_worker_ref (map_option worker_ref_value (wi_leased_by i)) = Inr (wi_leased_by i)"
    using assms(2) by (auto simp: optE_Inr_iff item_texts_ok_def error_simps split: option.splits)
  moreover have "optE mk_lease_token (map_option lease_token_value (wi_lease_token i)) =
      Inr (wi_lease_token i)"
    using assms(2) by (auto simp: optE_Inr_iff item_texts_ok_def error_simps split: option.splits)
  moreover have "work_item_ok (i\<lparr>wi_retry_plan := q\<rparr>)"
    using assms(1) by (simp add: work_item_ok_def lease_shape_def)
  ultimately show ?thesis
    using assms by (simp add: hydrate_columns_iff utc_column_ok item_texts_ok_def)
qed

text \<open>The entity whose columns the outcome statements write reads back as it was.\<close>

lemma hydrate_outcome_update:
  assumes "work_item_ok i" "item_texts_ok i" "row_id r = wi_id i"
    "row_kind r = work_kind_value (wi_kind i)"
  shows "hydrate_work_item (outcome_update i now r) = Inr i"
proof -
  have plan: "optE parse_retry_plan (map_option retry_plan_value (wi_retry_plan i)) = Inr (wi_retry_plan i)"
    by (cases "wi_retry_plan i") auto
  have "hydrate_work_item (outcome_update i now r) =
      hydrate_columns (map_option retry_plan_value (wi_retry_plan i)) (set_item_columns i r)"
    by (auto simp: hydrate_work_item_def outcome_update_def set_retry_plan_column_def
        intro!: hydrate_columns_frame)
  also have "\<dots> = Inr i" using hydrate_written [OF assms plan] by simp
  finally show ?thesis .
qed

section \<open>The table after an update\<close>

lemma row_of_SomeD: "row_of db i = Some r \<Longrightarrow> r \<in> set (db_items db) \<and> row_id r = i"
  by (auto simp: row_of_def dest: find_Some_in)

lemma row_of_iff:
  "distinct (map row_id (db_items db)) \<Longrightarrow> row_of db i = Some r \<longleftrightarrow> r \<in> set (db_items db) \<and> row_id r = i"
  using find_distinct_key [of row_id "db_items db" r] by (auto simp: row_of_def dest: find_Some_in)

lemma find_map_key:
  "(\<And>x. k (f x) = k x) \<Longrightarrow>
   List.find (\<lambda>x. k x = i) (map f xs) = map_option f (List.find (\<lambda>x. k x = i) xs)"
  by (induction xs) auto

lemma update_items_Inr:
  "update_items P f db = Inr db' \<longleftrightarrow>
     list_all row_check (map (\<lambda>r. if P r then f r else r) (db_items db)) \<and>
     db' = db\<lparr>db_items := map (\<lambda>r. if P r then f r else r) (db_items db)\<rparr>"
  by (auto simp: update_items_def Let_def)

lemma update_items_row:
  assumes "update_items P f db = Inr db'" "\<And>r. row_id (f r) = row_id r"
  shows "row_of db' i = map_option (\<lambda>r. if P r then f r else r) (row_of db i)"
proof -
  have "row_of db' i = List.find (\<lambda>x. row_id x = i) (map (\<lambda>r. if P r then f r else r) (db_items db))"
    using assms(1) by (simp add: row_of_def update_items_Inr)
  also have "\<dots> = map_option (\<lambda>r. if P r then f r else r) (row_of db i)"
    unfolding row_of_def by (rule find_map_key) (simp add: assms(2))
  finally show ?thesis .
qed

lemma update_item_row:
  assumes "update_item j f db = Inr db'" "\<And>r. row_id (f r) = row_id r"
  shows "row_of db' i = (if i = j then map_option f (row_of db i) else row_of db i)"
proof (cases "row_of db i")
  case None
  then show ?thesis using update_items_row [OF assms(1) [unfolded update_item_def] assms(2), of i]
    by auto
next
  case (Some r)
  then show ?thesis using update_items_row [OF assms(1) [unfolded update_item_def] assms(2), of i]
      row_of_SomeD [OF Some] by auto
qed

lemma update_items_frame [frame_simps]:
  assumes "update_items P f db = Inr db'"
  shows "db_schedules db' = db_schedules db" "db_attempts db' = db_attempts db"
    "db_dispatches db' = db_dispatches db"
  using assms by (auto simp: update_items_Inr)

lemma update_items_ids:
  assumes "update_items P f db = Inr db'" "\<And>r. row_id (f r) = row_id r"
  shows "map row_id (db_items db') = map row_id (db_items db)"
  using assms by (auto simp: update_items_Inr)

lemma update_attempts_Inr:
  "update_attempts P f db = Inr db' \<longleftrightarrow>
     list_all attempt_check (map (\<lambda>r. if P r then f r else r) (db_attempts db)) \<and>
     db' = db\<lparr>db_attempts := map (\<lambda>r. if P r then f r else r) (db_attempts db)\<rparr>"
  by (auto simp: update_attempts_def Let_def)

lemma row_of_attempts [simp]: "row_of (db\<lparr>db_attempts := as\<rparr>) i = row_of db i"
  "row_of (db\<lparr>db_schedules := ss\<rparr>) i = row_of db i"
  "row_of (db\<lparr>db_dispatches := ds\<rparr>) i = row_of db i"
  by (simp_all add: row_of_def)

end
