(* ===== verification/ExecRun.thy ===== *)
theory ExecRun
  imports ExecRows
begin

text \<open>
  Runs of the execution runtime: the step relation of the repository operations on the tables, the
  invariant of the tables, the simulation of the entity's state machine by the rows, and the
  lifecycle contract for every row.
\<close>

section \<open>The invariant of the tables\<close>

definition hydratable :: "wi_row \<Rightarrow> bool" where
  "hydratable r \<longleftrightarrow> (\<exists>i. hydrate_work_item r = Inr i)"

definition items_ok :: "exec_db \<Rightarrow> bool" where
  "items_ok db \<longleftrightarrow> distinct (map row_id (db_items db)) \<and>
     (\<forall>r \<in> set (db_items db). row_check r \<and> hydratable r)"

definition schedules_ok :: "exec_db \<Rightarrow> bool" where
  "schedules_ok db \<longleftrightarrow> distinct (map sr_work_item_id (db_schedules db)) \<and>
     distinct (map sr_idempotency_key (db_schedules db)) \<and>
     set (map sr_work_item_id (db_schedules db)) \<subseteq> set (map row_id (db_items db))"

definition attempts_ok :: "exec_db \<Rightarrow> bool" where
  "attempts_ok db \<longleftrightarrow> distinct (map ar_attempt_id (db_attempts db)) \<and>
     distinct (map (\<lambda>a. (ar_work_item_id a, ar_attempt_number a)) (db_attempts db)) \<and>
     (\<forall>a \<in> set (db_attempts db). attempt_check a) \<and>
     set (map ar_work_item_id (db_attempts db)) \<subseteq> set (map row_id (db_items db))"

definition dispatches_ok :: "exec_db \<Rightarrow> bool" where
  "dispatches_ok db \<longleftrightarrow> distinct (map dr_attempt_id (db_dispatches db)) \<and>
     set (map dr_attempt_id (db_dispatches db)) \<subseteq> set (map ar_attempt_id (db_attempts db))"

definition exec_ok :: "exec_db \<Rightarrow> bool" where
  "exec_ok db \<longleftrightarrow> items_ok db \<and> schedules_ok db \<and> attempts_ok db \<and> dispatches_ok db"

lemmas exec_ok_parts = exec_ok_def items_ok_def schedules_ok_def attempts_ok_def dispatches_ok_def

definition empty_db :: exec_db where
  "empty_db = \<lparr>db_items = [], db_schedules = [], db_attempts = [], db_dispatches = []\<rparr>"

lemma empty_db_ok: "exec_ok empty_db"
  by (simp add: exec_ok_parts empty_db_def)

lemma exec_ok_row: "exec_ok db \<Longrightarrow> row_of db i = Some r \<Longrightarrow> row_check r \<and> hydratable r"
  by (auto simp: exec_ok_parts dest: row_of_SomeD)

lemma exec_ok_row_of: "exec_ok db \<Longrightarrow> row_of db i = Some r \<longleftrightarrow> r \<in> set (db_items db) \<and> row_id r = i"
  by (simp add: exec_ok_parts row_of_iff)

section \<open>How an operation moves a row\<close>

text \<open>
  A row stays, or its entity makes one transition of the state machine. The comparison is up to
  the \<open>retry_plan\<close>, whose column two of the statements do not write.
\<close>

definition row_move :: "wi_row \<Rightarrow> wi_row \<Rightarrow> bool" where
  "row_move r r' \<longleftrightarrow> r' = r \<or>
     (\<exists>i j. hydrate_without_plan r = Inr i \<and> \<not> wi_final i \<and> wi_step i j \<and>
        hydrate_without_plan r' = Inr (drop_plan j) \<and>
        row_id r' = row_id r \<and> row_kind r' = row_kind r \<and> row_created_at r' = row_created_at r)"

definition fresh_rows :: "exec_db \<Rightarrow> exec_db \<Rightarrow> bool" where
  "fresh_rows db db' \<longleftrightarrow> (\<forall>i r. row_of db i = None \<longrightarrow> row_of db' i = Some r \<longrightarrow>
     row_status r = ''ready'' \<and> row_attempt_count r = 0)"

definition rows_move :: "exec_db \<Rightarrow> exec_db \<Rightarrow> bool" where
  "rows_move db db' \<longleftrightarrow> fresh_rows db db' \<and>
     (\<forall>i r. row_of db i = Some r \<longrightarrow> (\<exists>r'. row_of db' i = Some r' \<and> row_move r r'))"

lemma row_move_refl [simp]: "row_move r r"
  by (simp add: row_move_def)

lemma rows_move_refl [simp]: "rows_move db db"
  by (simp add: rows_move_def fresh_rows_def)

text \<open>The operations that only add rows.\<close>

definition rows_keep :: "exec_db \<Rightarrow> exec_db \<Rightarrow> bool" where
  "rows_keep db db' \<longleftrightarrow> fresh_rows db db' \<and> (\<forall>i r. row_of db i = Some r \<longrightarrow> row_of db' i = Some r)"

lemma rows_keep_moves: "rows_keep db db' \<Longrightarrow> rows_move db db'"
  by (simp add: rows_keep_def rows_move_def)

lemma rows_keep_refl [simp]: "rows_keep db db"
  by (simp add: rows_keep_def fresh_rows_def)

lemma rows_keep_trans: "rows_keep db db1 \<Longrightarrow> rows_keep db1 db2 \<Longrightarrow> rows_keep db db2"
  unfolding rows_keep_def fresh_rows_def
proof (elim conjE, intro conjI allI impI)
  fix i r
  assume 1: "\<forall>i r. row_of db i = None \<longrightarrow> row_of db1 i = Some r \<longrightarrow>
      row_status r = ''ready'' \<and> row_attempt_count r = 0"
    "\<forall>i r. row_of db1 i = None \<longrightarrow> row_of db2 i = Some r \<longrightarrow>
      row_status r = ''ready'' \<and> row_attempt_count r = 0"
    "\<forall>i r. row_of db1 i = Some r \<longrightarrow> row_of db2 i = Some r"
    and r: "row_of db i = None" "row_of db2 i = Some r"
  from 1 r show "row_status r = ''ready''" "row_attempt_count r = 0"
    by (cases "row_of db1 i"; simp)+
qed simp

lemma rows_move_same: "(\<And>i. row_of db' i = row_of db i) \<Longrightarrow> rows_move db db'"
  by (simp add: rows_move_def fresh_rows_def)

lemma update_items_ok:
  assumes ok: "exec_ok db" and upd: "update_items P f db = Inr db'"
    and ids: "\<And>r. row_id (f r) = row_id r"
    and hyd: "\<And>r. r \<in> set (db_items db) \<Longrightarrow> P r \<Longrightarrow> hydratable (f r)"
  shows "exec_ok db'"
proof -
  have "map row_id (db_items db') = map row_id (db_items db)"
    by (rule update_items_ids [OF upd ids])
  moreover have "\<forall>r \<in> set (db_items db'). row_check r \<and> hydratable r"
    using upd hyd ok by (auto simp: update_items_Inr list_all_iff exec_ok_parts)
  moreover have "set (map row_id (db_items db')) = set (map row_id (db_items db))"
    using calculation(1) by (simp only:)
  ultimately show ?thesis
    using ok unfolding exec_ok_parts update_items_frame [OF upd] by (simp only:) simp
qed

lemma update_items_moves:
  assumes upd: "update_items P f db = Inr db'" and ids: "\<And>r. row_id (f r) = row_id r"
    and mv: "\<And>r. r \<in> set (db_items db) \<Longrightarrow> P r \<Longrightarrow> row_move r (f r)"
  shows "rows_move db db'"
  unfolding rows_move_def
proof (intro conjI allI impI)
  show "fresh_rows db db'" using update_items_row [OF upd ids] by (auto simp: fresh_rows_def)
next
  fix i r assume r: "row_of db i = Some r"
  then have "row_of db' i = Some (if P r then f r else r)"
    using update_items_row [OF upd ids, of i] by simp
  then show "\<exists>r'. row_of db' i = Some r' \<and> row_move r r'"
    using mv row_of_SomeD [OF r] by auto
qed

lemma update_item_ok:
  assumes "exec_ok db" "update_item j f db = Inr db'" "\<And>r. row_id (f r) = row_id r"
    and "\<And>r. row_of db j = Some r \<Longrightarrow> hydratable (f r)"
  shows "exec_ok db'"
  using assms(1) assms(2) [unfolded update_item_def] assms(3)
proof (rule update_items_ok)
  show "hydratable (f r)" if "r \<in> set (db_items db)" "row_id r = j" for r
    using that assms(4) exec_ok_row_of [OF assms(1)] by simp
qed

lemma update_item_moves:
  assumes "exec_ok db" "update_item j f db = Inr db'" "\<And>r. row_id (f r) = row_id r"
    and "\<And>r. row_of db j = Some r \<Longrightarrow> row_move r (f r)"
  shows "rows_move db db'"
  using assms(2) [unfolded update_item_def] assms(3)
proof (rule update_items_moves)
  show "row_move r (f r)" if "r \<in> set (db_items db)" "row_id r = j" for r
    using that assms(4) exec_ok_row_of [OF assms(1)] by simp
qed

section \<open>Leasing\<close>

lemma due_rows_in:
  "x \<in> set (due_rows kind db) \<longleftrightarrow> fst x \<in> set (db_items db) \<and> snd x \<in> set (db_schedules db) \<and>
     sr_work_item_id (snd x) = row_id (fst x) \<and> row_kind (fst x) = work_kind_value kind \<and>
     row_status (fst x) \<in> {''ready'', ''retryable_failed''}"
  by (cases x) (auto simp: due_rows_def scheduled_rows_def)

lemma lease_selected_row_Inr:
  "lease_selected_row x w k e n db = Inr (res, db') \<longleftrightarrow>
     (\<exists>item leased. hydrate_without_plan (fst x) = Inr item \<and> lease_ready item w k e n = Inr leased \<and>
        update_item (wi_id leased) (lease_update leased (utc_of n)) db = Inr db' \<and>
        res = Some \<lparr>lr_work_item = leased, lr_schedule_payload = sr_payload (snd x)\<rparr>)"
  using lease_ready_step by (fastforce simp: lease_selected_row_def mk_leased_record_def)

lemma lease_update_id [simp]: "row_id (lease_update i n r) = row_id r"
  by (simp add: lease_update_def)

lemma lease_ready_Some:
  assumes "lease_ready i w k e n = Inr j"
  shows "\<exists>e' n'. e = Aware e' \<and> n = Aware n' \<and> n' < e'"
  using assms
  by (cases e; cases n) (auto simp: lease_ready_def error_simps work_item_ok_def lease_shape_def
      split: if_splits)

lemma hydrate_lease_update:
  assumes "hydrate_without_plan r = Inr item" "lease_ready item w k e n = Inr leased"
    "\<not> blank (worker_ref_value w)" "\<not> blank (lease_token_value k)"
    "optE parse_retry_plan p = Inr q"
  shows "hydrate_columns p (lease_update leased now r) = Inr (leased\<lparr>wi_retry_plan := q\<rparr>)"
proof -
  from lease_ready_Some [OF assms(2)] obtain e' n' where e: "e = Aware e'" "n = Aware n'" by auto
  from assms(2) have leased: "leased = item\<lparr>wi_status := WI_LEASED,
      wi_attempt_count := wi_attempt_count item + 1, wi_leased_by := Some w,
      wi_lease_token := Some k, wi_lease_expires_at := Some (Aware e'),
      wi_last_error_kind := None, wi_retry_plan := None\<rparr>"
    unfolding e by (simp add: lease_ready_Inr)
  have item: "wi_id item = row_id r" "work_kind_value (wi_kind item) = row_kind r" "item_texts_ok item"
    using hydrate_facts [OF assms(1) [unfolded hydrate_without_plan_def]] by simp_all
  have "hydrate_columns p (lease_update leased now r) = hydrate_columns p (set_item_columns leased r)"
    by (rule hydrate_columns_frame) (simp_all add: lease_update_def leased)
  also have "\<dots> = Inr (leased\<lparr>wi_retry_plan := q\<rparr>)"
  proof (rule hydrate_written)
    show "work_item_ok leased" using lease_ready_step [OF assms(2)] by blast
    show "item_texts_ok leased"
      using item(3) assms(3,4) by (simp add: item_texts_ok_def leased)
  qed (use item assms(5) in \<open>simp_all add: leased\<close>)
  finally show ?thesis .
qed

lemma hydratableD:
  assumes "hydratable r"
  shows "\<exists>i q. hydrate_work_item r = Inr i \<and> hydrate_without_plan r = Inr (drop_plan i) \<and>
    optE parse_retry_plan (row_retry_plan r) = Inr q"
  using assms hydrate_without_plan_iff
  by (auto simp: hydratable_def hydrate_work_item_def hydrate_columns_iff)

lemma wi_final_leaves: "wi_status i \<in> {WI_READY, WI_RETRYABLE_FAILED, WI_LEASED} \<Longrightarrow> \<not> wi_final i"
  by (auto simp: wi_final_def wi_is_terminal_def)

lemma lease_selected_step:
  assumes ok: "exec_ok db" and x: "x \<in> set (due_rows kind db)"
    and texts: "\<not> blank (worker_ref_value w)" "\<not> blank (lease_token_value k)"
    and lease: "lease_selected_row x w k e n db = Inr (res, db')"
  shows "exec_ok db'" "rows_move db db'"
proof -
  from lease obtain item leased where
    item: "hydrate_without_plan (fst x) = Inr item" and
    leased: "lease_ready item w k e n = Inr leased" and
    upd: "update_item (wi_id leased) (lease_update leased (utc_of n)) db = Inr db'"
    by (auto simp: lease_selected_row_Inr)
  have id: "wi_id leased = row_id (fst x)"
    using lease_ready_step [OF leased] hydrate_facts [OF item [unfolded hydrate_without_plan_def]] by simp
  have row: "row_of db (wi_id leased) = Some (fst x)"
    using x by (simp add: id exec_ok_row_of [OF ok] due_rows_in)
  obtain q where q: "optE parse_retry_plan (row_retry_plan (fst x)) = Inr q"
    using exec_ok_row [OF ok row] hydratableD by blast
  show "exec_ok db'"
  proof (rule update_item_ok [OF ok upd lease_update_id])
    fix r assume "row_of db (wi_id leased) = Some r"
    then have [simp]: "r = fst x" using row by simp
    show "hydratable (lease_update leased (utc_of n) r)"
      using hydrate_lease_update [OF item leased texts q]
      by (simp add: hydratable_def hydrate_work_item_def lease_update_def)
  qed
  show "rows_move db db'"
  proof (rule update_item_moves [OF ok upd lease_update_id])
    fix r assume "row_of db (wi_id leased) = Some r"
    then have [simp]: "r = fst x" using row by simp
    have "hydrate_without_plan (lease_update leased (utc_of n) r) = Inr (drop_plan leased)"
      using hydrate_lease_update [OF item leased texts, of None None]
      by (simp add: hydrate_without_plan_def drop_plan_def)
    moreover have "\<not> wi_final item" using lease_ready_step [OF leased] wi_final_leaves [of item] by auto
    ultimately show "row_move r (lease_update leased (utc_of n) r)"
      using item wi_step.lease [OF leased] by (auto simp: row_move_def lease_update_def)
  qed
qed

lemma lease_due_selects:
  assumes "lease_due_work_item collate locked kind w k e n db = Inr (res, db')"
  shows "res = None \<and> db' = db \<or>
    (\<exists>x \<in> set (due_rows kind db). lease_selected_row x w k e n db = Inr (res, db'))"
  using assms by (auto simp: lease_due_work_item_def split: option.splits dest!: min_by_in)

lemma lease_by_id_selects:
  assumes "lease_due_work_item_by_id locked kind i w k e n db = Inr (res, db')"
  shows "res = None \<and> db' = db \<or>
    (\<exists>x \<in> set (due_rows kind db). row_id (fst x) = i \<and> lease_selected_row x w k e n db = Inr (res, db'))"
  using assms
  by (auto simp: lease_due_work_item_by_id_def split: option.splits if_splits dest!: find_Some_in)

section \<open>Outcomes\<close>

lemma update_attempts_step:
  assumes "exec_ok db" "update_attempts P f db = Inr db'"
    and "\<And>a. ar_attempt_id (f a) = ar_attempt_id a \<and> ar_work_item_id (f a) = ar_work_item_id a \<and>
      ar_attempt_number (f a) = ar_attempt_number a"
  shows "exec_ok db'" "db_items db' = db_items db"
proof -
  let ?f = "\<lambda>a. if P a then f a else a"
  have "map ar_attempt_id (map ?f as) = map ar_attempt_id as"
    "map ar_work_item_id (map ?f as) = map ar_work_item_id as"
    "map (\<lambda>a. (ar_work_item_id a, ar_attempt_number a)) (map ?f as) =
      map (\<lambda>a. (ar_work_item_id a, ar_attempt_number a)) as" for as
    using assms(3) by simp_all
  then have "attempts_ok db'" "dispatches_ok db'"
    using assms(1,2) unfolding exec_ok_parts update_attempts_Inr list_all_iff set_map [symmetric]
    by (auto simp del: map_map set_map)
  then show "exec_ok db'"
    using assms(1,2) by (auto simp: exec_ok_def items_ok_def schedules_ok_def update_attempts_Inr)
  show "db_items db' = db_items db" using assms(2) by (auto simp: update_attempts_Inr)
qed

lemma outcome_update_frame [simp]:
  "row_id (outcome_update t now r) = row_id r" "row_kind (outcome_update t now r) = row_kind r"
  "row_created_at (outcome_update t now r) = row_created_at r"
  by (simp_all add: outcome_update_def set_retry_plan_column_def)

lemma drop_plan_unleased:
  "drop_plan (unleased i s e p) = unleased (drop_plan i) s e None"
  by (simp add: drop_plan_def unleased_def)

lemma unleased_texts_ok: "item_texts_ok i \<Longrightarrow> item_texts_ok (unleased i s e p)"
  by (simp add: item_texts_ok_def)

lemma leased_idle_step:
  assumes "work_item_ok i" "wi_status i = WI_LEASED"
  shows "wi_step i i"
proof -
  from assms obtain e where e: "wi_lease_expires_at i = Some (Aware e)"
    by (auto simp: work_item_ok_def lease_shape_def)
  have "reclaim_expired_lease i (Aware (Utc (utc_micros e - 1))) = Inr i"
    using assms(2) e by (simp add: reclaim_expired_lease_def less_utc_def)
  then show ?thesis by (rule wi_step.reclaim)
qed

text \<open>
  \<open>t\<close> is what a statement may write for the entity \<open>i\<close>: a transition's result, up to the plan.
\<close>

definition writes :: "work_item \<Rightarrow> work_item \<Rightarrow> bool" where
  "writes i t \<longleftrightarrow> \<not> wi_final i \<and> work_item_ok t \<and> item_texts_ok t \<and> wi_id t = wi_id i \<and>
     wi_kind t = wi_kind i \<and> (\<exists>j. wi_step (drop_plan i) j \<and> drop_plan t = drop_plan j)"

lemma writes_unleased:
  assumes "work_item_ok i" "item_texts_ok i" "\<not> wi_final i" "s \<noteq> WI_LEASED"
    "wi_step (drop_plan i) (unleased (drop_plan i) s e p)"
  shows "writes i (unleased i s e p)"
  using assms drop_plan_unleased [of i s e p] drop_plan_unleased [of "drop_plan i" s e p]
  by (auto simp: writes_def unleased_texts_ok drop_plan_unleased drop_plan_def
      intro!: exI [of _ "unleased (drop_plan i) s e p"])

lemma writes_same:
  assumes "work_item_ok i" "item_texts_ok i" "wi_status i = WI_LEASED"
  shows "writes i i"
  unfolding writes_def
proof (intro conjI exI)
  show "wi_step (drop_plan i) (drop_plan i)" using assms by (intro leased_idle_step) simp_all
  show "drop_plan i = drop_plan (drop_plan i)" by (simp add: drop_plan_def)
qed (use assms wi_final_leaves [of i] in auto)

lemma transition_writes:
  assumes ok: "work_item_ok i" "item_texts_ok i" and leased: "wi_status i = WI_LEASED"
    and t: "transition_work_item i r = Inr t"
  shows "writes i t"
proof -
  from t leased ok(1) consider "t = i"
    | (retry) e p where "\<not> blank e" "t = unleased i WI_RETRYABLE_FAILED (Some e) (Some p)"
    | (stop) e where "\<not> blank e" "t = unleased i WI_TERMINAL_FAILED (Some e) None"
    by (auto simp: transition_work_item_def transition_defs error_simps
        split: if_splits option.splits)
  then show ?thesis
  proof cases
    case 1
    with writes_same ok leased show ?thesis by simp
  next
    case retry
    have "fail_leased_retryable (drop_plan i) e p =
        Inr (unleased (drop_plan i) WI_RETRYABLE_FAILED (Some e) (Some p))"
      using ok(1) leased retry(1) by (simp add: transition_defs error_simps)
    then show ?thesis unfolding retry(2)
      by (intro writes_unleased wi_step.fail_retryable) (use ok leased wi_final_leaves in auto)
  next
    case stop
    have "fail_leased_terminal (drop_plan i) e =
        Inr (unleased (drop_plan i) WI_TERMINAL_FAILED (Some e) None)"
      using ok(1) leased stop(1) by (simp add: transition_defs error_simps)
    then show ?thesis unfolding stop(2)
      by (intro writes_unleased wi_step.fail_terminal) (use ok leased wi_final_leaves in auto)
  qed
qed

text \<open>Writing back what a transition made of the row's entity.\<close>

lemma written_row:
  assumes cur: "hydrate_columns p row = Inr current"
    and wr: "writes current t" and f: "\<And>r. row_id (f r) = row_id r \<and> row_kind (f r) = row_kind r \<and>
      row_created_at (f r) = row_created_at r"
    and hyd: "hydrate_without_plan (f row) = Inr (drop_plan t)"
  shows "row_move row (f row)"
proof -
  have "hydrate_without_plan row = Inr (drop_plan current)"
    using cur by (simp add: hydrate_without_plan_def hydrate_columns_iff)
  moreover have "\<not> wi_final (drop_plan current)" using wr by (simp add: writes_def wi_final_def)
  ultimately show ?thesis using wr f hyd by (auto simp: row_move_def writes_def)
qed

lemma write_back:
  assumes ok: "exec_ok db" and row: "row_of db i = Some row"
    and cur: "hydrate_work_item row = Inr current" and wr: "writes current t"
    and upd: "update_item (wi_id t) (outcome_update t now) db = Inr db'"
  shows "exec_ok db'" "rows_move db db'"
proof -
  note facts = hydrate_facts [OF cur [unfolded hydrate_work_item_def]]
  have id: "wi_id t = i" using wr facts(1) row_of_SomeD [OF row] by (simp add: writes_def)
  have hyd: "hydrate_work_item (outcome_update t now row) = Inr t"
    by (rule hydrate_outcome_update) (use wr facts in \<open>simp_all add: writes_def\<close>)
  show "exec_ok db'"
    by (rule update_item_ok [OF ok upd]) (use row id hyd in \<open>auto simp: hydratable_def\<close>)
  show "rows_move db db'"
  proof (rule update_item_moves [OF ok upd])
    fix r assume "row_of db (wi_id t) = Some r"
    then have [simp]: "r = row" using row id by simp
    show "row_move r (outcome_update t now r)"
      using written_row [OF cur [unfolded hydrate_work_item_def] wr, of "outcome_update t now"]
        hydrate_without_plan_iff [OF hyd] by simp
  qed simp
qed

lemma record_outcome_Inr:
  assumes "record_attempt_outcome now r db = Inr (t, db')"
  shows "\<exists>row current db1. row_of db (oc_work_item_id r) = Some row \<and>
     hydrate_work_item row = Inr current \<and> validate_current_lease current r = Inr () \<and>
     transition_work_item current r = Inr t \<and>
     update_attempts (attempt_matches r) (attempt_outcome_update r) db = Inr db1 \<and>
     update_item (wi_id t) (outcome_update t now) db1 = Inr db'"
  using assms by (auto simp: record_attempt_outcome_def split: option.splits)

lemma validate_current_Inr [error_simps]:
  "validate_current_lease i r = Inr u \<longleftrightarrow> wi_status i = WI_LEASED \<and>
     wi_lease_token i = Some (oc_lease_token r) \<and> wi_attempt_count i = oc_attempt_number r"
  by (simp add: validate_current_lease_def)

lemma validate_completion_Inr [error_simps]:
  "validate_completion_lease i k = Inr u \<longleftrightarrow> wi_status i = WI_LEASED \<and> wi_lease_token i = Some k"
  by (simp add: validate_completion_lease_def)

lemma rows_move_cong: "(\<And>i. row_of db i = row_of db1 i) \<Longrightarrow> rows_move db1 db' \<Longrightarrow> rows_move db db'"
  by (simp add: rows_move_def fresh_rows_def)

lemma record_outcome_step:
  assumes ok: "exec_ok db" and rec: "record_attempt_outcome now r db = Inr (t, db')"
  shows "exec_ok db'" "rows_move db db'"
proof -
  from record_outcome_Inr [OF rec] obtain row current db1 where
    row: "row_of db (oc_work_item_id r) = Some row" and cur: "hydrate_work_item row = Inr current" and
    val: "validate_current_lease current r = Inr ()" and tr: "transition_work_item current r = Inr t" and
    ua: "update_attempts (attempt_matches r) (attempt_outcome_update r) db = Inr db1" and
    ui: "update_item (wi_id t) (outcome_update t now) db1 = Inr db'" by blast
  note facts = hydrate_facts [OF cur [unfolded hydrate_work_item_def]]
  have wr: "writes current t"
    using facts(5,6) val tr by (auto simp: error_simps intro: transition_writes)
  have ok1: "exec_ok db1" and items: "db_items db1 = db_items db"
    using update_attempts_step [OF ok ua] by (simp_all add: attempt_outcome_update_def)
  then have same: "row_of db j = row_of db1 j" for j by (simp add: row_of_def)
  note wb = write_back [OF ok1 row [unfolded same] cur wr ui]
  show "exec_ok db'" by (rule wb(1))
  show "rows_move db db'" by (rule rows_move_cong [OF same wb(2)])
qed

lemma complete_step:
  assumes ok: "exec_ok db"
    and rec: "complete_work_item_after_domain_apply now i k db = Inr (t, db')"
  shows "exec_ok db'" "rows_move db db'"
proof -
  from rec obtain row current where
    row: "row_of db i = Some row" and cur: "hydrate_work_item row = Inr current" and
    val: "validate_completion_lease current k = Inr ()" and tr: "complete_leased current = Inr t" and
    ui: "update_item (wi_id t) (outcome_update t now) db = Inr db'"
    by (auto simp: complete_work_item_after_domain_apply_def split: option.splits)
  note facts = hydrate_facts [OF cur [unfolded hydrate_work_item_def]]
  have t: "t = unleased current WI_COMPLETED None None" and leased: "wi_status current = WI_LEASED"
    using tr val by (auto simp: transition_defs error_simps)
  have "complete_leased (drop_plan current) = Inr (unleased (drop_plan current) WI_COMPLETED None None)"
    using facts(6) leased by (simp add: transition_defs error_simps)
  then have wr: "writes current t" unfolding t
    by (intro writes_unleased wi_step.complete) (use facts(5,6) leased wi_final_leaves in auto)
  show "exec_ok db'" "rows_move db db'" by (rule write_back [OF ok row cur wr ui])+
qed

section \<open>Recovery\<close>

lemma release_expired_frame [simp]:
  "row_id (release_expired t r) = row_id r" "row_kind (release_expired t r) = row_kind r"
  "row_created_at (release_expired t r) = row_created_at r"
  by (simp_all add: release_expired_def)

lemma release_expired_hydrates:
  assumes hyd: "hydrate_columns p r = Inr i" and ex: "lease_expired t r"
  shows "hydrate_work_item (release_expired t r) = Inr (unleased i WI_READY (Some ''lease_expired'') None)"
    and "writes i (unleased i WI_READY (Some ''lease_expired'') None)"
proof -
  note facts = hydrate_facts [OF hyd]
  let ?j = "unleased i WI_READY (Some ''lease_expired'') None"
  have leased: "wi_status i = WI_LEASED"
    using ex facts(3) by (cases "wi_status i") (simp_all add: lease_expired_def)
  have j: "work_item_ok ?j" "item_texts_ok ?j"
    using facts by (simp_all add: unleased_texts_ok)
  have "hydrate_work_item (release_expired t r) = hydrate_columns None (set_item_columns ?j r)"
    unfolding hydrate_work_item_def
    by (rule trans [OF arg_cong [of _ _ "\<lambda>p. hydrate_columns p _"] hydrate_columns_frame])
      (simp_all add: release_expired_def utc_column_def facts(4))
  also have "\<dots> = Inr ?j" using hydrate_written [OF j, of r None None] facts by simp
  finally show "hydrate_work_item (release_expired t r) = Inr ?j" .
  obtain e where "row_lease_expires_at r = Some e" "e \<le> t"
    using ex by (auto simp: lease_expired_def split: option.splits)
  then have "reclaim_expired_lease (drop_plan i) (Aware t) =
      Inr (unleased (drop_plan i) WI_READY (Some ''lease_expired'') None)"
    using hyd facts(6) leased
    by (simp add: reclaim_expired_lease_def hydrate_columns_iff error_simps)
  then show "writes i ?j"
    by (intro writes_unleased wi_step.reclaim) (use facts(5,6) leased wi_final_leaves in auto)
qed

lemma expired_rows_in:
  "r \<in> set (expired_rows collate locked now limit db) \<Longrightarrow>
     r \<in> set (db_items db) \<and> lease_expired now r \<and> \<not> locked (row_id r)"
  by (auto simp: expired_rows_def dest: in_set_takeD)

lemma reclaim_expired_Inr:
  assumes "reclaim_expired collate locked now limit db = Inr (res, db')"
  shows "\<exists>t db1. now = Aware t \<and> 0 < limit \<and>
     (let expired = expired_rows collate locked t (nat limit) db in
      update_attempts (abandoned_by expired) (close_abandoned t) db = Inr db1 \<and>
      update_items (\<lambda>r. row_id r \<in> set (map row_id expired)) (release_expired t) db1 = Inr db' \<and>
      traverseE required_text (sort_key collate (map row_id expired)) = Inr (reclaimed_work_item_ids res))"
  using assms by (auto simp: reclaim_expired_def Let_def split: datetime.splits if_splits)

lemma reclaim_step:
  assumes ok: "exec_ok db" and rec: "reclaim_expired collate locked now limit db = Inr (res, db')"
  shows "exec_ok db'" "rows_move db db'"
proof -
  obtain t db1 expired where
    ex: "expired = expired_rows collate locked t (nat limit) db" and
    ua: "update_attempts (abandoned_by expired) (close_abandoned t) db = Inr db1" and
    ui: "update_items (\<lambda>r. row_id r \<in> set (map row_id expired)) (release_expired t) db1 = Inr db'"
    using reclaim_expired_Inr [OF rec] by (auto simp: Let_def)
  have ok1: "exec_ok db1" and items: "db_items db1 = db_items db"
    using update_attempts_step [OF ok ua] by (simp_all add: close_abandoned_def)
  have row: "lease_expired t r \<and> (\<exists>i. hydrate_work_item r = Inr i)"
    if r: "r \<in> set (db_items db1)" "row_id r \<in> set (map row_id expired)" for r
  proof -
    from r(2) obtain r' where r': "r' \<in> set expired" "row_id r' = row_id r" by auto
    then have "r' \<in> set (db_items db)" "lease_expired t r'" using expired_rows_in ex by auto
    moreover from this(1) have "r' = r"
      using r r'(2) ok items by (auto simp: exec_ok_parts distinct_map dest: inj_onD)
    ultimately show ?thesis using ok by (auto simp: exec_ok_parts hydratable_def)
  qed
  show "exec_ok db'"
  proof (rule update_items_ok [OF ok1 ui release_expired_frame(1)])
    fix r assume "r \<in> set (db_items db1)" "row_id r \<in> set (map row_id expired)"
    then show "hydratable (release_expired t r)"
      using row release_expired_hydrates(1) by (fastforce simp: hydratable_def hydrate_work_item_def)
  qed
  have "rows_move db1 db'"
  proof (rule update_items_moves [OF ui release_expired_frame(1)])
    fix r assume r: "r \<in> set (db_items db1)" "row_id r \<in> set (map row_id expired)"
    then obtain i where i: "hydrate_work_item r = Inr i" and e: "lease_expired t r" using row by blast
    note rel = release_expired_hydrates [OF i [unfolded hydrate_work_item_def] e]
    show "row_move r (release_expired t r)"
      using written_row [OF i [unfolded hydrate_work_item_def] rel(2), where f = "release_expired t"]
        hydrate_without_plan_iff [OF rel(1)] by simp
  qed
  then show "rows_move db db'" by (rule rows_move_cong [rotated]) (simp add: row_of_def items)
qed

section \<open>Scheduling\<close>

lemma insert_item_step:
  assumes ok: "exec_ok db" and ins: "insert_item r db = Inr db'" and hyd: "hydratable r"
    and fresh: "row_status r = ''ready''" "row_attempt_count r = 0"
  shows "exec_ok db'" "rows_keep db db'"
proof -
  have new: "row_id r \<notin> set (map row_id (db_items db))" and chk: "row_check r"
    and db': "db' = db\<lparr>db_items := db_items db @ [r]\<rparr>"
    using ins by (auto simp: insert_item_def split: if_splits)
  show "exec_ok db'" using ok new chk hyd by (auto simp: exec_ok_parts db')
  show "rows_keep db db'"
    using fresh
    by (auto simp: rows_keep_def fresh_rows_def row_of_def db' find_append_Some find_append_None
        split: if_splits)
qed

lemma insert_schedule_step:
  assumes "exec_ok db" "insert_schedule s db = Inr db'"
  shows "exec_ok db'" "row_of db' i = row_of db i" "db_items db' = db_items db"
  using assms
  by (auto simp: insert_schedule_def exec_ok_parts image_subset_iff split: if_splits)

lemma inserted_row_hydrates:
  assumes "new_work_item i k = Inr w" "mk_work_kind (work_kind_value k) = Inr k"
  shows "hydrate_work_item (inserted_row now w) = Inr w"
proof -
  have w: "work_item_ok w" "item_texts_ok w" "wi_retry_plan w = None" "wi_kind w = k"
    using assms by (auto simp: error_simps item_texts_ok_def work_item_ok_def lease_shape_def)
  have "hydrate_work_item (inserted_row now w) = hydrate_columns None (inserted_row now w)"
    by (simp add: hydrate_work_item_def inserted_row_def)
  also have "\<dots> = Inr (w\<lparr>wi_retry_plan := None\<rparr>)"
    unfolding inserted_row_def by (rule hydrate_written) (use w in simp_all)
  also have "\<dots> = Inr w" using w(3) by (cases w) simp
  finally show ?thesis .
qed

definition plan_valid :: "work_item_schedule_plan \<Rightarrow> bool" where
  "plan_valid p \<longleftrightarrow> schedule_plan_post_init p = Inr p \<and>
     mk_work_kind (work_kind_value (sp_work_kind p)) = Inr (sp_work_kind p)"

lemma ensure_plan_cases:
  assumes "ensure_plan hash now p db = Inr (o1, db')"
  shows "(db' = db \<and> row_of db (sp_work_item_id p) \<noteq> None) \<or>
    (\<exists>w db1. row_of db (sp_work_item_id p) = None \<and>
       new_work_item (sp_work_item_id p) (sp_work_kind p) = Inr w \<and>
       insert_item (inserted_row now w) db = Inr db1 \<and>
       insert_schedule \<lparr>sr_work_item_id = wi_id w, sr_idempotency_key = sp_idempotency_key p,
         sr_payload_hash = hash (sp_payload p), sr_payload = sp_payload p\<rparr> db1 = Inr db')"
  using assms
  by (auto simp: ensure_plan_def save_scheduled_work_item_def get_work_item_def Let_def optE_Inr_iff
      split: option.splits if_splits)

lemma ensure_plan_step:
  assumes ok: "exec_ok db" and p: "plan_valid p" and ens: "ensure_plan hash now p db = Inr (o1, db')"
  shows "exec_ok db'" "rows_keep db db'"
proof -
  have "exec_ok db' \<and> rows_keep db db'"
    using ensure_plan_cases [OF ens]
  proof (elim disjE conjE exE)
    fix w db1
    assume new: "new_work_item (sp_work_item_id p) (sp_work_kind p) = Inr w"
      and ins: "insert_item (inserted_row now w) db = Inr db1"
      and sch: "insert_schedule \<lparr>sr_work_item_id = wi_id w, sr_idempotency_key = sp_idempotency_key p,
         sr_payload_hash = hash (sp_payload p), sr_payload = sp_payload p\<rparr> db1 = Inr db'"
    have hyd: "hydratable (inserted_row now w)"
      using inserted_row_hydrates [OF new] p by (auto simp: hydratable_def plan_valid_def)
    have fresh: "row_status (inserted_row now w) = ''ready''"
      "row_attempt_count (inserted_row now w) = 0"
      using new by (auto simp: inserted_row_def error_simps)
    note i = insert_item_step [OF ok ins hyd fresh]
    from insert_schedule_step [OF i(1) sch] i(2) show ?thesis by (simp add: rows_keep_def fresh_rows_def)
  qed (use ok in simp)
  then show "exec_ok db'" "rows_keep db db'" by simp_all
qed

lemma ensure_plans_step:
  assumes "exec_ok db" "list_all plan_valid ps" "ensure_plans hash now ps db = Inr (os, db')"
  shows "exec_ok db' \<and> rows_keep db db'"
  using assms
proof (induction ps arbitrary: db os)
  case Nil
  then show ?case by simp
next
  case (Cons p ps)
  then obtain o1 db1 os2 where "ensure_plan hash now p db = Inr (o1, db1)"
    and rest: "ensure_plans hash now ps db1 = Inr (os2, db')" by auto
  with Cons.prems have 1: "exec_ok db1" "rows_keep db db1" by (auto dest: ensure_plan_step)
  with Cons.IH [OF 1(1) _ rest] Cons.prems(2) show ?case by (auto intro: rows_keep_trans)
qed

section \<open>Superseding\<close>

text \<open>A row stays or was waiting and becomes superseded, however often its id is listed.\<close>

definition supersede_move :: "wi_row \<Rightarrow> wi_row \<Rightarrow> bool" where
  "supersede_move r r' \<longleftrightarrow> r' = r \<or>
     (row_move r r' \<and> row_status r \<in> {''ready'', ''retryable_failed''} \<and>
      row_status r' = ''split_superseded'')"

lemma supersede_move_trans:
  "supersede_move r1 r2 \<Longrightarrow> supersede_move r2 r3 \<Longrightarrow> supersede_move r1 r3"
  by (auto simp: supersede_move_def)

lemma superseded_row:
  assumes ok: "exec_ok db" and row: "row_of db i = Some row"
    and cur: "hydrate_without_plan row = Inr item" and t: "mark_split_superseded_waiting item = Inr t"
    and upd: "save_work_item now t db = Inr db'"
  shows "exec_ok db'" "\<exists>row'. row_of db' i = Some row' \<and> supersede_move row row'"
    "j \<noteq> i \<Longrightarrow> row_of db' j = row_of db j"
proof -
  let ?f = "\<lambda>r. (set_item_columns t r)\<lparr>row_updated_at := now\<rparr>"
  note facts = hydrate_facts [OF cur [unfolded hydrate_without_plan_def]]
  have teq: "t = unleased item WI_SPLIT_SUPERSEDED None None" and wait: "wi_is_waiting (wi_status item)"
    using t by (auto simp: transition_defs error_simps split: if_splits)
  then have waiting: "wi_status item \<in> {WI_READY, WI_RETRYABLE_FAILED}" by (simp add: wi_is_waiting_def)
  have id: "wi_id t = i" using teq facts(1) row_of_SomeD [OF row] by simp
  have u: "update_item i ?f db = Inr db'" using upd by (simp add: save_work_item_def id)
  have hyd: "hydrate_columns p (?f row) = Inr (t\<lparr>wi_retry_plan := q\<rparr>)"
    if "optE parse_retry_plan p = Inr q" for p q
  proof -
    have "hydrate_columns p (?f row) = hydrate_columns p (set_item_columns t row)"
      by (rule hydrate_columns_frame) simp_all
    also have "\<dots> = Inr (t\<lparr>wi_retry_plan := q\<rparr>)"
      by (rule hydrate_written) (use facts that in \<open>simp_all add: teq unleased_texts_ok\<close>)
    finally show ?thesis .
  qed
  obtain q where q: "optE parse_retry_plan (row_retry_plan row) = Inr q"
    using exec_ok_row [OF ok row] hydratableD by blast
  show "exec_ok db'"
  proof (rule update_item_ok [OF ok u])
    fix r assume "row_of db i = Some r"
    then have "r = row" using row by simp
    with hyd [OF q] show "hydratable (?f r)" by (auto simp: hydratable_def hydrate_work_item_def)
  qed simp
  have plan: "drop_plan item = item"
    using cur by (cases item) (simp add: hydrate_without_plan_def hydrate_columns_iff drop_plan_def)
  have "mark_split_superseded_waiting (drop_plan item) =
      Inr (unleased (drop_plan item) WI_SPLIT_SUPERSEDED None None)"
    using t teq plan by simp
  then have wr: "writes item t" unfolding teq
    by (intro writes_unleased wi_step.split_waiting) (use facts(5,6) waiting wi_final_leaves in auto)
  have "row_move row (?f row)"
    using written_row [OF cur [unfolded hydrate_without_plan_def] wr, of ?f] hyd [of None None]
    by (simp add: hydrate_without_plan_def drop_plan_def)
  then have "supersede_move row (?f row)"
    using waiting facts(3) by (auto simp: supersede_move_def teq)
  moreover have "row_of db' i = Some (?f row)" using update_item_row [OF u, of i] row by simp
  ultimately show "\<exists>row'. row_of db' i = Some row' \<and> supersede_move row row'" by blast
  show "j \<noteq> i \<Longrightarrow> row_of db' j = row_of db j" using update_item_row [OF u, of j] by simp
qed

lemma supersede_all_step:
  assumes "exec_ok db" "supersede_all now ids db = Inr (out, db')"
  shows "exec_ok db' \<and>
    (\<forall>j r. row_of db j = Some r \<longrightarrow> (\<exists>r'. row_of db' j = Some r' \<and> supersede_move r r')) \<and>
    (\<forall>j. row_of db j = None \<longrightarrow> row_of db' j = None)"
  using assms
proof (induction ids arbitrary: db out)
  case Nil
  then show ?case by (simp add: supersede_move_def)
next
  case (Cons i ids)
  from Cons.prems(2) obtain item where
    load: "load_work_item i db = Inr (Some item)"
    by (auto split: option.splits)
  then obtain row where row: "row_of db i = Some row" and cur: "hydrate_without_plan row = Inr item"
    by (auto simp: load_work_item_def optE_Inr_iff split: if_splits option.splits)
  show ?case
  proof (cases "wi_status item = WI_SPLIT_SUPERSEDED")
    case True
    with Cons.prems load obtain out' where "supersede_all now ids db = Inr (out', db')" by auto
    with Cons.IH [OF Cons.prems(1)] show ?thesis by blast
  next
    case False
    with Cons.prems load obtain t db1 out' where
      t: "mark_split_superseded_waiting item = Inr t" and sv: "save_work_item now t db = Inr db1" and
      rest: "supersede_all now ids db1 = Inr (out', db')" by auto
    note sup = superseded_row [OF Cons.prems(1) row cur t sv]
    note IH = Cons.IH [OF sup(1) rest]
    have none: "row_of db' j = None" if "row_of db j = None" for j
    proof -
      from that row sup(3) [of j] have "row_of db1 j = None" by (cases "j = i") simp_all
      with IH show ?thesis by simp
    qed
    have "\<exists>r'. row_of db' j = Some r' \<and> supersede_move r r'" if r: "row_of db j = Some r" for j r
    proof -
      have "\<exists>r1. row_of db1 j = Some r1 \<and> supersede_move r r1"
      proof (cases "j = i")
        case True
        with sup(2) r row show ?thesis by auto
      next
        case False
        with sup(3) r show ?thesis by (auto simp: supersede_move_def)
      qed
      then show ?thesis using IH supersede_move_trans by blast
    qed
    with IH none show ?thesis by blast
  qed
qed

lemma supersede_step:
  assumes "exec_ok db" "supersede_waiting_work_items_for_split now ids db = Inr (out, db')"
  shows "exec_ok db'" "rows_move db db'"
proof -
  from assms(2) obtain out' where "supersede_all now ids db = Inr (out', db')"
    by (auto simp: supersede_waiting_work_items_for_split_def)
  note step = supersede_all_step [OF assms(1) this]
  from step show "exec_ok db'" by blast
  have "supersede_move r r' \<Longrightarrow> row_move r r'" for r r' by (auto simp: supersede_move_def)
  with step show "rows_move db db'" unfolding rows_move_def fresh_rows_def by force
qed

section \<open>Dispatch\<close>

lemma insert_attempt_step:
  assumes "exec_ok db" "insert_attempt a db = Inr db'"
  shows "exec_ok db'" "db_items db' = db_items db"
    "set (map ar_attempt_id (db_attempts db)) \<subseteq> set (map ar_attempt_id (db_attempts db'))"
  using assms by (auto simp: insert_attempt_def exec_ok_parts image_subset_iff split: if_splits)

lemma insert_dispatch_step:
  assumes "exec_ok db" "insert_dispatch d db = Inr db'"
  shows "exec_ok db'" "db_items db' = db_items db"
  using assms by (auto simp: insert_dispatch_def exec_ok_parts image_subset_iff split: if_splits)

lemma dispatch_step:
  assumes ok: "exec_ok db" and save: "save_started_dispatch_attempt dumps d db = Inr db'"
  shows "exec_ok db'" "rows_move db db'"
proof -
  from save obtain db1 where
    a: "insert_attempt (started_attempt_row d) db = Inr db1" and
    b: "insert_dispatch (started_dispatch_row d) db1 = Inr db'"
    by (auto simp: save_started_dispatch_attempt_def split: option.splits)
  note 1 = insert_attempt_step [OF ok a]
  note 2 = insert_dispatch_step [OF 1(1) b]
  from 2 show "exec_ok db'" by simp
  from 1(2) 2(2) show "rows_move db db'" by (intro rows_move_same) (simp add: row_of_def)
qed

section \<open>Runs\<close>

text \<open>
  One committed transaction of the runtime. The arguments are values that passed their
  constructors: worker and token references, schedule plans and outcome records.
\<close>

inductive exec_step :: "exec_db \<Rightarrow> exec_db \<Rightarrow> bool" where
  schedule: "list_all plan_valid plans \<Longrightarrow>
     ensure_work_items_scheduled hash db_now plans db = Inr (os, db') \<Longrightarrow> exec_step db db'"
| lease_next: "mk_worker_ref wv = Inr w \<Longrightarrow> mk_lease_token kv = Inr k \<Longrightarrow>
     lease_due_work_item collate locked kind w k expires now db = Inr (res, db') \<Longrightarrow> exec_step db db'"
| lease_by_id: "mk_worker_ref wv = Inr w \<Longrightarrow> mk_lease_token kv = Inr k \<Longrightarrow>
     lease_due_work_item_by_id locked kind i w k expires now db = Inr (res, db') \<Longrightarrow> exec_step db db'"
| dispatch: "dispatch_record_post_init d = Inr d \<Longrightarrow>
     save_started_dispatch_attempt dumps d db = Inr db' \<Longrightarrow> exec_step db db'"
| outcome: "outcome_record_post_init r = Inr r \<Longrightarrow>
     record_attempt_outcome db_now r db = Inr (t, db') \<Longrightarrow> exec_step db db'"
| complete: "complete_work_item_after_domain_apply db_now i k db = Inr (t, db') \<Longrightarrow> exec_step db db'"
| reclaim: "reclaim_expired collate locked now' limit db = Inr (rec, db') \<Longrightarrow> exec_step db db'"
| supersede: "supersede_waiting_work_items_for_split db_now ids db = Inr (out, db') \<Longrightarrow>
     exec_step db db'"

lemma lease_texts:
  "mk_worker_ref wv = Inr w \<Longrightarrow> mk_lease_token kv = Inr k \<Longrightarrow>
     \<not> blank (worker_ref_value w) \<and> \<not> blank (lease_token_value k)"
  by (auto simp: error_simps)

lemma exec_step_sound:
  assumes "exec_step db db'" "exec_ok db"
  shows "exec_ok db' \<and> rows_move db db'"
  using assms(1)
proof cases
  case (schedule plans hash db_now os)
  then have "ensure_plans hash db_now plans db = Inr (os, db')"
    by (auto simp: ensure_work_items_scheduled_def)
  with schedule(1) ensure_plans_step assms(2) show ?thesis by (blast intro: rows_keep_moves)
next
  case (lease_next wv w kv k collate locked kind expires now res)
  note t = lease_texts [OF lease_next(1,2)]
  from lease_due_selects [OF lease_next(3)] assms(2)
    lease_selected_step [OF assms(2) _ t [THEN conjunct1] t [THEN conjunct2]]
  show ?thesis by auto
next
  case (lease_by_id wv w kv k locked kind i expires now res)
  note t = lease_texts [OF lease_by_id(1,2)]
  from lease_by_id_selects [OF lease_by_id(3)] assms(2)
    lease_selected_step [OF assms(2) _ t [THEN conjunct1] t [THEN conjunct2]]
  show ?thesis by auto
next
  case (dispatch d dumps)
  with dispatch_step assms(2) show ?thesis by blast
next
  case (outcome r db_now t)
  with record_outcome_step assms(2) show ?thesis by blast
next
  case (complete db_now i k t)
  with complete_step assms(2) show ?thesis by blast
next
  case (reclaim collate locked now' limit rec)
  with reclaim_step assms(2) show ?thesis by blast
next
  case (supersede db_now ids out)
  with supersede_step assms(2) show ?thesis by blast
qed

text \<open>What a run means for one row: its status, whether it is closed, its attempt counter.\<close>

definition row_final :: "string \<Rightarrow> exec_db \<Rightarrow> bool" where
  "row_final i db \<longleftrightarrow> (\<exists>r. row_of db i = Some r \<and>
     row_status r \<in> {''completed'', ''terminal_failed'', ''cancelled'', ''split_superseded''})"

definition row_attempts :: "string \<Rightarrow> exec_db \<Rightarrow> int" where
  "row_attempts i db = (case row_of db i of None \<Rightarrow> 0 | Some r \<Rightarrow> row_attempt_count r)"

lemma row_final_item:
  assumes "hydrate_columns p r = Inr i"
  shows "row_status r \<in> {''completed'', ''terminal_failed'', ''cancelled'', ''split_superseded''} \<longleftrightarrow> wi_final i"
  using hydrate_facts(3) [OF assms]
  by (cases "wi_status i") (simp_all add: wi_final_def wi_is_terminal_def)

lemma row_move_facts:
  assumes mv: "row_move r r'" and ne: "r' \<noteq> r"
  shows "\<exists>i j. hydrate_without_plan r = Inr i \<and> \<not> wi_final i \<and>
     hydrate_without_plan r' = Inr (drop_plan j) \<and>
     (j = i \<or> status_edge (wi_status i) (wi_status j)) \<and>
     row_attempt_count r' = row_attempt_count r + (if j \<noteq> i \<and> wi_status j = WI_LEASED then 1 else 0)"
proof -
  from mv ne obtain i j where i: "hydrate_without_plan r = Inr i" "\<not> wi_final i" "wi_step i j"
    "hydrate_without_plan r' = Inr (drop_plan j)" by (auto simp: row_move_def)
  note fi = hydrate_facts [OF i(1) [unfolded hydrate_without_plan_def]]
  note fj = hydrate_facts [OF i(4) [unfolded hydrate_without_plan_def]]
  from wi_step_cases [OF i(3)] i fi(4) fj(4) show ?thesis by (intro exI [of _ i] exI [of _ j]) auto
qed

lemma row_attempts_moves:
  assumes "rows_move db db'"
  shows "row_attempts i db \<le> row_attempts i db' \<and> row_attempts i db' \<le> row_attempts i db + 1"
proof (cases "row_of db i")
  case None
  with assms show ?thesis
    by (cases "row_of db' i") (auto simp: rows_move_def fresh_rows_def row_attempts_def)
next
  case (Some r)
  with assms obtain r' where r': "row_of db' i = Some r'" "row_move r r'"
    by (auto simp: rows_move_def)
  show ?thesis
  proof (cases "r' = r")
    case False
    from row_move_facts [OF r'(2) False] r'(1) Some show ?thesis by (auto simp: row_attempts_def)
  qed (use r' Some in \<open>simp add: row_attempts_def\<close>)
qed

lemma row_final_moves:
  assumes "rows_move db db'" "row_final i db"
  shows "row_of db' i = row_of db i"
proof -
  from assms(2) obtain r where r0: "row_of db i = Some r"
    and fin: "row_status r \<in> {''completed'', ''terminal_failed'', ''cancelled'', ''split_superseded''}"
    unfolding row_final_def by blast
  from assms(1) r0 obtain r' where r: "row_of db i = Some r" "row_of db' i = Some r'" "row_move r r'"
    unfolding rows_move_def by blast
  have "r' = r"
  proof (rule ccontr)
    assume "r' \<noteq> r"
    from row_move_facts [OF r(3) this] obtain j where "hydrate_without_plan r = Inr j" "\<not> wi_final j"
      by blast
    with fin show False using row_final_item unfolding hydrate_without_plan_def by blast
  qed
  with r show ?thesis by simp
qed

interpretation row: lifecycle exec_step exec_ok "row_final i" "\<lambda>db. row_of db i" "row_attempts i" for i
proof unfold_locales
  fix s t
  assume step: "exec_step s t" "exec_ok s"
  then have mv: "rows_move s t" by (simp add: exec_step_sound)
  show "exec_ok t" using exec_step_sound [OF step] by simp
  show "row_attempts i s \<le> row_attempts i t \<and> row_attempts i t \<le> row_attempts i s + 1"
    by (rule row_attempts_moves [OF mv])
  assume "row_final i s"
  with row_final_moves [OF mv] show "row_final i t \<and> row_of t i = row_of s i"
    by (simp add: row_final_def)
qed

end
