(* ===== verification/ExecSamples.thy ===== *)
theory ExecSamples
  imports ExecRun
begin

text \<open>
  A concrete run of the execution runtime: one plan is scheduled, leased, dispatched and its
  retryable failure recorded. The properties of the runtime are applied to its states.
\<close>

definition plan1 :: work_item_schedule_plan where
  "plan1 = \<lparr>sp_work_item_id = ''w1'', sp_work_kind = WorkKind ''k'', sp_idempotency_key = ''key1'',
     sp_payload = [(''n'', JInt 1)]\<rparr>"

definition hash1 :: "payload \<Rightarrow> string" where
  "hash1 p = ''h'' @ nat_str (length p)"

definition row1 :: wi_row where
  "row1 = \<lparr>row_id = ''w1'', row_kind = ''k'', row_status = ''ready'', row_attempt_count = 0,
     row_leased_by = None, row_lease_token = None, row_lease_expires_at = None,
     row_last_error_kind = None, row_retry_plan = None, row_created_at = Utc 1,
     row_updated_at = Utc 1\<rparr>"

definition row2 :: wi_row where
  "row2 = row1\<lparr>row_status := ''leased'', row_attempt_count := 1, row_leased_by := Some ''w'',
     row_lease_token := Some ''t'', row_lease_expires_at := Some (Utc 9), row_updated_at := Utc 2\<rparr>"

definition row3 :: wi_row where
  "row3 = row1\<lparr>row_status := ''retryable_failed'', row_attempt_count := 1,
     row_last_error_kind := Some ''e'', row_retry_plan := Some ''retry_same_route'',
     row_updated_at := Utc 5\<rparr>"

definition schedule1 :: schedule_row where
  "schedule1 = \<lparr>sr_work_item_id = ''w1'', sr_idempotency_key = ''key1'', sr_payload_hash = ''h1'',
     sr_payload = [(''n'', JInt 1)]\<rparr>"

definition db1 :: exec_db where
  "db1 = \<lparr>db_items = [row1], db_schedules = [schedule1], db_attempts = [], db_dispatches = []\<rparr>"

definition db2 :: exec_db where
  "db2 = db1\<lparr>db_items := [row2]\<rparr>"

definition dispatch1 :: dispatch_record where
  "dispatch1 = \<lparr>dp_attempt_id = ''a1'', dp_work_item_id = ''w1'', dp_attempt_number = 1,
     dp_lease_token = ''t'', dp_worker_ref = ''w'', dp_schedule_payload = [(''n'', JInt 1)],
     dp_llm_allocation_payload = [], dp_dispatch_payload = [], dp_started_at = Aware (Utc 3)\<rparr>"

definition db3 :: exec_db where
  "db3 = db2\<lparr>db_attempts := [started_attempt_row dispatch1],
     db_dispatches := [started_dispatch_row dispatch1]\<rparr>"

definition outcome1 :: outcome_record where
  "outcome1 = \<lparr>oc_attempt_id = ''a1'', oc_work_item_id = ''w1'', oc_attempt_number = 1,
     oc_lease_token = LeaseToken ''t'', oc_finished_at = Aware (Utc 4),
     oc_outcome_status = OC_RETRYABLE_FAILED, oc_error_kind = Some ''e'',
     oc_retry_plan = Some RETRY_SAME_ROUTE, oc_validation_metadata = None,
     oc_llm_output_payload = None\<rparr>"

definition item3 :: work_item where
  "item3 = \<lparr>wi_id = ''w1'', wi_kind = WorkKind ''k'', wi_status = WI_RETRYABLE_FAILED,
     wi_attempt_count = 1, wi_leased_by = None, wi_lease_token = None, wi_lease_expires_at = None,
     wi_last_error_kind = Some ''e'', wi_retry_plan = Some RETRY_SAME_ROUTE\<rparr>"

definition db4 :: exec_db where
  "db4 = db3\<lparr>db_items := [row3],
     db_attempts := [attempt_outcome_update outcome1 (started_attempt_row dispatch1)]\<rparr>"

lemma plan1_valid: "plan_valid plan1"
  by code_simp

lemma run1: "ensure_work_items_scheduled hash1 (Utc 1) [plan1] empty_db =
    Inr ([\<lparr>eo_plan = plan1, eo_status = ES_CREATED, eo_existing = None\<rparr>], db1)"
  by code_simp

definition item2 :: work_item where
  "item2 = \<lparr>wi_id = ''w1'', wi_kind = WorkKind ''k'', wi_status = WI_LEASED, wi_attempt_count = 1,
     wi_leased_by = Some (WorkerRef ''w''), wi_lease_token = Some (LeaseToken ''t''),
     wi_lease_expires_at = Some (Aware (Utc 9)), wi_last_error_kind = None, wi_retry_plan = None\<rparr>"

lemma run2: "lease_due_work_item (\<lambda>s. s) (\<lambda>_. False) (WorkKind ''k'') (WorkerRef ''w'')
    (LeaseToken ''t'') (Aware (Utc 9)) (Aware (Utc 2)) db1 =
    Inr (Some \<lparr>lr_work_item = item2, lr_schedule_payload = [(''n'', JInt 1)]\<rparr>, db2)"
  by code_simp

lemma run3: "save_started_dispatch_attempt (\<lambda>_. []) dispatch1 db2 = Inr db3"
  by code_simp

lemma run4: "record_attempt_outcome (Utc 5) outcome1 db3 = Inr (item3, db4)"
  by code_simp

lemma step1: "exec_step empty_db db1"
  by (rule exec_step.schedule [OF _ run1]) (simp add: plan1_valid)

lemma step2: "exec_step db1 db2"
proof -
  have "mk_worker_ref ''w'' = Inr (WorkerRef ''w'')" "mk_lease_token ''t'' = Inr (LeaseToken ''t'')"
    by code_simp+
  with run2 show ?thesis by (blast intro: exec_step.lease_next)
qed

lemma step3: "exec_step db2 db3"
proof -
  have "dispatch_record_post_init dispatch1 = Inr dispatch1" by code_simp
  then show ?thesis by (rule exec_step.dispatch [OF _ run3])
qed

lemma step4: "exec_step db3 db4"
proof -
  have "outcome_record_post_init outcome1 = Inr outcome1" by code_simp
  then show ?thesis by (rule exec_step.outcome [OF _ run4])
qed

lemma run_to_db2: "exec_step\<^sup>*\<^sup>* empty_db db2"
  by (rule rtranclp.rtrancl_into_rtrancl [OF r_into_rtranclp [where r = exec_step, OF step1] step2])

lemma run_db1_db4: "exec_step\<^sup>*\<^sup>* db1 db4"
  by (rule rtranclp.rtrancl_into_rtrancl [OF rtranclp.rtrancl_into_rtrancl
        [OF r_into_rtranclp [where r = exec_step, OF step2] step3] step4])

lemma db_ok: "exec_ok db1" "exec_ok db2" "exec_ok db3" "exec_ok db4"
  using exec_step_sound [OF step1 empty_db_ok] exec_step_sound [OF step2]
    exec_step_sound [OF step3] exec_step_sound [OF step4] by simp_all

end
