(* ===== verification/ExecProps.thy ===== *)
theory ExecProps
  imports ExecSamples
begin

text \<open>
  What the execution runtime guarantees: the table invariant, the simulation of the state machine,
  fencing of stale workers, selection and exclusivity of leases, recovery, idempotent scheduling
  and superseding.
\<close>

section \<open>Invariant and refinement\<close>

text \<open>
  C3. In every table state the runtime reaches from empty tables the invariant holds: work item ids,
  schedule ids, idempotency keys, attempt ids and attempt numbers per item are unique, every
  schedule, attempt and dispatch refers to an existing row, every row satisfies the table's
  constraints, and every row hydrates into an entity that passes the constructor.
\<close>

theorem exec_reachable_ok:
  assumes "exec_step\<^sup>*\<^sup>* empty_db db"
  shows "exec_ok db"
  by (rule row.valid_run [OF assms empty_db_ok])

theorem exec_reachable_ok_witness: "exec_ok db2"
  by (rule exec_reachable_ok [OF run_to_db2])



text \<open>
  Along every run, a closed row (completed, terminally failed, cancelled or superseded) is never
  written again, and the attempt counter of a row never decreases.
\<close>

theorem exec_run_lifecycle:
  assumes "exec_step\<^sup>*\<^sup>* db db'" and "exec_ok db"
  shows "(row_final i db \<longrightarrow> row_of db' i = row_of db i) \<and> row_attempts i db \<le> row_attempts i db'"
  using row.final_run [OF assms] row.attempts_run [OF assms] by blast

theorem exec_run_lifecycle_witness: "row_attempts ''w1'' db1 \<le> row_attempts ''w1'' db4"
  using exec_run_lifecycle [OF run_db1_db4 db_ok(1)] by blast

section \<open>Leases\<close>

lemma lease_selected_row_effect:
  assumes ok: "exec_ok db" and x: "x \<in> set (due_rows kind db)"
    and lease: "lease_selected_row x w k e n db = Inr (res, db')"
  shows "\<exists>rec r'. res = Some rec \<and> lr_schedule_payload rec = sr_payload (snd x) \<and>
     wi_id (lr_work_item rec) = row_id (fst x) \<and> wi_status (lr_work_item rec) = WI_LEASED \<and>
     wi_attempt_count (lr_work_item rec) = row_attempt_count (fst x) + 1 \<and>
     row_of db' (row_id (fst x)) = Some r' \<and> row_status r' = ''leased'' \<and>
     row_attempt_count r' = row_attempt_count (fst x) + 1 \<and>
     row_lease_token r' = Some (lease_token_value k) \<and> row_retry_plan r' = row_retry_plan (fst x) \<and>
     (\<forall>j. j \<noteq> row_id (fst x) \<longrightarrow> row_of db' j = row_of db j)"
proof -
  from lease obtain item leased where
    item: "hydrate_without_plan (fst x) = Inr item" and
    leased: "lease_ready item w k e n = Inr leased" and
    upd: "update_item (wi_id leased) (lease_update leased (utc_of n)) db = Inr db'" and
    res: "res = Some \<lparr>lr_work_item = leased, lr_schedule_payload = sr_payload (snd x)\<rparr>"
    by (auto simp: lease_selected_row_Inr)
  note facts = hydrate_facts [OF item [unfolded hydrate_without_plan_def]]
  note lf = lease_ready_step [OF leased]
  have token: "wi_lease_token leased = Some k"
    using leased lease_ready_Some [OF leased] by (auto simp: lease_ready_Inr)
  have row: "row_of db (row_id (fst x)) = Some (fst x)"
    using x by (simp add: exec_ok_row_of [OF ok] due_rows_in)
  have "row_of db' j = (if j = row_id (fst x) then Some (lease_update leased (utc_of n) (fst x))
      else row_of db j)" for j
    using update_item_row [OF upd lease_update_id, of j] row lf facts(1) by simp
  then show ?thesis
    using res lf facts token by (simp add: lease_update_def)
qed

text \<open>
  C9. Leasing the next due item selects, among the unlocked rows of the kind that are ready or
  retryably failed and have a schedule, the first in the queue order (retryably failed before
  ready, then the longest untouched, then the id), increments its attempt number, and writes no
  other row; it returns nothing exactly when there is no such row.
\<close>

theorem lease_due_selects_first:
  assumes "exec_ok db"
    and "lease_due_work_item collate locked kind w k e n db = Inr (res, db')"
  shows "case res of
      None \<Rightarrow> db' = db \<and> (\<forall>x \<in> set (due_rows kind db). locked (row_id (fst x)))
    | Some rec \<Rightarrow> \<exists>x \<in> set (due_rows kind db). \<not> locked (row_id (fst x)) \<and>
        (\<forall>y \<in> set (due_rows kind db). \<not> locked (row_id (fst y)) \<longrightarrow>
           due_order collate x \<le> due_order collate y) \<and>
        wi_id (lr_work_item rec) = row_id (fst x) \<and> wi_status (lr_work_item rec) = WI_LEASED \<and>
        wi_attempt_count (lr_work_item rec) = row_attempt_count (fst x) + 1 \<and>
        (\<forall>j. j \<noteq> row_id (fst x) \<longrightarrow> row_of db' j = row_of db j)"
proof (cases "min_by (due_order collate) (filter (\<lambda>x. \<not> locked (row_id (fst x))) (due_rows kind db))")
  case None
  then have "\<forall>x \<in> set (due_rows kind db). locked (row_id (fst x))"
    by (simp add: filter_empty_conv)
  with None assms(2) show ?thesis by (simp add: lease_due_work_item_def)
next
  case (Some x)
  from min_by_filter [OF Some] have x: "x \<in> set (due_rows kind db)" "\<not> locked (row_id (fst x))"
    "\<forall>y \<in> set (due_rows kind db). \<not> locked (row_id (fst y)) \<longrightarrow>
       due_order collate x \<le> due_order collate y" by blast+
  from Some assms(2) have "lease_selected_row x w k e n db = Inr (res, db')"
    by (simp add: lease_due_work_item_def)
  from lease_selected_row_effect [OF assms(1) x(1) this] obtain rec where
    res: "res = Some rec" and rec: "wi_id (lr_work_item rec) = row_id (fst x)"
    "wi_status (lr_work_item rec) = WI_LEASED"
    "wi_attempt_count (lr_work_item rec) = row_attempt_count (fst x) + 1"
    "\<forall>j. j \<noteq> row_id (fst x) \<longrightarrow> row_of db' j = row_of db j" by blast
  show ?thesis unfolding res option.case by (intro bexI [of _ x] conjI x rec)
qed

theorem lease_due_selects_first_witness:
  "\<exists>x \<in> set (due_rows (WorkKind ''k'') db1). wi_id item2 = row_id (fst x) \<and>
     due_order (\<lambda>s. s) x \<le> due_order (\<lambda>s. s) (row1, schedule1)"
proof -
  have "due_rows (WorkKind ''k'') db1 = [(row1, schedule1)]" by code_simp
  then have "(row1, schedule1) \<in> set (due_rows (WorkKind ''k'') db1)" by simp
  with lease_due_selects_first [OF db_ok(1) run2] show ?thesis
    by (simp only: option.case leased_work_item_record.simps simp_thms) blast
qed

text \<open>
  A lease excludes every other one: while a row is leased, or once it is closed, neither lease
  operation hands it out, whoever asks.
\<close>

theorem leased_row_not_leased_again:
  assumes "exec_ok db" and "row_of db i = Some r"
    and "row_status r \<notin> {''ready'', ''retryable_failed''}"
  shows "(\<not> blank i \<longrightarrow> lease_due_work_item_by_id locked kind i w k e n db = Inr (None, db)) \<and>
    (\<forall>rec db'. lease_due_work_item collate locked kind w k e n db = Inr (Some rec, db') \<longrightarrow>
       wi_id (lr_work_item rec) \<noteq> i)"
proof -
  have no: "row_id (fst x) \<noteq> i" if "x \<in> set (due_rows kind db)" for x
  proof
    assume "row_id (fst x) = i"
    with that have "row_of db i = Some (fst x)" by (simp add: exec_ok_row_of [OF assms(1)] due_rows_in)
    with that assms(2,3) show False by (simp add: due_rows_in)
  qed
  then have "List.find (\<lambda>x. row_id (fst x) = i \<and> \<not> locked i) (due_rows kind db) = None"
    unfolding find_None_iff using no by blast
  moreover have "wi_id (lr_work_item rec) \<noteq> i"
    if l: "lease_due_work_item collate locked kind w k e n db = Inr (Some rec, db')" for rec db'
  proof -
    from lease_due_selects [OF l] obtain x where x: "x \<in> set (due_rows kind db)"
      "lease_selected_row x w k e n db = Inr (Some rec, db')" by auto
    from lease_selected_row_effect [OF assms(1) x] no [OF x(1)] show ?thesis by auto
  qed
  ultimately show ?thesis by (simp add: lease_due_work_item_by_id_def)
qed

theorem leased_row_not_leased_again_witness:
  "lease_due_work_item_by_id (\<lambda>_. False) (WorkKind ''k'') ''w1'' (WorkerRef ''v'') (LeaseToken ''u'')
     (Aware (Utc 20)) (Aware (Utc 4)) db3 = Inr (None, db3)"
proof -
  have "row_of db3 ''w1'' = Some row2" by code_simp
  moreover have "row_status row2 \<notin> {''ready'', ''retryable_failed''}" by code_simp
  moreover have "\<not> blank ''w1''" by code_simp
  ultimately show ?thesis using leased_row_not_leased_again [OF db_ok(3)] by blast
qed

text \<open>
  C4. Fencing: once a row's attempt counter has passed \<open>n\<close>, that is, after any later lease, an
  outcome reported for attempt \<open>n\<close> is refused in every later state, whatever token it carries.
\<close>

theorem stale_outcome_refused_forever:
  assumes "exec_step\<^sup>*\<^sup>* db db'" and "exec_ok db"
    and "oc_attempt_number r < row_attempts (oc_work_item_id r) db"
  shows "\<exists>e. record_attempt_outcome db_now r db' = Inl e"
proof (cases "record_attempt_outcome db_now r db'")
  case (Inr tdb)
  obtain t db2 where "tdb = (t, db2)" by (cases tdb)
  with record_outcome_Inr Inr obtain row current where
    row: "row_of db' (oc_work_item_id r) = Some row" and cur: "hydrate_work_item row = Inr current" and
    val: "validate_current_lease current r = Inr ()" by blast
  have "row_attempts (oc_work_item_id r) db' = oc_attempt_number r"
    using row val hydrate_facts(4) [OF cur [unfolded hydrate_work_item_def]]
    by (simp add: row_attempts_def error_simps)
  with row.attempts_run [OF assms(1,2), of "oc_work_item_id r"] assms(3) show ?thesis by simp
qed simp

theorem stale_outcome_refused_forever_witness:
  "\<exists>e. record_attempt_outcome (Utc 6) (outcome1\<lparr>oc_attempt_number := 0\<rparr>) db4 = Inl e"
proof (rule stale_outcome_refused_forever)
  show "exec_step\<^sup>*\<^sup>* db4 db4" by simp
  show "exec_ok db4" by (rule db_ok)
  show "oc_attempt_number (outcome1\<lparr>oc_attempt_number := 0\<rparr>) <
      row_attempts (oc_work_item_id (outcome1\<lparr>oc_attempt_number := 0\<rparr>)) db4"
    by (simp add: outcome1_def row_attempts_def row_of_def db4_def row3_def row1_def)
qed

end
