(* ===== verification/ExecOutcomes.thy ===== *)
theory ExecOutcomes
  imports ExecProps
begin

text \<open>
  The outcome of an attempt: when it is accepted and what it does to the item and the attempt, and
  what the statements that do not write the retry plan leave behind.
\<close>

section \<open>Constraints of written rows\<close>

lemma status_value_in [simp]: "wi_status_value s \<in> set (map wi_status_value all_statuses)"
  by (cases s) (simp_all add: all_statuses_def)

lemma retry_plan_value_in [simp]: "retry_plan_value p \<in> set (map retry_plan_value all_retry_plans)"
  by (cases p) (simp_all add: all_retry_plans_def)

lemma leased_value: "wi_status_value s = ''leased'' \<longleftrightarrow> s = WI_LEASED"
  by (cases s) simp_all

lemma row_check_outcome_update:
  assumes "row_check r" "work_item_ok t" "row_created_at r \<le> now"
  shows "row_check (outcome_update t now r)"
  using assms
  by (cases "wi_retry_plan t")
    (auto simp: row_check_def row_lease_shape_def outcome_update_def set_retry_plan_column_def
      leased_value utc_column_def work_item_ok_def lease_shape_def simp del: set_map)

lemma row_check_frame_update:
  assumes "list_all row_check (db_items db)" "\<And>r. row_of db i = Some r \<Longrightarrow> row_check (f r)"
    and "distinct (map row_id (db_items db))"
  shows "\<exists>db'. update_item i f db = Inr db'"
  using assms row_of_iff [OF assms(3), of i]
  by (auto simp: update_item_def update_items_def Let_def list_all_iff)

lemma filter_unique:
  assumes "distinct (map k xs)" "x \<in> set xs" "P x" "\<And>y. P y \<Longrightarrow> k y = k x"
  shows "filter P xs = [x]"
proof -
  from assms(2) obtain ys zs where xs: "xs = ys @ x # zs" by (auto dest: split_list)
  have "\<not> P y" if "y \<in> set ys \<union> set zs" for y
  proof
    assume "P y"
    then have "k y = k x" by (rule assms(4))
    moreover have "k y \<in> set (map k ys) \<union> set (map k zs)" using that by auto
    ultimately show False using assms(1) by (auto simp: xs)
  qed
  then have "filter P ys = []" "filter P zs = []" by (auto simp: filter_empty_conv)
  then show ?thesis using assms(3) by (simp add: xs)
qed

section \<open>Recording an outcome\<close>

definition status_after :: "attempt_outcome_status \<Rightarrow> work_item_status" where
  "status_after s = (case s of OC_SUCCEEDED \<Rightarrow> WI_LEASED | OC_RETRYABLE_FAILED \<Rightarrow> WI_RETRYABLE_FAILED
     | OC_TERMINAL_FAILED \<Rightarrow> WI_TERMINAL_FAILED)"

lemma transition_work_item_total:
  assumes "outcome_record_post_init r = Inr r" "work_item_ok i" "wi_status i = WI_LEASED"
  shows "\<exists>t. transition_work_item i r = Inr t \<and> wi_status t = status_after (oc_outcome_status r) \<and>
     wi_attempt_count t = wi_attempt_count i \<and>
     (oc_outcome_status r \<noteq> OC_SUCCEEDED \<longrightarrow>
        wi_retry_plan t = oc_retry_plan r \<and> wi_last_error_kind t = oc_error_kind r) \<and>
     (oc_outcome_status r = OC_SUCCEEDED \<longrightarrow> t = i)"
  using assms
  by (cases "oc_outcome_status r")
    (auto simp: outcome_record_post_init_def transition_work_item_def status_after_def
      transition_defs error_simps split: option.splits if_splits)

lemma writes_ids: "writes i t \<Longrightarrow> wi_id t = wi_id i \<and> work_item_ok t \<and> item_texts_ok t \<and> wi_kind t = wi_kind i"
  by (simp add: writes_def)

text \<open>
  C21. The worker that holds the lease can report: for a leased row, an outcome record that carries
  the lease's token and attempt number, of an attempt that was started before it finished, is
  accepted. Success keeps the item leased for the domain step that follows, a retryable failure
  makes it \<open>retryable_failed\<close> with the record's plan and error, a terminal one \<open>terminal_failed\<close>;
  the stored row reads back as the returned entity and the attempt row carries the outcome.
\<close>

theorem current_outcome_accepted:
  assumes ok: "exec_ok db" and r: "outcome_record_post_init r = Inr r"
    and row: "row_of db (oc_work_item_id r) = Some row" "row_status row = ''leased''"
    "row_lease_token row = Some (lease_token_value (oc_lease_token r))"
    "row_attempt_count row = oc_attempt_number r" "row_created_at row \<le> db_now"
    and at: "a \<in> set (db_attempts db)" "attempt_matches r a"
    "ar_started_at a \<le> utc_of (oc_finished_at r)"
  shows "\<exists>t db'. record_attempt_outcome db_now r db = Inr (t, db') \<and>
     wi_status t = status_after (oc_outcome_status r) \<and>
     wi_attempt_count t = oc_attempt_number r \<and>
     (oc_outcome_status r \<noteq> OC_SUCCEEDED \<longrightarrow>
        wi_retry_plan t = oc_retry_plan r \<and> wi_last_error_kind t = oc_error_kind r) \<and>
     map_option hydrate_work_item (row_of db' (oc_work_item_id r)) = Some (Inr t) \<and>
     attempt_outcome_update r a \<in> set (db_attempts db')"
proof -
  have chk: "row_check row" and "hydratable row" using exec_ok_row [OF ok row(1)] by auto
  then obtain cur where cur: "hydrate_work_item row = Inr cur" by (auto simp: hydratable_def)
  note facts = hydrate_facts [OF cur [unfolded hydrate_work_item_def]]
  have leased: "wi_status cur = WI_LEASED" using facts(3) row(2) leased_value by metis
  have "wi_lease_token cur = Some (oc_lease_token r)"
    using facts(7) row(3) by (cases "wi_lease_token cur") (auto intro: lease_token.expand)
  then have val: "validate_current_lease cur r = Inr ()"
    using leased facts(4) row(4) by (simp add: error_simps)
  from transition_work_item_total [OF r facts(6) leased] obtain t where
    t: "transition_work_item cur r = Inr t" "wi_status t = status_after (oc_outcome_status r)"
    "wi_attempt_count t = wi_attempt_count cur"
    "oc_outcome_status r \<noteq> OC_SUCCEEDED \<longrightarrow>
        wi_retry_plan t = oc_retry_plan r \<and> wi_last_error_kind t = oc_error_kind r" by blast
  note w = writes_ids [OF transition_writes [OF facts(6,5) leased t(1)]]
  have id: "wi_id t = oc_work_item_id r" using w facts(1) row_of_SomeD [OF row(1)] by simp
  have da: "distinct (map ar_attempt_id (db_attempts db))" and ca: "\<forall>x \<in> set (db_attempts db). attempt_check x"
    and di: "distinct (map row_id (db_items db))" and ci: "list_all row_check (db_items db)"
    using ok by (auto simp: exec_ok_parts list_all_iff)
  have one: "filter (attempt_matches r) (db_attempts db) = [a]"
    by (rule filter_unique [OF da at(1)]) (use at(2) in \<open>simp_all add: attempt_matches_def\<close>)
  have "attempt_check (attempt_outcome_update r x)"
    if x: "x \<in> set (db_attempts db)" "attempt_matches r x" for x
  proof -
    have "x \<in> set (filter (attempt_matches r) (db_attempts db))" using x by simp
    then have "x = a" by (simp add: one)
    with at ca show ?thesis by (auto simp: attempt_check_def attempt_outcome_update_def)
  qed
  with ca have "list_all attempt_check (map (\<lambda>x. if attempt_matches r x
      then attempt_outcome_update r x else x) (db_attempts db))" by (auto simp: list_all_iff)
  then obtain db1 where db1: "update_attempts (attempt_matches r) (attempt_outcome_update r) db = Inr db1"
    by (simp add: update_attempts_def Let_def)
  then have items: "db_items db1 = db_items db" and ratt: "row_of db1 = row_of db"
    by (auto simp: update_attempts_Inr)
  have "\<exists>db2. update_item (oc_work_item_id r) (outcome_update t db_now) db1 = Inr db2"
    using ci di row(1) row_check_outcome_update [OF chk _ row(5), of t] w
    by (intro row_check_frame_update) (auto simp: items ratt)
  then obtain db2 where db2: "update_item (oc_work_item_id r) (outcome_update t db_now) db1 = Inr db2" ..
  have "filter (\<lambda>x. row_id x = oc_work_item_id r) (db_items db) = [row]"
    by (rule filter_unique [OF di]) (use row_of_SomeD [OF row(1)] in auto)
  with one db1 db2 id val t(1) row(1) cur have "record_attempt_outcome db_now r db = Inr (t, db2)"
    by (simp add: record_attempt_outcome_def)
  moreover have "row_of db2 (oc_work_item_id r) = Some (outcome_update t db_now row)"
    using update_item_row [OF db2, of "oc_work_item_id r"] row(1) by (simp add: ratt)
  moreover have "hydrate_work_item (outcome_update t db_now row) = Inr t"
    by (rule hydrate_outcome_update) (use w facts in simp_all)
  moreover have "attempt_outcome_update r a \<in> set (db_attempts db2)"
    using db1 db2 at by (force simp: update_attempts_Inr update_item_def update_items_Inr)
  ultimately show ?thesis using t facts(4) row(4) by auto
qed

theorem current_outcome_accepted_witness:
  "\<exists>t db'. record_attempt_outcome (Utc 5) outcome1 db3 = Inr (t, db') \<and>
     wi_status t = WI_RETRYABLE_FAILED \<and> wi_retry_plan t = Some RETRY_SAME_ROUTE"
proof -
  have 1: "outcome_record_post_init outcome1 = Inr outcome1"
    and 2: "row_of db3 (oc_work_item_id outcome1) = Some row2"
    and 3: "row_status row2 = ''leased''"
    and 4: "row_lease_token row2 = Some (lease_token_value (oc_lease_token outcome1))"
    and 5: "row_attempt_count row2 = oc_attempt_number outcome1" and 6: "row_created_at row2 \<le> Utc 5"
    and 7: "attempt_matches outcome1 (started_attempt_row dispatch1)"
    and 8: "ar_started_at (started_attempt_row dispatch1) \<le> utc_of (oc_finished_at outcome1)"
    by code_simp+
  have 9: "started_attempt_row dispatch1 \<in> set (db_attempts db3)" by (simp add: db3_def)
  from current_outcome_accepted [OF db_ok(3) 1 2 3 4 5 6 9 7 8] show ?thesis
    by (auto simp: status_after_def outcome1_def)
qed

section \<open>The retry plan column\<close>

text \<open>
  The lease statement does not write the \<open>retry_plan\<close> column, although the state machine clears
  the plan on a lease: the entity the caller receives has no plan while the leased row still
  carries the plan of the failure before, which is what the outcome repository hydrates.
\<close>

theorem lease_keeps_retry_plan_column:
  assumes "exec_ok db"
    and "lease_due_work_item collate locked kind w k e n db = Inr (Some rec, db')"
  shows "\<exists>r r'. row_of db (wi_id (lr_work_item rec)) = Some r \<and>
     row_of db' (wi_id (lr_work_item rec)) = Some r' \<and> row_status r' = ''leased'' \<and>
     wi_retry_plan (lr_work_item rec) = None \<and> row_retry_plan r' = row_retry_plan r"
proof -
  from lease_due_selects [OF assms(2)] obtain x where x: "x \<in> set (due_rows kind db)"
    and l: "lease_selected_row x w k e n db = Inr (Some rec, db')" by auto
  from lease_selected_row_effect [OF assms(1) x l] obtain r' where
    e: "wi_id (lr_work_item rec) = row_id (fst x)" "row_of db' (row_id (fst x)) = Some r'"
    "row_status r' = ''leased''" "row_retry_plan r' = row_retry_plan (fst x)" by blast
  have "wi_retry_plan (lr_work_item rec) = None"
    using l lease_ready_Some by (fastforce simp: lease_selected_row_Inr lease_ready_Inr)
  moreover have "row_of db (row_id (fst x)) = Some (fst x)"
    using x by (simp add: exec_ok_row_of [OF assms(1)] due_rows_in)
  ultimately show ?thesis using e by auto
qed

definition db5 :: exec_db where
  "db5 = db4\<lparr>db_items := [row3\<lparr>row_status := ''leased'', row_attempt_count := 2,
     row_leased_by := Some ''w'', row_lease_token := Some ''u'', row_lease_expires_at := Some (Utc 20),
     row_last_error_kind := None, row_updated_at := Utc 6\<rparr>]\<rparr>"

lemma run5: "lease_due_work_item (\<lambda>s. s) (\<lambda>_. False) (WorkKind ''k'') (WorkerRef ''w'')
    (LeaseToken ''u'') (Aware (Utc 20)) (Aware (Utc 6)) db4 =
    Inr (Some \<lparr>lr_work_item = item2\<lparr>wi_attempt_count := 2, wi_lease_token := Some (LeaseToken ''u''),
       wi_lease_expires_at := Some (Aware (Utc 20))\<rparr>, lr_schedule_payload = [(''n'', JInt 1)]\<rparr>, db5)"
  by code_simp

theorem lease_keeps_retry_plan_column_witness:
  "\<exists>r'. row_of db5 ''w1'' = Some r' \<and> row_status r' = ''leased'' \<and>
     row_retry_plan r' = Some ''retry_same_route''"
proof -
  have "row_of db4 ''w1'' = Some row3" by code_simp
  then show ?thesis using lease_keeps_retry_plan_column [OF db_ok(4) run5]
    by (auto simp: item2_def row3_def)
qed

end
