(* ===== verification/ExecScheduling.thy ===== *)
theory ExecScheduling
  imports ExecOutcomes
begin

text \<open>
  Scheduling is idempotent for ever, recovery frees exactly the expired leases, superseding is all
  or nothing, and an attempt is dispatched once.
\<close>

section \<open>Schedules are never lost\<close>

lemma insert_item_schedules: "insert_item r db = Inr db' \<Longrightarrow> db_schedules db' = db_schedules db"
  by (auto simp: insert_item_def split: if_splits)

lemma insert_schedule_schedules: "insert_schedule s db = Inr db' \<Longrightarrow> db_schedules db' = db_schedules db @ [s]"
  by (auto simp: insert_schedule_def split: if_splits)

lemma ensure_plan_schedules:
  assumes "ensure_plan hash now p db = Inr (o1, db')"
  shows "\<exists>xs. db_schedules db' = db_schedules db @ xs"
  using ensure_plan_cases [OF assms] insert_item_schedules insert_schedule_schedules by fastforce

lemma ensure_plans_schedules:
  "ensure_plans hash now ps db = Inr (os, db') \<Longrightarrow> \<exists>xs. db_schedules db' = db_schedules db @ xs"
proof (induction ps arbitrary: db os)
  case Nil
  then show ?case by simp
next
  case (Cons p ps)
  then obtain o1 db1 os2 where "ensure_plan hash now p db = Inr (o1, db1)"
    "ensure_plans hash now ps db1 = Inr (os2, db')" by auto
  with Cons.IH ensure_plan_schedules show ?case by fastforce
qed

lemma lease_selected_schedules:
  "lease_selected_row x w k e n db = Inr (res, db') \<Longrightarrow> db_schedules db' = db_schedules db"
  by (auto simp: lease_selected_row_Inr update_item_def update_items_Inr)

lemma supersede_all_schedules:
  "supersede_all now ids db = Inr (out, db') \<Longrightarrow> db_schedules db' = db_schedules db"
proof (induction ids arbitrary: db out)
  case Nil
  then show ?case by simp
next
  case (Cons i ids)
  then obtain item where item: "load_work_item i db = Inr (Some item)" by (auto split: option.splits)
  show ?case
  proof (cases "wi_status item = WI_SPLIT_SUPERSEDED")
    case True
    with item Cons show ?thesis by auto
  next
    case False
    with item Cons.prems obtain t db1 out' where
      "save_work_item now t db = Inr db1" "supersede_all now ids db1 = Inr (out', db')" by auto
    with Cons.IH [OF this(2)] show ?thesis
      by (auto simp: save_work_item_def update_item_def update_items_Inr)
  qed
qed

lemma exec_step_schedules:
  assumes "exec_step db db'"
  shows "\<exists>xs. db_schedules db' = db_schedules db @ xs"
  using assms
proof cases
  case schedule
  then show ?thesis by (auto simp: ensure_work_items_scheduled_def dest: ensure_plans_schedules)
next
  case lease_next
  then show ?thesis by (auto dest!: lease_due_selects lease_selected_schedules)
next
  case lease_by_id
  then show ?thesis by (auto dest!: lease_by_id_selects lease_selected_schedules)
next
  case (dispatch d dumps)
  then show ?thesis
    by (auto simp: save_started_dispatch_attempt_def insert_attempt_def insert_dispatch_def
        split: option.splits if_splits)
next
  case outcome
  then show ?thesis
    by (auto dest!: record_outcome_Inr simp: update_attempts_Inr update_item_def update_items_Inr)
next
  case complete
  then show ?thesis
    by (auto simp: complete_work_item_after_domain_apply_def update_item_def update_items_Inr
        split: option.splits)
next
  case reclaim
  then show ?thesis
    by (auto dest!: reclaim_expired_Inr simp: Let_def update_attempts_Inr update_items_Inr)
next
  case supersede
  then show ?thesis
    by (auto simp: supersede_waiting_work_items_for_split_def dest: supersede_all_schedules)
qed

section \<open>Idempotent scheduling\<close>

definition scheduled :: "(payload \<Rightarrow> string) \<Rightarrow> work_item_schedule_plan \<Rightarrow> exec_db \<Rightarrow> bool" where
  "scheduled hash p db \<longleftrightarrow> row_of db (sp_work_item_id p) \<noteq> None \<and>
     get_schedule_payload_hash (sp_work_item_id p) db = Some (hash (sp_payload p))"

lemma hash_append:
  "get_schedule_payload_hash i db = Some h \<Longrightarrow> db_schedules db' = db_schedules db @ xs \<Longrightarrow>
   get_schedule_payload_hash i db' = Some h"
  by (auto simp: get_schedule_payload_hash_def dest: find_append_Some)

lemma scheduled_mono:
  assumes "scheduled hash p db" "db_schedules db' = db_schedules db @ xs"
    and "\<And>r. row_of db (sp_work_item_id p) = Some r \<Longrightarrow> row_of db' (sp_work_item_id p) \<noteq> None"
  shows "scheduled hash p db'"
  using assms hash_append unfolding scheduled_def by blast

lemma scheduled_run:
  assumes "exec_step\<^sup>*\<^sup>* db db'" "exec_ok db" "scheduled hash p db"
  shows "scheduled hash p db'"
  using assms
proof (induction rule: rtranclp_induct)
  case base
  then show ?case by simp
next
  case (step s t)
  have "rows_move s t" using exec_step_sound [OF step(2)] row.valid_run [OF step(1)] step.prems by blast
  moreover obtain xs where "db_schedules t = db_schedules s @ xs"
    using exec_step_schedules [OF step(2)] by blast
  ultimately show ?case
    using step by (auto intro!: scheduled_mono [of hash p s] simp: rows_move_def)
qed

lemma ensure_plan_scheduled:
  assumes "ensure_plan hash now p db = Inr (o1, db')" "eo_status o1 \<noteq> ES_CONFLICT" "exec_ok db"
  shows "scheduled hash p db'"
proof (cases "row_of db (sp_work_item_id p)")
  case None
  from None assms(1) obtain w where w: "new_work_item (sp_work_item_id p) (sp_work_kind p) = Inr w"
    and sv: "save_scheduled_work_item now w (sp_idempotency_key p) (hash (sp_payload p))
        (sp_payload p) db = Inr db'"
    by (auto simp: ensure_plan_def get_work_item_def Let_def)
  have id: "wi_id w = sp_work_item_id p" using w by (auto simp: error_simps)
  from sv obtain db1 where ins: "insert_item (inserted_row now w) db = Inr db1"
    and sch: "insert_schedule \<lparr>sr_work_item_id = wi_id w, sr_idempotency_key = sp_idempotency_key p,
        sr_payload_hash = hash (sp_payload p), sr_payload = sp_payload p\<rparr> db1 = Inr db'"
    and h: "get_schedule_payload_hash (wi_id w) db' = Some (hash (sp_payload p))"
    by (auto simp: save_scheduled_work_item_def get_schedule_payload_hash_def
        split: option.splits if_splits)
  have "List.find (\<lambda>r. row_id r = wi_id w) (db_items db') \<noteq> None"
    using ins sch
    by (auto simp: insert_item_def insert_schedule_def find_None_iff inserted_row_def split: if_splits)
  with h show ?thesis by (simp add: scheduled_def row_of_def id)
next
  case (Some r)
  with assms show ?thesis
    by (auto simp: ensure_plan_def get_work_item_def Let_def scheduled_def split: if_splits)
qed

lemma ensure_plan_again:
  assumes "scheduled hash p db" "exec_ok db"
  shows "\<exists>i. ensure_plan hash now p db =
    Inr (\<lparr>eo_plan = p, eo_status = ES_ALREADY_EXISTS, eo_existing = Some i\<rparr>, db)"
proof -
  from assms(1) obtain r where r: "row_of db (sp_work_item_id p) = Some r" by (auto simp: scheduled_def)
  with exec_ok_row [OF assms(2)] hydratableD obtain i where "hydrate_without_plan r = Inr i" by blast
  with r assms(1) show ?thesis by (simp add: ensure_plan_def get_work_item_def scheduled_def)
qed

lemma ensure_plans_again:
  assumes "list_all (\<lambda>p. scheduled hash p db) ps" "exec_ok db"
  shows "\<exists>os. ensure_plans hash now ps db = Inr (os, db) \<and>
    map eo_status os = map (\<lambda>_. ES_ALREADY_EXISTS) ps"
  using assms(1)
proof (induction ps)
  case Nil
  then show ?case by simp
next
  case (Cons p ps)
  then obtain os where os: "ensure_plans hash now ps db = Inr (os, db)"
    "map eo_status os = map (\<lambda>_. ES_ALREADY_EXISTS) ps" by auto
  from Cons.prems ensure_plan_again [OF _ assms(2), of hash p now] obtain i where
    "ensure_plan hash now p db =
      Inr (\<lparr>eo_plan = p, eo_status = ES_ALREADY_EXISTS, eo_existing = Some i\<rparr>, db)" by auto
  with os show ?case by simp
qed

lemma ensure_plans_scheduled:
  assumes "ensure_plans hash now ps db = Inr (os, db')" "list_all plan_valid ps" "exec_ok db"
    and "\<forall>x \<in> set os. eo_status x \<noteq> ES_CONFLICT"
  shows "list_all (\<lambda>p. scheduled hash p db') ps"
  using assms
proof (induction ps arbitrary: db os)
  case Nil
  then show ?case by simp
next
  case (Cons p ps)
  then obtain o1 db1 os2 where 1: "ensure_plan hash now p db = Inr (o1, db1)"
    and 2: "ensure_plans hash now ps db1 = Inr (os2, db')" and os: "os = o1 # os2" by auto
  have ok1: "exec_ok db1" using ensure_plan_step [OF Cons.prems(3) _ 1] Cons.prems(2) by simp
  have "scheduled hash p db1" using ensure_plan_scheduled [OF 1] Cons.prems os by simp
  moreover obtain xs where "db_schedules db' = db_schedules db1 @ xs"
    using ensure_plans_schedules [OF 2] by blast
  moreover have "rows_keep db1 db'" using ensure_plans_step [OF ok1 _ 2] Cons.prems(2) by simp
  ultimately have "scheduled hash p db'"
    by (auto intro!: scheduled_mono [of hash p db1] simp: rows_keep_def)
  moreover have "list_all (\<lambda>p. scheduled hash p db') ps"
    by (rule Cons.IH [OF 2]) (use Cons.prems ok1 os in simp_all)
  ultimately show ?case by simp
qed

text \<open>
  C7. Scheduling is idempotent: once a batch of plans was scheduled without a conflict, scheduling
  the same batch again, in any later state the runtime reaches, reports every plan as already
  existing and changes nothing.
\<close>

theorem scheduling_idempotent:
  assumes "exec_ok db" and "list_all plan_valid plans"
    and "ensure_work_items_scheduled hash db_now plans db = Inr (os, db')"
    and "\<forall>x \<in> set os. eo_status x \<noteq> ES_CONFLICT" and "exec_step\<^sup>*\<^sup>* db' later"
  shows "\<exists>os'. ensure_work_items_scheduled hash db_now' plans later = Inr (os', later) \<and>
    map eo_status os' = map (\<lambda>_. ES_ALREADY_EXISTS) plans"
proof -
  from assms(3) have u: "unique_plan_ids [] plans = Inr ()"
    and e: "ensure_plans hash db_now plans db = Inr (os, db')"
    by (auto simp: ensure_work_items_scheduled_def)
  have ok': "exec_ok db'" using ensure_plans_step [OF assms(1,2) e] by simp
  have "list_all (\<lambda>p. scheduled hash p later) plans"
    using ensure_plans_scheduled [OF e assms(2,1,4)] scheduled_run [OF assms(5) ok']
    by (auto simp: list_all_iff)
  from ensure_plans_again [OF this row.valid_run [OF assms(5) ok'], of db_now'] u show ?thesis
    by (simp add: ensure_work_items_scheduled_def)
qed

theorem scheduling_idempotent_witness:
  "\<exists>os'. ensure_work_items_scheduled hash1 (Utc 7) [plan1] db4 = Inr (os', db4) \<and>
    map eo_status os' = [ES_ALREADY_EXISTS]"
proof -
  have "list_all plan_valid [plan1]" by (simp add: plan1_valid)
  from scheduling_idempotent [OF empty_db_ok this run1 _ run_db1_db4, of "Utc 7"] show ?thesis by simp
qed

end
