(* ===== verification/ExecRecovery.thy ===== *)
theory ExecRecovery
  imports ExecScheduling
begin

text \<open>
  Recovery of expired leases frees exactly the expired rows, superseding is all or nothing, and an
  attempt is dispatched once.
\<close>

section \<open>Recovery\<close>

lemma required_texts:
  assumes "\<forall>v \<in> set vs. \<not> blank v"
  shows "traverseE required_text vs = Inr vs"
  using assms by (induction vs) (auto simp: required_text_def)

lemma required_texts_same: "traverseE required_text vs = Inr ws \<Longrightarrow> ws = vs"
  by (induction vs arbitrary: ws) (auto simp: required_text_def split: if_splits)

lemma row_check_release:
  assumes "row_check r"
  shows "row_check (release_expired t r)"
  using assms by (auto simp: row_check_def row_lease_shape_def release_expired_def all_statuses_def)

lemma attempt_check_close:
  assumes "attempt_check a" "ar_started_at a \<le> t"
  shows "attempt_check (close_abandoned t a)"
  using assms by (auto simp: attempt_check_def close_abandoned_def coalesce_def split: option.splits)

lemma hydratable_text: "exec_ok db \<Longrightarrow> r \<in> set (db_items db) \<Longrightarrow> \<not> blank (row_id r)"
  by (auto simp: exec_ok_parts hydratable_def hydrate_work_item_def hydrate_columns_iff
      work_item_ok_def)

lemma expired_rows_length:
  "length (expired_rows collate locked t n db) =
     min n (length (filter (\<lambda>r. lease_expired t r \<and> \<not> locked (row_id r)) (db_items db)))"
  by (simp add: expired_rows_def)

lemma expired_rows_all:
  assumes "length (filter (\<lambda>r. lease_expired t r \<and> \<not> locked (row_id r)) (db_items db)) \<le> n"
  shows "set (expired_rows collate locked t n db) =
    {r \<in> set (db_items db). lease_expired t r \<and> \<not> locked (row_id r)}"
  using assms by (auto simp: expired_rows_def)

lemma expired_rows_distinct:
  assumes "exec_ok db"
  shows "distinct (map row_id (expired_rows collate locked t n db))"
proof -
  let ?xs = "filter (\<lambda>r. lease_expired t r \<and> \<not> locked (row_id r)) (db_items db)"
  have "distinct (map row_id (db_items db))" using assms by (simp add: exec_ok_parts)
  then have "distinct (map row_id ?xs)" by (rule distinct_map_filter)
  then have "distinct (map row_id (sort_key (expiry_order collate) ?xs))"
    by (simp add: distinct_map)
  then show ?thesis unfolding expired_rows_def take_map [symmetric] by (rule distinct_take)
qed

text \<open>
  C22. Recovery is total and exact: with a positive limit and attempts that started in the past it
  succeeds; it releases as many of the expired, unlocked leases as the limit allows, each to a
  ready row without lease fields, writes no other row, and leaves no expired unlocked lease behind
  when the limit covers them all.
\<close>

theorem reclaim_expired_exact:
  assumes ok: "exec_ok db" and lim: "0 < limit"
    and past: "\<forall>a \<in> set (db_attempts db). ar_started_at a \<le> t"
    and names: "\<forall>a \<in> set (db_attempts db). \<not> blank (ar_attempt_id a)"
  shows "\<exists>rec db'. reclaim_expired collate locked (Aware t) limit db = Inr (rec, db') \<and>
     distinct (reclaimed_work_item_ids rec) \<and>
     length (reclaimed_work_item_ids rec) = min (nat limit)
       (length (filter (\<lambda>r. lease_expired t r \<and> \<not> locked (row_id r)) (db_items db))) \<and>
     (\<forall>i r. row_of db i = Some r \<longrightarrow> row_of db' i = Some
        (if i \<in> set (reclaimed_work_item_ids rec) then release_expired t r else r)) \<and>
     (\<forall>i \<in> set (reclaimed_work_item_ids rec). \<exists>r. row_of db i = Some r \<and> lease_expired t r \<and> \<not> locked i) \<and>
     (length (filter (\<lambda>r. lease_expired t r \<and> \<not> locked (row_id r)) (db_items db)) \<le> nat limit \<longrightarrow>
        (\<forall>r \<in> set (db_items db). lease_expired t r \<longrightarrow> \<not> locked (row_id r) \<longrightarrow>
           row_id r \<in> set (reclaimed_work_item_ids rec)))"
proof -
  define expired where "expired = expired_rows collate locked t (nat limit) db"
  define ids where "ids = sort_key collate (map row_id expired)"
  have "list_all attempt_check (map (\<lambda>a. if abandoned_by expired a then close_abandoned t a else a)
      (db_attempts db))"
    using ok past by (auto simp: list_all_iff exec_ok_parts attempt_check_close)
  then obtain db1 where db1: "update_attempts (abandoned_by expired) (close_abandoned t) db = Inr db1"
    by (simp add: update_attempts_def Let_def)
  then have items: "db_items db1 = db_items db" by (auto simp: update_attempts_Inr)
  have "list_all row_check (map (\<lambda>r. if row_id r \<in> set (map row_id expired)
      then release_expired t r else r) (db_items db))"
    using ok by (auto simp: list_all_iff exec_ok_parts row_check_release)
  then obtain db2 where db2: "update_items (\<lambda>r. row_id r \<in> set (map row_id expired))
      (release_expired t) db1 = Inr db2"
    by (simp add: update_items_def Let_def items)
  have sub: "set expired \<subseteq> set (db_items db)" using expired_rows_in expired_def by blast
  have 1: "traverseE required_text ids = Inr ids"
    using sub hydratable_text [OF ok] by (intro required_texts) (auto simp: ids_def)
  define closed where "closed = concat (map (\<lambda>i. map ar_attempt_id
      (filter (\<lambda>a. ar_work_item_id a = i \<and> abandoned_by expired a) (db_attempts db))) ids)"
  have 2: "traverseE required_text closed = Inr closed"
    using names by (intro required_texts) (auto simp: closed_def)
  define rec where "rec = \<lparr>reclaimed_work_item_ids = ids, closed_attempt_ids = closed\<rparr>"
  have run: "reclaim_expired collate locked (Aware t) limit db = Inr (rec, db2)"
    using lim db1 db2 1 2
    unfolding reclaim_expired_def datetime.case Let_def
      expired_def [symmetric] ids_def [symmetric] closed_def [symmetric]
    by (simp add: rec_def)
  have ids: "set ids = set (map row_id expired)" by (simp add: ids_def)
  have rows: "row_of db2 i = Some (if i \<in> set ids then release_expired t r else r)"
    if r: "row_of db i = Some r" for i r
    using update_items_row [OF db2, of i] r row_of_SomeD [OF r] ids
    by (simp add: row_of_def items)
  have each: "\<exists>r. row_of db i = Some r \<and> lease_expired t r \<and> \<not> locked i" if "i \<in> set ids" for i
  proof -
    from that ids obtain r where "r \<in> set expired" "row_id r = i" by auto
    then show ?thesis
      using expired_rows_in exec_ok_row_of [OF ok] unfolding expired_def by blast
  qed
  have d: "distinct ids" "length ids = length expired"
    using expired_rows_distinct [OF ok] by (simp_all add: ids_def expired_def)
  have all: "row_id r \<in> set ids"
    if "length (filter (\<lambda>r. lease_expired t r \<and> \<not> locked (row_id r)) (db_items db)) \<le> nat limit"
      "r \<in> set (db_items db)" "lease_expired t r" "\<not> locked (row_id r)" for r
    using expired_rows_all [OF that(1), of collate] that unfolding ids expired_def by simp
  show ?thesis
    using run rows each d all expired_rows_length [of collate locked t "nat limit" db]
    by (intro exI [of _ rec] exI [of _ db2]) (simp add: rec_def expired_def)
qed

theorem reclaim_expired_exact_witness:
  "\<exists>rec db'. reclaim_expired (\<lambda>s. s) (\<lambda>_. False) (Aware (Utc 9)) 5 db3 = Inr (rec, db') \<and>
     row_of db' ''w1'' = Some (release_expired (Utc 9) row2)"
proof -
  have row: "row_of db3 ''w1'' = Some row2" and
    one: "length (filter (\<lambda>r. lease_expired (Utc 9) r \<and> \<not> False) (db_items db3)) = 1"
    and p: "\<forall>a \<in> set (db_attempts db3). ar_started_at a \<le> Utc 9"
    and n: "\<forall>a \<in> set (db_attempts db3). \<not> blank (ar_attempt_id a)"
    by code_simp+
  from reclaim_expired_exact [OF db_ok(3) _ p n, of 5 "\<lambda>s. s" "\<lambda>_. False"] obtain rec db' where
    r: "reclaim_expired (\<lambda>s. s) (\<lambda>_. False) (Aware (Utc 9)) 5 db3 = Inr (rec, db')"
    and len: "length (reclaimed_work_item_ids rec) = 1"
    and rows: "\<forall>i r. row_of db3 i = Some r \<longrightarrow> row_of db' i = Some
        (if i \<in> set (reclaimed_work_item_ids rec) then release_expired (Utc 9) r else r)"
    and each: "\<forall>i \<in> set (reclaimed_work_item_ids rec). \<exists>r. row_of db3 i = Some r \<and> lease_expired (Utc 9) r \<and> \<not> False"
    using one by auto
  from len obtain i where i: "reclaimed_work_item_ids rec = [i]" by (auto simp: length_Suc_conv)
  with each obtain r' where "row_of db3 i = Some r'" by auto
  then have "i = ''w1''" by (auto simp: row_of_def db3_def db2_def db1_def row2_def row1_def split: if_splits)
  with i rows row r show ?thesis by auto
qed

section \<open>Superseding\<close>

definition supersedable :: "exec_db \<Rightarrow> string \<Rightarrow> bool" where
  "supersedable db i \<longleftrightarrow> (\<exists>r. row_of db i = Some r \<and>
     row_status r \<in> {''ready'', ''retryable_failed'', ''split_superseded''})"

lemma row_check_written:
  assumes "row_check r" "work_item_ok t" "row_created_at r \<le> now"
  shows "row_check ((set_item_columns t r)\<lparr>row_updated_at := now\<rparr>)"
  using assms
  by (auto simp: row_check_def row_lease_shape_def leased_value utc_column_def work_item_ok_def
      lease_shape_def simp del: set_map)

lemma supersedable_item:
  assumes "hydrate_without_plan r = Inr item"
  shows "row_status r \<in> {''ready'', ''retryable_failed'', ''split_superseded''} \<longleftrightarrow>
    wi_status item = WI_SPLIT_SUPERSEDED \<or> wi_is_waiting (wi_status item)"
  using hydrate_facts(3) [OF assms [unfolded hydrate_without_plan_def]]
  by (cases "wi_status item") (simp_all add: wi_is_waiting_def)

lemma load_work_item_ok:
  assumes "exec_ok db" "row_of db i = Some r"
  shows "\<exists>item. load_work_item i db = Inr (Some item) \<and> hydrate_without_plan r = Inr item \<and>
    wi_id item = i \<and> work_item_ok item"
proof -
  from exec_ok_row [OF assms] hydratableD obtain item where item: "hydrate_without_plan r = Inr item"
    by blast
  note facts = hydrate_facts [OF item [unfolded hydrate_without_plan_def]]
  have "wi_id item = i" using facts(1) row_of_SomeD [OF assms(2)] by simp
  with facts(6) item assms(2) show ?thesis by (simp add: load_work_item_def work_item_ok_def)
qed

lemma mark_waiting_ok:
  assumes "work_item_ok i" "wi_is_waiting (wi_status i)"
  shows "mark_split_superseded_waiting i = Inr (unleased i WI_SPLIT_SUPERSEDED None None)"
  using assms by (simp add: transition_defs error_simps)

lemma saved_superseded:
  assumes ok: "exec_ok db" and row: "row_of db i = Some r" and clock: "row_created_at r \<le> now"
    and item: "hydrate_without_plan r = Inr item" and wait: "wi_is_waiting (wi_status item)"
  shows "\<exists>db'. save_work_item now (unleased item WI_SPLIT_SUPERSEDED None None) db = Inr db' \<and>
    (\<exists>r'. row_of db' i = Some r' \<and> row_status r' = ''split_superseded'' \<and>
       row_created_at r' = row_created_at r)"
proof -
  let ?t = "unleased item WI_SPLIT_SUPERSEDED None None"
  let ?f = "\<lambda>r. (set_item_columns ?t r)\<lparr>row_updated_at := now\<rparr>"
  note facts = hydrate_facts [OF item [unfolded hydrate_without_plan_def]]
  have id: "wi_id ?t = i" using facts(1) row_of_SomeD [OF row] by simp
  have "\<exists>db'. update_item i ?f db = Inr db'"
  proof (rule row_check_frame_update)
    show "list_all row_check (db_items db)" "distinct (map row_id (db_items db))"
      using ok by (auto simp: exec_ok_parts list_all_iff)
    show "row_check (?f x)" if "row_of db i = Some x" for x
      using that row exec_ok_row [OF ok row] facts(6) clock by (auto intro!: row_check_written)
  qed
  then obtain db' where db': "update_item i ?f db = Inr db'" ..
  then have "row_of db' i = Some (?f r)" using update_item_row [OF db', of i] row by simp
  moreover have "save_work_item now ?t db = Inr db'"
    unfolding save_work_item_def id by (rule db')
  ultimately show ?thesis by simp
qed

lemma supersede_all_good:
  assumes "exec_ok db" "\<forall>i r. row_of db i = Some r \<longrightarrow> row_created_at r \<le> now"
    "\<forall>i \<in> set ids. supersedable db i"
  shows "\<exists>db'. supersede_all now ids db = Inr (ids, db') \<and>
    (\<forall>i \<in> set ids. \<exists>r. row_of db' i = Some r \<and> row_status r = ''split_superseded'') \<and>
    (\<forall>j. j \<notin> set ids \<longrightarrow> row_of db' j = row_of db j)"
  using assms
proof (induction ids arbitrary: db)
  case Nil
  then show ?case by simp
next
  case (Cons i ids)
  from Cons.prems(3) obtain r where r: "row_of db i = Some r"
    "row_status r \<in> {''ready'', ''retryable_failed'', ''split_superseded''}"
    by (auto simp: supersedable_def)
  from load_work_item_ok [OF Cons.prems(1) r(1)] obtain item where
    item: "load_work_item i db = Inr (Some item)" "hydrate_without_plan r = Inr item"
    "wi_id item = i" "work_item_ok item" by blast
  show ?case
  proof (cases "wi_status item = WI_SPLIT_SUPERSEDED")
    case True
    then have st: "row_status r = ''split_superseded''"
      using hydrate_facts(3) [OF item(2) [unfolded hydrate_without_plan_def]] by simp
    from Cons.IH [OF Cons.prems(1,2)] Cons.prems(3) obtain db' where
      db': "supersede_all now ids db = Inr (ids, db')"
      "\<forall>i \<in> set ids. \<exists>r. row_of db' i = Some r \<and> row_status r = ''split_superseded''"
      "\<forall>j. j \<notin> set ids \<longrightarrow> row_of db' j = row_of db j" by auto
    have "\<exists>r. row_of db' i = Some r \<and> row_status r = ''split_superseded''"
      using db'(2,3) r(1) st by (cases "i \<in> set ids") auto
    with db' True item show ?thesis by simp
  next
    case False
    with supersedable_item [OF item(2)] r(2) have wait: "wi_is_waiting (wi_status item)" by blast
    let ?t = "unleased item WI_SPLIT_SUPERSEDED None None"
    have t: "mark_split_superseded_waiting item = Inr ?t" by (rule mark_waiting_ok [OF item(4) wait])
    from saved_superseded [OF Cons.prems(1) r(1) _ item(2) wait] Cons.prems(2) r(1)
    obtain db1 r1 where sv: "save_work_item now ?t db = Inr db1" and
      r1: "row_of db1 i = Some r1" "row_status r1 = ''split_superseded''"
      "row_created_at r1 = row_created_at r" by blast
    note sup = superseded_row [OF Cons.prems(1) r(1) item(2) t sv]
    have clock: "\<forall>j x. row_of db1 j = Some x \<longrightarrow> row_created_at x \<le> now"
    proof (intro allI impI)
      fix j x assume "row_of db1 j = Some x"
      then show "row_created_at x \<le> now"
        using Cons.prems(2) r(1) r1 sup(3) [of j] by (cases "j = i") auto
    qed
    have "\<forall>j \<in> set ids. supersedable db1 j"
    proof
      fix j assume "j \<in> set ids"
      with Cons.prems(3) r1 sup(3) [of j] show "supersedable db1 j"
        by (cases "j = i") (auto simp: supersedable_def)
    qed
    from Cons.IH [OF sup(1) clock this] obtain db' where
      db': "supersede_all now ids db1 = Inr (ids, db')"
      "\<forall>i \<in> set ids. \<exists>r. row_of db' i = Some r \<and> row_status r = ''split_superseded''"
      "\<forall>j. j \<notin> set ids \<longrightarrow> row_of db' j = row_of db1 j" by blast
    have "\<exists>r. row_of db' i = Some r \<and> row_status r = ''split_superseded''"
      using db'(2,3) r1 by (cases "i \<in> set ids") auto
    with db' False item t sv sup(3) show ?thesis by simp
  qed
qed

lemma supersede_all_only:
  assumes "exec_ok db" "supersede_all now ids db = Inr (out, db')"
  shows "\<forall>i \<in> set ids. supersedable db i"
  using assms
proof (induction ids arbitrary: db out)
  case Nil
  then show ?case by simp
next
  case (Cons i ids)
  from Cons.prems(2) obtain item where load: "load_work_item i db = Inr (Some item)"
    by (auto split: option.splits)
  then obtain r where r: "row_of db i = Some r" and item: "hydrate_without_plan r = Inr item"
    by (auto simp: load_work_item_def optE_Inr_iff split: if_splits option.splits)
  show ?case
  proof (cases "wi_status item = WI_SPLIT_SUPERSEDED")
    case True
    with Cons.prems load obtain out' where "supersede_all now ids db = Inr (out', db')" by auto
    with Cons.IH [OF Cons.prems(1)] supersedable_item [OF item] True r show ?thesis
      by (auto simp: supersedable_def)
  next
    case False
    with Cons.prems load obtain t db1 out' where
      t: "mark_split_superseded_waiting item = Inr t" and sv: "save_work_item now t db = Inr db1" and
      rest: "supersede_all now ids db1 = Inr (out', db')" by auto
    note sup = superseded_row [OF Cons.prems(1) r item t sv]
    have "wi_is_waiting (wi_status item)" using t by (auto simp: transition_defs split: if_splits)
    then have i: "supersedable db i" using supersedable_item [OF item] r by (auto simp: supersedable_def)
    have "supersedable db j" if j: "j \<in> set ids" for j
    proof (cases "j = i")
      case False
      from Cons.IH [OF sup(1) rest] j have "supersedable db1 j" by blast
      then show ?thesis using sup(3) [OF False] by (simp add: supersedable_def)
    qed (simp add: i)
    with i show ?thesis by simp
  qed
qed

text \<open>
  C31. Superseding is all or nothing: the command succeeds exactly when every listed id names a row
  that is waiting (ready or retryably failed) or already superseded; then it reports the ids in
  their order, every one of them is superseded, duplicates included, and no other row is written.
\<close>

theorem supersede_all_or_nothing:
  assumes "exec_ok db" and "ids \<noteq> []"
    and "\<forall>i r. row_of db i = Some r \<longrightarrow> row_created_at r \<le> db_now"
  shows "if \<forall>i \<in> set ids. supersedable db i
    then \<exists>db'. supersede_waiting_work_items_for_split db_now ids db = Inr (ids, db') \<and>
      (\<forall>i \<in> set ids. \<exists>r. row_of db' i = Some r \<and> row_status r = ''split_superseded'') \<and>
      (\<forall>j. j \<notin> set ids \<longrightarrow> row_of db' j = row_of db j)
    else \<exists>e. supersede_waiting_work_items_for_split db_now ids db = Inl e"
proof (cases "\<forall>i \<in> set ids. supersedable db i")
  case True
  have "\<not> blank i" if "i \<in> set ids" for i
    using True that exec_ok_row [OF assms(1), of i] row_of_SomeD [of db i] hydratable_text [OF assms(1)]
    by (fastforce simp: supersedable_def)
  then have "require_text_tuple f ids = Inr ()" for f
    using assms(2) by (auto simp: require_text_tuple_def list_ex_iff)
  with supersede_all_good [OF assms(1,3) True] True show ?thesis
    by (auto simp: supersede_waiting_work_items_for_split_def)
next
  case False
  then show ?thesis
    using supersede_all_only [OF assms(1)]
    by (cases "supersede_waiting_work_items_for_split db_now ids db")
      (auto simp: supersede_waiting_work_items_for_split_def)
qed

theorem supersede_all_or_nothing_witness:
  "\<exists>db'. supersede_waiting_work_items_for_split (Utc 8) [''w1'', ''w1''] db4 = Inr ([''w1'', ''w1''], db') \<and>
     (\<exists>r. row_of db' ''w1'' = Some r \<and> row_status r = ''split_superseded'')"
proof -
  have "row_of db4 i = Some r \<Longrightarrow> row_created_at r \<le> Utc 8" for i r
    by (auto simp: row_of_def db4_def row3_def row1_def split: if_splits)
  moreover have "supersedable db4 ''w1''"
    by (simp add: supersedable_def row_of_def db4_def row3_def row1_def)
  ultimately show ?thesis
    using supersede_all_or_nothing [OF db_ok(4), of "[''w1'', ''w1'']" "Utc 8"] by auto
qed

section \<open>Dispatch\<close>

text \<open>
  A started attempt is recorded once. When the dispatch repository commits, the dispatch row
  and an attempt of its id are stored; a second call for the same attempt id never reaches the repository's
  comparison of the stored dispatch, even with identical values: the dispatch insert has no conflict
  clause, so the database refuses its key.
\<close>

theorem dispatch_saved_once:
  assumes "save_started_dispatch_attempt dumps d db = Inr db'"
    and "dispatch_record_post_init d2 = Inr d2" and "dp_attempt_id d2 = dp_attempt_id d"
  shows "started_dispatch_row d \<in> set (db_dispatches db') \<and>
    (\<exists>a \<in> set (db_attempts db'). ar_attempt_id a = dp_attempt_id d) \<and>
    (\<exists>m. save_started_dispatch_attempt dumps2 d2 db' = Inl (DatabaseError m))"
proof -
  from assms(1) obtain db1 where a: "insert_attempt (started_attempt_row d) db = Inr db1"
    and b: "insert_dispatch (started_dispatch_row d) db1 = Inr db'"
    by (auto simp: save_started_dispatch_attempt_def split: option.splits)
  from b have d': "started_dispatch_row d \<in> set (db_dispatches db')" and att: "db_attempts db' = db_attempts db1"
    by (auto simp: insert_dispatch_def split: if_splits)
  from a att have a': "dp_attempt_id d \<in> set (map ar_attempt_id (db_attempts db'))"
    by (auto simp: insert_attempt_def started_attempt_row_def split: if_splits)
  have v: "\<not> blank (dp_attempt_id d2)" "\<not> blank (dp_work_item_id d2)" "1 \<le> dp_attempt_number d2"
    "\<not> blank (dp_lease_token d2)" "\<not> blank (dp_worker_ref d2)"
    using assms(2) by (auto simp: dispatch_record_post_init_def split: if_splits)
  then have "insert_attempt (started_attempt_row d2) db' = Inr db'"
    using a' assms(3) by (simp add: insert_attempt_def started_attempt_row_def attempt_check_def not_blank_sql)
  moreover have "dp_attempt_id d2 \<in> set (map dr_attempt_id (db_dispatches db'))"
    using d' assms(3) by (force simp: started_dispatch_row_def)
  ultimately have "\<exists>m. save_started_dispatch_attempt dumps2 d2 db' = Inl (DatabaseError m)"
    using v by (simp add: save_started_dispatch_attempt_def insert_dispatch_def
        started_dispatch_row_def not_blank_sql)
  with d' a' show ?thesis by auto
qed

theorem dispatch_saved_once_witness:
  "\<exists>m. save_started_dispatch_attempt (\<lambda>_. []) dispatch1 db3 = Inl (DatabaseError m)"
proof -
  have "dispatch_record_post_init dispatch1 = Inr dispatch1" by code_simp
  from dispatch_saved_once [OF run3 this] show ?thesis by simp
qed

end
