(* ===== verification/ExecReadback.thy ===== *)
theory ExecReadback
  imports ExecRecovery
begin

text \<open>
  The reads of the execution runtime: the recorded outcome of an attempt
  (\<open>postgres_work_item_attempt_outcome_repository.py\<close>, \<open>get_recorded_attempt_outcome\<close>) and the progress
  summary of a workflow (\<open>postgres_work_item_progress_read_repository.py\<close>). \<open>json_text\<close> is PostgreSQL's
  text of a JSON value that is no string.
\<close>

section \<open>The recorded outcome of an attempt\<close>

record recorded_outcome =
  ro_attempt_id :: string
  ro_work_item_id :: string
  ro_attempt_number :: int
  ro_finished_at :: datetime
  ro_outcome_status :: attempt_outcome_status
  ro_work_item :: work_item
  ro_error_kind :: "string option"
  ro_retry_plan :: "work_item_retry_plan option"
  ro_validation_metadata :: "payload option"
  ro_llm_output_payload :: "payload option"

definition recorded_outcome_post_init :: "recorded_outcome \<Rightarrow> py_error + recorded_outcome" where
  "recorded_outcome_post_init r =
     (if blank (ro_attempt_id r) then Inl (ValueError ''attempt_id must be non-empty'')
      else if blank (ro_work_item_id r) then Inl (ValueError ''work_item_id must be non-empty'')
      else if ro_attempt_number r \<le> 0 then Inl (ValueError ''attempt_number must be > 0'')
      else if \<not> tz_aware (ro_finished_at r) then Inl (ValueError ''finished_at must be timezone-aware'')
      else if ro_outcome_status r = OC_SUCCEEDED then
        (if ro_error_kind r \<noteq> None
         then Inl (ValueError ''error_kind must be None for succeeded outcome'')
         else if ro_retry_plan r \<noteq> None
         then Inl (ValueError ''retry_plan must be None for succeeded outcome'')
         else Inr r)
      else case ro_error_kind r of
        None \<Rightarrow> Inl (ValueError ''error_kind is required for failed outcomes'')
      | Some e \<Rightarrow>
          if blank e then Inl (ValueError ''error_kind must be non-empty'')
          else if ro_outcome_status r = OC_TERMINAL_FAILED \<and> ro_retry_plan r \<noteq> None
            then Inl (ValueError ''retry_plan must be None for terminal failed outcome'')
          else Inr r)"

definition parse_outcome :: "string \<Rightarrow> py_error + attempt_outcome_status" where
  "parse_outcome v =
     (case List.find (\<lambda>s. outcome_value s = v) [OC_SUCCEEDED, OC_RETRYABLE_FAILED, OC_TERMINAL_FAILED] of
        Some s \<Rightarrow> Inr s
      | None \<Rightarrow> Inl (ValueError (v @ '' is not a valid WorkItemAttemptOutcomeStatus'')))"

lemma parse_outcome_value [simp]: "parse_outcome (outcome_value s) = Inr s"
  by (induct s; code_simp)

text \<open>The attempt with its item, when both its \<open>finished_at\<close> and its \<open>outcome_status\<close> are set.\<close>

definition finished_attempt :: "exec_db \<Rightarrow> string \<Rightarrow> attempt_row option" where
  "finished_attempt db attempt_id = List.find (\<lambda>a. ar_attempt_id a = attempt_id \<and>
     ar_finished_at a \<noteq> None \<and> ar_outcome_status a \<noteq> None \<and> row_of db (ar_work_item_id a) \<noteq> None)
     (db_attempts db)"

definition get_recorded_attempt_outcome :: "string \<Rightarrow> exec_db \<Rightarrow> py_error + recorded_outcome option" where
  "get_recorded_attempt_outcome attempt_id db =
     (case finished_attempt db attempt_id of
        None \<Rightarrow> Inr None
      | Some a \<Rightarrow>
          bindE (parse_outcome (the (ar_outcome_status a))) (\<lambda>status.
          bindE (hydrate_work_item (the (row_of db (ar_work_item_id a)))) (\<lambda>item.
          bindE (recorded_outcome_post_init
            \<lparr>ro_attempt_id = ar_attempt_id a, ro_work_item_id = ar_work_item_id a,
             ro_attempt_number = ar_attempt_number a, ro_finished_at = Aware (the (ar_finished_at a)),
             ro_outcome_status = status, ro_work_item = item, ro_error_kind = ar_error_kind a,
             ro_retry_plan = None, ro_validation_metadata = ar_validation_metadata a,
             ro_llm_output_payload = ar_llm_output_payload a\<rparr>) (\<lambda>r. Inr (Some r)))))"

section \<open>Progress of a workflow\<close>

record progress_summary =
  pg_ready :: int
  pg_leased :: int
  pg_deferred :: int
  pg_retryable_failed :: int
  pg_completed :: int
  pg_terminal_failed :: int
  pg_cancelled :: int
  pg_split_superseded :: int
  pg_user_action_required :: int
  pg_total :: int
  pg_next_due_at :: "datetime option"
  pg_due_deferred :: int
  pg_due_retryable_failed :: int

definition counted_total :: "progress_summary \<Rightarrow> int" where
  "counted_total p = pg_ready p + pg_leased p + pg_deferred p + pg_retryable_failed p + pg_completed p +
     pg_terminal_failed p + pg_cancelled p + pg_split_superseded p + pg_user_action_required p"

definition progress_summary_post_init :: "progress_summary \<Rightarrow> py_error + progress_summary" where
  "progress_summary_post_init p =
     (case List.find (\<lambda>(n, v). v < 0) [(''ready_count'', pg_ready p), (''leased_count'', pg_leased p),
         (''deferred_count'', pg_deferred p), (''retryable_failed_count'', pg_retryable_failed p),
         (''completed_count'', pg_completed p), (''terminal_failed_count'', pg_terminal_failed p),
         (''cancelled_count'', pg_cancelled p), (''split_superseded_count'', pg_split_superseded p),
         (''user_action_required_count'', pg_user_action_required p), (''total_count'', pg_total p),
         (''due_deferred_count'', pg_due_deferred p),
         (''due_retryable_failed_count'', pg_due_retryable_failed p)] of
        Some (n, v) \<Rightarrow> Inl (ValueError (n @ '' must be >= 0''))
      | None \<Rightarrow>
          if (case pg_next_due_at p of None \<Rightarrow> False | Some d \<Rightarrow> \<not> tz_aware d)
          then Inl (ValueError ''next_due_at must be timezone-aware'')
          else if counted_total p \<noteq> pg_total p
          then Inl (ValueError ''summary status counts must add up to total_count'')
          else if pg_due_deferred p > pg_deferred p
          then Inl (ValueError ''due_deferred_count cannot exceed deferred_count'')
          else if pg_due_retryable_failed p > pg_retryable_failed p
          then Inl (ValueError ''due_retryable_failed_count cannot exceed retryable_failed_count'')
          else Inr p)"

definition due_waiting_count :: "progress_summary \<Rightarrow> int" where
  "due_waiting_count p = pg_ready p + pg_retryable_failed p"

definition terminal_coverage_count :: "progress_summary \<Rightarrow> int" where
  "terminal_coverage_count p = pg_completed p + pg_terminal_failed p + pg_cancelled p +
     pg_split_superseded p + pg_user_action_required p"

text \<open>\<open>payload->>'workflow_run_id'\<close>.\<close>

definition payload_text :: "(json \<Rightarrow> string) \<Rightarrow> payload \<Rightarrow> string \<Rightarrow> string option" where
  "payload_text json_text p k = (case payload_get p k of
     None \<Rightarrow> None | Some (JStr v) \<Rightarrow> Some v | Some v \<Rightarrow> Some (json_text v))"

definition workflow_rows :: "(json \<Rightarrow> string) \<Rightarrow> string \<Rightarrow> work_kind \<Rightarrow> exec_db \<Rightarrow> wi_row list" where
  "workflow_rows json_text run kind db = map fst (filter (\<lambda>(r, s). row_kind r = work_kind_value kind \<and>
     payload_text json_text (sr_payload s) ''workflow_run_id'' = Some run) (scheduled_rows db))"

definition count_status :: "wi_row list \<Rightarrow> work_item_status \<Rightarrow> int" where
  "count_status rows s = int (length (filter (\<lambda>r. row_status r = wi_status_value s) rows))"

definition summarize_progress :: "(json \<Rightarrow> string) \<Rightarrow> string \<Rightarrow> work_kind \<Rightarrow> datetime \<Rightarrow> exec_db \<Rightarrow>
    py_error + progress_summary" where
  "summarize_progress json_text run kind now db =
     (if blank run then Inl (ValueError ''workflow_run_id must be non-empty'')
      else if \<not> tz_aware now then Inl (ValueError ''now must be timezone-aware'')
      else let rows = workflow_rows json_text run kind db; count = count_status rows in
        progress_summary_post_init
          \<lparr>pg_ready = count WI_READY, pg_leased = count WI_LEASED, pg_deferred = 0,
           pg_retryable_failed = count WI_RETRYABLE_FAILED, pg_completed = count WI_COMPLETED,
           pg_terminal_failed = count WI_TERMINAL_FAILED, pg_cancelled = count WI_CANCELLED,
           pg_split_superseded = count WI_SPLIT_SUPERSEDED,
           pg_user_action_required = count WI_USER_ACTION_REQUIRED, pg_total = int (length rows),
           pg_next_due_at = None, pg_due_deferred = 0,
           pg_due_retryable_failed = count WI_RETRYABLE_FAILED\<rparr>)"

section \<open>An outcome reads back\<close>

lemma finished_attempt_found:
  assumes "distinct (map ar_attempt_id (db_attempts db))" "a \<in> set (db_attempts db)"
    "ar_finished_at a \<noteq> None" "ar_outcome_status a \<noteq> None" "row_of db (ar_work_item_id a) \<noteq> None"
  shows "finished_attempt db (ar_attempt_id a) = Some a"
  unfolding finished_attempt_def by (rule find_unique [OF assms(1,2)]) (use assms in auto)

lemma attempt_update_ids:
  assumes "update_attempts P f db = Inr db'" "\<And>a. ar_attempt_id (f a) = ar_attempt_id a"
  shows "map ar_attempt_id (db_attempts db') = map ar_attempt_id (db_attempts db)"
  using assms by (auto simp: update_attempts_Inr)

text \<open>
  What is recorded is what is read: after an outcome was recorded, reading the attempt back gives the
  record's identity, time, status, error, validation metadata and model output, with the entity the
  recording returned. Only the retry plan of the record is not kept with the attempt.
\<close>

theorem outcome_reads_back:
  assumes ok: "exec_ok db" and r: "outcome_record_post_init r = Inr r"
    and rec: "record_attempt_outcome now r db = Inr (t, db')"
  shows "get_recorded_attempt_outcome (oc_attempt_id r) db' = Inr (Some
    \<lparr>ro_attempt_id = oc_attempt_id r, ro_work_item_id = oc_work_item_id r,
     ro_attempt_number = oc_attempt_number r, ro_finished_at = oc_finished_at r,
     ro_outcome_status = oc_outcome_status r, ro_work_item = t, ro_error_kind = oc_error_kind r,
     ro_retry_plan = None, ro_validation_metadata = oc_validation_metadata r,
     ro_llm_output_payload = oc_llm_output_payload r\<rparr>)"
proof -
  obtain row cur db1 where s: "row_of db (oc_work_item_id r) = Some row" "hydrate_work_item row = Inr cur"
      "validate_current_lease cur r = Inr ()" "transition_work_item cur r = Inr t"
      "update_attempts (attempt_matches r) (attempt_outcome_update r) db = Inr db1"
      "update_item (wi_id t) (outcome_update t now) db1 = Inr db'"
    using record_outcome_Inr [OF rec] by blast
  have "length (filter (attempt_matches r) (db_attempts db)) = 1"
    using rec s by (auto simp: record_attempt_outcome_def split: option.splits)
  then obtain a where a: "a \<in> set (db_attempts db)" "attempt_matches r a"
    by (metis length_0_conv filter_empty_conv zero_neq_one)
  note facts = hydrate_facts [OF s(2) [unfolded hydrate_work_item_def]]
  have leased: "wi_status cur = WI_LEASED" using s(3) by (simp add: error_simps)
  note w = writes_ids [OF transition_writes [OF facts(6,5) leased s(4)]]
  have id: "wi_id t = oc_work_item_id r" using w facts(1) row_of_SomeD [OF s(1)] by simp
  have row': "row_of db' (oc_work_item_id r) = Some (outcome_update t now row)"
    using update_item_row [OF s(6), of "oc_work_item_id r"] s(1,5) id
    by (simp add: update_attempts_Inr outcome_update_frame)
  have hyd: "hydrate_work_item (outcome_update t now row) = Inr t"
    by (rule hydrate_outcome_update) (use w facts in simp_all)
  have atts: "db_attempts db' = db_attempts db1"
    using s(6) by (auto simp: update_item_def update_items_Inr)
  have "distinct (map ar_attempt_id (db_attempts db'))"
    using ok attempt_update_ids [OF s(5)] by (simp add: atts exec_ok_parts attempt_outcome_update_def)
  moreover have "attempt_outcome_update r a \<in> set (db_attempts db')"
    using s(5) a by (force simp: atts update_attempts_Inr)
  ultimately have "finished_attempt db' (ar_attempt_id (attempt_outcome_update r a)) = Some (attempt_outcome_update r a)"
    by (rule finished_attempt_found)
      (use a row' in \<open>simp_all add: attempt_outcome_update_def attempt_matches_def\<close>)
  then have found: "finished_attempt db' (oc_attempt_id r) = Some (attempt_outcome_update r a)"
    using a by (simp add: attempt_outcome_update_def attempt_matches_def)
  have aware: "Aware (utc_of (oc_finished_at r)) = oc_finished_at r"
    using r by (cases "oc_finished_at r") (auto simp: outcome_record_post_init_def split: if_splits)
  show ?thesis
    using found a row' hyd r aware
    by (auto simp: get_recorded_attempt_outcome_def attempt_outcome_update_def attempt_matches_def
        outcome_record_post_init_def recorded_outcome_post_init_def split: if_splits option.splits)
qed

theorem outcome_reads_back_witness:
  "\<exists>rec. get_recorded_attempt_outcome ''a1'' db4 = Inr (Some rec) \<and> ro_outcome_status rec = OC_RETRYABLE_FAILED \<and>
     ro_work_item rec = item3"
proof -
  have "outcome_record_post_init outcome1 = Inr outcome1" by code_simp
  from outcome_reads_back [OF db_ok(3) this run4] show ?thesis by (simp add: outcome1_def)
qed

text \<open>
  C39. Recovery spoils the record of a success: when the lease of an item expires after its attempt was
  recorded as succeeded and before the domain step completed it, the recovery keeps the status
  \<open>succeeded\<close> and adds the error \<open>lease_expired\<close>, and reading that attempt back raises.
\<close>

theorem recovered_success_unreadable:
  assumes ok: "exec_ok db" and a: "a \<in> set (db_attempts db)" "\<not> blank (ar_attempt_id a)"
    and succ: "ar_outcome_status a = Some ''succeeded''" "ar_finished_at a = Some f" "ar_error_kind a = None"
    and row: "row_of db (ar_work_item_id a) = Some r" "row_attempt_count r = ar_attempt_number a"
    and rec: "reclaim_expired collate locked now limit db = Inr (res, db')"
    and hit: "ar_work_item_id a \<in> set (reclaimed_work_item_ids res)"
  shows "get_recorded_attempt_outcome (ar_attempt_id a) db' =
    Inl (ValueError ''error_kind must be None for succeeded outcome'')"
proof -
  obtain t db1 expired where
    ex: "expired = expired_rows collate locked t (nat limit) db" and
    ua: "update_attempts (abandoned_by expired) (close_abandoned t) db = Inr db1" and
    ui: "update_items (\<lambda>r. row_id r \<in> set (map row_id expired)) (release_expired t) db1 = Inr db'" and
    ids: "traverseE required_text (sort_key collate (map row_id expired)) = Inr (reclaimed_work_item_ids res)"
    using reclaim_expired_Inr [OF rec] by (auto simp: Let_def)
  have "reclaimed_work_item_ids res = sort_key collate (map row_id expired)"
    using ids required_texts_same by blast
  then have listed: "ar_work_item_id a \<in> set (map row_id expired)" using hit by simp
  then obtain r' where r': "r' \<in> set expired" "row_id r' = ar_work_item_id a" by auto
  then have "r' \<in> set (db_items db)" "lease_expired t r'" using expired_rows_in ex by auto
  with r'(2) row(1) have rr: "r' = r" "lease_expired t r" using exec_ok_row_of [OF ok] by (metis option.inject)+
  have ab: "abandoned_by expired a" using r' rr row(2) unfolding abandoned_by_def
    by (intro bexI [of _ r']) auto
  let ?a = "close_abandoned t a"
  have a': "?a \<in> set (db_attempts db')"
    using ua ui a ab by (force simp: update_attempts_Inr update_items_Inr)
  have row': "row_of db' (ar_work_item_id a) = Some (release_expired t r)"
    using update_items_row [OF ui release_expired_frame(1), of "ar_work_item_id a"] ua row(1) listed
      row_of_SomeD [OF row(1)] by (simp add: update_attempts_Inr)
  have "hydratable r" using exec_ok_row [OF ok row(1)] by simp
  then obtain i where i: "hydrate_work_item r = Inr i" by (auto simp: hydratable_def)
  have hyd: "hydrate_work_item (release_expired t r) = Inr (unleased i WI_READY (Some ''lease_expired'') None)"
    by (rule release_expired_hydrates(1) [OF i [unfolded hydrate_work_item_def] rr(2)])
  have check: "attempt_check a" using ok a by (auto simp: exec_ok_parts list_all_iff)
  have nb: "\<not> blank (ar_work_item_id a)"
    using hydrate_facts(1,6) [OF i [unfolded hydrate_work_item_def]] row_of_SomeD [OF row(1)]
    by (auto simp: work_item_ok_def)
  have "distinct (map ar_attempt_id (db_attempts db'))"
    using ok attempt_update_ids [OF ua] ui by (auto simp: exec_ok_parts close_abandoned_def update_items_Inr)
  then have "finished_attempt db' (ar_attempt_id ?a) = Some ?a"
    by (rule finished_attempt_found [OF _ a']) (use succ row' in \<open>simp_all add: close_abandoned_def coalesce_def\<close>)
  then have found: "finished_attempt db' (ar_attempt_id a) = Some ?a" by (simp add: close_abandoned_def)
  have "parse_outcome ''succeeded'' = Inr OC_SUCCEEDED" by code_simp
  with found row' hyd succ a(2) nb check show ?thesis
    by (simp add: get_recorded_attempt_outcome_def recorded_outcome_post_init_def close_abandoned_def
        coalesce_def attempt_check_def)
qed

definition success1 :: outcome_record where
  "success1 = outcome1\<lparr>oc_outcome_status := OC_SUCCEEDED, oc_error_kind := None, oc_retry_plan := None\<rparr>"

definition db6 :: exec_db where
  "db6 = (case record_attempt_outcome (Utc 5) success1 db3 of Inr (t, db) \<Rightarrow> db | Inl e \<Rightarrow> db3)"

lemma success1_ok: "outcome_record_post_init success1 = Inr success1"
  by code_simp

lemma db6_ok: "exec_ok db6"
proof -
  have "map_sum id snd (record_attempt_outcome (Utc 5) success1 db3) = Inr db6" by code_simp
  then obtain t where "record_attempt_outcome (Utc 5) success1 db3 = Inr (t, db6)"
    by (cases "record_attempt_outcome (Utc 5) success1 db3") auto
  then have "exec_step db3 db6" by (rule exec_step.outcome [OF success1_ok])
  then show ?thesis using exec_step_sound [OF _ db_ok(3)] by blast
qed

theorem recovered_success_unreadable_witness:
  "\<exists>res db'. reclaim_expired (\<lambda>s. s) (\<lambda>_. False) (Aware (Utc 9)) 5 db6 = Inr (res, db') \<and>
     get_recorded_attempt_outcome ''a1'' db' =
       Inl (ValueError ''error_kind must be None for succeeded outcome'')"
proof -
  let ?a = "attempt_outcome_update success1 (started_attempt_row dispatch1)"
  have a: "?a \<in> set (db_attempts db6)" and id: "ar_attempt_id ?a = ''a1''" "\<not> blank (ar_attempt_id ?a)"
    and s: "ar_outcome_status ?a = Some ''succeeded''" "ar_finished_at ?a = Some (Utc 4)" "ar_error_kind ?a = None"
    by code_simp+
  have row: "row_of db6 (ar_work_item_id ?a) = Some (hd (db_items db6))"
    "row_attempt_count (hd (db_items db6)) = ar_attempt_number ?a"
    and rec: "map_sum id (\<lambda>(res, db). reclaimed_work_item_ids res)
      (reclaim_expired (\<lambda>s. s) (\<lambda>_. False) (Aware (Utc 9)) 5 db6) = Inr [''w1'']"
    and w: "ar_work_item_id ?a = ''w1''"
    by code_simp+
  from rec obtain res db' where r: "reclaim_expired (\<lambda>s. s) (\<lambda>_. False) (Aware (Utc 9)) 5 db6 = Inr (res, db')"
      "reclaimed_work_item_ids res = [''w1'']"
    by (cases "reclaim_expired (\<lambda>s. s) (\<lambda>_. False) (Aware (Utc 9)) 5 db6") auto
  have "ar_work_item_id ?a \<in> set (reclaimed_work_item_ids res)" using r(2) w by simp
  from recovered_success_unreadable [OF db6_ok a id(2) s row r(1) this] id(1) r(1) show ?thesis by auto
qed

section \<open>The summary adds up\<close>

lemma count_status_Cons:
  "count_status (r # rows) s = (if row_status r = wi_status_value s then 1 else 0) + count_status rows s"
  by (simp add: count_status_def)

lemma count_statuses_total:
  assumes "\<forall>r \<in> set rows. row_status r \<in> set (map wi_status_value all_statuses)"
  shows "sum_list (map (count_status rows) all_statuses) = int (length rows)"
  using assms
proof (induction rows)
  case Nil
  then show ?case by (simp add: count_status_def all_statuses_def)
next
  case (Cons r rows)
  then obtain s where s: "row_status r = wi_status_value s" by auto
  then have "count_status (r # rows) u = (if u = s then 1 else 0) + count_status rows u" for u
    by (auto simp: count_status_Cons)
  with Cons show ?case by (cases s) (simp_all add: all_statuses_def)
qed

text \<open>
  The progress summary never fails: on every table state that satisfies the tables' invariant the
  counts are the numbers of the workflow's items in each status and add up to the number of its items.
\<close>

theorem progress_adds_up:
  assumes ok: "exec_ok db" and run: "\<not> blank run" and now: "tz_aware now"
  shows "\<exists>p. summarize_progress json_text run kind now db = Inr p \<and>
    pg_total p = int (length (workflow_rows json_text run kind db)) \<and>
    pg_total p = due_waiting_count p + pg_leased p + terminal_coverage_count p \<and>
    pg_ready p = count_status (workflow_rows json_text run kind db) WI_READY \<and>
    pg_completed p = count_status (workflow_rows json_text run kind db) WI_COMPLETED"
proof -
  let ?rows = "workflow_rows json_text run kind db"
  have "row_check r" if "r \<in> set ?rows" for r
    using that ok by (auto simp: workflow_rows_def scheduled_rows_def exec_ok_parts list_all_iff)
  then have "sum_list (map (count_status ?rows) all_statuses) = int (length ?rows)"
    by (intro count_statuses_total) (simp add: row_check_def)
  moreover have "0 \<le> count_status ?rows s" for s by (simp add: count_status_def)
  ultimately show ?thesis
    using run now
    by (simp add: summarize_progress_def progress_summary_post_init_def counted_total_def Let_def
        due_waiting_count_def terminal_coverage_count_def all_statuses_def not_less)
qed

theorem progress_adds_up_witness:
  "\<exists>p. summarize_progress (\<lambda>_. []) ''run'' (WorkKind ''k'') (Aware (Utc 1)) db1 = Inr p \<and>
     pg_total p = due_waiting_count p + pg_leased p + terminal_coverage_count p"
proof -
  have "\<not> blank ''run''" by code_simp
  from progress_adds_up [OF db_ok(1) this, of "Aware (Utc 1)" "\<lambda>_. []" "WorkKind ''k''"] show ?thesis by auto
qed

end
