(* ===== verification/LlmTask.thy ===== *)
theory LlmTask
  imports Lifecycle
begin

text \<open>
  The LLM task of the LLM runtime (\<open>src/src/contexts/llm_runtime/domain\<close>): value objects, the task
  entity with its constructor's checks, the attempt, and \<open>LlmTaskStateMachine\<close>.
\<close>

section \<open>Value objects\<close>

datatype provider_id = ProviderId (provider_id_value: string)
datatype model_id = ModelId (model_id_value: string)
datatype account_ref = AccountRef (account_ref_value: string)

definition mk_provider_id :: "string \<Rightarrow> py_error + provider_id" where
  "mk_provider_id value =
     (let v = strip value in
      if v = [] then Inl (ValueError ''ProviderId.value must be non-empty'')
      else if CHR '' '' \<in> set v then Inl (ValueError ''ProviderId.value must not contain spaces'')
      else if v \<noteq> lower v then Inl (ValueError ''ProviderId.value must be lowercase'')
      else Inr (ProviderId value))"

definition mk_model_id :: "string \<Rightarrow> py_error + model_id" where
  "mk_model_id value =
     (let v = strip value in
      if v = [] then Inl (ValueError ''ModelId.value must be non-empty'')
      else if CHR '' '' \<in> set v then Inl (ValueError ''ModelId.value must not contain spaces'')
      else Inr (ModelId value))"

definition mk_account_ref :: "string \<Rightarrow> py_error + account_ref" where
  "mk_account_ref value =
     (if blank value then Inl (ValueError ''ProviderAccountRef.value must be non-empty'')
      else Inr (AccountRef value))"

record llm_route =
  rt_provider :: provider_id
  rt_model :: model_id
  rt_account :: account_ref

datatype llm_error_kind =
    REQUEST_TOO_LARGE | OUTPUT_TOO_LARGE | MINUTE_LIMIT | DAILY_LIMIT | INVALID_OUTPUT
  | VALIDATION_FAILED | EMPTY_OUTPUT | NETWORK_ERROR | AUTH_ERROR | UNKNOWN_ERROR

datatype llm_task_status =
    LT_READY | LT_RUNNING | LT_SUCCEEDED | LT_DEFERRED | LT_RETRYABLE_FAILED | LT_TERMINAL_FAILED
  | LT_CANCELLED

fun llm_status_value :: "llm_task_status \<Rightarrow> string" where
  "llm_status_value LT_READY = ''ready''"
| "llm_status_value LT_RUNNING = ''running''"
| "llm_status_value LT_SUCCEEDED = ''succeeded''"
| "llm_status_value LT_DEFERRED = ''deferred''"
| "llm_status_value LT_RETRYABLE_FAILED = ''retryable_failed''"
| "llm_status_value LT_TERMINAL_FAILED = ''terminal_failed''"
| "llm_status_value LT_CANCELLED = ''cancelled''"

definition lt_is_terminal :: "llm_task_status \<Rightarrow> bool" where
  "lt_is_terminal s \<longleftrightarrow> s \<in> {LT_SUCCEEDED, LT_TERMINAL_FAILED, LT_CANCELLED}"

record token_usage =
  input_tokens :: int
  output_tokens :: int

definition token_usage_post_init :: "token_usage \<Rightarrow> py_error + token_usage" where
  "token_usage_post_init u =
     (if input_tokens u < 0 then Inl (ValueError ''TokenUsage.input_tokens must be >= 0'')
      else if output_tokens u < 0 then Inl (ValueError ''TokenUsage.output_tokens must be >= 0'')
      else Inr u)"

definition total_tokens :: "token_usage \<Rightarrow> int" where
  "total_tokens u = input_tokens u + output_tokens u"

section \<open>The entity\<close>

record llm_task =
  lt_task_id :: string
  lt_prompt_id :: string
  lt_prompt_version :: string
  lt_input_ref :: string
  lt_output_contract_ref :: string
  lt_status :: llm_task_status
  lt_attempt_count :: int
  lt_selected_route :: "llm_route option"
  lt_wait_until :: "datetime option"
  lt_last_error_kind :: "llm_error_kind option"

definition llm_task_post_init :: "llm_task \<Rightarrow> py_error + llm_task" where
  "llm_task_post_init t =
     (if blank (lt_task_id t) then Inl (ValueError ''LlmTask.task_id must be non-empty'')
      else if blank (lt_prompt_id t) then Inl (ValueError ''LlmTask.prompt_id must be non-empty'')
      else if lt_attempt_count t < 0 then Inl (ValueError ''LlmTask.attempt_count must be >= 0'')
      else if lt_status t = LT_RUNNING \<and> lt_selected_route t = None
        then Inl (ValueError ''RUNNING LlmTask must have selected_route'')
      else if lt_status t = LT_DEFERRED \<and> lt_wait_until t = None
        then Inl (ValueError ''DEFERRED LlmTask must have wait_until'')
      else if lt_status t = LT_DEFERRED \<and> \<not> tz_aware (the (lt_wait_until t))
        then Inl (ValueError ''wait_until must be timezone-aware'')
      else if lt_status t \<noteq> LT_DEFERRED \<and> lt_wait_until t \<noteq> None
        then Inl (ValueError ''Only DEFERRED LlmTask may carry wait_until'')
      else if lt_is_terminal (lt_status t) \<and> lt_wait_until t \<noteq> None
        then Inl (ValueError ''Terminal LlmTask must not carry wait_until'')
      else Inr t)"

definition llm_task_ok :: "llm_task \<Rightarrow> bool" where
  "llm_task_ok t \<longleftrightarrow> \<not> blank (lt_task_id t) \<and> \<not> blank (lt_prompt_id t) \<and> 0 \<le> lt_attempt_count t \<and>
     (lt_status t = LT_RUNNING \<longrightarrow> lt_selected_route t \<noteq> None) \<and>
     (if lt_status t = LT_DEFERRED then \<exists>w. lt_wait_until t = Some (Aware w) else lt_wait_until t = None)"

lemma llm_task_post_init_Inr [error_simps]:
  "llm_task_post_init t = Inr u \<longleftrightarrow> u = t \<and> llm_task_ok t"
  by (auto simp: llm_task_post_init_def llm_task_ok_def tz_aware_iff lt_is_terminal_def)

record llm_attempt =
  la_attempt_id :: string
  la_task_id :: string
  la_attempt_number :: int
  la_route :: llm_route
  la_started_at :: datetime
  la_finished_at :: "datetime option"
  la_usage :: "token_usage option"
  la_error_kind :: "llm_error_kind option"

definition llm_attempt_post_init :: "llm_attempt \<Rightarrow> py_error + llm_attempt" where
  "llm_attempt_post_init a =
     (if blank (la_attempt_id a) then Inl (ValueError ''LlmAttempt.attempt_id must be non-empty'')
      else if blank (la_task_id a) then Inl (ValueError ''LlmAttempt.task_id must be non-empty'')
      else if la_attempt_number a < 1 then Inl (ValueError ''LlmAttempt.attempt_number must be >= 1'')
      else if \<not> tz_aware (la_started_at a) then Inl (ValueError ''started_at must be timezone-aware'')
      else case la_finished_at a of
        None \<Rightarrow> Inr a
      | Some f \<Rightarrow>
          if \<not> tz_aware f then Inl (ValueError ''finished_at must be timezone-aware'')
          else bindE (dt_less f (la_started_at a)) (\<lambda>before.
            if before then Inl (ValueError ''finished_at must be >= started_at'') else Inr a))"

section \<open>The state machine\<close>

definition require_running :: "llm_task \<Rightarrow> string \<Rightarrow> py_error + unit" where
  "require_running t action = require (lt_status t = LT_RUNNING) (InvalidTransition
     (''Cannot '' @ action @ '' task from status '' @ llm_status_value (lt_status t)))"

definition start_ready :: "llm_task \<Rightarrow> llm_route \<Rightarrow> py_error + llm_task" where
  "start_ready t route =
     (if lt_status t \<notin> {LT_READY, LT_DEFERRED, LT_RETRYABLE_FAILED}
      then Inl (InvalidTransition (''Cannot start task from status '' @ llm_status_value (lt_status t)))
      else llm_task_post_init (t\<lparr>lt_status := LT_RUNNING, lt_attempt_count := lt_attempt_count t + 1,
        lt_selected_route := Some route, lt_wait_until := None, lt_last_error_kind := None\<rparr>))"

definition closed_task :: "llm_task \<Rightarrow> llm_task_status \<Rightarrow> datetime option \<Rightarrow> llm_error_kind option \<Rightarrow>
    llm_task" where
  "closed_task t s w e = t\<lparr>lt_status := s, lt_wait_until := w, lt_last_error_kind := e\<rparr>"

definition succeed_running :: "llm_task \<Rightarrow> py_error + llm_task" where
  "succeed_running t = bindE (require_running t ''succeed'') (\<lambda>_.
     llm_task_post_init (closed_task t LT_SUCCEEDED None None))"

definition defer_running :: "llm_task \<Rightarrow> datetime \<Rightarrow> llm_error_kind \<Rightarrow> py_error + llm_task" where
  "defer_running t wait_until error_kind = bindE (require_running t ''defer'') (\<lambda>_.
     if \<not> tz_aware wait_until then Inl (ValueError ''wait_until must be timezone-aware'')
     else llm_task_post_init (closed_task t LT_DEFERRED (Some wait_until) (Some error_kind)))"

definition fail_running_retryable :: "llm_task \<Rightarrow> llm_error_kind \<Rightarrow> py_error + llm_task" where
  "fail_running_retryable t error_kind = bindE (require_running t ''mark retryable failed'') (\<lambda>_.
     llm_task_post_init (closed_task t LT_RETRYABLE_FAILED None (Some error_kind)))"

definition fail_running_terminal :: "llm_task \<Rightarrow> llm_error_kind \<Rightarrow> py_error + llm_task" where
  "fail_running_terminal t error_kind = bindE (require_running t ''mark terminal failed'') (\<lambda>_.
     llm_task_post_init (closed_task t LT_TERMINAL_FAILED None (Some error_kind)))"

definition cancel_task :: "llm_task \<Rightarrow> llm_error_kind option \<Rightarrow> py_error + llm_task" where
  "cancel_task t error_kind =
     (if lt_is_terminal (lt_status t)
      then Inl (InvalidTransition
        (''Cannot cancel terminal task from status '' @ llm_status_value (lt_status t)))
      else llm_task_post_init (closed_task t LT_CANCELLED None error_kind))"

lemmas task_transition_defs = require_running_def start_ready_def succeed_running_def
  defer_running_def fail_running_retryable_def fail_running_terminal_def cancel_task_def

lemma closed_task_fields [simp]:
  "lt_status (closed_task t s w e) = s" "lt_wait_until (closed_task t s w e) = w"
  "lt_last_error_kind (closed_task t s w e) = e" "lt_task_id (closed_task t s w e) = lt_task_id t"
  "lt_attempt_count (closed_task t s w e) = lt_attempt_count t"
  "lt_prompt_id (closed_task t s w e) = lt_prompt_id t"
  "lt_selected_route (closed_task t s w e) = lt_selected_route t"
  by (simp_all add: closed_task_def)

lemma closed_task_ok [simp]:
  "llm_task_ok t \<Longrightarrow> s \<notin> {LT_RUNNING, LT_DEFERRED} \<Longrightarrow> llm_task_ok (closed_task t s None e)"
  by (simp add: llm_task_ok_def)

lemma deferred_task_ok [simp]:
  "llm_task_ok t \<Longrightarrow> llm_task_ok (closed_task t LT_DEFERRED (Some (Aware w)) e)"
  by (simp add: llm_task_ok_def)

inductive llm_step :: "llm_task \<Rightarrow> llm_task \<Rightarrow> bool" where
  start: "start_ready t r = Inr u \<Longrightarrow> llm_step t u"
| succeed: "succeed_running t = Inr u \<Longrightarrow> llm_step t u"
| defer_until: "defer_running t w e = Inr u \<Longrightarrow> llm_step t u"
| fail_retryable: "fail_running_retryable t e = Inr u \<Longrightarrow> llm_step t u"
| fail_terminal: "fail_running_terminal t e = Inr u \<Longrightarrow> llm_step t u"
| cancel: "cancel_task t e' = Inr u \<Longrightarrow> llm_step t u"

fun task_edge :: "llm_task_status \<Rightarrow> llm_task_status \<Rightarrow> bool" where
  "task_edge LT_RUNNING t = (t \<in> {LT_SUCCEEDED, LT_DEFERRED, LT_RETRYABLE_FAILED,
     LT_TERMINAL_FAILED, LT_CANCELLED})"
| "task_edge LT_READY t = (t \<in> {LT_RUNNING, LT_CANCELLED})"
| "task_edge LT_DEFERRED t = (t \<in> {LT_RUNNING, LT_CANCELLED})"
| "task_edge LT_RETRYABLE_FAILED t = (t \<in> {LT_RUNNING, LT_CANCELLED})"
| "task_edge _ t = False"

lemma llm_step_cases:
  assumes "llm_step t u"
  shows "task_edge (lt_status t) (lt_status u) \<and> llm_task_ok u \<and> lt_task_id u = lt_task_id t \<and>
     lt_attempt_count u = lt_attempt_count t + (if lt_status u = LT_RUNNING then 1 else 0)"
  using assms
proof cases
  case (cancel e)
  then show ?thesis
    by (cases "lt_status t") (auto simp: cancel_task_def error_simps lt_is_terminal_def split: if_splits)
qed (auto simp: task_transition_defs error_simps split: if_splits)

interpretation llm: lifecycle llm_step llm_task_ok "\<lambda>t. lt_is_terminal (lt_status t)" "\<lambda>t. t"
  lt_attempt_count
proof unfold_locales
  fix s t
  assume step: "llm_step s t"
  show "llm_task_ok t" using llm_step_cases [OF step] by simp
  show "lt_attempt_count s \<le> lt_attempt_count t \<and> lt_attempt_count t \<le> lt_attempt_count s + 1"
    using llm_step_cases [OF step] by simp
  show "lt_is_terminal (lt_status t) \<and> t = s" if "lt_is_terminal (lt_status s)"
    using llm_step_cases [OF step] that by (cases "lt_status s") (auto simp: lt_is_terminal_def)
qed

lemma start_ready_ok:
  assumes "llm_task_ok t" "lt_status t \<in> {LT_READY, LT_DEFERRED, LT_RETRYABLE_FAILED}"
  shows "\<exists>u. start_ready t r = Inr u \<and> lt_status u = LT_RUNNING \<and> llm_task_ok u \<and>
    lt_attempt_count u = lt_attempt_count t + 1 \<and> lt_selected_route u = Some r"
  using assms by (auto simp: start_ready_def error_simps llm_task_ok_def)

lemma task_edge_realised:
  assumes ok: "llm_task_ok t" and edge: "task_edge (lt_status t) s"
  shows "\<exists>u. llm_step t u \<and> lt_status u = s"
proof -
  let ?r = "\<lparr>rt_provider = ProviderId [], rt_model = ModelId [], rt_account = AccountRef []\<rparr>"
  have cancel: "llm_step t (closed_task t LT_CANCELLED None None)" if "\<not> lt_is_terminal (lt_status t)"
    using ok that by (intro llm_step.cancel [where e' = None]) (simp add: cancel_task_def error_simps)
  have run: "llm_step t (closed_task t LT_SUCCEEDED None None)"
    "llm_step t (closed_task t LT_DEFERRED (Some (Aware (Utc 0))) (Some UNKNOWN_ERROR))"
    "llm_step t (closed_task t LT_RETRYABLE_FAILED None (Some UNKNOWN_ERROR))"
    "llm_step t (closed_task t LT_TERMINAL_FAILED None (Some UNKNOWN_ERROR))" if "lt_status t = LT_RUNNING"
  proof -
    show "llm_step t (closed_task t LT_SUCCEEDED None None)"
      by (rule llm_step.succeed) (use ok that in \<open>simp add: task_transition_defs error_simps\<close>)
    show "llm_step t (closed_task t LT_DEFERRED (Some (Aware (Utc 0))) (Some UNKNOWN_ERROR))"
      by (rule llm_step.defer_until [where w = "Aware (Utc 0)" and e = UNKNOWN_ERROR]) (use ok that in \<open>simp add: task_transition_defs error_simps\<close>)
    show "llm_step t (closed_task t LT_RETRYABLE_FAILED None (Some UNKNOWN_ERROR))"
      by (rule llm_step.fail_retryable [where e = UNKNOWN_ERROR]) (use ok that in \<open>simp add: task_transition_defs error_simps\<close>)
    show "llm_step t (closed_task t LT_TERMINAL_FAILED None (Some UNKNOWN_ERROR))"
      by (rule llm_step.fail_terminal [where e = UNKNOWN_ERROR]) (use ok that in \<open>simp add: task_transition_defs error_simps\<close>)
  qed
  have start: "\<exists>u. llm_step t u \<and> lt_status u = LT_RUNNING"
    if "lt_status t \<in> {LT_READY, LT_DEFERRED, LT_RETRYABLE_FAILED}"
    using start_ready_ok [OF ok that, of ?r] by (blast intro: llm_step.start)
  show ?thesis
    using edge cancel run start
    by (cases "lt_status t") (fastforce simp: lt_is_terminal_def)+
qed

section \<open>Property\<close>

text \<open>
  The LLM task machine implements its status graph: from a valid task some method leads to
  status \<open>s\<close> exactly when the graph has that edge, and along every run tasks stay valid, a
  succeeded, terminally failed or cancelled task never changes, and the attempt counter counts the
  starts, never decreasing.
\<close>

theorem llm_machine_refines_graph:
  assumes "llm_task_ok t"
  shows "(\<forall>s. (\<exists>u. llm_step t u \<and> lt_status u = s) \<longleftrightarrow> task_edge (lt_status t) s) \<and>
    (\<forall>u. llm_step\<^sup>*\<^sup>* t u \<longrightarrow> llm_task_ok u \<and> (lt_is_terminal (lt_status t) \<longrightarrow> u = t) \<and>
       lt_attempt_count t \<le> lt_attempt_count u)"
proof (intro conjI allI impI)
  fix s show "(\<exists>u. llm_step t u \<and> lt_status u = s) \<longleftrightarrow> task_edge (lt_status t) s"
    using llm_step_cases task_edge_realised [OF assms] by blast
next
  fix u assume run: "llm_step\<^sup>*\<^sup>* t u"
  show "llm_task_ok u" by (rule llm.valid_run [OF run assms])
  show "lt_attempt_count t \<le> lt_attempt_count u" by (rule llm.attempts_run [OF run assms])
  show "u = t" if "lt_is_terminal (lt_status t)" using llm.final_run [OF run assms that] by simp
qed

definition task1 :: llm_task where
  "task1 = \<lparr>lt_task_id = ''t1'', lt_prompt_id = ''p1'', lt_prompt_version = ''v1'',
     lt_input_ref = ''i'', lt_output_contract_ref = ''o'', lt_status = LT_READY,
     lt_attempt_count = 0, lt_selected_route = None, lt_wait_until = None,
     lt_last_error_kind = None\<rparr>"

lemma task1_ok: "llm_task_ok task1"
proof -
  have "\<not> blank ''t1''" "\<not> blank ''p1''" by code_simp+
  then show ?thesis by (simp add: llm_task_ok_def task1_def del: blank_Cons)
qed

theorem llm_machine_refines_graph_witness:
  "\<exists>u. llm_step task1 u \<and> lt_status u = LT_RUNNING"
  using llm_machine_refines_graph [OF task1_ok] by (simp add: task1_def)

end
