(* ===== verification/RoutePlanning.thy ===== *)
theory RoutePlanning
  imports LlmTask
begin

text \<open>
  Routes of LLM calls (\<open>src/src/contexts/llm_runtime/application/policies\<close>): route candidates built
  from the catalog and the quota snapshots, and the policy that decides where a failed call goes
  next.
\<close>

section \<open>Candidates and decisions\<close>

record route_candidate =
  rc_route :: llm_route
  rc_context_window :: int
  rc_max_output :: int
  rc_model_rank :: int
  rc_account_rank :: int
  rc_minute_available :: bool
  rc_daily_available :: bool
  rc_unavailable_until :: "datetime option"

definition route_candidate_post_init :: "route_candidate \<Rightarrow> py_error + route_candidate" where
  "route_candidate_post_init c =
     (if rc_context_window c \<le> 0 then Inl (ValueError ''context_window_tokens must be > 0'')
      else if rc_max_output c \<le> 0 then Inl (ValueError ''max_output_tokens must be > 0'')
      else if rc_model_rank c < 0 then Inl (ValueError ''model_rank must be >= 0'')
      else if rc_account_rank c < 0 then Inl (ValueError ''account_rank must be >= 0'')
      else case rc_unavailable_until c of
        None \<Rightarrow> Inr c
      | Some t \<Rightarrow> if tz_aware t then Inr c
          else Inl (ValueError ''unavailable_until must be timezone-aware''))"

definition available_now :: "route_candidate \<Rightarrow> bool" where
  "available_now c \<longleftrightarrow> rc_minute_available c \<and> rc_daily_available c"

datatype route_decision_kind =
    USE_ROUTE | PLAN_RETRY_SAME_ROUTE | PLAN_WAIT_UNTIL | SPLIT_REQUIRED | DAILY_EXHAUSTED
  | PLAN_TERMINAL_FAILURE

record route_decision =
  pd_kind :: route_decision_kind
  pd_error :: llm_error_kind
  pd_route :: "llm_route option"
  pd_wait_until :: "datetime option"

definition route_decision_post_init :: "route_decision \<Rightarrow> py_error + route_decision" where
  "route_decision_post_init d =
     (if pd_kind d = USE_ROUTE \<and> pd_route d = None
        then Inl (ValueError ''USE_ROUTE decision must carry route'')
      else if pd_kind d \<noteq> USE_ROUTE \<and> pd_route d \<noteq> None
        then Inl (ValueError ''Only USE_ROUTE decision may carry route'')
      else if pd_kind d = PLAN_WAIT_UNTIL \<and> pd_wait_until d = None
        then Inl (ValueError ''WAIT_UNTIL decision must carry wait_until'')
      else if pd_kind d = PLAN_WAIT_UNTIL \<and> \<not> tz_aware (the (pd_wait_until d))
        then Inl (ValueError ''wait_until must be timezone-aware'')
      else if pd_kind d \<noteq> PLAN_WAIT_UNTIL \<and> pd_wait_until d \<noteq> None
        then Inl (ValueError ''Only WAIT_UNTIL decision may carry wait_until'')
      else Inr d)"

definition plan :: "route_decision_kind \<Rightarrow> llm_error_kind \<Rightarrow> llm_route option \<Rightarrow> datetime option \<Rightarrow>
    py_error + route_decision" where
  "plan k e r w = route_decision_post_init
     \<lparr>pd_kind = k, pd_error = e, pd_route = r, pd_wait_until = w\<rparr>"

section \<open>The planning policy\<close>

definition lowest_account_rank :: "route_candidate list \<Rightarrow> route_candidate option" where
  "lowest_account_rank cs = min_by rc_account_rank cs"

definition lowest_model_then_account_rank :: "route_candidate list \<Rightarrow> route_candidate option" where
  "lowest_model_then_account_rank cs = min_by (\<lambda>c. (rc_model_rank c, rc_account_rank c)) cs"

definition prefer_same_account_then_rank ::
    "route_candidate \<Rightarrow> route_candidate list \<Rightarrow> route_candidate option" where
  "prefer_same_account_then_rank cur cs =
     (case lowest_model_then_account_rank (filter (\<lambda>c.
         rt_provider (rc_route c) = rt_provider (rc_route cur) \<and>
         rt_account (rc_route c) = rt_account (rc_route cur)) cs) of
        Some c \<Rightarrow> Some c
      | None \<Rightarrow> lowest_model_then_account_rank cs)"

text \<open>\<open>min(waits)\<close>: the candidates' constructor admits aware datetimes only.\<close>

definition nearest_unavailable_until :: "route_candidate list \<Rightarrow> datetime option" where
  "nearest_unavailable_until cs =
     min_by (\<lambda>d. case d of Aware t \<Rightarrow> t | Naive n \<Rightarrow> Utc n)
       (List.map_filter rc_unavailable_until cs)"

definition find_current_candidate :: "llm_route \<Rightarrow> route_candidate list \<Rightarrow> py_error + route_candidate" where
  "find_current_candidate r cs = (case List.find (\<lambda>c. rc_route c = r) cs of
     Some c \<Rightarrow> Inr c
   | None \<Rightarrow> Inl (ValueError ''current_route must be present in candidates''))"

definition same_model_other_accounts ::
    "route_candidate \<Rightarrow> route_candidate list \<Rightarrow> route_candidate list" where
  "same_model_other_accounts cur cs = filter (\<lambda>c. available_now c \<and>
     rt_provider (rc_route c) = rt_provider (rc_route cur) \<and>
     rt_model (rc_route c) = rt_model (rc_route cur) \<and>
     rt_account (rc_route c) \<noteq> rt_account (rc_route cur)) cs"

definition other_models :: "route_candidate \<Rightarrow> route_candidate list \<Rightarrow> route_candidate list" where
  "other_models cur cs = filter (\<lambda>c. available_now c \<and>
     rt_provider (rc_route c) = rt_provider (rc_route cur) \<and>
     rt_model (rc_route c) \<noteq> rt_model (rc_route cur)) cs"

definition larger_context_route_or_split :: "llm_error_kind \<Rightarrow> route_candidate \<Rightarrow>
    route_candidate list \<Rightarrow> py_error + route_decision" where
  "larger_context_route_or_split e cur cs =
     (case prefer_same_account_then_rank cur
         (filter (\<lambda>c. available_now c \<and> rc_context_window c > rc_context_window cur) cs) of
        None \<Rightarrow> plan SPLIT_REQUIRED e None None
      | Some c \<Rightarrow> plan USE_ROUTE e (Some (rc_route c)) None)"

definition larger_output_route_or_split :: "llm_error_kind \<Rightarrow> route_candidate \<Rightarrow>
    route_candidate list \<Rightarrow> py_error + route_decision" where
  "larger_output_route_or_split e cur cs =
     (case prefer_same_account_then_rank cur
         (filter (\<lambda>c. available_now c \<and> rc_max_output c > rc_max_output cur) cs) of
        None \<Rightarrow> plan SPLIT_REQUIRED e None None
      | Some c \<Rightarrow> plan USE_ROUTE e (Some (rc_route c)) None)"

definition same_model_other_account_or_wait :: "llm_error_kind \<Rightarrow> route_candidate \<Rightarrow>
    route_candidate list \<Rightarrow> py_error + route_decision" where
  "same_model_other_account_or_wait e cur cs =
     (case lowest_account_rank (same_model_other_accounts cur cs) of
        Some c \<Rightarrow> plan USE_ROUTE e (Some (rc_route c)) None
      | None \<Rightarrow> (case nearest_unavailable_until cs of
          None \<Rightarrow> plan PLAN_RETRY_SAME_ROUTE e None None
        | Some w \<Rightarrow> plan PLAN_WAIT_UNTIL e None (Some w)))"

definition same_model_then_other_model_or_exhausted :: "llm_error_kind \<Rightarrow> route_candidate \<Rightarrow>
    route_candidate list \<Rightarrow> py_error + route_decision" where
  "same_model_then_other_model_or_exhausted e cur cs =
     (case lowest_account_rank (same_model_other_accounts cur cs) of
        Some c \<Rightarrow> plan USE_ROUTE e (Some (rc_route c)) None
      | None \<Rightarrow> (case lowest_model_then_account_rank (other_models cur cs) of
          Some c \<Rightarrow> plan USE_ROUTE e (Some (rc_route c)) None
        | None \<Rightarrow> plan DAILY_EXHAUSTED e None None))"

definition decide_route :: "llm_error_kind \<Rightarrow> llm_route \<Rightarrow> route_candidate list \<Rightarrow>
    py_error + route_decision" where
  "decide_route e current cs =
     bindE (find_current_candidate current cs) (\<lambda>cur.
       if e = AUTH_ERROR then plan PLAN_TERMINAL_FAILURE e None None
       else if e = REQUEST_TOO_LARGE then larger_context_route_or_split e cur cs
       else if e = OUTPUT_TOO_LARGE then larger_output_route_or_split e cur cs
       else if e = MINUTE_LIMIT then same_model_other_account_or_wait e cur cs
       else if e = DAILY_LIMIT then same_model_then_other_model_or_exhausted e cur cs
       else plan PLAN_RETRY_SAME_ROUTE e None None)"

section \<open>Soundness and completeness\<close>

lemma plan_simps [simp]:
  "plan USE_ROUTE e (Some r) None = Inr \<lparr>pd_kind = USE_ROUTE, pd_error = e, pd_route = Some r, pd_wait_until = None\<rparr>"
  "k \<notin> {USE_ROUTE, PLAN_WAIT_UNTIL} \<Longrightarrow>
     plan k e None None = Inr \<lparr>pd_kind = k, pd_error = e, pd_route = None, pd_wait_until = None\<rparr>"
  "plan PLAN_WAIT_UNTIL e None (Some (Aware t)) =
     Inr \<lparr>pd_kind = PLAN_WAIT_UNTIL, pd_error = e, pd_route = None, pd_wait_until = Some (Aware t)\<rparr>"
  by (auto simp: plan_def route_decision_post_init_def)

definition candidates_ok :: "llm_route \<Rightarrow> route_candidate list \<Rightarrow> bool" where
  "candidates_ok r cs \<longleftrightarrow> distinct (map rc_route cs) \<and> r \<in> set (map rc_route cs) \<and>
     (\<forall>c \<in> set cs. route_candidate_post_init c = Inr c)"

lemma find_current_ok:
  assumes "candidates_ok r cs"
  shows "\<exists>c. find_current_candidate r cs = Inr c \<and> c \<in> set cs \<and> rc_route c = r"
proof -
  from assms obtain c where "c \<in> set cs" "rc_route c = r" by (auto simp: candidates_ok_def)
  with assms find_distinct_key [of rc_route cs c] show ?thesis
    by (auto simp: candidates_ok_def find_current_candidate_def)
qed

text \<open>The candidates a failure of a kind may move to.\<close>

definition better :: "llm_error_kind \<Rightarrow> route_candidate \<Rightarrow> route_candidate \<Rightarrow> bool" where
  "better e cur c \<longleftrightarrow> available_now c \<and>
     (case e of
        REQUEST_TOO_LARGE \<Rightarrow> rc_context_window cur < rc_context_window c
      | OUTPUT_TOO_LARGE \<Rightarrow> rc_max_output cur < rc_max_output c
      | MINUTE_LIMIT \<Rightarrow> rt_provider (rc_route c) = rt_provider (rc_route cur) \<and>
          rt_model (rc_route c) = rt_model (rc_route cur) \<and> rt_account (rc_route c) \<noteq> rt_account (rc_route cur)
      | DAILY_LIMIT \<Rightarrow> rt_provider (rc_route c) = rt_provider (rc_route cur) \<and> rc_route c \<noteq> rc_route cur
      | _ \<Rightarrow> False)"

lemma prefer_None: "prefer_same_account_then_rank cur cs = None \<longleftrightarrow> cs = []"
  by (auto simp: prefer_same_account_then_rank_def lowest_model_then_account_rank_def split: option.splits)

lemma prefer_in: "prefer_same_account_then_rank cur cs = Some c \<Longrightarrow> c \<in> set cs"
  by (auto simp: prefer_same_account_then_rank_def lowest_model_then_account_rank_def
      split: option.splits dest!: min_by_in)

lemma nearest_aware:
  assumes "\<forall>c \<in> set cs. route_candidate_post_init c = Inr c" "nearest_unavailable_until cs = Some w"
  shows "tz_aware w"
proof -
  from assms(2) have "w \<in> set (List.map_filter rc_unavailable_until cs)"
    unfolding nearest_unavailable_until_def by (rule min_by_in)
  then obtain c where "c \<in> set cs" "rc_unavailable_until c = Some w"
    by (auto simp: List.map_filter_def)
  with assms(1) show ?thesis
    by (auto simp: route_candidate_post_init_def split: if_splits)
qed

text \<open>What happens when no candidate is better.\<close>

definition fallback_kind :: "llm_error_kind \<Rightarrow> route_candidate list \<Rightarrow> route_decision_kind" where
  "fallback_kind e cs = (case e of
       AUTH_ERROR \<Rightarrow> PLAN_TERMINAL_FAILURE
     | REQUEST_TOO_LARGE \<Rightarrow> SPLIT_REQUIRED
     | OUTPUT_TOO_LARGE \<Rightarrow> SPLIT_REQUIRED
     | DAILY_LIMIT \<Rightarrow> DAILY_EXHAUSTED
     | MINUTE_LIMIT \<Rightarrow> (if nearest_unavailable_until cs = None then PLAN_RETRY_SAME_ROUTE
         else PLAN_WAIT_UNTIL)
     | _ \<Rightarrow> PLAN_RETRY_SAME_ROUTE)"

definition use_decision :: "llm_error_kind \<Rightarrow> llm_route \<Rightarrow> route_decision" where
  "use_decision e r = \<lparr>pd_kind = USE_ROUTE, pd_error = e, pd_route = Some r, pd_wait_until = None\<rparr>"

definition fallback_decision :: "llm_error_kind \<Rightarrow> route_candidate list \<Rightarrow> route_decision" where
  "fallback_decision e cs = \<lparr>pd_kind = fallback_kind e cs, pd_error = e, pd_route = None,
     pd_wait_until = (if e = MINUTE_LIMIT then nearest_unavailable_until cs else None)\<rparr>"

lemma lowest_rank_cases:
  "(lowest_account_rank (filter P cs) = None \<and> (\<forall>c \<in> set cs. \<not> P c)) \<or>
   (\<exists>c. lowest_account_rank (filter P cs) = Some c \<and> c \<in> set cs \<and> P c)"
  "(lowest_model_then_account_rank (filter P cs) = None \<and> (\<forall>c \<in> set cs. \<not> P c)) \<or>
   (\<exists>c. lowest_model_then_account_rank (filter P cs) = Some c \<and> c \<in> set cs \<and> P c)"
  "(prefer_same_account_then_rank cur (filter P cs) = None \<and> (\<forall>c \<in> set cs. \<not> P c)) \<or>
   (\<exists>c. prefer_same_account_then_rank cur (filter P cs) = Some c \<and> c \<in> set cs \<and> P c)"
proof -
  have "(min_by f (filter P cs) = None \<and> (\<forall>c \<in> set cs. \<not> P c)) \<or>
      (\<exists>c. min_by f (filter P cs) = Some c \<and> c \<in> set cs \<and> P c)" for f :: "route_candidate \<Rightarrow> 'k::linorder"
    by (cases "min_by f (filter P cs)") (auto simp: filter_empty_conv dest: min_by_in)
  then show "(lowest_account_rank (filter P cs) = None \<and> (\<forall>c \<in> set cs. \<not> P c)) \<or>
      (\<exists>c. lowest_account_rank (filter P cs) = Some c \<and> c \<in> set cs \<and> P c)"
    "(lowest_model_then_account_rank (filter P cs) = None \<and> (\<forall>c \<in> set cs. \<not> P c)) \<or>
      (\<exists>c. lowest_model_then_account_rank (filter P cs) = Some c \<and> c \<in> set cs \<and> P c)"
    unfolding lowest_account_rank_def lowest_model_then_account_rank_def by blast+
  show "(prefer_same_account_then_rank cur (filter P cs) = None \<and> (\<forall>c \<in> set cs. \<not> P c)) \<or>
      (\<exists>c. prefer_same_account_then_rank cur (filter P cs) = Some c \<and> c \<in> set cs \<and> P c)"
    using prefer_None [of cur "filter P cs"] prefer_in [of cur "filter P cs"]
    by (cases "prefer_same_account_then_rank cur (filter P cs)") (auto simp: filter_empty_conv)
qed

lemma decide_route_cases:
  assumes ok: "candidates_ok r cs" and cur: "find_current_candidate r cs = Inr cur"
  shows "(\<exists>c \<in> set cs. better e cur c \<and> decide_route e r cs = Inr (use_decision e (rc_route c))) \<or>
    ((\<forall>c \<in> set cs. \<not> better e cur c) \<and> decide_route e r cs = Inr (fallback_decision e cs))"
proof (cases e)
  case REQUEST_TOO_LARGE
  then show ?thesis using cur
      lowest_rank_cases(3) [of cur "\<lambda>c. available_now c \<and> rc_context_window cur < rc_context_window c" cs]
    by (auto simp: decide_route_def larger_context_route_or_split_def better_def use_decision_def
        fallback_decision_def fallback_kind_def)
next
  case OUTPUT_TOO_LARGE
  then show ?thesis using cur
      lowest_rank_cases(3) [of cur "\<lambda>c. available_now c \<and> rc_max_output cur < rc_max_output c" cs]
    by (auto simp: decide_route_def larger_output_route_or_split_def better_def use_decision_def
        fallback_decision_def fallback_kind_def)
next
  case MINUTE_LIMIT
  have aware: "\<exists>t. w = Aware t" if "nearest_unavailable_until cs = Some w" for w
    using nearest_aware [OF _ that] ok by (auto simp: candidates_ok_def tz_aware_iff)
  let ?P = "\<lambda>c. available_now c \<and> rt_provider (rc_route c) = rt_provider (rc_route cur) \<and>
     rt_model (rc_route c) = rt_model (rc_route cur) \<and> rt_account (rc_route c) \<noteq> rt_account (rc_route cur)"
  show ?thesis using lowest_rank_cases(1) [of ?P cs]
  proof (elim disjE conjE exE)
    assume none: "lowest_account_rank (filter ?P cs) = None" and no: "\<forall>c \<in> set cs. \<not> ?P c"
    have "decide_route e r cs = Inr (fallback_decision e cs)"
      using cur none aware MINUTE_LIMIT
      by (cases "nearest_unavailable_until cs")
        (auto simp: decide_route_def same_model_other_account_or_wait_def same_model_other_accounts_def
          fallback_decision_def fallback_kind_def)
    then show ?thesis using no MINUTE_LIMIT by (auto simp: better_def)
  next
    fix c assume c: "lowest_account_rank (filter ?P cs) = Some c" "c \<in> set cs" "available_now c"
      "rt_provider (rc_route c) = rt_provider (rc_route cur)" "rt_model (rc_route c) = rt_model (rc_route cur)"
      "rt_account (rc_route c) \<noteq> rt_account (rc_route cur)"
    then show ?thesis using cur MINUTE_LIMIT
      by (auto simp: decide_route_def same_model_other_account_or_wait_def same_model_other_accounts_def
          better_def use_decision_def)
  qed
next
  case DAILY_LIMIT
  let ?P = "\<lambda>c. available_now c \<and> rt_provider (rc_route c) = rt_provider (rc_route cur) \<and>
     rt_model (rc_route c) = rt_model (rc_route cur) \<and> rt_account (rc_route c) \<noteq> rt_account (rc_route cur)"
  let ?Q = "\<lambda>c. available_now c \<and> rt_provider (rc_route c) = rt_provider (rc_route cur) \<and>
     rt_model (rc_route c) \<noteq> rt_model (rc_route cur)"
  have better: "better e cur c \<longleftrightarrow> ?P c \<or> ?Q c" for c
    using DAILY_LIMIT by (cases "rc_route c"; cases "rc_route cur") (auto simp: better_def)
  have run: "decide_route e r cs = same_model_then_other_model_or_exhausted e cur cs"
    using cur DAILY_LIMIT by (simp add: decide_route_def)
  show ?thesis
  proof (cases "lowest_account_rank (filter ?P cs)")
    case (Some c)
    then have "c \<in> set cs \<and> ?P c" using lowest_rank_cases(1) [of ?P cs] by auto
    with Some show ?thesis unfolding better run
      by (auto simp: same_model_then_other_model_or_exhausted_def same_model_other_accounts_def use_decision_def)
  next
    case none: None
    then have noP: "\<forall>c \<in> set cs. \<not> ?P c" using lowest_rank_cases(1) [of ?P cs] by auto
    show ?thesis
    proof (cases "lowest_model_then_account_rank (filter ?Q cs)")
      case (Some c)
      then have "c \<in> set cs \<and> ?Q c" using lowest_rank_cases(2) [of ?Q cs] by auto
      with none Some show ?thesis unfolding better run
        by (auto simp: same_model_then_other_model_or_exhausted_def same_model_other_accounts_def
            other_models_def use_decision_def)
    next
      case None
      then have "\<forall>c \<in> set cs. \<not> ?Q c" using lowest_rank_cases(2) [of ?Q cs] by auto
      with noP have "\<forall>c \<in> set cs. \<not> better e cur c" unfolding better by blast
      moreover have "decide_route e r cs = Inr (fallback_decision e cs)" unfolding run
        using none None DAILY_LIMIT
        by (simp add: same_model_then_other_model_or_exhausted_def same_model_other_accounts_def
            other_models_def fallback_decision_def fallback_kind_def)
      ultimately show ?thesis by blast
    qed
  qed
qed (use cur in \<open>auto simp: decide_route_def better_def fallback_decision_def fallback_kind_def\<close>)

section \<open>Properties\<close>

lemma find_current_is:
  assumes "candidates_ok r cs" "cur \<in> set cs" "rc_route cur = r"
  shows "find_current_candidate r cs = Inr cur"
  using find_distinct_key [of rc_route cs cur] assms
  by (simp add: candidates_ok_def find_current_candidate_def)

text \<open>
  C38. Route planning is total and moves exactly when it helps: with the failed route among checked
  candidates, the decision passes its constructor; it names the route of an available candidate
  that is better for the error (a larger context window, a larger output limit, another account of
  the same model, another route of the same provider) whenever there is one, and otherwise asks
  for the split, the wait until the nearest reset, the daily stop, the retry or the failure that
  the error calls for.
\<close>

theorem route_plan_moves_iff_better:
  assumes "candidates_ok r cs" and "cur \<in> set cs" and "rc_route cur = r"
  shows "\<exists>d. decide_route e r cs = Inr d \<and>
    (if \<exists>c \<in> set cs. better e cur c
     then \<exists>c \<in> set cs. better e cur c \<and> d = use_decision e (rc_route c)
     else d = fallback_decision e cs)"
  using decide_route_cases [OF assms(1) find_current_is [OF assms], of e] by auto

definition route1 :: llm_route where
  "route1 = \<lparr>rt_provider = ProviderId ''groq'', rt_model = ModelId ''m1'', rt_account = AccountRef ''a1''\<rparr>"

definition route2 :: llm_route where
  "route2 = route1\<lparr>rt_model := ModelId ''m2''\<rparr>"

definition cand1 :: route_candidate where
  "cand1 = \<lparr>rc_route = route1, rc_context_window = 100, rc_max_output = 10, rc_model_rank = 0,
     rc_account_rank = 0, rc_minute_available = True, rc_daily_available = True,
     rc_unavailable_until = None\<rparr>"

definition cand2 :: route_candidate where
  "cand2 = cand1\<lparr>rc_route := route2, rc_context_window := 200, rc_model_rank := 1\<rparr>"

lemma cands_ok: "candidates_ok route1 [cand1, cand2]"
  by (simp add: candidates_ok_def cand1_def cand2_def route1_def route2_def route_candidate_post_init_def)

theorem route_plan_moves_iff_better_witness:
  "decide_route REQUEST_TOO_LARGE route1 [cand1, cand2] = Inr (use_decision REQUEST_TOO_LARGE route2)"
proof -
  have "cand1 \<in> set [cand1, cand2]" "rc_route cand1 = route1" by (simp_all add: cand1_def)
  note t = route_plan_moves_iff_better [OF cands_ok this, of REQUEST_TOO_LARGE]
  have "\<not> better REQUEST_TOO_LARGE cand1 cand1" "better REQUEST_TOO_LARGE cand1 cand2"
    by (simp_all add: better_def cand1_def cand2_def available_now_def)
  with t show ?thesis by (auto simp: cand2_def)
qed

text \<open>
  On a too large request or output the policy stays on the failed account when it can: if a
  better candidate exists on the same provider and account, the chosen one is on it; and within
  the group it was chosen from, no candidate has a smaller (model rank, account rank).
\<close>

theorem route_plan_prefers_account:
  assumes "candidates_ok r cs" and "cur \<in> set cs" and "rc_route cur = r"
    and "e \<in> {REQUEST_TOO_LARGE, OUTPUT_TOO_LARGE}"
    and "decide_route e r cs = Inr d" and "pd_route d = Some r'"
  shows "\<exists>c \<in> set cs. better e cur c \<and> rc_route c = r' \<and>
    (let same = (\<lambda>x. rt_provider (rc_route x) = rt_provider r \<and> rt_account (rc_route x) = rt_account r) in
     (same c \<or> (\<forall>x \<in> set cs. better e cur x \<longrightarrow> \<not> same x)) \<and>
     (\<forall>x \<in> set cs. better e cur x \<longrightarrow> (same c \<longrightarrow> same x) \<longrightarrow>
        (rc_model_rank c, rc_account_rank c) \<le> (rc_model_rank x, rc_account_rank x)))"
proof -
  let ?same = "\<lambda>x. rt_provider (rc_route x) = rt_provider r \<and> rt_account (rc_route x) = rt_account r"
  have cur: "find_current_candidate r cs = Inr cur" by (rule find_current_is [OF assms(1-3)])
  have split: "pd_route d = None" if "plan SPLIT_REQUIRED e None None = Inr d" using that by auto
  from assms(4,5,6) cur obtain c where
    p: "prefer_same_account_then_rank cur (filter (better e cur) cs) = Some c" and r': "rc_route c = r'"
    by (auto simp: decide_route_def larger_context_route_or_split_def larger_output_route_or_split_def
        better_def [abs_def] split: option.splits)
  have c: "c \<in> set cs" "better e cur c" using prefer_in [OF p] by auto
  show ?thesis
  proof (cases "lowest_model_then_account_rank (filter ?same (filter (better e cur) cs))")
    case None
    then have no: "\<forall>x \<in> set cs. better e cur x \<longrightarrow> \<not> ?same x"
      by (auto simp: lowest_model_then_account_rank_def filter_empty_conv)
    from None p assms(3) have
      "min_by (\<lambda>c. (rc_model_rank c, rc_account_rank c)) (filter (better e cur) cs) = Some c"
      by (simp add: prefer_same_account_then_rank_def lowest_model_then_account_rank_def)
    from min_by_filter [OF this] no c r' show ?thesis by (auto simp: Let_def)
  next
    case (Some c')
    with p assms(3) have "c' = c" by (simp add: prefer_same_account_then_rank_def)
    with Some have m: "min_by (\<lambda>c. (rc_model_rank c, rc_account_rank c))
        (filter (\<lambda>x. better e cur x \<and> ?same x) cs) = Some c"
      by (simp add: lowest_model_then_account_rank_def conj_commute)
    from min_by_filter [OF m] c r' show ?thesis by (auto simp: Let_def)
  qed
qed

theorem route_plan_prefers_account_witness:
  "\<exists>c \<in> set [cand1, cand2]. better REQUEST_TOO_LARGE cand1 c \<and> rc_route c = route2"
proof -
  have 1: "cand1 \<in> set [cand1, cand2]" "rc_route cand1 = route1"
    "REQUEST_TOO_LARGE \<in> {REQUEST_TOO_LARGE, OUTPUT_TOO_LARGE}" by (simp_all add: cand1_def)
  have 2: "decide_route REQUEST_TOO_LARGE route1 [cand1, cand2] = Inr (use_decision REQUEST_TOO_LARGE route2)"
    by code_simp
  have "pd_route (use_decision REQUEST_TOO_LARGE route2) = Some route2" by (simp add: use_decision_def)
  from route_plan_prefers_account [OF cands_ok 1 2 this] show ?thesis by blast
qed



end
