(* ===== verification/RouteCandidates.thy ===== *)
theory RouteCandidates
  imports RoutePlanning Complex_Main
begin

text \<open>
  Where route candidates come from
  (\<open>src/src/contexts/llm_runtime/application/policies/llm_quota_availability_policy.py\<close>,
  \<open>llm_route_candidate_builder.py\<close>, \<open>llm_route_candidate_preparation_policy.py\<close>): model and account
  catalog entries, quota snapshots, and the preparation that joins them. Also the output cap of a
  request (\<open>request_output_cap_policy.py\<close>).
\<close>

section \<open>Catalog entries\<close>

datatype model_lifecycle = ML_PRODUCTION | ML_PREVIEW | ML_DEPRECATED

datatype reasoning_effort = RE_NONE | RE_DEFAULT | RE_LOW | RE_MEDIUM | RE_HIGH

record reasoning_profile =
  rp_supported :: "reasoning_effort list"
  rp_default :: "reasoning_effort option"

definition reasoning_profile_post_init :: "reasoning_profile \<Rightarrow> py_error + reasoning_profile" where
  "reasoning_profile_post_init p =
     (if \<not> distinct (rp_supported p)
      then Inl (ValueError ''ReasoningProfile.supported_efforts must not contain duplicates'')
      else case rp_default p of
        None \<Rightarrow> Inr p
      | Some e \<Rightarrow> if e \<in> set (rp_supported p) then Inr p
          else Inl (ValueError ''ReasoningProfile.default_effort must be one of supported_efforts''))"

definition can_disable_reasoning :: "reasoning_profile \<Rightarrow> bool" where
  "can_disable_reasoning p \<longleftrightarrow> RE_NONE \<in> set (rp_supported p)"

record rate_limit_profile =
  rl_requests_per_minute :: "int option"
  rl_requests_per_day :: "int option"
  rl_tokens_per_minute :: "int option"
  rl_tokens_per_day :: "int option"
  rl_input_tokens_per_minute :: "int option"
  rl_output_tokens_per_minute :: "int option"

definition bad_limit :: "int option \<Rightarrow> bool" where
  "bad_limit v \<longleftrightarrow> (case v of None \<Rightarrow> False | Some x \<Rightarrow> x \<le> 0)"

definition rate_limit_profile_post_init :: "rate_limit_profile \<Rightarrow> py_error + rate_limit_profile" where
  "rate_limit_profile_post_init p =
     (case List.find (\<lambda>(n, v). bad_limit v)
        [(''requests_per_minute'', rl_requests_per_minute p), (''requests_per_day'', rl_requests_per_day p),
         (''tokens_per_minute'', rl_tokens_per_minute p), (''tokens_per_day'', rl_tokens_per_day p),
         (''input_tokens_per_minute'', rl_input_tokens_per_minute p),
         (''output_tokens_per_minute'', rl_output_tokens_per_minute p)] of
        None \<Rightarrow> Inr p
      | Some (n, v) \<Rightarrow> Inl (ValueError (''RateLimitProfile.'' @ n @ '' must be > 0 when provided'')))"

record token_price =
  tp_input_per_million :: "rat option"
  tp_output_per_million :: "rat option"

definition token_price_post_init :: "token_price \<Rightarrow> py_error + token_price" where
  "token_price_post_init p =
     (case tp_input_per_million p of
        Some v \<Rightarrow> if v < 0
          then Inl (ValueError ''TokenPrice.input_per_million must be >= 0 when provided'')
          else (case tp_output_per_million p of
             Some w \<Rightarrow> if w < 0
               then Inl (ValueError ''TokenPrice.output_per_million must be >= 0 when provided'') else Inr p
           | None \<Rightarrow> Inr p)
      | None \<Rightarrow> (case tp_output_per_million p of
             Some w \<Rightarrow> if w < 0
               then Inl (ValueError ''TokenPrice.output_per_million must be >= 0 when provided'') else Inr p
           | None \<Rightarrow> Inr p))"

record model_profile =
  mp_provider :: provider_id
  mp_model :: model_id
  mp_lifecycle :: model_lifecycle
  mp_context_window :: int
  mp_max_output :: int
  mp_rank :: int
  mp_rate_limits :: rate_limit_profile
  mp_token_price :: token_price
  mp_reasoning :: reasoning_profile
  mp_supports_json_object :: bool
  mp_supports_json_schema :: bool
  mp_enabled :: bool
  mp_multiplier :: rat

definition model_profile_post_init :: "model_profile \<Rightarrow> py_error + model_profile" where
  "model_profile_post_init m =
     (if mp_context_window m \<le> 0
        then Inl (ValueError ''ModelProfile.context_window_tokens must be > 0'')
      else if mp_max_output m \<le> 0 then Inl (ValueError ''ModelProfile.max_output_tokens must be > 0'')
      else if mp_max_output m > mp_context_window m
        then Inl (ValueError ''ModelProfile.max_output_tokens must be <= context_window_tokens'')
      else if mp_rank m < 0 then Inl (ValueError ''ModelProfile.model_rank must be >= 0'')
      else if mp_multiplier m \<le> 0
        then Inl (ValueError ''ModelProfile.model_char_to_token_multiplier must be > 0'')
      else Inr m)"

record provider_account =
  pa_provider :: provider_id
  pa_account :: account_ref
  pa_rank :: int
  pa_enabled :: bool

definition provider_account_post_init :: "provider_account \<Rightarrow> py_error + provider_account" where
  "provider_account_post_init a =
     (if pa_rank a < 0 then Inl (ValueError ''ProviderAccount.account_rank must be >= 0'') else Inr a)"

section \<open>Quota snapshots\<close>

record token_need =
  tn_input :: int
  tn_completion :: int

definition token_need_post_init :: "token_need \<Rightarrow> py_error + token_need" where
  "token_need_post_init n =
     (if tn_input n < 0 then Inl (ValueError ''input_tokens must be >= 0'')
      else if tn_completion n < 0 then Inl (ValueError ''completion_tokens must be >= 0'')
      else Inr n)"

definition tn_total :: "token_need \<Rightarrow> int" where
  "tn_total n = tn_input n + tn_completion n"

record quota_snapshot =
  qs_requests_minute :: "int option"
  qs_requests_day :: "int option"
  qs_tokens_minute :: "int option"
  qs_tokens_day :: "int option"
  qs_input_tokens_minute :: "int option"
  qs_output_tokens_minute :: "int option"
  qs_minute_reset_at :: "datetime option"
  qs_daily_reset_at :: "datetime option"
  qs_unavailable_until :: "datetime option"

definition quota_snapshot_post_init :: "quota_snapshot \<Rightarrow> py_error + quota_snapshot" where
  "quota_snapshot_post_init s =
     (case List.find (\<lambda>(n, v). case v of None \<Rightarrow> False | Some x \<Rightarrow> x < 0)
        [(''remaining_requests_minute'', qs_requests_minute s), (''remaining_requests_day'', qs_requests_day s),
         (''remaining_tokens_minute'', qs_tokens_minute s), (''remaining_tokens_day'', qs_tokens_day s),
         (''remaining_input_tokens_minute'', qs_input_tokens_minute s),
         (''remaining_output_tokens_minute'', qs_output_tokens_minute s)] of
        Some (n, v) \<Rightarrow> Inl (ValueError (n @ '' must be >= 0 when provided''))
      | None \<Rightarrow>
          (case List.find (\<lambda>(n, v). case v of None \<Rightarrow> False | Some t \<Rightarrow> \<not> tz_aware t)
             [(''minute_reset_at'', qs_minute_reset_at s), (''daily_reset_at'', qs_daily_reset_at s),
              (''unavailable_until'', qs_unavailable_until s)] of
             Some (n, v) \<Rightarrow> Inl (ValueError (n @ '' must be timezone-aware''))
           | None \<Rightarrow> Inr s))"

definition short_of :: "int option \<Rightarrow> int \<Rightarrow> bool" where
  "short_of remaining needed \<longleftrightarrow> (case remaining of None \<Rightarrow> False | Some x \<Rightarrow> x < needed)"

definition minute_capacity_available :: "quota_snapshot \<Rightarrow> token_need \<Rightarrow> bool" where
  "minute_capacity_available s n =
     (if short_of (qs_requests_minute s) 1 then False
      else if short_of (qs_tokens_minute s) (tn_total n) then False
      else if short_of (qs_input_tokens_minute s) (tn_input n) then False
      else if short_of (qs_output_tokens_minute s) (tn_completion n) then False
      else True)"

definition daily_capacity_available :: "quota_snapshot \<Rightarrow> token_need \<Rightarrow> bool" where
  "daily_capacity_available s n =
     (if short_of (qs_requests_day s) 1 then False
      else if short_of (qs_tokens_day s) (tn_total n) then False
      else True)"

record route_availability =
  ra_minute :: bool
  ra_daily :: bool
  ra_unavailable_until :: "datetime option"

definition open_availability :: route_availability where
  "open_availability = \<lparr>ra_minute = True, ra_daily = True, ra_unavailable_until = None\<rparr>"

definition snapshot_availability :: "(llm_route \<rightharpoonup> quota_snapshot) \<Rightarrow> token_need \<Rightarrow> llm_route \<Rightarrow>
    route_availability" where
  "snapshot_availability snapshots n r =
     (case snapshots r of
        None \<Rightarrow> open_availability
      | Some s \<Rightarrow> \<lparr>ra_minute = minute_capacity_available s n, ra_daily = daily_capacity_available s n,
          ra_unavailable_until = qs_unavailable_until s\<rparr>)"

fun build_availability_by_route :: "(llm_route \<rightharpoonup> quota_snapshot) \<Rightarrow> llm_route list \<Rightarrow> token_need \<Rightarrow>
    (llm_route \<rightharpoonup> route_availability) \<Rightarrow> (llm_route \<rightharpoonup> route_availability)" where
  "build_availability_by_route snapshots [] n acc = acc"
| "build_availability_by_route snapshots (r # rs) n acc =
     build_availability_by_route snapshots rs n (acc(r \<mapsto> snapshot_availability snapshots n r))"

section \<open>Building candidates\<close>

definition route_for :: "model_profile \<Rightarrow> provider_account \<Rightarrow> llm_route" where
  "route_for m a = \<lparr>rt_provider = mp_provider m, rt_model = mp_model m, rt_account = pa_account a\<rparr>"

definition candidate_for :: "(llm_route \<rightharpoonup> route_availability) \<Rightarrow> model_profile \<times> provider_account \<Rightarrow>
    route_candidate" where
  "candidate_for av x = (case x of (m, a) \<Rightarrow>
     let v = (case av (route_for m a) of None \<Rightarrow> open_availability | Some v \<Rightarrow> v) in
     \<lparr>rc_route = route_for m a, rc_context_window = mp_context_window m,
      rc_max_output = mp_max_output m, rc_model_rank = mp_rank m, rc_account_rank = pa_rank a,
      rc_minute_available = ra_minute v, rc_daily_available = ra_daily v,
      rc_unavailable_until = ra_unavailable_until v\<rparr>)"

definition usable_pairs :: "model_profile list \<Rightarrow> provider_account list \<Rightarrow>
    (model_profile \<times> provider_account) list" where
  "usable_pairs models accounts = concat (map (\<lambda>m.
     map (Pair m) (filter (\<lambda>a. pa_enabled a \<and> pa_provider a = mp_provider m) accounts))
     (filter mp_enabled models))"

definition candidate_key :: "route_candidate \<Rightarrow> int \<times> int \<times> string \<times> string \<times> string" where
  "candidate_key c = (rc_model_rank c, rc_account_rank c, provider_id_value (rt_provider (rc_route c)),
     model_id_value (rt_model (rc_route c)), account_ref_value (rt_account (rc_route c)))"

definition build_candidates :: "model_profile list \<Rightarrow> provider_account list \<Rightarrow>
    (llm_route \<rightharpoonup> route_availability) \<Rightarrow> py_error + route_candidate list" where
  "build_candidates models accounts av =
     bindE (traverseE (\<lambda>x. route_candidate_post_init (candidate_for av x)) (usable_pairs models accounts))
       (\<lambda>cs. Inr (sort_key candidate_key cs))"

definition prepare_candidates :: "model_profile list \<Rightarrow> provider_account list \<Rightarrow> token_need \<Rightarrow>
    (llm_route \<rightharpoonup> quota_snapshot) \<Rightarrow> py_error + route_candidate list" where
  "prepare_candidates models accounts n snapshots =
     bindE (build_candidates models accounts Map.empty) (\<lambda>cs.
       build_candidates models accounts
         (build_availability_by_route snapshots (map rc_route cs) n Map.empty))"

section \<open>What preparation produces\<close>

lemma usable_pairs_in:
  "(m, a) \<in> set (usable_pairs models accounts) \<longleftrightarrow> m \<in> set models \<and> a \<in> set accounts \<and>
     mp_enabled m \<and> pa_enabled a \<and> pa_provider a = mp_provider m"
  by (auto simp: usable_pairs_def)

definition catalog_ok :: "model_profile list \<Rightarrow> provider_account list \<Rightarrow> bool" where
  "catalog_ok models accounts \<longleftrightarrow> (\<forall>m \<in> set models. model_profile_post_init m = Inr m) \<and>
     (\<forall>a \<in> set accounts. provider_account_post_init a = Inr a)"

lemma candidate_for_checked:
  assumes "catalog_ok models accounts" "x \<in> set (usable_pairs models accounts)"
    and "\<forall>r v t. av r = Some v \<longrightarrow> ra_unavailable_until v = Some t \<longrightarrow> tz_aware t"
  shows "route_candidate_post_init (candidate_for av x) = Inr (candidate_for av x)"
proof -
  obtain m a where x: "x = (m, a)" by (cases x)
  with assms(1,2) have "model_profile_post_init m = Inr m" "provider_account_post_init a = Inr a"
    by (auto simp: catalog_ok_def usable_pairs_in)
  then show ?thesis using assms(3)
    by (auto simp: x route_candidate_post_init_def candidate_for_def Let_def open_availability_def
        model_profile_post_init_def provider_account_post_init_def split: option.splits if_splits)
qed

lemma build_candidates_total:
  assumes "catalog_ok models accounts"
    and "\<forall>r v t. av r = Some v \<longrightarrow> ra_unavailable_until v = Some t \<longrightarrow> tz_aware t"
  shows "build_candidates models accounts av =
    Inr (sort_key candidate_key (map (candidate_for av) (usable_pairs models accounts)))"
  unfolding build_candidates_def
  by (subst traverseE_map [where g = "candidate_for av"])
    (use candidate_for_checked [OF assms(1) _ assms(2)] in auto)

lemma build_availability_lookup:
  "build_availability_by_route snapshots rs n acc r =
     (if r \<in> set rs then Some (snapshot_availability snapshots n r) else acc r)"
  by (induction rs arbitrary: acc) auto

lemma checked_twice:
  "(case a of Some (n, v) \<Rightarrow> Inl (f n) | None \<Rightarrow>
     (case b of Some (n, v) \<Rightarrow> Inl (g n) | None \<Rightarrow> Inr x)) = Inr y \<Longrightarrow> b = None"
  by (auto split: option.splits prod.splits)

lemma quota_aware:
  assumes "quota_snapshot_post_init s = Inr s" "qs_unavailable_until s = Some t"
  shows "tz_aware t"
proof (rule ccontr)
  assume naive: "\<not> tz_aware t"
  let ?P = "\<lambda>(n :: string, v). case v of None \<Rightarrow> False | Some t \<Rightarrow> \<not> tz_aware t"
  let ?ts = "[(''minute_reset_at'', qs_minute_reset_at s), (''daily_reset_at'', qs_daily_reset_at s),
    (''unavailable_until'', qs_unavailable_until s)]"
  have "(''unavailable_until'', Some t) \<in> set ?ts" using assms(2) by simp
  moreover have "?P (''unavailable_until'', Some t)" using naive by simp
  ultimately have "List.find ?P ?ts \<noteq> None" unfolding find_None_iff by blast
  moreover have "List.find ?P ?ts = None"
    using assms(1) unfolding quota_snapshot_post_init_def by (rule checked_twice)
  ultimately show False by contradiction
qed

text \<open>When a snapshot admits a need.\<close>

definition admits :: "quota_snapshot \<Rightarrow> token_need \<Rightarrow> bool" where
  "admits s n \<longleftrightarrow>
     (\<forall>x. qs_requests_minute s = Some x \<longrightarrow> 1 \<le> x) \<and> (\<forall>x. qs_requests_day s = Some x \<longrightarrow> 1 \<le> x) \<and>
     (\<forall>x. qs_tokens_minute s = Some x \<longrightarrow> tn_input n + tn_completion n \<le> x) \<and>
     (\<forall>x. qs_tokens_day s = Some x \<longrightarrow> tn_input n + tn_completion n \<le> x) \<and>
     (\<forall>x. qs_input_tokens_minute s = Some x \<longrightarrow> tn_input n \<le> x) \<and>
     (\<forall>x. qs_output_tokens_minute s = Some x \<longrightarrow> tn_completion n \<le> x)"

lemma availability_admits:
  "ra_minute (snapshot_availability snapshots n r) \<and> ra_daily (snapshot_availability snapshots n r) \<longleftrightarrow>
     (\<forall>s. snapshots r = Some s \<longrightarrow> admits s n)"
  by (auto simp: snapshot_availability_def open_availability_def admits_def short_of_def tn_total_def
      minute_capacity_available_def daily_capacity_available_def split: option.splits)

text \<open>
  Preparation is total on checked catalogs and snapshots, and correct: the candidates are, in
  the order of their ranks and names, one for every enabled model and enabled account of the same
  provider, and a candidate is available now exactly when the quota snapshot of its route, if
  there is one, admits the estimated need in requests and in tokens of every kind.
\<close>

theorem prepared_candidates_correct:
  assumes "catalog_ok models accounts"
    and "\<forall>r s. snapshots r = Some s \<longrightarrow> quota_snapshot_post_init s = Inr s"
  shows "\<exists>cs. prepare_candidates models accounts n snapshots = Inr cs \<and>
    sorted (map candidate_key cs) \<and>
    length cs = length (usable_pairs models accounts) \<and>
    rc_route ` set cs = {route_for m a | m a. m \<in> set models \<and> a \<in> set accounts \<and> mp_enabled m \<and>
      pa_enabled a \<and> pa_provider a = mp_provider m} \<and>
    (\<forall>c \<in> set cs. available_now c \<longleftrightarrow> (\<forall>s. snapshots (rc_route c) = Some s \<longrightarrow> admits s n))"
proof -
  let ?ps = "usable_pairs models accounts"
  let ?cs0 = "sort_key candidate_key (map (candidate_for Map.empty) ?ps)"
  let ?av = "build_availability_by_route snapshots (map rc_route ?cs0) n Map.empty"
  let ?cs = "sort_key candidate_key (map (candidate_for ?av) ?ps)"
  have route: "rc_route (candidate_for av (m, a)) = route_for m a" for av m a
    by (simp add: candidate_for_def Let_def)
  have aware: "tz_aware t" if "?av r = Some v" "ra_unavailable_until v = Some t" for r v t
  proof -
    from that(1) have v: "v = snapshot_availability snapshots n r"
      by (simp add: build_availability_lookup split: if_splits)
    with that(2) obtain s where s: "snapshots r = Some s" "qs_unavailable_until s = Some t"
      by (auto simp: snapshot_availability_def open_availability_def split: option.splits)
    with assms(2) have "quota_snapshot_post_init s = Inr s" by blast
    from quota_aware [OF this s(2)] show ?thesis .
  qed
  have run: "prepare_candidates models accounts n snapshots = Inr ?cs"
    unfolding prepare_candidates_def using aware
    by (subst build_candidates_total [OF assms(1)]; simp)+
  have av: "?av (route_for m a) = Some (snapshot_availability snapshots n (route_for m a))"
    if "(m, a) \<in> set ?ps" for m a
    unfolding build_availability_lookup using that by (force simp: route image_image)
  have "available_now (candidate_for ?av (m, a)) \<longleftrightarrow>
      (\<forall>s. snapshots (route_for m a) = Some s \<longrightarrow> admits s n)" if "(m, a) \<in> set ?ps" for m a
    using av [OF that] availability_admits [of snapshots n "route_for m a"]
    by (simp add: available_now_def candidate_for_def Let_def)
  then have "\<forall>c \<in> set ?cs. available_now c \<longleftrightarrow> (\<forall>s. snapshots (rc_route c) = Some s \<longrightarrow> admits s n)"
    by (auto simp: route)
  moreover have "rc_route ` set ?cs = {route_for m a | m a. m \<in> set models \<and> a \<in> set accounts \<and>
      mp_enabled m \<and> pa_enabled a \<and> pa_provider a = mp_provider m}"
  proof -
    have "rc_route ` set ?cs = (\<lambda>x. route_for (fst x) (snd x)) ` set ?ps"
      by (simp add: image_image candidate_for_def Let_def case_prod_unfold)
    also have "\<dots> = {route_for m a | m a. (m, a) \<in> set ?ps}" by force
    finally show ?thesis unfolding usable_pairs_in by blast
  qed
  ultimately show ?thesis using run by (intro exI [of _ ?cs]) simp
qed

definition model1 :: model_profile where
  "model1 = \<lparr>mp_provider = ProviderId ''groq'', mp_model = ModelId ''m1'', mp_lifecycle = ML_PRODUCTION,
     mp_context_window = 100, mp_max_output = 10, mp_rank = 0,
     mp_rate_limits = \<lparr>rl_requests_per_minute = Some 30, rl_requests_per_day = None,
       rl_tokens_per_minute = Some 6000, rl_tokens_per_day = None,
       rl_input_tokens_per_minute = None, rl_output_tokens_per_minute = None\<rparr>,
     mp_token_price = \<lparr>tp_input_per_million = None, tp_output_per_million = None\<rparr>,
     mp_reasoning = \<lparr>rp_supported = [], rp_default = None\<rparr>, mp_supports_json_object = True,
     mp_supports_json_schema = False, mp_enabled = True, mp_multiplier = 4\<rparr>"

definition account1 :: provider_account where
  "account1 = \<lparr>pa_provider = ProviderId ''groq'', pa_account = AccountRef ''a1'', pa_rank = 0, pa_enabled = True\<rparr>"

theorem prepared_candidates_correct_witness:
  "\<exists>cs. prepare_candidates [model1] [account1] \<lparr>tn_input = 5, tn_completion = 2\<rparr> Map.empty = Inr cs \<and>
     length cs = 1"
proof -
  have "catalog_ok [model1] [account1]"
    by (simp add: catalog_ok_def model1_def account1_def model_profile_post_init_def provider_account_post_init_def)
  moreover have "length (usable_pairs [model1] [account1]) = 1"
    by (simp add: usable_pairs_def model1_def account1_def)
  ultimately show ?thesis
    using prepared_candidates_correct [of "[model1]" "[account1]" Map.empty "\<lparr>tn_input = 5, tn_completion = 2\<rparr>"]
    by auto
qed

section \<open>The output cap of a request\<close>

record output_cap_profile =
  oc_default_completion :: int
  oc_safety_gap :: int

definition output_cap_profile_post_init :: "output_cap_profile \<Rightarrow> py_error + output_cap_profile" where
  "output_cap_profile_post_init p =
     (if oc_default_completion p \<le> 0
        then Inl (ValueError ''provider_default_completion_tokens must be > 0'')
      else if oc_safety_gap p < 0 then Inl (ValueError ''completion_safety_gap_tokens must be >= 0'')
      else Inr p)"

record output_cap_decision =
  cap_input :: int
  cap_artifact :: int
  cap_remaining_after_input :: int
  cap_max_completion :: "int option"
  cap_required_window :: int

definition output_cap_decision_post_init :: "output_cap_decision \<Rightarrow> py_error + output_cap_decision" where
  "output_cap_decision_post_init d =
     (if cap_input d \<le> 0 then Inl (ValueError ''input_tokens must be > 0'')
      else if cap_artifact d < 0 then Inl (ValueError ''artifact_tokens must be >= 0'')
      else if bad_limit (cap_max_completion d) then Inl (ValueError ''max_completion_tokens must be > 0'')
      else if cap_required_window d \<le> 0 then Inl (ValueError ''required_window_tokens must be > 0'')
      else Inr d)"

definition decide_output_cap :: "output_cap_profile \<Rightarrow> int \<Rightarrow> int \<Rightarrow> int \<Rightarrow> int \<Rightarrow>
    py_error + output_cap_decision" where
  "decide_output_cap p input artifact remaining model_max =
     (if input \<le> 0 then Inl (ValueError ''input_tokens must be > 0'')
      else if artifact < 0 then Inl (ValueError ''artifact_tokens must be >= 0'')
      else if remaining < 0 then Inl (ValueError ''tokens_remaining must be >= 0'')
      else if model_max \<le> 0 then Inl (ValueError ''model_max_output_tokens must be > 0'')
      else if oc_default_completion p > model_max then Inl (ValueError
        ''provider_default_completion_tokens must not exceed model_max_output_tokens'')
      else
        let after = remaining - input - oc_safety_gap p in
        output_cap_decision_post_init
          \<lparr>cap_input = input, cap_artifact = artifact, cap_remaining_after_input = after,
           cap_max_completion = (if after > oc_default_completion p then Some (min after model_max) else None),
           cap_required_window = input + artifact + oc_safety_gap p\<rparr>)"

text \<open>
  A requested completion cap never overruns the window: on checked arguments the decision is
  produced; a cap is requested exactly when the tokens left after the input and the safety gap
  exceed the provider's default completion; then it lies above that default, within the model's
  output limit, and input, cap and gap together fit into the remaining tokens.
\<close>

theorem output_cap_fits_window:
  assumes "output_cap_profile_post_init p = Inr p" and "0 < input" and "0 \<le> artifact"
    and "0 \<le> remaining" and "oc_default_completion p \<le> model_max"
  shows "\<exists>d. decide_output_cap p input artifact remaining model_max = Inr d \<and>
    (case cap_max_completion d of
       None \<Rightarrow> remaining - input - oc_safety_gap p \<le> oc_default_completion p
     | Some cap \<Rightarrow> oc_default_completion p \<le> cap \<and> cap \<le> model_max \<and>
         input + cap + oc_safety_gap p \<le> remaining \<and>
         (cap = model_max \<or> input + cap + oc_safety_gap p = remaining))"
  using assms
  by (auto simp: decide_output_cap_def output_cap_decision_post_init_def output_cap_profile_post_init_def
      Let_def bad_limit_def min_def split: if_splits)

theorem output_cap_fits_window_witness:
  "\<exists>d. decide_output_cap \<lparr>oc_default_completion = 2048, oc_safety_gap = 300\<rparr> 1000 0 6000 8192 = Inr d \<and>
     cap_max_completion d = Some 4700"
proof -
  have "output_cap_profile_post_init \<lparr>oc_default_completion = 2048, oc_safety_gap = 300\<rparr> =
      Inr \<lparr>oc_default_completion = 2048, oc_safety_gap = 300\<rparr>"
    by (simp add: output_cap_profile_post_init_def)
  from output_cap_fits_window [OF this, of 1000 0 6000 8192] show ?thesis
    by (auto split: option.splits)
qed

end
