(* ===== verification/ExecuteLlm.thy ===== *)
theory ExecuteLlm
  imports RouteCandidates
begin

text \<open>
  One execution attempt of an LLM task
  (\<open>src/src/contexts/llm_runtime/application/use_cases/execute_llm_task.py\<close>,
  \<open>policies/llm_error_policy.py\<close>, \<open>results/execute_llm_task_result.py\<close>). The provider call and the
  output validation are parameters: any functions of the task, the route and the prepared input.
\<close>

section \<open>The error policy\<close>

datatype disposition_kind =
    DISP_RETRY_SAME_ROUTE | DISP_DEFER_UNTIL | DISP_TRY_ALTERNATE_ROUTE | DISP_VALIDATION_RETRY
  | DISP_CONFIRM_EMPTY_OUTPUT | DISP_TERMINAL_FAILURE

record error_disposition =
  ed_kind :: disposition_kind
  ed_error :: llm_error_kind
  ed_wait_until :: "datetime option"

definition error_disposition_post_init :: "error_disposition \<Rightarrow> py_error + error_disposition" where
  "error_disposition_post_init d =
     (if ed_kind d = DISP_DEFER_UNTIL \<and> ed_wait_until d = None
        then Inl (ValueError ''DEFER_UNTIL disposition must have wait_until'')
      else if ed_kind d = DISP_DEFER_UNTIL \<and> \<not> tz_aware (the (ed_wait_until d))
        then Inl (ValueError ''wait_until must be timezone-aware'')
      else if ed_kind d \<noteq> DISP_DEFER_UNTIL \<and> ed_wait_until d \<noteq> None
        then Inl (ValueError ''Only DEFER_UNTIL disposition may carry wait_until'')
      else Inr d)"

definition decide_error :: "llm_error_kind \<Rightarrow> datetime option \<Rightarrow> py_error + error_disposition" where
  "decide_error e wait_until =
     (let disposition = (\<lambda>k w. error_disposition_post_init
        \<lparr>ed_kind = k, ed_error = e, ed_wait_until = w\<rparr>) in
      if e = MINUTE_LIMIT then disposition DISP_DEFER_UNTIL wait_until
      else if e \<in> {REQUEST_TOO_LARGE, OUTPUT_TOO_LARGE, DAILY_LIMIT}
        then disposition DISP_TRY_ALTERNATE_ROUTE None
      else if e \<in> {INVALID_OUTPUT, VALIDATION_FAILED} then disposition DISP_VALIDATION_RETRY None
      else if e = EMPTY_OUTPUT then disposition DISP_CONFIRM_EMPTY_OUTPUT None
      else if e = AUTH_ERROR then disposition DISP_TERMINAL_FAILURE None
      else disposition DISP_RETRY_SAME_ROUTE None)"

section \<open>Ports and outcomes\<close>

datatype provider_result =
    ProviderSuccess (pr_raw_text: string) (pr_usage: "token_usage option")
  | ProviderFailure (pr_error: llm_error_kind) (pr_wait_until: "datetime option")

datatype validation_result =
    ValidationSuccess
  | ValidationFailure (vf_error: llm_error_kind) (vf_codes: "string list")

text \<open>The checks of the result constructors: what an adapter can hand over at all.\<close>

definition provider_result_ok :: "provider_result \<Rightarrow> bool" where
  "provider_result_ok r \<longleftrightarrow> (case r of
     ProviderSuccess t u \<Rightarrow> True
   | ProviderFailure e w \<Rightarrow> (case w of None \<Rightarrow> True | Some d \<Rightarrow> tz_aware d))"

definition validation_result_ok :: "validation_result \<Rightarrow> bool" where
  "validation_result_ok r \<longleftrightarrow> (case r of
     ValidationSuccess \<Rightarrow> True
   | ValidationFailure e codes \<Rightarrow> e \<in> {INVALID_OUTPUT, VALIDATION_FAILED, EMPTY_OUTPUT} \<and>
       \<not> list_ex blank codes)"

datatype outcome_kind =
    EX_SUCCEEDED | EX_ROUTE_CHANGE_REQUIRED | EX_DEFERRED | EX_RETRY_REQUIRED | EX_SPLIT_REQUIRED
  | EX_DAILY_EXHAUSTED | EX_CONFIRM_EMPTY_OUTPUT_REQUIRED | EX_TERMINAL_FAILED

record execute_outcome =
  eo_kind :: outcome_kind
  eo_task :: llm_task
  eo_raw_text :: "string option"
  eo_usage :: "token_usage option"
  eo_route :: "llm_route option"
  eo_wait_until :: "datetime option"
  eo_error_kind :: "llm_error_kind option"

definition execute_outcome_post_init :: "execute_outcome \<Rightarrow> py_error + execute_outcome" where
  "execute_outcome_post_init x =
     (if eo_kind x = EX_SUCCEEDED \<and> eo_raw_text x = None
        then Inl (ValueError ''SUCCEEDED outcome must carry raw_text'')
      else if eo_kind x = EX_SUCCEEDED \<and> eo_error_kind x \<noteq> None
        then Inl (ValueError ''SUCCEEDED outcome must not carry error_kind'')
      else if eo_kind x \<noteq> EX_SUCCEEDED \<and> eo_raw_text x \<noteq> None
        then Inl (ValueError ''Only SUCCEEDED outcome may carry raw_text'')
      else if eo_kind x = EX_ROUTE_CHANGE_REQUIRED \<and> eo_route x = None
        then Inl (ValueError ''ROUTE_CHANGE_REQUIRED outcome must carry route'')
      else if eo_kind x \<noteq> EX_ROUTE_CHANGE_REQUIRED \<and> eo_route x \<noteq> None
        then Inl (ValueError ''Only ROUTE_CHANGE_REQUIRED outcome may carry route'')
      else if eo_kind x = EX_DEFERRED \<and> eo_wait_until x = None
        then Inl (ValueError ''DEFERRED outcome must carry wait_until'')
      else if eo_kind x = EX_DEFERRED \<and> \<not> tz_aware (the (eo_wait_until x))
        then Inl (ValueError ''wait_until must be timezone-aware'')
      else if eo_kind x \<noteq> EX_DEFERRED \<and> eo_wait_until x \<noteq> None
        then Inl (ValueError ''Only DEFERRED outcome may carry wait_until'')
      else if eo_kind x \<noteq> EX_SUCCEEDED \<and> eo_error_kind x = None
        then Inl (ValueError ''Non-success outcome must carry error_kind'')
      else Inr x)"

definition failed_outcome :: "outcome_kind \<Rightarrow> llm_task \<Rightarrow> llm_route option \<Rightarrow> datetime option \<Rightarrow>
    llm_error_kind \<Rightarrow> py_error + execute_outcome" where
  "failed_outcome k t r w e = execute_outcome_post_init
     \<lparr>eo_kind = k, eo_task = t, eo_raw_text = None, eo_usage = None, eo_route = r, eo_wait_until = w,
      eo_error_kind = Some e\<rparr>"

section \<open>Handling a failure\<close>

definition handle_route_relevant_failure :: "llm_task \<Rightarrow> llm_error_kind \<Rightarrow> llm_route \<Rightarrow>
    route_candidate list \<Rightarrow> py_error + execute_outcome" where
  "handle_route_relevant_failure running e current cs =
     bindE (decide_route e current cs) (\<lambda>d.
       case pd_kind d of
         USE_ROUTE \<Rightarrow> bindE (fail_running_retryable running e)
           (\<lambda>t. failed_outcome EX_ROUTE_CHANGE_REQUIRED t (pd_route d) None e)
       | PLAN_WAIT_UNTIL \<Rightarrow> (case pd_wait_until d of
           None \<Rightarrow> Inl (ValueError ''WAIT_UNTIL route decision must carry wait_until'')
         | Some w \<Rightarrow> bindE (defer_running running w e)
             (\<lambda>t. failed_outcome EX_DEFERRED t None (Some w) e))
       | SPLIT_REQUIRED \<Rightarrow> bindE (fail_running_terminal running e)
           (\<lambda>t. failed_outcome EX_SPLIT_REQUIRED t None None e)
       | DAILY_EXHAUSTED \<Rightarrow> bindE (fail_running_retryable running e)
           (\<lambda>t. failed_outcome EX_DAILY_EXHAUSTED t None None e)
       | PLAN_TERMINAL_FAILURE \<Rightarrow> bindE (fail_running_terminal running e)
           (\<lambda>t. failed_outcome EX_TERMINAL_FAILED t None None e)
       | PLAN_RETRY_SAME_ROUTE \<Rightarrow> bindE (fail_running_retryable running e)
           (\<lambda>t. failed_outcome EX_RETRY_REQUIRED t None None e))"

definition handle_failure :: "llm_task \<Rightarrow> llm_error_kind \<Rightarrow> datetime option \<Rightarrow> llm_route \<Rightarrow>
    route_candidate list \<Rightarrow> py_error + execute_outcome" where
  "handle_failure running e wait_until current cs =
     (if e \<in> {REQUEST_TOO_LARGE, OUTPUT_TOO_LARGE, MINUTE_LIMIT, DAILY_LIMIT}
      then handle_route_relevant_failure running e current cs
      else bindE (decide_error e wait_until) (\<lambda>d.
        case ed_kind d of
          DISP_DEFER_UNTIL \<Rightarrow> (case ed_wait_until d of
            None \<Rightarrow> Inl (ValueError ''DEFER_UNTIL disposition must carry wait_until'')
          | Some w \<Rightarrow> bindE (defer_running running w e)
              (\<lambda>t. failed_outcome EX_DEFERRED t None (Some w) e))
        | DISP_CONFIRM_EMPTY_OUTPUT \<Rightarrow> bindE (fail_running_retryable running e)
            (\<lambda>t. failed_outcome EX_CONFIRM_EMPTY_OUTPUT_REQUIRED t None None e)
        | DISP_TERMINAL_FAILURE \<Rightarrow> bindE (fail_running_terminal running e)
            (\<lambda>t. failed_outcome EX_TERMINAL_FAILED t None None e)
        | _ \<Rightarrow> bindE (fail_running_retryable running e)
            (\<lambda>t. failed_outcome EX_RETRY_REQUIRED t None None e)))"

section \<open>The use case\<close>

definition execute_llm_task :: "(llm_task \<Rightarrow> llm_route \<Rightarrow> 'input \<Rightarrow> provider_result) \<Rightarrow>
    (llm_task \<Rightarrow> string \<Rightarrow> validation_result) \<Rightarrow> llm_task \<Rightarrow> llm_route \<Rightarrow> route_candidate list \<Rightarrow>
    'input \<Rightarrow> py_error + execute_outcome" where
  "execute_llm_task invoke validate task route cs provider_input =
     bindE (start_ready task route) (\<lambda>running.
       case invoke running route provider_input of
         ProviderSuccess raw usage \<Rightarrow> (case validate running raw of
           ValidationSuccess \<Rightarrow> bindE (succeed_running running) (\<lambda>t.
             execute_outcome_post_init \<lparr>eo_kind = EX_SUCCEEDED, eo_task = t, eo_raw_text = Some raw,
               eo_usage = usage, eo_route = None, eo_wait_until = None, eo_error_kind = None\<rparr>)
         | ValidationFailure e codes \<Rightarrow> handle_failure running e None route cs)
       | ProviderFailure e w \<Rightarrow> handle_failure running e w route cs)"

section \<open>Outcomes decided\<close>

text \<open>The outcome and the task status an error leads to.\<close>

definition outcome_for :: "llm_error_kind \<Rightarrow> bool \<Rightarrow> route_candidate list \<Rightarrow> outcome_kind \<times> llm_task_status" where
  "outcome_for e movable cs = (case e of
       REQUEST_TOO_LARGE \<Rightarrow> (if movable then (EX_ROUTE_CHANGE_REQUIRED, LT_RETRYABLE_FAILED)
         else (EX_SPLIT_REQUIRED, LT_TERMINAL_FAILED))
     | OUTPUT_TOO_LARGE \<Rightarrow> (if movable then (EX_ROUTE_CHANGE_REQUIRED, LT_RETRYABLE_FAILED)
         else (EX_SPLIT_REQUIRED, LT_TERMINAL_FAILED))
     | DAILY_LIMIT \<Rightarrow> (if movable then (EX_ROUTE_CHANGE_REQUIRED, LT_RETRYABLE_FAILED)
         else (EX_DAILY_EXHAUSTED, LT_RETRYABLE_FAILED))
     | MINUTE_LIMIT \<Rightarrow> (if movable then (EX_ROUTE_CHANGE_REQUIRED, LT_RETRYABLE_FAILED)
         else if nearest_unavailable_until cs = None then (EX_RETRY_REQUIRED, LT_RETRYABLE_FAILED)
         else (EX_DEFERRED, LT_DEFERRED))
     | AUTH_ERROR \<Rightarrow> (EX_TERMINAL_FAILED, LT_TERMINAL_FAILED)
     | EMPTY_OUTPUT \<Rightarrow> (EX_CONFIRM_EMPTY_OUTPUT_REQUIRED, LT_RETRYABLE_FAILED)
     | _ \<Rightarrow> (EX_RETRY_REQUIRED, LT_RETRYABLE_FAILED))"

lemma running_moves:
  assumes "llm_task_ok t" "lt_status t = LT_RUNNING"
  shows "fail_running_retryable t e = Inr (closed_task t LT_RETRYABLE_FAILED None (Some e))"
    "fail_running_terminal t e = Inr (closed_task t LT_TERMINAL_FAILED None (Some e))"
    "defer_running t (Aware w) e = Inr (closed_task t LT_DEFERRED (Some (Aware w)) (Some e))"
    "succeed_running t = Inr (closed_task t LT_SUCCEEDED None None)"
  using assms by (simp_all add: task_transition_defs error_simps)

lemma failed_outcome_simps [simp]:
  "k \<notin> {EX_SUCCEEDED, EX_ROUTE_CHANGE_REQUIRED, EX_DEFERRED} \<Longrightarrow> failed_outcome k t None None e =
     Inr \<lparr>eo_kind = k, eo_task = t, eo_raw_text = None, eo_usage = None, eo_route = None,
       eo_wait_until = None, eo_error_kind = Some e\<rparr>"
  "failed_outcome EX_ROUTE_CHANGE_REQUIRED t (Some r) None e =
     Inr \<lparr>eo_kind = EX_ROUTE_CHANGE_REQUIRED, eo_task = t, eo_raw_text = None, eo_usage = None,
       eo_route = Some r, eo_wait_until = None, eo_error_kind = Some e\<rparr>"
  "failed_outcome EX_DEFERRED t None (Some (Aware w)) e =
     Inr \<lparr>eo_kind = EX_DEFERRED, eo_task = t, eo_raw_text = None, eo_usage = None,
       eo_route = None, eo_wait_until = Some (Aware w), eo_error_kind = Some e\<rparr>"
  by (auto simp: failed_outcome_def execute_outcome_post_init_def)

definition describes :: "llm_task \<Rightarrow> llm_error_kind \<Rightarrow> bool \<Rightarrow> route_candidate list \<Rightarrow> execute_outcome \<Rightarrow> bool" where
  "describes t e movable cs x \<longleftrightarrow> (eo_kind x, lt_status (eo_task x)) = outcome_for e movable cs \<and>
     llm_step t (eo_task x) \<and> eo_error_kind x = Some e \<and> eo_raw_text x = None \<and>
     lt_attempt_count (eo_task x) = lt_attempt_count t"

lemma route_failure_described:
  assumes ok: "candidates_ok r cs" "cur \<in> set cs" "rc_route cur = r"
    and t: "llm_task_ok t" "lt_status t = LT_RUNNING"
    and e: "e \<in> {REQUEST_TOO_LARGE, OUTPUT_TOO_LARGE, MINUTE_LIMIT, DAILY_LIMIT}"
  shows "\<exists>x. handle_route_relevant_failure t e r cs = Inr x \<and>
    describes t e (\<exists>c \<in> set cs. better e cur c) cs x"
proof -
  note moves = running_moves [OF t]
  have steps: "llm_step t (closed_task t LT_RETRYABLE_FAILED None (Some e))"
    "llm_step t (closed_task t LT_TERMINAL_FAILED None (Some e))"
    "llm_step t (closed_task t LT_DEFERRED (Some (Aware w)) (Some e))" for w
    using moves by (blast intro: llm_step.intros)+
  have aware: "\<exists>t. w = Aware t" if "nearest_unavailable_until cs = Some w" for w
    using nearest_aware [OF _ that] ok by (auto simp: candidates_ok_def tz_aware_iff)
  from decide_route_cases [OF ok(1) find_current_is [OF ok], of e]
  show ?thesis
  proof
    assume "\<exists>c \<in> set cs. better e cur c \<and> decide_route e r cs = Inr (use_decision e (rc_route c))"
    then obtain c where c: "c \<in> set cs" "better e cur c"
      "decide_route e r cs = Inr (use_decision e (rc_route c))" by blast
    then have m: "\<exists>c \<in> set cs. better e cur c" by blast
    with c(3) e moves(1) steps(1) show ?thesis
      by (auto simp: handle_route_relevant_failure_def use_decision_def describes_def outcome_for_def)
  next
    assume no: "(\<forall>c \<in> set cs. \<not> better e cur c) \<and> decide_route e r cs = Inr (fallback_decision e cs)"
    then have m: "(\<exists>c \<in> set cs. better e cur c) = False" by blast
    show ?thesis
    proof (cases "e = MINUTE_LIMIT")
      case True
      show ?thesis
      proof (cases "nearest_unavailable_until cs")
        case None
        with no m True moves steps show ?thesis
          by (simp add: handle_route_relevant_failure_def fallback_decision_def fallback_kind_def
              describes_def outcome_for_def)
      next
        case (Some w)
        then obtain w' where "w = Aware w'" using aware by blast
        with Some no m True moves steps show ?thesis
          by (simp add: handle_route_relevant_failure_def fallback_decision_def fallback_kind_def
              describes_def outcome_for_def)
      qed
    next
      case False
      with e no m moves steps show ?thesis
        by (auto simp: handle_route_relevant_failure_def fallback_decision_def fallback_kind_def
            describes_def outcome_for_def)
    qed
  qed
qed

lemma failure_described:
  assumes ok: "candidates_ok r cs" "cur \<in> set cs" "rc_route cur = r"
    and t: "llm_task_ok t" "lt_status t = LT_RUNNING"
  shows "\<exists>x. handle_failure t e w r cs = Inr x \<and> describes t e (\<exists>c \<in> set cs. better e cur c) cs x"
proof (cases "e \<in> {REQUEST_TOO_LARGE, OUTPUT_TOO_LARGE, MINUTE_LIMIT, DAILY_LIMIT}")
  case True
  with route_failure_described [OF ok t True] show ?thesis by (simp add: handle_failure_def)
next
  case False
  note moves = running_moves [OF t]
  have steps: "llm_step t (closed_task t LT_RETRYABLE_FAILED None (Some e))"
    "llm_step t (closed_task t LT_TERMINAL_FAILED None (Some e))"
    using moves by (blast intro: llm_step.intros)+
  from False moves steps show ?thesis
    by (cases e) (simp_all add: handle_failure_def decide_error_def Let_def describes_def
        error_disposition_post_init_def outcome_for_def)
qed

section \<open>Properties\<close>

text \<open>
  C11. Executing a task is total and its outcome is the one the result calls for: for a valid task
  that may start, with its route among checked candidates and results that passed their
  constructors, the use case returns an outcome whose task was reached by starting and closing the
  task in the state machine, with exactly one more attempt. A validated success ends succeeded and
  carries the text; every failure ends in the outcome and status of its error and of whether a
  better candidate exists, and a failure never carries text.
\<close>

theorem execute_llm_task_total:
  assumes "llm_task_ok task" and "lt_status task \<in> {LT_READY, LT_DEFERRED, LT_RETRYABLE_FAILED}"
    and "candidates_ok r cs" and "cur \<in> set cs" and "rc_route cur = r"
  shows "\<exists>running x. start_ready task r = Inr running \<and> llm_step task running \<and>
    execute_llm_task invoke validate task r cs inp = Inr x \<and> llm_step running (eo_task x) \<and>
    lt_attempt_count (eo_task x) = lt_attempt_count task + 1 \<and>
    (case invoke running r inp of
       ProviderSuccess raw usage \<Rightarrow> (case validate running raw of
         ValidationSuccess \<Rightarrow> eo_kind x = EX_SUCCEEDED \<and> lt_status (eo_task x) = LT_SUCCEEDED \<and>
           eo_raw_text x = Some raw \<and> eo_usage x = usage
       | ValidationFailure e codes \<Rightarrow> describes running e (\<exists>c \<in> set cs. better e cur c) cs x)
     | ProviderFailure e w \<Rightarrow> describes running e (\<exists>c \<in> set cs. better e cur c) cs x)"
proof -
  from start_ready_ok [OF assms(1,2), of r] obtain running where
    st: "start_ready task r = Inr running" "lt_status running = LT_RUNNING" "llm_task_ok running"
    "lt_attempt_count running = lt_attempt_count task + 1" by blast
  have step1: "llm_step task running" by (rule llm_step.start [OF st(1)])
  have fail: "\<exists>x. handle_failure running e w r cs = Inr x \<and> llm_step running (eo_task x) \<and>
      lt_attempt_count (eo_task x) = lt_attempt_count task + 1 \<and>
      describes running e (\<exists>c \<in> set cs. better e cur c) cs x" for e w
    using failure_described [OF assms(3-5) st(3,2), of e w] st(4) unfolding describes_def by auto
  show ?thesis
  proof (cases "invoke running r inp")
    case (ProviderFailure e w)
    with fail [of e w] st(1) step1 show ?thesis by (auto simp: execute_llm_task_def)
  next
    case (ProviderSuccess raw usage)
    show ?thesis
    proof (cases "validate running raw")
      case (ValidationFailure e codes)
      with fail [of e None] st(1) step1 ProviderSuccess show ?thesis
        by (auto simp: execute_llm_task_def)
    next
      case ValidationSuccess
      note moves = running_moves(4) [OF st(3,2)]
      have "llm_step running (closed_task running LT_SUCCEEDED None None)"
        by (rule llm_step.succeed [OF moves])
      with ValidationSuccess ProviderSuccess st step1 moves show ?thesis
        by (simp add: execute_llm_task_def execute_outcome_post_init_def)
    qed
  qed
qed

theorem execute_llm_task_total_witness:
  "\<exists>x. execute_llm_task (\<lambda>t r i. ProviderFailure REQUEST_TOO_LARGE None) (\<lambda>t raw. ValidationSuccess)
     task1 route1 [cand1, cand2] () = Inr x \<and> eo_kind x = EX_ROUTE_CHANGE_REQUIRED"
proof -
  have 1: "lt_status task1 \<in> {LT_READY, LT_DEFERRED, LT_RETRYABLE_FAILED}"
    "cand1 \<in> set [cand1, cand2]" "rc_route cand1 = route1" by (simp_all add: task1_def cand1_def)
  have "better REQUEST_TOO_LARGE cand1 cand2" by (simp add: better_def cand1_def cand2_def available_now_def)
  then have "\<exists>c \<in> set [cand1, cand2]. better REQUEST_TOO_LARGE cand1 c" by simp
  with execute_llm_task_total [OF task1_ok 1(1) cands_ok 1(2,3),
      of "\<lambda>t r i. ProviderFailure REQUEST_TOO_LARGE None" "\<lambda>t raw. ValidationSuccess" "()"]
  show ?thesis by (auto simp: describes_def outcome_for_def)
qed

text \<open>
  The waiting hint of a provider failure has no effect: two provider results that differ only
  in \<open>wait_until\<close> lead to the same outcome. A minute limit is handled by route planning, which
  looks at the candidates' reset times only, and the deferral of the error policy is never reached.
\<close>

theorem provider_wait_hint_ignored:
  "execute_llm_task (\<lambda>t r i. ProviderFailure e w) validate task route cs inp =
   execute_llm_task (\<lambda>t r i. ProviderFailure e w') validate task route cs inp"
proof -
  have "handle_failure t e w route cs = handle_failure t e w' route cs" for t
    by (cases e) (simp_all add: handle_failure_def decide_error_def Let_def)
  then show ?thesis by (simp add: execute_llm_task_def)
qed

end
