(* ===== verification/LlmBudget.thy ===== *)
theory LlmBudget
  imports RouteCandidates
begin

text \<open>
  Token budgets (\<open>src/src/contexts/llm_runtime/domain/budget/token_budget.py\<close>,
  \<open>provider_budget_profile.py\<close>, \<open>prompt_profile.py\<close> and
  \<open>application/budget/llm_batch_budget_policy.py\<close>). The \<open>Decimal\<close> quotient is exact here; with the
  catalog's multipliers of two digits the 28 digits of a \<open>Decimal\<close> give the same ceiling below
  \<open>10 ^ 24\<close> characters.
\<close>

section \<open>Profiles\<close>

record provider_budget =
  pb_provider :: string
  pb_default_completion :: int
  pb_request_gap :: int
  pb_output_gap :: int

definition provider_budget_post_init :: "provider_budget \<Rightarrow> py_error + provider_budget" where
  "provider_budget_post_init p =
     (if blank (pb_provider p) then Inl (ValueError ''provider_id must be non-empty text'')
      else if pb_default_completion p \<le> 0
        then Inl (ValueError ''provider_default_completion_tokens must be > 0'')
      else if pb_request_gap p < 0 then Inl (ValueError ''request_safety_gap_tokens must be >= 0'')
      else if pb_output_gap p < 0 then Inl (ValueError ''output_safety_gap_tokens must be >= 0'')
      else Inr p)"

definition budget_catalog_post_init :: "provider_budget list \<Rightarrow> py_error + provider_budget list" where
  "budget_catalog_post_init ps =
     (if ps = [] then Inl (ValueError ''profiles must be non-empty'')
      else if \<not> distinct (map pb_provider ps)
        then Inl (ValueError ''provider budget profiles must have unique provider_id'')
      else Inr ps)"

definition profile_for_provider :: "provider_budget list \<Rightarrow> string \<Rightarrow> py_error + provider_budget" where
  "profile_for_provider ps provider =
     (if blank provider then Inl (ValueError ''provider_id must be non-empty text'')
      else case List.find (\<lambda>p. pb_provider p = provider) ps of
        Some p \<Rightarrow> Inr p
      | None \<Rightarrow> Inl (ValueError ''provider budget profile is not configured''))"

record prompt_profile =
  pp_prompt_id :: string
  pp_prompt_version :: string
  pp_provider :: string
  pp_model_ref :: string
  pp_prompt_tokens :: int
  pp_source_ref :: string
  pp_contract_ref :: string

definition prompt_profile_post_init :: "prompt_profile \<Rightarrow> py_error + prompt_profile" where
  "prompt_profile_post_init p =
     (case List.find (\<lambda>(n, v). blank v) [(''prompt_id'', pp_prompt_id p),
         (''prompt_version'', pp_prompt_version p), (''provider_id'', pp_provider p),
         (''model_ref'', pp_model_ref p)] of
        Some (n, v) \<Rightarrow> Inl (ValueError (n @ '' must be non-empty text''))
      | None \<Rightarrow>
         if pp_prompt_tokens p \<le> 0 then Inl (ValueError ''prompt_tokens must be > 0'')
         else case List.find (\<lambda>(n, v). blank v) [(''prompt_source_ref'', pp_source_ref p),
             (''output_contract_ref'', pp_contract_ref p)] of
            Some (n, v) \<Rightarrow> Inl (ValueError (n @ '' must be non-empty text''))
          | None \<Rightarrow> Inr p)"

section \<open>Token arithmetic\<close>

definition positive_int :: "string \<Rightarrow> int \<Rightarrow> py_error + unit" where
  "positive_int field v = require (0 < v) (ValueError (field @ '' must be > 0''))"

definition non_negative_int :: "string \<Rightarrow> int \<Rightarrow> py_error + unit" where
  "non_negative_int field v = require (0 \<le> v) (ValueError (field @ '' must be >= 0''))"

definition artifact_tokens_of :: "int \<Rightarrow> model_profile \<Rightarrow> py_error + int" where
  "artifact_tokens_of char_count m = bindE (non_negative_int ''char_count'' char_count) (\<lambda>_.
     Inr (if char_count = 0 then 0 else \<lceil>of_int char_count / mp_multiplier m\<rceil>))"

definition required_model_tpm :: "model_profile \<Rightarrow> py_error + int" where
  "required_model_tpm m = (case rl_tokens_per_minute (mp_rate_limits m) of
     None \<Rightarrow> Inl (ValueError ''model_profile.rate_limits.tokens_per_minute must be configured'')
   | Some v \<Rightarrow> bindE (positive_int ''tokens_per_minute'' v) (\<lambda>_. Inr v))"

definition max_artifact_tokens :: "model_profile \<Rightarrow> int \<Rightarrow> provider_budget \<Rightarrow> py_error + int" where
  "max_artifact_tokens m prompt_tokens p =
     bindE (positive_int ''prompt_tokens'' prompt_tokens) (\<lambda>_.
     bindE (required_model_tpm m) (\<lambda>tpm.
       let available = tpm - prompt_tokens - pb_request_gap p in
       if available \<le> 0 then Inl (ValueError ''prompt_tokens and safety gap exceed model TPM'')
       else Inr (available div 2)))"

definition input_tokens_of :: "int \<Rightarrow> int \<Rightarrow> py_error + int" where
  "input_tokens_of prompt_tokens artifact_tokens =
     bindE (positive_int ''prompt_tokens'' prompt_tokens) (\<lambda>_.
     bindE (non_negative_int ''artifact_tokens'' artifact_tokens) (\<lambda>_.
       Inr (prompt_tokens + artifact_tokens)))"

definition required_window_tokens :: "int \<Rightarrow> int \<Rightarrow> int \<Rightarrow> py_error + int" where
  "required_window_tokens input artifact_tokens safety_gap =
     bindE (positive_int ''input_tokens'' input) (\<lambda>_.
     bindE (non_negative_int ''artifact_tokens'' artifact_tokens) (\<lambda>_.
     bindE (non_negative_int ''safety_gap_tokens'' safety_gap) (\<lambda>_.
       Inr (input + artifact_tokens + safety_gap))))"

definition max_completion_tokens :: "int \<Rightarrow> provider_budget \<Rightarrow> model_profile \<Rightarrow> py_error + int option" where
  "max_completion_tokens remaining p m =
     (if remaining \<le> pb_default_completion p then Inr None
      else bindE (positive_int ''max_output_tokens'' (mp_max_output m)) (\<lambda>_.
        Inr (Some (min remaining (mp_max_output m)))))"

section \<open>The batch budget policy\<close>

record batch_budget =
  bb_prompt :: int
  bb_artifact :: int
  bb_artifact_max :: int
  bb_input :: int
  bb_request_gap :: int
  bb_completion_gap :: int
  bb_remaining :: int
  bb_max_completion :: "int option"
  bb_required_window :: int

definition batch_budget_post_init :: "batch_budget \<Rightarrow> py_error + batch_budget" where
  "batch_budget_post_init d =
     bindE (positive_int ''prompt_tokens'' (bb_prompt d)) (\<lambda>_.
     bindE (non_negative_int ''artifact_tokens'' (bb_artifact d)) (\<lambda>_.
     bindE (positive_int ''artifact_max_tokens'' (bb_artifact_max d)) (\<lambda>_.
     bindE (positive_int ''input_tokens'' (bb_input d)) (\<lambda>_.
     bindE (non_negative_int ''request_safety_gap_tokens'' (bb_request_gap d)) (\<lambda>_.
     bindE (non_negative_int ''completion_safety_gap_tokens'' (bb_completion_gap d)) (\<lambda>_.
     bindE (case bb_max_completion d of None \<Rightarrow> Inr ()
            | Some c \<Rightarrow> positive_int ''max_completion_tokens'' c) (\<lambda>_.
     bindE (positive_int ''required_window_tokens'' (bb_required_window d)) (\<lambda>_.
       Inr d))))))))"

definition batch_input_fits :: "batch_budget \<Rightarrow> bool" where
  "batch_input_fits d \<longleftrightarrow> bb_artifact d \<le> bb_artifact_max d"

record batch_policy =
  bp_provider :: provider_budget
  bp_model :: model_profile
  bp_prompt :: prompt_profile

definition batch_policy_post_init :: "batch_policy \<Rightarrow> py_error + batch_policy" where
  "batch_policy_post_init p =
     (if provider_id_value (mp_provider (bp_model p)) \<noteq> pb_provider (bp_provider p)
        then Inl (ValueError ''model provider must match provider budget profile'')
      else if pp_provider (bp_prompt p) \<noteq> pb_provider (bp_provider p)
        then Inl (ValueError ''prompt provider must match provider budget profile'')
      else if pp_model_ref (bp_prompt p) \<noteq> model_id_value (mp_model (bp_model p))
        then Inl (ValueError ''prompt model_ref must match model profile'')
      else Inr p)"

definition estimate_batch_input_tokens :: "int \<Rightarrow> rat \<Rightarrow> int" where
  "estimate_batch_input_tokens char_count multiplier =
     (if char_count = 0 then 0 else max 1 \<lceil>of_int char_count / multiplier\<rceil>)"

definition decide_batch_budget :: "batch_policy \<Rightarrow> int \<Rightarrow> int option \<Rightarrow> py_error + batch_budget" where
  "decide_batch_budget p char_count observed =
     bindE (non_negative_int ''batch_input_char_count'' char_count) (\<lambda>_.
     bindE (case observed of None \<Rightarrow> Inr ()
            | Some o' \<Rightarrow> non_negative_int ''observed_batch_input_tokens'' o') (\<lambda>_.
       let artifact = (case observed of Some o' \<Rightarrow> o'
             | None \<Rightarrow> estimate_batch_input_tokens char_count (mp_multiplier (bp_model p)));
           prompt = pp_prompt_tokens (bp_prompt p)
       in case rl_tokens_per_minute (mp_rate_limits (bp_model p)) of
            None \<Rightarrow> Inl (ValueError ''model profile must define tokens_per_minute'')
          | Some tpm \<Rightarrow>
              (let request_gap = pb_request_gap (bp_provider p);
                   completion_gap = pb_output_gap (bp_provider p);
                   available = tpm - prompt - request_gap;
                   input = prompt + artifact;
                   remaining = tpm - input - completion_gap
               in if available \<le> 1
                  then Inl (ValueError ''model TPM budget is too small for prompt and safety gap'')
                  else batch_budget_post_init
                    \<lparr>bb_prompt = prompt, bb_artifact = artifact, bb_artifact_max = available div 2,
                     bb_input = input, bb_request_gap = request_gap, bb_completion_gap = completion_gap,
                     bb_remaining = remaining,
                     bb_max_completion =
                       (if remaining \<le> pb_default_completion (bp_provider p) then None
                        else Some (min remaining (mp_max_output (bp_model p)))),
                     bb_required_window = input + artifact + completion_gap\<rparr>)))"

section \<open>Lemmas\<close>

lemma positive_int_Inr [error_simps]: "positive_int f v = Inr u \<longleftrightarrow> 0 < v"
  by (simp add: positive_int_def)

lemma non_negative_int_Inr [error_simps]: "non_negative_int f v = Inr u \<longleftrightarrow> 0 \<le> v"
  by (simp add: non_negative_int_def)

lemma int_checks [simp]:
  "0 < v \<Longrightarrow> positive_int f v = Inr ()"
  "0 \<le> v \<Longrightarrow> non_negative_int f v = Inr ()"
  by (simp_all add: positive_int_def non_negative_int_def)

lemma provider_budget_Inr [error_simps]:
  "provider_budget_post_init p = Inr q \<longleftrightarrow> q = p \<and> \<not> blank (pb_provider p) \<and>
     0 < pb_default_completion p \<and> 0 \<le> pb_request_gap p \<and> 0 \<le> pb_output_gap p"
  by (auto simp: provider_budget_post_init_def)

lemma model_profile_Inr [error_simps]:
  "model_profile_post_init m = Inr n \<longleftrightarrow> n = m \<and> 0 < mp_context_window m \<and> 0 < mp_max_output m \<and>
     mp_max_output m \<le> mp_context_window m \<and> 0 \<le> mp_rank m \<and> 0 < mp_multiplier m"
  by (auto simp: model_profile_post_init_def)

lemma prompt_profile_positive:
  "prompt_profile_post_init p = Inr q \<Longrightarrow> 0 < pp_prompt_tokens p"
  by (auto simp: prompt_profile_post_init_def simp del: blank_Cons split: option.splits if_splits)

lemma ceiling_quotient_least:
  fixes r :: rat
  assumes "0 < r"
  shows "\<lceil>of_int c / r\<rceil> \<le> n \<longleftrightarrow> of_int c \<le> of_int n * r"
  using assms by (simp add: ceiling_le_iff pos_divide_le_eq)

lemma ceiling_quotient_positive:
  fixes r :: rat
  assumes "0 < r" "0 < c"
  shows "1 \<le> \<lceil>of_int c / r\<rceil>"
  using assms by (simp add: int_one_le_iff_zero_less)

lemma estimate_batch_nonneg: "0 \<le> estimate_batch_input_tokens c r"
  by (simp add: estimate_batch_input_tokens_def le_max_iff_disj)

section \<open>Properties\<close>

text \<open>
  An artifact of \<open>a\<close> tokens is within the planner's bound exactly when the whole request window
  (prompt, artifact, an answer as long as the artifact, and the safety gap) fits the model's tokens per
  minute. The bound exists exactly when the prompt and the gap leave room at all, and none of the
  arithmetic raises.
\<close>

theorem artifact_bound_exact:
  assumes p: "provider_budget_post_init p = Inr p" and prompt: "0 < prompt"
    and tpm: "rl_tokens_per_minute (mp_rate_limits m) = Some tpm" "0 < tpm" and a: "0 \<le> a"
  shows "((\<exists>mx. max_artifact_tokens m prompt p = Inr mx) \<longleftrightarrow> prompt + pb_request_gap p < tpm) \<and>
    (\<exists>i w. input_tokens_of prompt a = Inr i \<and> required_window_tokens i a (pb_request_gap p) = Inr w \<and>
      (\<forall>mx. max_artifact_tokens m prompt p = Inr mx \<longrightarrow> (a \<le> mx \<longleftrightarrow> w \<le> tpm)))"
  using assms
  by (auto simp: max_artifact_tokens_def required_model_tpm_def input_tokens_of_def
      required_window_tokens_def Let_def error_simps split: if_splits)

text \<open>
  The estimate of an artifact's tokens is the least number of tokens that covers its characters at
  the model's rate, and the batch policy's estimate is the same number.
\<close>

theorem artifact_estimate_least:
  assumes m: "model_profile_post_init m = Inr m" and c: "0 \<le> chars"
  shows "\<exists>t. artifact_tokens_of chars m = Inr t \<and>
      estimate_batch_input_tokens chars (mp_multiplier m) = t \<and> 0 \<le> t \<and>
      (\<forall>n. t \<le> n \<longleftrightarrow> of_int chars \<le> of_int n * mp_multiplier m)"
proof (cases "chars = 0")
  case True
  then show ?thesis using m
    by (simp add: artifact_tokens_of_def estimate_batch_input_tokens_def error_simps zero_le_mult_iff)
next
  case False
  have r: "0 < mp_multiplier m" and pos: "0 < chars" using m c False by (simp_all add: error_simps)
  have one: "1 \<le> \<lceil>of_int chars / mp_multiplier m\<rceil>" by (rule ceiling_quotient_positive [OF r pos])
  then have "0 \<le> \<lceil>of_int chars / mp_multiplier m\<rceil>" by linarith
  then show ?thesis using False c one
    by (simp add: artifact_tokens_of_def estimate_batch_input_tokens_def
        ceiling_quotient_least [OF r] max_absorb2)
qed

text \<open>
  The batch policy decides exactly when the minute budget exceeds the prompt and the request gap by
  two tokens or more. Then the batch fits exactly when prompt, batch, an equally long answer and the request
  gap fit the minute budget, and a completion cap, when one is set, is longer than the provider's
  default could be, and is what is left of the budget or the model's output limit, whichever is less.
\<close>

theorem batch_budget_sound:
  assumes ok: "provider_budget_post_init (bp_provider p) = Inr (bp_provider p)"
    "model_profile_post_init (bp_model p) = Inr (bp_model p)"
    "prompt_profile_post_init (bp_prompt p) = Inr (bp_prompt p)"
    and tpm: "rl_tokens_per_minute (mp_rate_limits (bp_model p)) = Some tpm"
    and chars: "0 \<le> chars" and obs: "case observed of None \<Rightarrow> True | Some o' \<Rightarrow> 0 \<le> o'"
  shows "if pp_prompt_tokens (bp_prompt p) + pb_request_gap (bp_provider p) + 1 < tpm
    then \<exists>d. decide_batch_budget p chars observed = Inr d \<and>
      (batch_input_fits d \<longleftrightarrow> bb_input d + bb_artifact d + bb_request_gap d \<le> tpm) \<and>
      bb_input d = pp_prompt_tokens (bp_prompt p) + bb_artifact d \<and>
      (case bb_max_completion d of
         None \<Rightarrow> tpm - bb_input d - bb_completion_gap d \<le> pb_default_completion (bp_provider p)
       | Some c \<Rightarrow> pb_default_completion (bp_provider p) < tpm - bb_input d - bb_completion_gap d \<and>
           c = min (tpm - bb_input d - bb_completion_gap d) (mp_max_output (bp_model p)) \<and> 0 < c)
    else decide_batch_budget p chars observed =
      Inl (ValueError ''model TPM budget is too small for prompt and safety gap'')"
proof -
  define art where "art = (case observed of Some o' \<Rightarrow> o'
     | None \<Rightarrow> estimate_batch_input_tokens chars (mp_multiplier (bp_model p)))"
  have art: "0 \<le> art" using obs by (cases observed) (simp_all add: art_def estimate_batch_nonneg)
  have obs': "(case observed of None \<Rightarrow> Inr () | Some o' \<Rightarrow>
      non_negative_int ''observed_batch_input_tokens'' o') = Inr ()"
    using obs by (cases observed) simp_all
  note facts = ok(1,2) [unfolded error_simps] prompt_profile_positive [OF ok(3)] tpm art chars
  show ?thesis using facts
    by (auto simp: decide_batch_budget_def obs' Let_def batch_budget_post_init_def batch_input_fits_def
        simp flip: art_def)
qed


section \<open>Concrete profiles\<close>

text \<open>The Groq profile of \<open>groq_model_catalog_seed.py\<close> for \<open>openai/gpt-oss-120b\<close>.\<close>

definition groq_free_budget :: provider_budget where
  "groq_free_budget = \<lparr>pb_provider = ''groq'', pb_default_completion = 2048, pb_request_gap = 300,
     pb_output_gap = 300\<rparr>"

definition gpt_oss_120b :: model_profile where
  "gpt_oss_120b = \<lparr>mp_provider = ProviderId ''groq'', mp_model = ModelId ''openai/gpt-oss-120b'',
     mp_lifecycle = ML_PRODUCTION, mp_context_window = 131072, mp_max_output = 65536, mp_rank = 5,
     mp_rate_limits = \<lparr>rl_requests_per_minute = Some 30, rl_requests_per_day = Some 1000,
       rl_tokens_per_minute = Some 8000, rl_tokens_per_day = Some 200000,
       rl_input_tokens_per_minute = None, rl_output_tokens_per_minute = None\<rparr>,
     mp_token_price = \<lparr>tp_input_per_million = Some (15 / 100), tp_output_per_million = Some (60 / 100)\<rparr>,
     mp_reasoning = \<lparr>rp_supported = [RE_LOW, RE_MEDIUM, RE_HIGH], rp_default = Some RE_MEDIUM\<rparr>,
     mp_supports_json_object = True, mp_supports_json_schema = False, mp_enabled = True, mp_multiplier = 37 / 10\<rparr>"

definition prompt1 :: prompt_profile where
  "prompt1 = \<lparr>pp_prompt_id = ''p'', pp_prompt_version = ''1'', pp_provider = ''groq'',
     pp_model_ref = ''openai/gpt-oss-120b'', pp_prompt_tokens = 2050, pp_source_ref = ''s'',
     pp_contract_ref = ''c''\<rparr>"

lemma groq_profiles_ok:
  "provider_budget_post_init groq_free_budget = Inr groq_free_budget"
  "model_profile_post_init gpt_oss_120b = Inr gpt_oss_120b"
  "prompt_profile_post_init prompt1 = Inr prompt1"
  by code_simp+

theorem artifact_bound_exact_witness:
  "max_artifact_tokens gpt_oss_120b 2050 groq_free_budget = Inr 2825 \<and>
   (\<exists>i w. input_tokens_of 2050 (2825::int) = Inr i \<and> required_window_tokens i 2825 300 = Inr w \<and> w \<le> 8000)"
proof -
  have mx: "max_artifact_tokens gpt_oss_120b 2050 groq_free_budget = Inr 2825" by code_simp
  have gap: "pb_request_gap groq_free_budget = 300" by (simp add: groq_free_budget_def)
  have "rl_tokens_per_minute (mp_rate_limits gpt_oss_120b) = Some 8000" by (simp add: gpt_oss_120b_def)
  from artifact_bound_exact [OF groq_profiles_ok(1) _ this, of 2050 2825] mx show ?thesis
    by (auto simp: gap)
qed

theorem artifact_estimate_least_witness:
  "artifact_tokens_of 38 gpt_oss_120b = Inr 11 \<and> estimate_batch_input_tokens 38 (37 / 10) = 11"
proof -
  have t: "artifact_tokens_of 38 gpt_oss_120b = Inr 11" by code_simp
  have "mp_multiplier gpt_oss_120b = 37 / 10" by (simp add: gpt_oss_120b_def)
  with artifact_estimate_least [OF groq_profiles_ok(2), of 38] t show ?thesis by auto
qed

theorem batch_budget_sound_witness:
  "\<exists>d. decide_batch_budget \<lparr>bp_provider = groq_free_budget, bp_model = gpt_oss_120b, bp_prompt = prompt1\<rparr>
     3700 None = Inr d \<and> batch_input_fits d \<and> bb_input d = 3050"
proof -
  let ?p = "\<lparr>bp_provider = groq_free_budget, bp_model = gpt_oss_120b, bp_prompt = prompt1\<rparr>"
  have "rl_tokens_per_minute (mp_rate_limits (bp_model ?p)) = Some 8000" by (simp add: gpt_oss_120b_def)
  from batch_budget_sound [of ?p, simplified, OF groq_profiles_ok this [simplified], of 3700 None]
  obtain d where d: "decide_batch_budget ?p 3700 None = Inr d"
      "batch_input_fits d \<longleftrightarrow> bb_input d + bb_artifact d + bb_request_gap d \<le> 8000"
      "bb_input d = 2050 + bb_artifact d"
    by (auto simp: prompt1_def groq_free_budget_def)
  have "decide_batch_budget ?p 3700 None = Inr \<lparr>bb_prompt = 2050, bb_artifact = 1000,
      bb_artifact_max = 2825, bb_input = 3050, bb_request_gap = 300, bb_completion_gap = 300,
      bb_remaining = 4650, bb_max_completion = Some 4650, bb_required_window = 4350\<rparr>"
    by code_simp
  with d show ?thesis by auto
qed

end
