(* ===== verification/CompactionModels.thy ===== *)
theory CompactionModels
  imports LlmBudget
begin

text \<open>
  The data of the draft-claim compaction planner
  (\<open>src/src/contexts/knowledge_workbench/extraction/application/models/\<close>,
  \<open>draft_claim_compaction_reduction_models.py\<close>) and the token budget of its prompts
  (\<open>policies/draft_claim_compaction_budget_profile.py\<close>). The read models of the same file are the
  dashboard's projections and are left out.
\<close>

section \<open>Checked fields\<close>

definition text_field :: "string \<Rightarrow> string \<Rightarrow> py_error + unit" where
  "text_field name v = require (\<not> blank v) (ValueError (name @ '' must be non-empty text''))"

fun optional_text :: "string \<Rightarrow> string option \<Rightarrow> py_error + unit" where
  "optional_text name None = Inr ()"
| "optional_text name (Some v) = text_field name v"

fun text_fields :: "string \<Rightarrow> string list \<Rightarrow> py_error + unit" where
  "text_fields name [] = Inr ()"
| "text_fields name (v # vs) = bindE (text_field name v) (\<lambda>_. text_fields name vs)"

definition text_tuple :: "string \<Rightarrow> bool \<Rightarrow> string list \<Rightarrow> py_error + unit" where
  "text_tuple name allow_empty vs =
     (if vs = [] \<and> \<not> allow_empty then Inl (ValueError (name @ '' must be non-empty''))
      else text_fields name vs)"

lemma text_field_Inr [error_simps]: "text_field name v = Inr u \<longleftrightarrow> \<not> blank v"
  by (simp add: text_field_def)

lemma text_field_ok [simp]: "\<not> blank v \<Longrightarrow> text_field name v = Inr ()"
  by (simp add: text_field_def)

lemma text_fields_Inr [error_simps]: "text_fields name vs = Inr u \<longleftrightarrow> list_all (\<lambda>v. \<not> blank v) vs"
  by (induction vs) (auto simp: error_simps)

lemma text_tuple_Inr [error_simps]:
  "text_tuple name e vs = Inr u \<longleftrightarrow> (e \<or> vs \<noteq> []) \<and> list_all (\<lambda>v. \<not> blank v) vs"
  by (auto simp: text_tuple_def error_simps)

section \<open>Nodes and comparisons\<close>

datatype node_kind = NK_RAW | NK_COMPACTED

datatype comparison_status =
    CMP_PENDING | CMP_MERGED | CMP_NOT_MERGED | CMP_TOO_LARGE_FOR_PRIMARY_MODEL
  | CMP_WAITING_USER_MODEL_CHOICE | CMP_SUPERSEDED

datatype work_type =
    DRAFT_VS_DRAFT | COMPACTED_VS_COMPACTED | MIXED | REDUCED_REWRITE
  | WAIT_FOR_USER_MODEL_CHOICE | WT_DONE

datatype budget_fit_status = FITS_PRIMARY | TOO_LARGE_FOR_PRIMARY | TOO_LARGE_EVEN_REDUCED

record budget_fit =
  bf_status :: budget_fit_status
  bf_artifact_tokens :: int
  bf_primary_model :: string
  bf_degraded_model :: string

definition budget_fit_post_init :: "budget_fit \<Rightarrow> py_error + budget_fit" where
  "budget_fit_post_init b =
     (if bf_artifact_tokens b < 0 then Inl (ValueError ''artifact_tokens must be >= 0'')
      else bindE (text_field ''primary_model_id'' (bf_primary_model b)) (\<lambda>_.
        bindE (text_field ''degraded_candidate_model_id'' (bf_degraded_model b)) (\<lambda>_. Inr b)))"

record node_source =
  ns_ref :: string
  ns_kind :: node_kind

definition node_source_post_init :: "node_source \<Rightarrow> py_error + node_source" where
  "node_source_post_init s = bindE (text_field ''source_ref'' (ns_ref s)) (\<lambda>_. Inr s)"

datatype triple_predicate =
    IS_A | HAS_CAPABILITY | HAS_PROPERTY | HAS_VALUE | HAS_LIMITATION | REQUIRES | SUPPORTS
  | INTEGRATES_WITH | USED_FOR | HANDLES | TRANSFERS_TO | PROVIDES | IMPROVES | CHECKS | REMOVES
  | CREATES | CONNECTS_TO

record claim_triple =
  tr_subject :: string
  tr_predicate :: triple_predicate
  tr_object :: string
  tr_qualifiers :: "string list"

record comp_node =
  nd_ref :: string
  nd_kind :: node_kind
  nd_source_claims :: "string list"
  nd_sources :: "node_source list"
  nd_active :: bool
  nd_supersedes :: "string list"
  nd_artifact_tokens :: int
  nd_key :: "string option"
  nd_claim :: "string option"
  nd_triples :: "claim_triple list"
  nd_claim_kind :: "string option"
  nd_granularity :: "string option"
  nd_merge_decision :: "string option"
  nd_payload :: "payload option"

definition comp_node_post_init :: "comp_node \<Rightarrow> py_error + comp_node" where
  "comp_node_post_init n =
     bindE (text_field ''node_ref'' (nd_ref n)) (\<lambda>_.
     bindE (text_tuple ''source_claim_refs'' False (nd_source_claims n)) (\<lambda>_.
     bindE (text_tuple ''supersedes_node_refs'' True (nd_supersedes n)) (\<lambda>_.
     bindE (require (0 \<le> nd_artifact_tokens n) (ValueError ''artifact_tokens must be >= 0'')) (\<lambda>_.
     bindE (optional_text ''compacted_key'' (nd_key n)) (\<lambda>_.
     bindE (optional_text ''compacted_claim'' (nd_claim n)) (\<lambda>_.
     bindE (optional_text ''compacted_claim_kind'' (nd_claim_kind n)) (\<lambda>_.
     bindE (optional_text ''compacted_granularity'' (nd_granularity n)) (\<lambda>_.
     bindE (optional_text ''compacted_merge_decision'' (nd_merge_decision n)) (\<lambda>_.
       Inr n)))))))))"

record comparison =
  cp_left :: string
  cp_right :: string
  cp_status :: comparison_status
  cp_result :: "string option"

definition comparison_post_init :: "comparison \<Rightarrow> py_error + comparison" where
  "comparison_post_init c =
     bindE (text_field ''left_node_ref'' (cp_left c)) (\<lambda>_.
     bindE (text_field ''right_node_ref'' (cp_right c)) (\<lambda>_.
     bindE (require (cp_left c \<noteq> cp_right c) (ValueError ''comparison node refs must be different'')) (\<lambda>_.
     bindE (optional_text ''result_node_ref'' (cp_result c)) (\<lambda>_. Inr c))))"

text \<open>\<open>sorted((left, right))\<close> as a pair, for comparisons and for the planner's \<open>_pair_key\<close>.\<close>

definition pair_key :: "string \<Rightarrow> string \<Rightarrow> string \<times> string" where
  "pair_key left right = (if right < left then (right, left) else (left, right))"

definition comparison_key :: "comparison \<Rightarrow> string \<times> string" where
  "comparison_key c = pair_key (cp_left c) (cp_right c)"

record separation_edge =
  se_origin_a :: string
  se_origin_b :: string
  se_batch_ref :: "string option"
  se_work_item_id :: "string option"
  se_dispatch_attempt_id :: "string option"

definition separation_edge_post_init :: "separation_edge \<Rightarrow> py_error + separation_edge" where
  "separation_edge_post_init e =
     bindE (text_field ''origin_ref_a'' (se_origin_a e)) (\<lambda>_.
     bindE (text_field ''origin_ref_b'' (se_origin_b e)) (\<lambda>_.
     bindE (require (se_origin_a e < se_origin_b e)
       (ValueError ''origin separation refs must be ordered'')) (\<lambda>_.
     bindE (optional_text ''established_by_batch_ref'' (se_batch_ref e)) (\<lambda>_.
     bindE (optional_text ''established_by_work_item_id'' (se_work_item_id e)) (\<lambda>_.
     bindE (optional_text ''established_by_dispatch_attempt_id'' (se_dispatch_attempt_id e)) (\<lambda>_.
       Inr e))))))"

record comparison_round =
  cr_index :: int
  cr_comparisons :: "comparison list"

definition comparison_round_post_init :: "comparison_round \<Rightarrow> py_error + comparison_round" where
  "comparison_round_post_init r =
     (if cr_index r < 0 then Inl (ValueError ''round_index must be >= 0'') else Inr r)"

record component =
  co_ref :: string
  co_representative :: string
  co_source_claims :: "string list"
  co_active :: bool
  co_supersedes :: "string list"

definition component_post_init :: "component \<Rightarrow> py_error + component" where
  "component_post_init c =
     bindE (text_field ''component_ref'' (co_ref c)) (\<lambda>_.
     bindE (text_field ''representative_node_ref'' (co_representative c)) (\<lambda>_.
     bindE (text_tuple ''source_claim_refs'' False (co_source_claims c)) (\<lambda>_.
     bindE (text_tuple ''supersedes_component_refs'' True (co_supersedes c)) (\<lambda>_. Inr c))))"

record incompatibility =
  in_left :: string
  in_right :: string

definition incompatibility_post_init :: "incompatibility \<Rightarrow> py_error + incompatibility" where
  "incompatibility_post_init i =
     bindE (text_field ''left_component_ref'' (in_left i)) (\<lambda>_.
     bindE (text_field ''right_component_ref'' (in_right i)) (\<lambda>_.
     bindE (require (in_left i \<noteq> in_right i)
       (ValueError ''incompatibility component refs must be different'')) (\<lambda>_. Inr i)))"

record planner_state =
  ps_cluster :: string
  ps_nodes :: "comp_node list"
  ps_comparisons :: "comparison list"
  ps_rounds :: "comparison_round list"
  ps_components :: "component list"
  ps_incompatibilities :: "incompatibility list"
  ps_separations :: "separation_edge list"
  ps_budget_fit :: budget_fit
  ps_primary_model :: string
  ps_degraded_model :: string

definition planner_state_post_init :: "planner_state \<Rightarrow> py_error + planner_state" where
  "planner_state_post_init s =
     bindE (text_field ''cluster_ref'' (ps_cluster s)) (\<lambda>_.
     bindE (text_field ''primary_model_id'' (ps_primary_model s)) (\<lambda>_.
     bindE (text_field ''degraded_candidate_model_id'' (ps_degraded_model s)) (\<lambda>_.
     bindE (require (distinct (map nd_ref (ps_nodes s)))
       (ValueError ''node_ref values must be unique'')) (\<lambda>_. Inr s))))"

definition active_nodes :: "planner_state \<Rightarrow> comp_node list" where
  "active_nodes s = filter nd_active (ps_nodes s)"

definition active_components :: "planner_state \<Rightarrow> component list" where
  "active_components s = filter co_active (ps_components s)"

section \<open>Decisions\<close>

record next_work_item =
  nw_type :: work_type
  nw_node_refs :: "string list"
  nw_primary_model :: string
  nw_degraded_model :: "string option"
  nw_resume_type :: "work_type option"
  nw_prompt_tokens :: int
  nw_artifact_tokens :: int
  nw_input_tokens :: int
  nw_required_window :: int
  nw_request_count :: int

definition resume_type_check :: "next_work_item \<Rightarrow> py_error + unit" where
  "resume_type_check w = (case nw_resume_type w of
     None \<Rightarrow> Inr ()
   | Some r \<Rightarrow>
       if nw_type w \<noteq> WAIT_FOR_USER_MODEL_CHOICE
       then Inl (ValueError ''user_choice_resume_work_type requires wait_for_user_model_choice'')
       else if r \<in> {WAIT_FOR_USER_MODEL_CHOICE, WT_DONE}
       then Inl (ValueError ''user choice resume work type must be executable'')
       else Inr ())"

definition next_work_item_post_init :: "next_work_item \<Rightarrow> py_error + next_work_item" where
  "next_work_item_post_init w =
     bindE (text_tuple ''node_refs'' True (nw_node_refs w)) (\<lambda>_.
     bindE (text_field ''primary_model_id'' (nw_primary_model w)) (\<lambda>_.
     bindE (optional_text ''degraded_model_id'' (nw_degraded_model w)) (\<lambda>_.
     bindE (resume_type_check w) (\<lambda>_.
     bindE (non_negative_int ''prompt_tokens'' (nw_prompt_tokens w)) (\<lambda>_.
     bindE (non_negative_int ''artifact_tokens'' (nw_artifact_tokens w)) (\<lambda>_.
     bindE (non_negative_int ''input_tokens'' (nw_input_tokens w)) (\<lambda>_.
     bindE (non_negative_int ''required_window_tokens'' (nw_required_window w)) (\<lambda>_.
     bindE (positive_int ''request_count'' (nw_request_count w)) (\<lambda>_.
       if nw_input_tokens w \<noteq> 0 \<and> nw_input_tokens w \<noteq> nw_prompt_tokens w + nw_artifact_tokens w
       then Inl (ValueError ''input_tokens must equal prompt_tokens + artifact_tokens'')
       else if nw_required_window w \<noteq> 0 \<and> nw_required_window w < nw_input_tokens w
       then Inl (ValueError ''required_window_tokens must be >= input_tokens'')
       else Inr w)))))))))"

record planner_decision =
  dc_item :: next_work_item
  dc_reason :: string

definition planner_decision_post_init :: "planner_decision \<Rightarrow> py_error + planner_decision" where
  "planner_decision_post_init d = bindE (text_field ''reason'' (dc_reason d)) (\<lambda>_. Inr d)"

section \<open>The prompt budgets\<close>

text \<open>The dict of prompt tokens per variant; the work type's value is the variant's name.\<close>

fun compaction_prompt_tokens :: "work_type \<Rightarrow> py_error + int" where
  "compaction_prompt_tokens DRAFT_VS_DRAFT = Inr 2050"
| "compaction_prompt_tokens COMPACTED_VS_COMPACTED = Inr 2150"
| "compaction_prompt_tokens MIXED = Inr 2150"
| "compaction_prompt_tokens REDUCED_REWRITE = Inr 400"
| "compaction_prompt_tokens WAIT_FOR_USER_MODEL_CHOICE =
     Inl (ValueError ''unknown draft claim compaction prompt variant: wait_for_user_model_choice'')"
| "compaction_prompt_tokens WT_DONE =
     Inl (ValueError ''unknown draft claim compaction prompt variant: done'')"

definition compaction_safety_gap :: int where
  "compaction_safety_gap = pb_request_gap groq_free_budget"

definition compaction_max_batch_tokens :: "work_type \<Rightarrow> py_error + int" where
  "compaction_max_batch_tokens t = bindE (compaction_prompt_tokens t) (\<lambda>prompt.
     max_artifact_tokens gpt_oss_120b prompt groq_free_budget)"

definition compaction_artifact_tokens :: "string \<Rightarrow> py_error + int" where
  "compaction_artifact_tokens t =
     (if blank t then Inr 0 else artifact_tokens_of (int (length t)) gpt_oss_120b)"

lemma compaction_max_batch_values [simp]:
  "compaction_max_batch_tokens DRAFT_VS_DRAFT = Inr 2825"
  "compaction_max_batch_tokens COMPACTED_VS_COMPACTED = Inr 2775"
  "compaction_max_batch_tokens MIXED = Inr 2775"
  "compaction_max_batch_tokens REDUCED_REWRITE = Inr 3650"
  by code_simp+

lemma compaction_safety_gap_value [simp]: "compaction_safety_gap = 300"
  by code_simp

lemma pair_key_commute: "pair_key a b = pair_key b a"
  by (auto simp: pair_key_def)

lemma pair_key_eq: "pair_key a b = pair_key c d \<longleftrightarrow> (a = c \<and> b = d) \<or> (a = d \<and> b = c)"
  by (auto simp: pair_key_def)

end
