(* ===== verification/CompactionLineage.thy ===== *)
theory CompactionLineage
  imports CompactionModels
begin

text \<open>
  The lineage index of the compaction planner: \<open>_ComparisonIndex\<close> and \<open>_LineageComparisonIndex\<close> of
  \<open>draft_claim_compaction_reduction_planner_policy.py\<close>. Merged sources are kept in a dict of parents
  with path compression. \<open>find\<close> recurses without a bound, so it is a partial function here: \<open>None\<close> is
  a run that does not return, \<open>Inl (KeyError _)\<close> a reference outside the dict.
\<close>

section \<open>The comparison index\<close>

definition latest_comparison :: "comparison list \<Rightarrow> string \<Rightarrow> string \<Rightarrow> comparison option" where
  "latest_comparison cs left right =
     List.find (\<lambda>c. comparison_key c = pair_key left right) (rev cs)"

definition status_of :: "comparison list \<Rightarrow> string \<Rightarrow> string \<Rightarrow> comparison_status option" where
  "status_of cs left right = map_option cp_status (latest_comparison cs left right)"

definition result_ref_of :: "comparison list \<Rightarrow> string \<Rightarrow> string \<Rightarrow> string option" where
  "result_ref_of cs left right = Option.bind (latest_comparison cs left right) cp_result"

section \<open>Find and union\<close>

type_synonym parents = "string \<rightharpoonup> string"

text \<open>A step that may not return, then one that may raise.\<close>

definition andThen :: "('e + 'a) option \<Rightarrow> ('a \<Rightarrow> ('e + 'b) option) \<Rightarrow> ('e + 'b) option" where
  "andThen m f = Option.bind m (\<lambda>r. case r of Inl e \<Rightarrow> Some (Inl e) | Inr x \<Rightarrow> f x)"

lemma andThen_simps [simp]:
  "andThen None f = None"
  "andThen (Some (Inl e)) f = Some (Inl e)"
  "andThen (Some (Inr x)) f = f x"
  by (simp_all add: andThen_def)

partial_function (option) find_source :: "parents \<Rightarrow> string \<Rightarrow> (py_error + string \<times> parents) option" where
  "find_source ps s = (case ps s of
     None \<Rightarrow> Some (Inl (KeyError s))
   | Some p \<Rightarrow>
       if p \<noteq> s then Option.bind (find_source ps p) (\<lambda>r. Some (bindE r (\<lambda>(rt, ps'). Inr (rt, ps'(s \<mapsto> rt)))))
       else Some (Inr (p, ps)))"

declare find_source.simps [code]

text \<open>The loop of \<open>union_source_refs\<close> over \<open>ordered[1:]\<close>.\<close>

fun union_loop :: "string \<Rightarrow> string list \<Rightarrow> parents \<Rightarrow> (py_error + parents) option" where
  "union_loop rt [] ps = Some (Inr ps)"
| "union_loop rt (s # ss) ps = andThen (find_source ps s) (\<lambda>(other, ps').
     if rt = other then union_loop rt ss ps'
     else union_loop (min rt other) ss (ps'(max rt other \<mapsto> min rt other)))"

definition union_source_refs :: "string set \<Rightarrow> parents \<Rightarrow> (py_error + parents) option" where
  "union_source_refs refs ps = (case sorted_list_of_set refs of
     [] \<Rightarrow> Some (Inr ps)
   | s # ss \<Rightarrow> andThen (find_source ps s) (\<lambda>(rt, ps'). union_loop rt ss ps'))"

section \<open>Building the index\<close>

text \<open>The dict of sources per node, in insertion order.\<close>

type_synonym source_map = "(string \<times> string set) list"

definition raw_sources :: "planner_state \<Rightarrow> source_map" where
  "raw_sources s = map (\<lambda>n. (nd_ref n, set (nd_source_claims n))) (ps_nodes s)"

definition all_sources :: "source_map \<Rightarrow> string set" where
  "all_sources m = \<Union> (snd ` set m)"

definition initial_parents :: "string set \<Rightarrow> parents" where
  "initial_parents refs = (\<lambda>s. if s \<in> refs then Some s else None)"

definition sources_or_empty :: "source_map \<Rightarrow> string \<Rightarrow> string set" where
  "sources_or_empty m r = (case map_of m r of Some x \<Rightarrow> x | None \<Rightarrow> {})"

definition merged_sources :: "source_map \<Rightarrow> comparison \<Rightarrow> string set" where
  "merged_sources m c = sources_or_empty m (cp_left c) \<union> sources_or_empty m (cp_right c)"

text \<open>\<open>raw_source_claim_refs_by_node_ref.setdefault(result, merged)\<close> under its guard.\<close>

definition record_result :: "source_map \<Rightarrow> comparison \<Rightarrow> source_map" where
  "record_result m c = (case cp_result c of
     None \<Rightarrow> m
   | Some r \<Rightarrow> if merged_sources m c = {} \<or> map_of m r \<noteq> None then m
               else m @ [(r, merged_sources m c)])"

fun union_merged :: "comparison list \<Rightarrow> source_map \<Rightarrow> parents \<Rightarrow> (py_error + source_map \<times> parents) option" where
  "union_merged [] m ps = Some (Inr (m, ps))"
| "union_merged (c # cs) m ps =
     (if cp_status c \<noteq> CMP_MERGED then union_merged cs m ps
      else andThen (union_source_refs (merged_sources m c) ps) (\<lambda>ps'.
        union_merged cs (record_result m c) ps'))"

text \<open>
  \<open>frozenset(find(r) for r in refs)\<close> for every entry. Python visits a set in an order of its own; the
  model takes the sorted one, and \<open>find_all_forest\<close> below shows that the order does not matter.
\<close>

fun find_all :: "string list \<Rightarrow> parents \<Rightarrow> (py_error + string set \<times> parents) option" where
  "find_all [] ps = Some (Inr ({}, ps))"
| "find_all (s # ss) ps = andThen (find_source ps s) (\<lambda>(rt, ps').
     andThen (find_all ss ps') (\<lambda>(rts, ps''). Some (Inr (insert rt rts, ps''))))"

fun canonical_sources :: "source_map \<Rightarrow> parents \<Rightarrow> (py_error + source_map \<times> parents) option" where
  "canonical_sources [] ps = Some (Inr ([], ps))"
| "canonical_sources ((n, refs) # m) ps = andThen (find_all (sorted_list_of_set refs) ps) (\<lambda>(rts, ps').
     andThen (canonical_sources m ps') (\<lambda>(m', ps''). Some (Inr ((n, rts) # m', ps''))))"

record lineage_index =
  lx_sources :: source_map
  lx_incompatible :: "(string set \<times> string set) list"

definition separated_origins :: "separation_edge \<Rightarrow> string set \<times> string set" where
  "separated_origins e = ({se_origin_a e}, {se_origin_b e})"

text \<open>The pair of a comparison that was not merged, when both nodes are known.\<close>

definition not_merged_pair :: "source_map \<Rightarrow> comparison \<Rightarrow> (string set \<times> string set) option" where
  "not_merged_pair m c =
     (if cp_status c \<noteq> CMP_NOT_MERGED then None
      else case (map_of m (cp_left c), map_of m (cp_right c)) of
        (Some l, Some r) \<Rightarrow> Some (l, r)
      | _ \<Rightarrow> None)"

definition lineage_from_state :: "planner_state \<Rightarrow> (py_error + lineage_index) option" where
  "lineage_from_state s =
     andThen (union_merged (ps_comparisons s) (raw_sources s)
       (initial_parents (all_sources (raw_sources s)))) (\<lambda>(m, ps).
     andThen (canonical_sources m ps) (\<lambda>(m', ps').
       Some (Inr \<lparr>lx_sources = m', lx_incompatible =
         map separated_origins (ps_separations s) @
         List.map_filter (not_merged_pair m') (ps_comparisons s)\<rparr>)))"

definition known_incompatible :: "lineage_index \<Rightarrow> string set \<Rightarrow> string set \<Rightarrow> bool" where
  "known_incompatible lx left right \<longleftrightarrow> list_ex (\<lambda>(known_left, known_right).
     known_left \<subseteq> left \<and> known_right \<subseteq> right \<or> known_left \<subseteq> right \<and> known_right \<subseteq> left)
     (lx_incompatible lx)"

definition can_compare :: "lineage_index \<Rightarrow> comparison list \<Rightarrow> string \<Rightarrow> string \<Rightarrow> bool" where
  "can_compare lx cs left right =
     (case (map_of (lx_sources lx) left, map_of (lx_sources lx) right) of
        (Some l, Some r) \<Rightarrow>
          if l \<inter> r \<noteq> {} then False
          else if status_of cs left right = Some CMP_TOO_LARGE_FOR_PRIMARY_MODEL then False
          else if status_of cs left right \<noteq> None then False
          else \<not> known_incompatible lx l r
      | _ \<Rightarrow> False)"

section \<open>Parents represent a choice of least representatives\<close>

text \<open>
  \<open>f\<close> names the root of every reference: roots are their own parents and every parent is smaller and has
  the same root.
\<close>

definition forest :: "string set \<Rightarrow> parents \<Rightarrow> (string \<Rightarrow> string) \<Rightarrow> bool" where
  "forest A ps f \<longleftrightarrow> finite A \<and> dom ps = A \<and>
     (\<forall>x \<in> A. f x \<in> A \<and> ps (f x) = Some (f x) \<and> (ps x = Some x \<longrightarrow> f x = x) \<and>
       (\<exists>p \<in> A. ps x = Some p \<and> p \<le> x \<and> f p = f x))"

lemma forestD:
  assumes "forest A ps f" "x \<in> A"
  shows "f x \<in> A" "ps (f x) = Some (f x)" "ps x = Some x \<Longrightarrow> f x = x"
  using assms by (auto simp: forest_def)

lemma forest_idem: "forest A ps f \<Longrightarrow> x \<in> A \<Longrightarrow> f (f x) = f x"
  by (meson forestD)

lemma forest_parent:
  assumes "forest A ps f" "x \<in> A"
  obtains p where "p \<in> A" "ps x = Some p" "p \<le> x" "f p = f x"
  using assms by (auto simp: forest_def)

lemma forest_induct [consumes 2, case_names parent]:
  assumes F: "forest A ps f" and x: "x \<in> A"
    and step: "\<And>x. x \<in> A \<Longrightarrow> (\<And>p. p \<in> A \<Longrightarrow> p < x \<Longrightarrow> P p) \<Longrightarrow> P x"
  shows "P x"
  using x
proof (induction x rule: measure_induct_rule [where f = "\<lambda>x. card {y \<in> A. y < x}"])
  case (less x)
  have fin: "finite A" using F by (simp add: forest_def)
  show ?case
  proof (rule step [OF less.prems])
    fix p assume p: "p \<in> A" "p < x"
    then have "{y \<in> A. y < p} \<subset> {y \<in> A. y < x}" by auto
    then have "card {y \<in> A. y < p} < card {y \<in> A. y < x}"
      using fin by (intro psubset_card_mono) auto
    then show "P p" using less.IH p by blast
  qed
qed

lemma forest_le:
  assumes "forest A ps f" "x \<in> A"
  shows "f x \<le> x"
  using assms
proof (induction rule: forest_induct)
  case (parent x)
  obtain p where p: "p \<in> A" "ps x = Some p" "p \<le> x" "f p = f x"
    by (rule forest_parent [OF assms(1) parent.hyps])
  show ?case
  proof (cases "p = x")
    case True
    with p forestD(3) [OF assms(1) parent.hyps] show ?thesis by simp
  next
    case False
    with p parent.IH [of p] show ?thesis by force
  qed
qed

text \<open>Path compression keeps the roots.\<close>

lemma forest_compress:
  assumes F: "forest A ps f" and x: "x \<in> A"
  shows "forest A (ps(x \<mapsto> f x)) f"
  unfolding forest_def
proof (intro conjI ballI)
  show "finite A" "dom (ps(x \<mapsto> f x)) = A" using F x by (auto simp: forest_def)
  fix y assume y: "y \<in> A"
  show "f y \<in> A" by (rule forestD [OF F y])
  show "(ps(x \<mapsto> f x)) (f y) = Some (f y)"
    using forestD(2) [OF F y] forest_idem [OF F y] by auto
  show "(ps(x \<mapsto> f x)) y = Some y \<longrightarrow> f y = y" using forestD(3) [OF F y] by auto
  show "\<exists>p \<in> A. (ps(x \<mapsto> f x)) y = Some p \<and> p \<le> y \<and> f p = f y"
  proof (cases "y = x")
    case True
    with forestD(1) [OF F x] forest_le [OF F x] forest_idem [OF F x] show ?thesis by auto
  next
    case False
    with y show ?thesis by (auto elim: forest_parent [OF F])
  qed
qed

lemma find_source_forest:
  assumes "forest A ps f" "x \<in> A"
  shows "\<exists>ps'. find_source ps x = Some (Inr (f x, ps')) \<and> forest A ps' f"
  using assms
proof (induction rule: forest_induct)
  case (parent x)
  obtain p where p: "p \<in> A" "ps x = Some p" "p \<le> x" "f p = f x"
    by (rule forest_parent [OF assms(1) parent.hyps])
  show ?case
  proof (cases "p = x")
    case True
    with p forestD(3) [OF assms(1) parent.hyps] assms(1) show ?thesis
      by (subst find_source.simps) simp
  next
    case False
    with p have "p < x" by simp
    with parent.IH p obtain ps' where "find_source ps p = Some (Inr (f x, ps'))" "forest A ps' f"
      by fastforce
    with False p parent.hyps show ?thesis
      by (subst find_source.simps) (auto intro: forest_compress)
  qed
qed

text \<open>Linking the larger of two roots to the smaller one.\<close>

definition relink :: "string \<Rightarrow> string \<Rightarrow> (string \<Rightarrow> string) \<Rightarrow> string \<Rightarrow> string" where
  "relink a b f x = (if f x = max a b then min a b else f x)"

lemma forest_relink:
  assumes F: "forest A ps f" and a: "a \<in> A" "f a = a" and b: "b \<in> A" "f b = b" and ne: "a \<noteq> b"
  shows "forest A (ps(max a b \<mapsto> min a b)) (relink a b f)"
proof -
  let ?hi = "max a b" and ?lo = "min a b"
  have hi: "?hi \<in> A" "f ?hi = ?hi" and lo: "?lo \<in> A" "f ?lo = ?lo" and less: "?lo < ?hi"
    using a b ne by (auto simp: max_def min_def)
  have lo_root: "ps ?lo = Some ?lo" using forestD(2) [OF F lo(1)] lo(2) by simp
  show ?thesis
    unfolding forest_def
  proof (intro conjI ballI)
    show "finite A" "dom (ps(?hi \<mapsto> ?lo)) = A" using F hi by (auto simp: forest_def)
    fix x assume x: "x \<in> A"
    note fx = forestD [OF F x] forest_idem [OF F x]
    show "relink a b f x \<in> A" using fx lo by (simp add: relink_def)
    show "(ps(?hi \<mapsto> ?lo)) (relink a b f x) = Some (relink a b f x)"
      using fx lo_root less by (auto simp: relink_def)
    show "(ps(?hi \<mapsto> ?lo)) x = Some x \<longrightarrow> relink a b f x = x"
      using fx less by (auto simp: relink_def)
    show "\<exists>p \<in> A. (ps(?hi \<mapsto> ?lo)) x = Some p \<and> p \<le> x \<and> relink a b f p = relink a b f x"
    proof (cases "x = ?hi")
      case True
      with lo hi less show ?thesis by (intro bexI [of _ ?lo]) (auto simp: relink_def)
    next
      case False
      obtain p where "p \<in> A" "ps x = Some p" "p \<le> x" "f p = f x" by (rule forest_parent [OF F x])
      with False show ?thesis by (intro bexI [of _ p]) (simp_all add: relink_def)
    qed
  qed
qed

section \<open>The partition generated by the merges\<close>

definition agrees_on :: "(string \<Rightarrow> 'a) \<Rightarrow> string set set \<Rightarrow> bool" where
  "agrees_on g Ms \<longleftrightarrow> (\<forall>M \<in> Ms. \<forall>a \<in> M. \<forall>b \<in> M. g a = g b)"

text \<open>\<open>f\<close> identifies the members of every merged set and nothing that it need not.\<close>

definition generates :: "string set \<Rightarrow> (string \<Rightarrow> string) \<Rightarrow> string set set \<Rightarrow> bool" where
  "generates A f Ms \<longleftrightarrow> agrees_on f Ms \<and>
     (\<forall>g :: string \<Rightarrow> string set. agrees_on g Ms \<longrightarrow> (\<forall>x \<in> A. \<forall>y \<in> A. f x = f y \<longrightarrow> g x = g y))"

lemma agrees_insert: "agrees_on g (insert S Ms) \<longleftrightarrow> (\<forall>a \<in> S. \<forall>b \<in> S. g a = g b) \<and> agrees_on g Ms"
  by (simp add: agrees_on_def)

lemma agrees_onD: "agrees_on g Ms \<Longrightarrow> M \<in> Ms \<Longrightarrow> a \<in> M \<Longrightarrow> b \<in> M \<Longrightarrow> g a = g b"
  unfolding agrees_on_def by blast

lemma agrees_smaller:
  assumes g: "agrees_on g Ms" and sub: "\<And>M. M \<in> Ns \<Longrightarrow> \<exists>N \<in> Ms. M \<subseteq> N"
  shows "agrees_on g Ns"
  unfolding agrees_on_def
proof (intro ballI)
  fix M a b assume "M \<in> Ns" "a \<in> M" "b \<in> M"
  with sub obtain N where "N \<in> Ms" "a \<in> N" "b \<in> N" by blast
  then show "g a = g b" by (rule agrees_onD [OF g])
qed

lemma relink_ends:
  "f x = a \<Longrightarrow> relink a b f x = min a b"
  "f x = b \<Longrightarrow> relink a b f x = min a b"
  by (simp_all add: relink_def max_def min_def)

lemma relink_eqD: "relink a b f x = relink a b f y \<Longrightarrow> f x = f y \<or> f x = a \<and> f y = b \<or> f x = b \<and> f y = a"
  by (simp add: relink_def max_def min_def split: if_splits)

lemma relink_cong: "f x = f y \<Longrightarrow> relink a b f x = relink a b f y"
  by (simp add: relink_def)

lemma agrees_relink:
  assumes D: "agrees_on f (insert D Ms)" and d: "d \<in> D"
  shows "agrees_on (relink (f d) (f s) f) (insert (insert s D) Ms)"
proof -
  have ends: "relink (f d) (f s) f a = min (f d) (f s)" if "a \<in> insert s D" for a
    using that relink_ends agrees_onD [OF D insertI1 _ d] by fastforce
  have "agrees_on (relink (f d) (f s) f) Ms"
    unfolding agrees_on_def
  proof (intro ballI)
    fix M a b assume "M \<in> Ms" "a \<in> M" "b \<in> M"
    then show "relink (f d) (f s) f a = relink (f d) (f s) f b"
      by (intro relink_cong agrees_onD [OF D]) simp_all
  qed
  then show ?thesis
    unfolding agrees_insert by (metis ends)
qed

lemma generates_relink:
  assumes G: "generates A f (insert D Ms)" and d: "d \<in> D" "D \<subseteq> A" and s: "s \<in> A"
  shows "generates A (relink (f d) (f s) f) (insert (insert s D) Ms)"
  unfolding generates_def
proof (intro conjI allI ballI impI)
  show "agrees_on (relink (f d) (f s) f) (insert (insert s D) Ms)"
    by (rule agrees_relink [OF _ d(1)]) (use G in \<open>simp add: generates_def\<close>)
  fix g :: "string \<Rightarrow> string set" and x y
  assume g: "agrees_on g (insert (insert s D) Ms)" and xy: "x \<in> A" "y \<in> A"
    and eq: "relink (f d) (f s) f x = relink (f d) (f s) f y"
  have ds: "g d = g s" by (rule agrees_onD [OF g insertI1]) (simp_all add: d)
  have "agrees_on g (insert D Ms)" by (rule agrees_smaller [OF g]) auto
  then have G': "g u = g v" if "u \<in> A" "v \<in> A" "f u = f v" for u v
    using G that unfolding generates_def by blast
  have dA: "d \<in> A" using d by auto
  consider "f x = f y" | "f x = f d" "f y = f s" | "f x = f s" "f y = f d"
    using relink_eqD [OF eq] by blast
  then show "g x = g y"
  proof cases
    case 1
    with G' xy show ?thesis by blast
  next
    case 2
    with G' [OF xy(1) dA] G' [OF xy(2) s] ds show ?thesis by simp
  next
    case 3
    with G' [OF xy(1) s] G' [OF xy(2) dA] ds show ?thesis by simp
  qed
qed

lemma relink_same: "relink a a f = f"
  by (auto simp: relink_def)

lemma union_loop_forest:
  assumes "forest A ps f" "generates A f (insert D Ms)" "d \<in> D" "D \<subseteq> A" "set ss \<subseteq> A"
  shows "\<exists>ps' f'. union_loop (f d) ss ps = Some (Inr ps') \<and> forest A ps' f' \<and>
    generates A f' (insert (D \<union> set ss) Ms)"
  using assms
proof (induction ss arbitrary: ps f D)
  case Nil
  then show ?case by auto
next
  case (Cons s ss)
  have s: "s \<in> A" and d: "d \<in> A" and ss: "set ss \<subseteq> A" using Cons.prems by auto
  obtain ps1 where find: "find_source ps s = Some (Inr (f s, ps1))" and F1: "forest A ps1 f"
    using find_source_forest [OF Cons.prems(1) s] by auto
  let ?f = "relink (f d) (f s) f"
  have G: "generates A ?f (insert (insert s D) Ms)"
    by (rule generates_relink [OF Cons.prems(2,3,4) s])
  have d': "d \<in> insert s D" "insert s D \<subseteq> A" using Cons.prems s by auto
  have set_eq: "D \<union> set (s # ss) = insert s D \<union> set ss" by auto
  show ?case
  proof (cases "f d = f s")
    case True
    then have "?f = f" by (simp add: relink_same)
    with Cons.IH [OF F1 _ d' ss] G find True show ?thesis unfolding set_eq by simp
  next
    case False
    have F2: "forest A (ps1(max (f d) (f s) \<mapsto> min (f d) (f s))) ?f"
      using False forestD(1) [OF F1] forest_idem [OF F1] d s by (intro forest_relink [OF F1]) auto
    have "?f d = min (f d) (f s)" by (auto simp: relink_def max_def min_def)
    with Cons.IH [OF F2 G d' ss] find False show ?thesis
      unfolding set_eq by (simp del: fun_upd_apply)
  qed
qed

lemma generates_insert_small:
  assumes "generates A f Ms"
  shows "generates A f (insert {} Ms)" "generates A f (insert {s} Ms)"
  using assms by (simp_all add: generates_def agrees_insert)

lemma union_source_refs_forest:
  assumes F: "forest A ps f" and G: "generates A f Ms" and refs: "refs \<subseteq> A"
  shows "\<exists>ps' f'. union_source_refs refs ps = Some (Inr ps') \<and> forest A ps' f' \<and>
    generates A f' (insert refs Ms)"
proof -
  have "finite refs" using F refs finite_subset by (auto simp: forest_def)
  then have set_eq: "set (sorted_list_of_set refs) = refs" by simp
  show ?thesis
  proof (cases "sorted_list_of_set refs")
    case Nil
    with set_eq have "refs = {}" by simp
    with F G Nil show ?thesis
      unfolding union_source_refs_def by (auto intro: generates_insert_small)
  next
    case (Cons s ss)
    with set_eq have refs': "refs = {s} \<union> set ss" by auto
    with refs have s: "s \<in> A" "set ss \<subseteq> A" by auto
    obtain ps1 where find: "find_source ps s = Some (Inr (f s, ps1))" and F1: "forest A ps1 f"
      using find_source_forest [OF F s(1)] by auto
    from union_loop_forest [OF F1 generates_insert_small(2) [OF G], of s s ss] s find Cons
    show ?thesis unfolding union_source_refs_def refs' by auto
  qed
qed

lemma generates_initial: "generates A (\<lambda>x. x) {}"
  by (simp add: generates_def agrees_on_def)

lemma forest_initial: "finite A \<Longrightarrow> forest A (initial_parents A) (\<lambda>x. x)"
  by (auto simp: forest_def initial_parents_def dom_def)

section \<open>The reference: classes of sources merged with one another\<close>

text \<open>The sets of sources that the merged comparisons unite, and the sources known afterwards.\<close>

fun merge_sets :: "comparison list \<Rightarrow> source_map \<Rightarrow> string set list" where
  "merge_sets [] m = []"
| "merge_sets (c # cs) m =
     (if cp_status c \<noteq> CMP_MERGED then merge_sets cs m
      else merged_sources m c # merge_sets cs (record_result m c))"

fun final_sources :: "comparison list \<Rightarrow> source_map \<Rightarrow> source_map" where
  "final_sources [] m = m"
| "final_sources (c # cs) m =
     (if cp_status c \<noteq> CMP_MERGED then final_sources cs m else final_sources cs (record_result m c))"

text \<open>Two sources are of one lineage when a chain of merges connects them.\<close>

definition same_lineage :: "string set set \<Rightarrow> (string \<times> string) set" where
  "same_lineage Ms = (\<Union>M \<in> Ms. M \<times> M)\<^sup>*"

definition representative :: "string set set \<Rightarrow> string \<Rightarrow> string" where
  "representative Ms x = Min (same_lineage Ms `` {x})"

lemma same_lineage_sym: "(x, y) \<in> same_lineage Ms \<Longrightarrow> (y, x) \<in> same_lineage Ms"
proof -
  have "sym (\<Union>M \<in> Ms. M \<times> M)" by (auto simp: sym_def)
  then show "(x, y) \<in> same_lineage Ms \<Longrightarrow> (y, x) \<in> same_lineage Ms"
    unfolding same_lineage_def by (meson sym_rtrancl symD)
qed

lemma same_lineage_trans:
  "(x, y) \<in> same_lineage Ms \<Longrightarrow> (y, z) \<in> same_lineage Ms \<Longrightarrow> (x, z) \<in> same_lineage Ms"
  unfolding same_lineage_def by (rule rtrancl_trans)

lemma same_lineage_refl [simp]: "(x, x) \<in> same_lineage Ms"
  by (simp add: same_lineage_def)

lemma same_lineage_merged: "M \<in> Ms \<Longrightarrow> a \<in> M \<Longrightarrow> b \<in> M \<Longrightarrow> (a, b) \<in> same_lineage Ms"
  unfolding same_lineage_def by (rule r_into_rtrancl) auto

lemma agrees_lineage:
  assumes "agrees_on g Ms" "(x, y) \<in> same_lineage Ms"
  shows "g x = g y"
  using assms(2) unfolding same_lineage_def
proof (induction rule: rtrancl_induct)
  case (step y z)
  then obtain M where "M \<in> Ms" "y \<in> M" "z \<in> M" by auto
  with step.IH agrees_onD [OF assms(1)] show ?case by metis
qed simp

lemma lineage_closed:
  assumes "\<Union> Ms \<subseteq> A" "x \<in> A" "(x, y) \<in> same_lineage Ms"
  shows "y \<in> A"
  using assms(3,1,2) unfolding same_lineage_def by (induction rule: rtrancl_induct) auto

lemma generates_lineage:
  assumes G: "generates A f Ms" and x: "x \<in> A" "y \<in> A"
  shows "f x = f y \<longleftrightarrow> (x, y) \<in> same_lineage Ms"
proof
  assume "(x, y) \<in> same_lineage Ms"
  then show "f x = f y" using G by (intro agrees_lineage) (auto simp: generates_def)
next
  let ?g = "\<lambda>x. same_lineage Ms `` {x}"
  have "agrees_on ?g Ms"
    unfolding agrees_on_def
    by (auto intro: same_lineage_trans same_lineage_merged)
  moreover assume "f x = f y"
  ultimately have "?g x = ?g y" using G x unfolding generates_def by blast
  then show "(x, y) \<in> same_lineage Ms" using same_lineage_refl by blast
qed

lemma forest_representative:
  assumes F: "forest A ps f" and G: "generates A f Ms" and Ms: "\<Union> Ms \<subseteq> A" and x: "x \<in> A"
  shows "f x = representative Ms x"
proof -
  let ?C = "same_lineage Ms `` {x}"
  have A: "y \<in> A" if "y \<in> ?C" for y using lineage_closed [OF Ms x] that by blast
  then have "finite ?C" using F by (meson forest_def finite_subset subsetI)
  moreover have "f x \<in> ?C"
    using generates_lineage [OF G x forestD(1) [OF F x]] forest_idem [OF F x] by simp
  moreover have "f x \<le> y" if "y \<in> ?C" for y
    using generates_lineage [OF G x A [OF that]] forest_le [OF F A [OF that]] that by simp
  ultimately show ?thesis unfolding representative_def by (intro Min_eqI [symmetric]) auto
qed

section \<open>What the index holds\<close>

definition sources_within :: "string set \<Rightarrow> source_map \<Rightarrow> bool" where
  "sources_within A m \<longleftrightarrow> (\<forall>(n, refs) \<in> set m. refs \<subseteq> A)"

lemma merged_within: "sources_within A m \<Longrightarrow> merged_sources m c \<subseteq> A"
  by (fastforce simp: merged_sources_def sources_or_empty_def sources_within_def
      dest: map_of_SomeD split: option.splits)

lemma record_within: "sources_within A m \<Longrightarrow> sources_within A (record_result m c)"
  using merged_within [of A m c] by (auto simp: record_result_def sources_within_def split: option.splits)

lemma union_merged_forest:
  assumes "forest A ps f" "generates A f Ms" "sources_within A m"
  shows "\<exists>ps' f'. union_merged cs m ps = Some (Inr (final_sources cs m, ps')) \<and> forest A ps' f' \<and>
    generates A f' (set (merge_sets cs m) \<union> Ms) \<and> sources_within A (final_sources cs m) \<and>
    \<Union> (set (merge_sets cs m)) \<subseteq> A"
  using assms
proof (induction cs arbitrary: m ps f Ms)
  case Nil
  then show ?case by auto
next
  case (Cons c cs)
  show ?case
  proof (cases "cp_status c = CMP_MERGED")
    case False
    with Cons show ?thesis by simp
  next
    case True
    obtain ps1 f1 where u: "union_source_refs (merged_sources m c) ps = Some (Inr ps1)"
      and F1: "forest A ps1 f1" and G1: "generates A f1 (insert (merged_sources m c) Ms)"
      using union_source_refs_forest [OF Cons.prems(1,2) merged_within [OF Cons.prems(3)]] by blast
    from Cons.IH [OF F1 G1 record_within [OF Cons.prems(3)], of c] True u
      merged_within [OF Cons.prems(3), of c]
    show ?thesis by auto
  qed
qed

lemma find_all_forest:
  assumes "forest A ps f" "set ss \<subseteq> A"
  shows "\<exists>ps'. find_all ss ps = Some (Inr (f ` set ss, ps')) \<and> forest A ps' f"
  using assms
proof (induction ss arbitrary: ps)
  case Nil
  then show ?case by simp
next
  case (Cons s ss)
  then obtain ps1 where "find_source ps s = Some (Inr (f s, ps1))" "forest A ps1 f"
    using find_source_forest [of A ps f s] by auto
  with Cons show ?case by fastforce
qed

lemma canonical_sources_forest:
  assumes "forest A ps f" "sources_within A m"
  shows "\<exists>ps'. canonical_sources m ps = Some (Inr (map (\<lambda>(n, refs). (n, f ` refs)) m, ps')) \<and>
    forest A ps' f"
  using assms
proof (induction m arbitrary: ps)
  case Nil
  then show ?case by simp
next
  case (Cons e m)
  obtain n refs where e: "e = (n, refs)" by (cases e)
  have refs: "refs \<subseteq> A" and m: "sources_within A m"
    using Cons.prems(2) by (auto simp: sources_within_def e)
  then have "finite refs" using Cons.prems(1) finite_subset by (auto simp: forest_def)
  then obtain ps1 where "find_all (sorted_list_of_set refs) ps = Some (Inr (f ` refs, ps1))"
      and F1: "forest A ps1 f"
    using find_all_forest [OF Cons.prems(1), of "sorted_list_of_set refs"] refs by auto
  with Cons.IH [OF F1 m] show ?case by (auto simp: e)
qed

definition merge_classes :: "planner_state \<Rightarrow> string set set" where
  "merge_classes s = set (merge_sets (ps_comparisons s) (raw_sources s))"

definition reference_sources :: "planner_state \<Rightarrow> source_map" where
  "reference_sources s = map (\<lambda>(n, refs). (n, representative (merge_classes s) ` refs))
     (final_sources (ps_comparisons s) (raw_sources s))"

definition reference_index :: "planner_state \<Rightarrow> lineage_index" where
  "reference_index s = \<lparr>lx_sources = reference_sources s, lx_incompatible =
     map separated_origins (ps_separations s) @
     List.map_filter (not_merged_pair (reference_sources s)) (ps_comparisons s)\<rparr>"

lemma lineage_index_exact_ref: "lineage_from_state s = Some (Inr (reference_index s))"
proof -
  let ?m = "raw_sources s" and ?A = "all_sources (raw_sources s)" and ?cs = "ps_comparisons s"
  have within: "sources_within ?A ?m" by (auto simp: sources_within_def all_sources_def)
  have fin: "finite ?A" by (auto simp: all_sources_def raw_sources_def)
  obtain ps f where u: "union_merged ?cs ?m (initial_parents ?A) = Some (Inr (final_sources ?cs ?m, ps))"
      and F: "forest ?A ps f" and G: "generates ?A f (merge_classes s)"
      and final: "sources_within ?A (final_sources ?cs ?m)" and Ms: "\<Union> (merge_classes s) \<subseteq> ?A"
    using union_merged_forest [OF forest_initial [OF fin] generates_initial within, of ?cs]
    by (auto simp: merge_classes_def)
  obtain ps' where c: "canonical_sources (final_sources ?cs ?m) ps =
      Some (Inr (map (\<lambda>(n, refs). (n, f ` refs)) (final_sources ?cs ?m), ps'))"
    using canonical_sources_forest [OF F final] by blast
  have "f ` refs = representative (merge_classes s) ` refs" if "(n, refs) \<in> set (final_sources ?cs ?m)"
    for n refs
    using that final forest_representative [OF F G Ms] by (force simp: sources_within_def)
  then have "map (\<lambda>(n, refs). (n, f ` refs)) (final_sources ?cs ?m) = reference_sources s"
    unfolding reference_sources_def by (intro map_cong refl) (simp only: split_paired_all prod.case)
  with u c show ?thesis by (simp add: lineage_from_state_def reference_index_def)
qed

text \<open>
  C8. The union-find construction of the lineage index returns on every state, raises nothing, and
  gives every node the set of the least sources of its lineages: two sources are of one lineage exactly when
  a chain of merged comparisons connects them. The pairs ruled out are the recorded separations and
  the pairs found not to merge.
\<close>

theorem lineage_index_exact: "lineage_from_state s = Some (Inr (reference_index s))"
  by (rule lineage_index_exact_ref)

section \<open>Reading the index\<close>

lemma record_result_keeps: "map_of m n = Some refs \<Longrightarrow> map_of (record_result m c) n = Some refs"
  by (auto simp: record_result_def map_of_append map_add_def split: option.splits)

lemma final_sources_keeps: "map_of m n = Some refs \<Longrightarrow> map_of (final_sources cs m) n = Some refs"
  by (induction cs arbitrary: m) (auto intro: record_result_keeps)

lemma map_of_map_snd: "map_of (map (\<lambda>(n, v). (n, h v)) m) k = map_option h (map_of m k)"
  by (induction m) auto

definition node_lineages :: "planner_state \<Rightarrow> comp_node \<Rightarrow> string set" where
  "node_lineages s n = representative (merge_classes s) ` set (nd_source_claims n)"

lemma reference_lookup:
  assumes "distinct (map nd_ref (ps_nodes s))" "n \<in> set (ps_nodes s)"
  shows "map_of (reference_sources s) (nd_ref n) = Some (node_lineages s n)"
proof -
  have "map_of (raw_sources s) (nd_ref n) = Some (set (nd_source_claims n))"
    using assms by (auto simp: raw_sources_def comp_def intro!: map_of_is_SomeI)
  then show ?thesis
    by (simp add: reference_sources_def map_of_map_snd final_sources_keeps node_lineages_def)
qed

end
