(* ===== verification/CompactionPlanner.thy ===== *)
theory CompactionPlanner
  imports CompactionLineage
begin

text \<open>
  \<open>DraftClaimCompactionReductionPlannerPolicy.plan_next_step\<close>
  (\<open>src/src/contexts/knowledge_workbench/extraction/application/policies/\<close>,
  \<open>draft_claim_compaction_reduction_planner_policy.py\<close>): which pair of claims the next prompt compares.
\<close>

section \<open>Nodes, pairs and their tokens\<close>

definition ordered_active_nodes :: "planner_state \<Rightarrow> comp_node list" where
  "ordered_active_nodes s = sort_key nd_ref (active_nodes s)"

definition nodes_by_kind :: "node_kind \<Rightarrow> comp_node list \<Rightarrow> comp_node list" where
  "nodes_by_kind k ns = filter (\<lambda>n. nd_kind n = k) ns"

fun node_pairs :: "'a list \<Rightarrow> ('a \<times> 'a) list" where
  "node_pairs [] = []"
| "node_pairs (x # xs) = map (Pair x) xs @ node_pairs xs"

definition node_by_ref :: "planner_state \<Rightarrow> string \<Rightarrow> comp_node option" where
  "node_by_ref s r = List.find (\<lambda>n. nd_ref n = r) (ps_nodes s)"

definition ref_tokens :: "planner_state \<Rightarrow> string \<Rightarrow> int" where
  "ref_tokens s r = (case node_by_ref s r of None \<Rightarrow> 0 | Some n \<Rightarrow> nd_artifact_tokens n)"

definition estimated_task_tokens :: "planner_state \<Rightarrow> string list \<Rightarrow> int" where
  "estimated_task_tokens s refs =
     (let total = sum_list (map (ref_tokens s) refs) in
      if refs \<noteq> [] \<and> total \<le> 0 then 1 else total)"

definition fits_primary_tpm :: "planner_state \<Rightarrow> work_type \<Rightarrow> string list \<Rightarrow> py_error + bool" where
  "fits_primary_tpm s t refs = bindE (compaction_max_batch_tokens t) (\<lambda>mx.
     Inr (estimated_task_tokens s refs \<le> mx))"

definition pair_work_type :: "comp_node \<Rightarrow> comp_node \<Rightarrow> work_type" where
  "pair_work_type l r =
     (if nd_kind l = NK_RAW \<and> nd_kind r = NK_RAW then DRAFT_VS_DRAFT
      else if nd_kind l = NK_COMPACTED \<and> nd_kind r = NK_COMPACTED then COMPACTED_VS_COMPACTED
      else MIXED)"

definition pair_too_large :: "planner_state \<Rightarrow> comp_node \<Rightarrow> comp_node \<Rightarrow> py_error + bool" where
  "pair_too_large s l r =
     (if status_of (ps_comparisons s) (nd_ref l) (nd_ref r) = Some CMP_TOO_LARGE_FOR_PRIMARY_MODEL
      then Inr True
      else bindE (fits_primary_tpm s (pair_work_type l r) [nd_ref l, nd_ref r]) (\<lambda>b. Inr (\<not> b)))"

section \<open>The searches\<close>

definition pair_if_fits :: "planner_state \<Rightarrow> lineage_index \<Rightarrow> work_type \<Rightarrow> comp_node \<Rightarrow> comp_node \<Rightarrow>
    py_error + (string \<times> string) option" where
  "pair_if_fits s lx t l r =
     (if \<not> can_compare lx (ps_comparisons s) (nd_ref l) (nd_ref r) then Inr None
      else bindE (fits_primary_tpm s t [nd_ref l, nd_ref r]) (\<lambda>b.
        Inr (if b then Some (nd_ref l, nd_ref r) else None)))"

definition first_comparable_pair :: "planner_state \<Rightarrow> lineage_index \<Rightarrow> work_type \<Rightarrow> comp_node list \<Rightarrow>
    py_error + (string \<times> string) option" where
  "first_comparable_pair s lx t ns = firstE (\<lambda>(l, r). pair_if_fits s lx t l r) (node_pairs ns)"

definition mixed_candidate :: "planner_state \<Rightarrow> lineage_index \<Rightarrow> comp_node \<Rightarrow> comp_node \<Rightarrow>
    py_error + (string \<times> string) option" where
  "mixed_candidate s lx compacted raw = pair_if_fits s lx MIXED compacted raw"

definition first_comparable_mixed_pair :: "planner_state \<Rightarrow> lineage_index \<Rightarrow> comp_node list \<Rightarrow>
    comp_node list \<Rightarrow> py_error + (string \<times> string) option" where
  "first_comparable_mixed_pair s lx compacted raws =
     firstE (\<lambda>c. firstE (mixed_candidate s lx c) raws) compacted"

text \<open>One raw node of the bridge search: results of both merges, not compared yet, within budget.\<close>

definition bridge_rewrite_of :: "planner_state \<Rightarrow> comp_node \<Rightarrow> comp_node \<Rightarrow> comp_node \<Rightarrow>
    py_error + (string \<times> string) option" where
  "bridge_rewrite_of s l r raw =
     (let cs = ps_comparisons s in
      if status_of cs (nd_ref l) (nd_ref raw) \<noteq> Some CMP_MERGED then Inr None
      else if status_of cs (nd_ref r) (nd_ref raw) \<noteq> Some CMP_MERGED then Inr None
      else case (result_ref_of cs (nd_ref l) (nd_ref raw), result_ref_of cs (nd_ref r) (nd_ref raw)) of
        (Some a, Some b) \<Rightarrow>
          if status_of cs a b \<noteq> None then Inr None
          else bindE (fits_primary_tpm s REDUCED_REWRITE [fst (pair_key a b), snd (pair_key a b)])
            (\<lambda>fit. Inr (if fit then Some (pair_key a b) else None))
      | _ \<Rightarrow> Inr None)"

definition find_bridge_rewrite :: "planner_state \<Rightarrow> comp_node list \<Rightarrow> comp_node list \<Rightarrow>
    py_error + (string \<times> string) option" where
  "find_bridge_rewrite s compacted raws = firstE (\<lambda>(l, r).
     bindE (pair_too_large s l r) (\<lambda>large.
       if large then firstE (bridge_rewrite_of s l r) raws else Inr None)) (node_pairs compacted)"

definition bridge_comparison_of :: "planner_state \<Rightarrow> lineage_index \<Rightarrow> comp_node \<Rightarrow> comp_node \<Rightarrow> comp_node \<Rightarrow>
    py_error + (string \<times> string) option" where
  "bridge_comparison_of s lx l r raw = bindE (mixed_candidate s lx l raw) (\<lambda>p.
     case p of Some q \<Rightarrow> Inr (Some q) | None \<Rightarrow> mixed_candidate s lx r raw)"

definition find_bridge_comparison :: "planner_state \<Rightarrow> lineage_index \<Rightarrow> comp_node list \<Rightarrow> comp_node list \<Rightarrow>
    py_error + (string \<times> string) option" where
  "find_bridge_comparison s lx compacted raws = firstE (\<lambda>(l, r).
     bindE (pair_too_large s l r) (\<lambda>large.
       if large then firstE (bridge_comparison_of s lx l r) raws else Inr None)) (node_pairs compacted)"

definition first_unresolved_too_large :: "planner_state \<Rightarrow> comp_node list \<Rightarrow>
    py_error + ((string \<times> string) \<times> work_type) option" where
  "first_unresolved_too_large s ns = firstE (\<lambda>(l, r).
     bindE (pair_too_large s l r) (\<lambda>large.
       Inr (if large then Some ((nd_ref l, nd_ref r), pair_work_type l r) else None))) (node_pairs ns)"

definition first_pair_for_user_choice :: "comp_node list \<Rightarrow> ((string \<times> string) \<times> work_type) option" where
  "first_pair_for_user_choice ns = (case node_pairs ns of
     [] \<Rightarrow> None
   | (l, r) # _ \<Rightarrow> Some ((nd_ref l, nd_ref r), pair_work_type l r))"

section \<open>Decisions\<close>

definition make_decision :: "next_work_item \<Rightarrow> string \<Rightarrow> py_error + planner_decision" where
  "make_decision item reason = bindE (next_work_item_post_init item) (\<lambda>w.
     planner_decision_post_init \<lparr>dc_item = w, dc_reason = reason\<rparr>)"

definition decision_of :: "planner_state \<Rightarrow> work_type \<Rightarrow> string list \<Rightarrow> string \<Rightarrow> py_error + planner_decision" where
  "decision_of s t refs reason =
     (if t = WT_DONE
      then make_decision \<lparr>nw_type = t, nw_node_refs = refs, nw_primary_model = ps_primary_model s,
        nw_degraded_model = None, nw_resume_type = None, nw_prompt_tokens = 0, nw_artifact_tokens = 0,
        nw_input_tokens = 0, nw_required_window = 0, nw_request_count = 1\<rparr> reason
      else let artifact = estimated_task_tokens s refs in
        bindE (compaction_prompt_tokens t) (\<lambda>prompt.
        bindE (input_tokens_of prompt artifact) (\<lambda>input.
        bindE (required_window_tokens input artifact compaction_safety_gap) (\<lambda>window.
          make_decision \<lparr>nw_type = t, nw_node_refs = refs, nw_primary_model = ps_primary_model s,
            nw_degraded_model = None, nw_resume_type = None, nw_prompt_tokens = prompt,
            nw_artifact_tokens = artifact, nw_input_tokens = input, nw_required_window = window,
            nw_request_count = 1\<rparr> reason))))"

definition wait_for_user_model_choice :: "planner_state \<Rightarrow> string \<Rightarrow> string list \<Rightarrow> work_type \<Rightarrow>
    py_error + planner_decision" where
  "wait_for_user_model_choice s reason refs resume =
     (let artifact = estimated_task_tokens s refs in
      bindE (compaction_prompt_tokens resume) (\<lambda>prompt.
      bindE (input_tokens_of prompt artifact) (\<lambda>input.
      bindE (required_window_tokens input artifact compaction_safety_gap) (\<lambda>window.
        make_decision \<lparr>nw_type = WAIT_FOR_USER_MODEL_CHOICE, nw_node_refs = refs,
          nw_primary_model = ps_primary_model s, nw_degraded_model = Some (ps_degraded_model s),
          nw_resume_type = Some resume, nw_prompt_tokens = prompt, nw_artifact_tokens = artifact,
          nw_input_tokens = input, nw_required_window = window, nw_request_count = 1\<rparr> reason))))"

section \<open>The policy\<close>

definition refs_of :: "string \<times> string \<Rightarrow> string list" where
  "refs_of p = [fst p, snd p]"

text \<open>The searches in the order of their priority; each runs only when the earlier ones found nothing.\<close>

definition plan_with_index :: "planner_state \<Rightarrow> lineage_index \<Rightarrow> py_error + planner_decision" where
  "plan_with_index s lx =
     (let active = ordered_active_nodes s;
          compacted = nodes_by_kind NK_COMPACTED active;
          raws = nodes_by_kind NK_RAW active
      in
      bindE (find_bridge_rewrite s compacted raws) (\<lambda>rewrite. case rewrite of
        Some p \<Rightarrow> decision_of s REDUCED_REWRITE (refs_of p)
          ''two bridge comparisons merged after primary too-large pair''
      | None \<Rightarrow>
      bindE (first_comparable_pair s lx COMPACTED_VS_COMPACTED compacted) (\<lambda>pair. case pair of
        Some p \<Rightarrow> decision_of s COMPACTED_VS_COMPACTED (refs_of p)
          ''compacted-vs-compacted has highest priority''
      | None \<Rightarrow>
      bindE (find_bridge_comparison s lx compacted raws) (\<lambda>bridge. case bridge of
        Some p \<Rightarrow> decision_of s MIXED (refs_of p)
          ''primary too-large compacted pair can be probed through raw node''
      | None \<Rightarrow>
      bindE (first_comparable_mixed_pair s lx compacted raws) (\<lambda>mixed. case mixed of
        Some p \<Rightarrow> decision_of s MIXED (refs_of p)
          ''pending raw node must be compared with compacted node''
      | None \<Rightarrow>
      bindE (first_comparable_pair s lx DRAFT_VS_DRAFT raws) (\<lambda>raw_pair. case raw_pair of
        Some p \<Rightarrow> decision_of s DRAFT_VS_DRAFT (refs_of p)
          ''raw-vs-raw is lowest ordinary comparison priority''
      | None \<Rightarrow>
      bindE (first_unresolved_too_large s active) (\<lambda>unresolved. case unresolved of
        Some (p, resume) \<Rightarrow> wait_for_user_model_choice s
          ''unresolved comparison is too large for primary model'' (refs_of p) resume
      | None \<Rightarrow> decision_of s WT_DONE []
          ''all active components are reduced or known incompatible'')))))))"

definition plan_next_step :: "planner_state \<Rightarrow> (py_error + planner_decision) option" where
  "plan_next_step s =
     (if bf_status (ps_budget_fit s) = TOO_LARGE_EVEN_REDUCED
      then Some (case first_pair_for_user_choice (ordered_active_nodes s) of
        None \<Rightarrow> decision_of s WT_DONE [] ''no active pair remains for degraded fallback''
      | Some (p, resume) \<Rightarrow> wait_for_user_model_choice s
          ''ordinary comparison and reduced rewrite exceed primary budget'' (refs_of p) resume)
      else andThen (lineage_from_state s) (\<lambda>lx. Some (plan_with_index s lx)))"

end
