(* ===== verification/CompactionProps.thy ===== *)
theory CompactionProps
  imports CompactionPlanner
begin

text \<open>
  What the compaction planner guarantees: it decides on every state its constructors accept, the
  pairs it schedules are new, of different lineages and within the budget of their prompt, and it is done
  exactly when no pair of active nodes is left to compare.
\<close>

section \<open>What a pair of nodes is like\<close>

definition planner_input_ok :: "planner_state \<Rightarrow> bool" where
  "planner_input_ok s \<longleftrightarrow> planner_state_post_init s = Inr s \<and>
     list_all (\<lambda>n. comp_node_post_init n = Inr n) (ps_nodes s) \<and>
     list_all (\<lambda>c. comparison_post_init c = Inr c) (ps_comparisons s)"

text \<open>Never compared, of disjoint lineages, and not known to be incompatible.\<close>

definition comparable :: "planner_state \<Rightarrow> comp_node \<Rightarrow> comp_node \<Rightarrow> bool" where
  "comparable s l r \<longleftrightarrow> node_lineages s l \<inter> node_lineages s r = {} \<and>
     status_of (ps_comparisons s) (nd_ref l) (nd_ref r) = None \<and>
     \<not> known_incompatible (reference_index s) (node_lineages s l) (node_lineages s r)"

fun batch_limit :: "work_type \<Rightarrow> int" where
  "batch_limit DRAFT_VS_DRAFT = 2825"
| "batch_limit REDUCED_REWRITE = 3650"
| "batch_limit _ = 2775"

definition pair_tokens :: "comp_node \<Rightarrow> comp_node \<Rightarrow> int" where
  "pair_tokens l r = max 1 (nd_artifact_tokens l + nd_artifact_tokens r)"

definition pair_fits :: "comp_node \<Rightarrow> comp_node \<Rightarrow> bool" where
  "pair_fits l r \<longleftrightarrow> pair_tokens l r \<le> batch_limit (pair_work_type l r)"

definition too_large :: "planner_state \<Rightarrow> comp_node \<Rightarrow> comp_node \<Rightarrow> bool" where
  "too_large s l r \<longleftrightarrow>
     status_of (ps_comparisons s) (nd_ref l) (nd_ref r) = Some CMP_TOO_LARGE_FOR_PRIMARY_MODEL \<or>
     \<not> pair_fits l r"

lemma status_of_commute: "status_of cs a b = status_of cs b a"
  by (simp add: status_of_def latest_comparison_def pair_key_commute [of a b])

lemma known_incompatible_commute: "known_incompatible lx a b = known_incompatible lx b a"
  unfolding known_incompatible_def by (rule arg_cong2 [of _ _ _ _ list_ex]) (auto simp: fun_eq_iff)

lemma comparable_commute: "comparable s l r = comparable s r l"
  unfolding comparable_def
  by (subst status_of_commute, subst known_incompatible_commute) (simp add: Int_commute)

lemma pair_work_type_commute: "pair_work_type l r = pair_work_type r l"
  by (auto simp: pair_work_type_def)

lemma pair_fits_commute: "pair_fits l r = pair_fits r l"
  by (simp add: pair_fits_def pair_tokens_def pair_work_type_commute [of l r] add.commute)

lemma too_large_commute: "too_large s l r = too_large s r l"
  by (simp add: too_large_def status_of_commute [of _ "nd_ref l"] pair_fits_commute [of l r])

section \<open>The checked input\<close>

lemma planner_state_Inr [error_simps]:
  "planner_state_post_init s = Inr t \<longleftrightarrow> t = s \<and> \<not> blank (ps_cluster s) \<and> \<not> blank (ps_primary_model s) \<and>
     \<not> blank (ps_degraded_model s) \<and> distinct (map nd_ref (ps_nodes s))"
  by (auto simp: planner_state_post_init_def error_simps)

lemma input_okD:
  assumes "planner_input_ok s"
  shows "distinct (map nd_ref (ps_nodes s))" "\<not> blank (ps_primary_model s)" "\<not> blank (ps_degraded_model s)"
  using assms by (simp_all add: planner_input_ok_def error_simps)

lemma input_ok_node:
  assumes "planner_input_ok s" "n \<in> set (ps_nodes s)"
  shows "\<not> blank (nd_ref n)" "0 \<le> nd_artifact_tokens n" "nd_source_claims n \<noteq> []"
  using assms by (auto simp: planner_input_ok_def list_all_iff comp_node_post_init_def error_simps)

lemma input_ok_result:
  assumes "planner_input_ok s" "c \<in> set (ps_comparisons s)" "cp_result c = Some r"
  shows "\<not> blank r"
  using assms by (auto simp: planner_input_ok_def list_all_iff comparison_post_init_def error_simps)

lemma node_by_ref_in:
  assumes "planner_input_ok s" "n \<in> set (ps_nodes s)"
  shows "node_by_ref s (nd_ref n) = Some n"
  unfolding node_by_ref_def by (rule find_distinct_key [OF input_okD(1) [OF assms(1)] assms(2)])

lemma ref_tokens_nonneg: "planner_input_ok s \<Longrightarrow> 0 \<le> ref_tokens s r"
  by (auto simp: ref_tokens_def node_by_ref_def dest!: find_Some_in dest: input_ok_node split: option.splits)

lemma estimated_positive: "planner_input_ok s \<Longrightarrow> refs \<noteq> [] \<Longrightarrow> 0 < estimated_task_tokens s refs"
  by (auto simp: estimated_task_tokens_def Let_def)

lemma estimated_pair:
  assumes "planner_input_ok s" "l \<in> set (ps_nodes s)" "r \<in> set (ps_nodes s)"
  shows "estimated_task_tokens s [nd_ref l, nd_ref r] = pair_tokens l r"
  using assms by (auto simp: estimated_task_tokens_def ref_tokens_def node_by_ref_in pair_tokens_def Let_def)

section \<open>The searches decide the predicates\<close>

abbreviation budgeted :: "work_type \<Rightarrow> bool" where
  "budgeted t \<equiv> t \<in> {DRAFT_VS_DRAFT, COMPACTED_VS_COMPACTED, MIXED, REDUCED_REWRITE}"

lemma fits_primary_value:
  "budgeted t \<Longrightarrow> fits_primary_tpm s t refs = Inr (estimated_task_tokens s refs \<le> batch_limit t)"
  by (auto simp: fits_primary_tpm_def)

lemma pair_work_type_budgeted: "budgeted (pair_work_type l r)"
  by (simp add: pair_work_type_def)

lemma can_compare_reference:
  assumes "planner_input_ok s" "l \<in> set (ps_nodes s)" "r \<in> set (ps_nodes s)"
  shows "can_compare (reference_index s) (ps_comparisons s) (nd_ref l) (nd_ref r) = comparable s l r"
proof -
  note look = reference_lookup [OF input_okD(1) [OF assms(1)]]
  have "map_of (lx_sources (reference_index s)) (nd_ref n) = Some (node_lineages s n)"
    if "n \<in> set (ps_nodes s)" for n
    using look [OF that] by (simp add: reference_index_def)
  with assms show ?thesis by (auto simp: can_compare_def comparable_def)
qed

lemma pair_if_fits_value:
  assumes "planner_input_ok s" "l \<in> set (ps_nodes s)" "r \<in> set (ps_nodes s)"
  shows "pair_if_fits s (reference_index s) (pair_work_type l r) l r =
    Inr (if comparable s l r \<and> pair_fits l r then Some (nd_ref l, nd_ref r) else None)"
  using assms
  by (simp add: pair_if_fits_def can_compare_reference fits_primary_value [OF pair_work_type_budgeted]
      estimated_pair pair_fits_def)

lemma pair_too_large_value:
  assumes "planner_input_ok s" "l \<in> set (ps_nodes s)" "r \<in> set (ps_nodes s)"
  shows "pair_too_large s l r = Inr (too_large s l r)"
  using assms
  by (simp add: pair_too_large_def too_large_def fits_primary_value [OF pair_work_type_budgeted]
      estimated_pair pair_fits_def)

section \<open>Pairs and kinds\<close>

lemma node_pairs_mem:
  "distinct xs \<Longrightarrow> (a, b) \<in> set (node_pairs xs) \<Longrightarrow> a \<in> set xs \<and> b \<in> set xs \<and> a \<noteq> b"
  by (induction xs) auto

lemma node_pairs_complete:
  "a \<in> set xs \<Longrightarrow> b \<in> set xs \<Longrightarrow> a \<noteq> b \<Longrightarrow> (a, b) \<in> set (node_pairs xs) \<or> (b, a) \<in> set (node_pairs xs)"
  by (induction xs) auto

definition active_of :: "planner_state \<Rightarrow> node_kind \<Rightarrow> comp_node set" where
  "active_of s k = {n \<in> set (ps_nodes s). nd_active n \<and> nd_kind n = k}"

definition active_node :: "planner_state \<Rightarrow> comp_node \<Rightarrow> bool" where
  "active_node s n \<longleftrightarrow> n \<in> set (ps_nodes s) \<and> nd_active n"

lemma set_by_kind: "set (nodes_by_kind k (ordered_active_nodes s)) = active_of s k"
  by (auto simp: nodes_by_kind_def ordered_active_nodes_def active_nodes_def active_of_def)

lemma set_ordered: "set (ordered_active_nodes s) = Collect (active_node s)"
  by (auto simp: ordered_active_nodes_def active_nodes_def active_node_def)

lemma distinct_ordered:
  assumes "planner_input_ok s"
  shows "distinct (ordered_active_nodes s)" "distinct (nodes_by_kind k (ordered_active_nodes s))"
proof -
  have "distinct (ps_nodes s)" using input_okD(1) [OF assms] by (simp add: distinct_map)
  then show "distinct (ordered_active_nodes s)"
    by (simp add: ordered_active_nodes_def active_nodes_def)
  then show "distinct (nodes_by_kind k (ordered_active_nodes s))" by (simp add: nodes_by_kind_def)
qed

lemma active_kind: "active_node s n \<longleftrightarrow> n \<in> active_of s NK_RAW \<or> n \<in> active_of s NK_COMPACTED"
  by (cases "nd_kind n") (auto simp: active_node_def active_of_def)

lemma active_in: "n \<in> active_of s k \<Longrightarrow> n \<in> set (ps_nodes s)"
  by (simp add: active_of_def)

lemma kinds_work_type:
  "l \<in> active_of s NK_COMPACTED \<Longrightarrow> r \<in> active_of s NK_COMPACTED \<Longrightarrow> pair_work_type l r = COMPACTED_VS_COMPACTED"
  "l \<in> active_of s NK_RAW \<Longrightarrow> r \<in> active_of s NK_RAW \<Longrightarrow> pair_work_type l r = DRAFT_VS_DRAFT"
  "l \<in> active_of s NK_COMPACTED \<Longrightarrow> r \<in> active_of s NK_RAW \<Longrightarrow> pair_work_type l r = MIXED"
  by (auto simp: active_of_def pair_work_type_def)

text \<open>A pair that an ordinary comparison may take.\<close>

definition work_pair :: "planner_state \<Rightarrow> comp_node \<Rightarrow> comp_node \<Rightarrow> bool" where
  "work_pair s l r \<longleftrightarrow> comparable s l r \<and> pair_fits l r"

lemma work_pair_commute: "work_pair s l r = work_pair s r l"
  by (simp add: work_pair_def comparable_commute [of s l] pair_fits_commute [of l])

section \<open>What each search finds\<close>

text \<open>A search's result names a pair with a property, and finds one when there is one.\<close>

definition decides :: "py_error + (string \<times> string) option \<Rightarrow> (comp_node \<Rightarrow> comp_node \<Rightarrow> bool) \<Rightarrow> bool" where
  "decides r P \<longleftrightarrow> (case r of Inl e \<Rightarrow> False
     | Inr None \<Rightarrow> (\<forall>a b. \<not> P a b)
     | Inr (Some p) \<Rightarrow> (\<exists>a b. P a b \<and> p = (nd_ref a, nd_ref b)))"

definition hit :: "planner_state \<Rightarrow> comp_node \<Rightarrow> comp_node \<Rightarrow> (string \<times> string) option" where
  "hit s l r = (if work_pair s l r then Some (nd_ref l, nd_ref r) else None)"

lemma pair_if_fits_hit:
  assumes "planner_input_ok s" "l \<in> set (ps_nodes s)" "r \<in> set (ps_nodes s)" "pair_work_type l r = t"
  shows "pair_if_fits s (reference_index s) t l r = Inr (hit s l r)"
  using pair_if_fits_value [OF assms(1-3)] assms(4) by (simp add: hit_def work_pair_def)

lemma decides_first:
  assumes "\<And>x p. x \<in> set xs \<Longrightarrow> g x = Some p \<Longrightarrow> \<exists>a b. P a b \<and> p = (nd_ref a, nd_ref b)"
    and "\<And>a b. P a b \<Longrightarrow> \<exists>x \<in> set xs. g x \<noteq> None"
  shows "decides (Inr (first_opt g xs)) P"
proof (cases "first_opt g xs")
  case None
  then have "\<not> P a b" for a b using assms(2) [of a b] by auto
  with None show ?thesis by (simp add: decides_def del: first_opt_None)
next
  case (Some p)
  then obtain x where "x \<in> set xs" "g x = Some p" using first_opt_Some by metis
  with assms(1) Some show ?thesis by (simp add: decides_def)
qed

lemma active_pairs:
  assumes "planner_input_ok s" "(l, r) \<in> set (node_pairs (nodes_by_kind k (ordered_active_nodes s)))"
  shows "l \<in> active_of s k" "r \<in> active_of s k" "l \<noteq> r"
  using node_pairs_mem [OF distinct_ordered(2) [OF assms(1)] assms(2)] by (simp_all add: set_by_kind)

lemma same_kind_search:
  assumes ok: "planner_input_ok s" and t: "\<And>l r. l \<in> active_of s k \<Longrightarrow> r \<in> active_of s k \<Longrightarrow> pair_work_type l r = t"
  shows "decides (first_comparable_pair s (reference_index s) t (nodes_by_kind k (ordered_active_nodes s)))
    (\<lambda>l r. l \<in> active_of s k \<and> r \<in> active_of s k \<and> l \<noteq> r \<and> work_pair s l r)"
proof -
  let ?ps = "node_pairs (nodes_by_kind k (ordered_active_nodes s))" and ?g = "\<lambda>(l, r). hit s l r"
  have "first_comparable_pair s (reference_index s) t (nodes_by_kind k (ordered_active_nodes s)) =
      Inr (first_opt ?g ?ps)"
    unfolding first_comparable_pair_def
  proof (rule firstE_value)
    fix x assume "x \<in> set ?ps"
    moreover obtain l r where x: "x = (l, r)" by (metis surj_pair)
    ultimately have "l \<in> active_of s k" "r \<in> active_of s k" using active_pairs [OF ok] by blast+
    then show "(case x of (l, r) \<Rightarrow> pair_if_fits s (reference_index s) t l r) = Inr (?g x)"
      by (simp add: x pair_if_fits_hit [OF ok] active_in t)
  qed
  moreover have "decides (Inr (first_opt ?g ?ps))
      (\<lambda>l r. l \<in> active_of s k \<and> r \<in> active_of s k \<and> l \<noteq> r \<and> work_pair s l r)"
  proof (rule decides_first)
    fix x p assume "x \<in> set ?ps" "?g x = Some p"
    moreover obtain l r where "x = (l, r)" by (metis surj_pair)
    ultimately show "\<exists>a b. (a \<in> active_of s k \<and> b \<in> active_of s k \<and> a \<noteq> b \<and> work_pair s a b) \<and>
        p = (nd_ref a, nd_ref b)"
      using active_pairs [OF ok, of l r k] by (auto simp: hit_def split: if_splits)
  next
    fix a b assume "a \<in> active_of s k \<and> b \<in> active_of s k \<and> a \<noteq> b \<and> work_pair s a b"
    then have "?g (a, b) \<noteq> None" "?g (b, a) \<noteq> None"
      and "(a, b) \<in> set ?ps \<or> (b, a) \<in> set ?ps"
      using node_pairs_complete [of a "nodes_by_kind k (ordered_active_nodes s)" b] work_pair_commute [of s a b]
      by (auto simp: set_by_kind hit_def)
    then show "\<exists>x \<in> set ?ps. ?g x \<noteq> None" by blast
  qed
  ultimately show ?thesis by simp
qed

definition mixed_first :: "planner_state \<Rightarrow> comp_node list \<Rightarrow> comp_node \<Rightarrow> (string \<times> string) option" where
  "mixed_first s raws c = first_opt (hit s c) raws"

lemma mixed_search:
  assumes ok: "planner_input_ok s"
  shows "decides (first_comparable_mixed_pair s (reference_index s)
      (nodes_by_kind NK_COMPACTED (ordered_active_nodes s)) (nodes_by_kind NK_RAW (ordered_active_nodes s)))
    (\<lambda>l r. l \<in> active_of s NK_COMPACTED \<and> r \<in> active_of s NK_RAW \<and> work_pair s l r)"
proof -
  let ?cs = "nodes_by_kind NK_COMPACTED (ordered_active_nodes s)"
    and ?raws = "nodes_by_kind NK_RAW (ordered_active_nodes s)"
  have "firstE (mixed_candidate s (reference_index s) c) ?raws = Inr (mixed_first s ?raws c)"
    if "c \<in> set ?cs" for c
    unfolding mixed_first_def mixed_candidate_def
    using that
    by (intro firstE_value pair_if_fits_hit [OF ok])
      (auto simp: set_by_kind active_in intro: kinds_work_type(3))
  then have "first_comparable_mixed_pair s (reference_index s) ?cs ?raws =
      Inr (first_opt (mixed_first s ?raws) ?cs)"
    unfolding first_comparable_mixed_pair_def by (rule firstE_value)
  moreover have "decides (Inr (first_opt (mixed_first s ?raws) ?cs))
      (\<lambda>l r. l \<in> active_of s NK_COMPACTED \<and> r \<in> active_of s NK_RAW \<and> work_pair s l r)"
  proof (rule decides_first)
    fix c p assume "c \<in> set ?cs" "mixed_first s ?raws c = Some p"
    then show "\<exists>a b. (a \<in> active_of s NK_COMPACTED \<and> b \<in> active_of s NK_RAW \<and> work_pair s a b) \<and>
        p = (nd_ref a, nd_ref b)"
      by (fastforce simp: mixed_first_def hit_def set_by_kind dest!: first_opt_Some split: if_splits)
  next
    fix a b assume "a \<in> active_of s NK_COMPACTED \<and> b \<in> active_of s NK_RAW \<and> work_pair s a b"
    then show "\<exists>c \<in> set ?cs. mixed_first s ?raws c \<noteq> None"
      by (auto simp: mixed_first_def hit_def set_by_kind simp del: not_None_eq)
  qed
  ultimately show ?thesis by simp
qed

section \<open>The bridge searches\<close>

text \<open>
  A pair of results to rewrite: both ends of a too large pair of compacted nodes were merged with one
  raw node, and the results fit the rewrite prompt and were not compared yet.
\<close>

definition rewrite_pair :: "planner_state \<Rightarrow> string \<Rightarrow> string \<Rightarrow> bool" where
  "rewrite_pair s a b \<longleftrightarrow> (\<exists>l \<in> active_of s NK_COMPACTED. \<exists>r \<in> active_of s NK_COMPACTED.
     \<exists>raw \<in> active_of s NK_RAW. l \<noteq> r \<and> too_large s l r \<and>
       status_of (ps_comparisons s) (nd_ref l) (nd_ref raw) = Some CMP_MERGED \<and>
       status_of (ps_comparisons s) (nd_ref r) (nd_ref raw) = Some CMP_MERGED \<and>
       {result_ref_of (ps_comparisons s) (nd_ref l) (nd_ref raw),
        result_ref_of (ps_comparisons s) (nd_ref r) (nd_ref raw)} = {Some a, Some b} \<and>
       status_of (ps_comparisons s) a b = None \<and>
       estimated_task_tokens s [a, b] \<le> batch_limit REDUCED_REWRITE)"

lemma latest_comparison_in: "latest_comparison cs a b = Some c \<Longrightarrow> c \<in> set cs"
  by (auto simp: latest_comparison_def dest!: find_Some_in)

lemma result_ref_not_blank:
  "planner_input_ok s \<Longrightarrow> result_ref_of (ps_comparisons s) a b = Some r \<Longrightarrow> \<not> blank r"
  by (auto simp: result_ref_of_def bind_eq_Some_conv dest!: latest_comparison_in dest: input_ok_result)

lemma rewrite_pair_not_blank:
  assumes "planner_input_ok s" "rewrite_pair s a b"
  shows "\<not> blank a" "\<not> blank b"
  using assms unfolding rewrite_pair_def by (auto simp: doubleton_eq_iff dest: result_ref_not_blank)

definition rewrite_value :: "planner_state \<Rightarrow> comp_node \<Rightarrow> comp_node \<Rightarrow> comp_node \<Rightarrow> (string \<times> string) option" where
  "rewrite_value s l r raw = (case bridge_rewrite_of s l r raw of Inr v \<Rightarrow> v | Inl e \<Rightarrow> None)"

lemma bridge_rewrite_value: "bridge_rewrite_of s l r raw = Inr (rewrite_value s l r raw)"
  by (auto simp: rewrite_value_def bridge_rewrite_of_def Let_def fits_primary_value split: option.splits)

lemma pair_key_swap: "pair_key a b = (a, b) \<or> pair_key a b = (b, a)"
  by (simp add: pair_key_def)

lemma rewrite_value_sound:
  assumes nodes: "l \<in> active_of s NK_COMPACTED" "r \<in> active_of s NK_COMPACTED" "raw \<in> active_of s NK_RAW"
    and large: "l \<noteq> r" "too_large s l r" and v: "rewrite_value s l r raw = Some p"
  shows "rewrite_pair s (fst p) (snd p)"
proof -
  let ?cs = "ps_comparisons s"
  from v obtain a b where ab: "status_of ?cs (nd_ref l) (nd_ref raw) = Some CMP_MERGED"
      "status_of ?cs (nd_ref r) (nd_ref raw) = Some CMP_MERGED"
      "result_ref_of ?cs (nd_ref l) (nd_ref raw) = Some a" "result_ref_of ?cs (nd_ref r) (nd_ref raw) = Some b"
      "status_of ?cs a b = None" "p = pair_key a b"
      "estimated_task_tokens s [fst p, snd p] \<le> batch_limit REDUCED_REWRITE"
    by (auto simp: rewrite_value_def bridge_rewrite_of_def Let_def fits_primary_value
        split: option.splits if_splits)
  have p: "p = (a, b) \<or> p = (b, a)" using pair_key_swap ab(6) by simp
  with ab(5) have "status_of ?cs (fst p) (snd p) = None" using status_of_commute by force
  moreover have "{Some a, Some b} = {Some (fst p), Some (snd p)}" using p by auto
  ultimately show ?thesis
    unfolding rewrite_pair_def using large ab
    by (intro bexI [OF _ nodes(1)] bexI [OF _ nodes(2)] bexI [OF _ nodes(3)] conjI) simp_all
qed

lemma rewrite_search:
  assumes ok: "planner_input_ok s"
  shows "\<exists>v. find_bridge_rewrite s (nodes_by_kind NK_COMPACTED (ordered_active_nodes s))
      (nodes_by_kind NK_RAW (ordered_active_nodes s)) = Inr v \<and>
    (\<forall>p. v = Some p \<longrightarrow> rewrite_pair s (fst p) (snd p))"
proof -
  let ?ps = "node_pairs (nodes_by_kind NK_COMPACTED (ordered_active_nodes s))"
    and ?raws = "nodes_by_kind NK_RAW (ordered_active_nodes s)"
  let ?g = "\<lambda>(l, r). if too_large s l r then first_opt (rewrite_value s l r) ?raws else None"
  have "find_bridge_rewrite s (nodes_by_kind NK_COMPACTED (ordered_active_nodes s)) ?raws =
      Inr (first_opt ?g ?ps)"
    unfolding find_bridge_rewrite_def
  proof (rule firstE_value)
    fix x assume "x \<in> set ?ps"
    moreover obtain l r where x: "x = (l, r)" by (metis surj_pair)
    ultimately have "l \<in> set (ps_nodes s)" "r \<in> set (ps_nodes s)"
      using active_pairs [OF ok] active_in by blast+
    then show "(case x of (l, r) \<Rightarrow> bindE (pair_too_large s l r) (\<lambda>large.
        if large then firstE (bridge_rewrite_of s l r) ?raws else Inr None)) = Inr (?g x)"
      by (simp add: x pair_too_large_value [OF ok] firstE_value [OF bridge_rewrite_value])
  qed
  moreover have "rewrite_pair s (fst p) (snd p)" if found: "first_opt ?g ?ps = Some p" for p
  proof -
    obtain x where "x \<in> set ?ps" "?g x = Some p" using first_opt_Some [OF found] by blast
    moreover obtain l r where x: "x = (l, r)" by (metis surj_pair)
    ultimately have large: "too_large s l r" and v: "first_opt (rewrite_value s l r) ?raws = Some p"
      and lr: "l \<in> active_of s NK_COMPACTED" "r \<in> active_of s NK_COMPACTED" "l \<noteq> r"
      using active_pairs [OF ok, of l r] by (auto split: if_splits)
    obtain raw where "raw \<in> active_of s NK_RAW" "rewrite_value s l r raw = Some p"
      using first_opt_Some [OF v] by (auto simp: set_by_kind)
    with large lr show ?thesis by (intro rewrite_value_sound)
  qed
  ultimately show ?thesis by blast
qed

definition bridge_value :: "planner_state \<Rightarrow> comp_node \<Rightarrow> comp_node \<Rightarrow> comp_node \<Rightarrow> (string \<times> string) option" where
  "bridge_value s l r raw = (case hit s l raw of Some p \<Rightarrow> Some p | None \<Rightarrow> hit s r raw)"

lemma bridge_search:
  assumes ok: "planner_input_ok s"
  shows "\<exists>v. find_bridge_comparison s (reference_index s) (nodes_by_kind NK_COMPACTED (ordered_active_nodes s))
      (nodes_by_kind NK_RAW (ordered_active_nodes s)) = Inr v \<and>
    (\<forall>p. v = Some p \<longrightarrow> (\<exists>c \<in> active_of s NK_COMPACTED. \<exists>raw \<in> active_of s NK_RAW.
      work_pair s c raw \<and> p = (nd_ref c, nd_ref raw)))"
proof -
  let ?ps = "node_pairs (nodes_by_kind NK_COMPACTED (ordered_active_nodes s))"
    and ?raws = "nodes_by_kind NK_RAW (ordered_active_nodes s)"
  let ?g = "\<lambda>(l, r). if too_large s l r then first_opt (bridge_value s l r) ?raws else None"
  have mixed: "mixed_candidate s (reference_index s) c raw = Inr (hit s c raw)"
    if "c \<in> active_of s NK_COMPACTED" "raw \<in> active_of s NK_RAW" for c raw
    unfolding mixed_candidate_def using that
    by (intro pair_if_fits_hit [OF ok]) (auto simp: active_in intro: kinds_work_type(3))
  have "find_bridge_comparison s (reference_index s) (nodes_by_kind NK_COMPACTED (ordered_active_nodes s)) ?raws =
      Inr (first_opt ?g ?ps)"
    unfolding find_bridge_comparison_def
  proof (rule firstE_value)
    fix x assume "x \<in> set ?ps"
    moreover obtain l r where x: "x = (l, r)" by (metis surj_pair)
    ultimately have lr: "l \<in> active_of s NK_COMPACTED" "r \<in> active_of s NK_COMPACTED"
      using active_pairs [OF ok] by blast+
    have "firstE (bridge_comparison_of s (reference_index s) l r) ?raws =
        Inr (first_opt (bridge_value s l r) ?raws)"
      by (rule firstE_value)
        (simp add: set_by_kind bridge_comparison_of_def bridge_value_def mixed lr split: option.split)
    then show "(case x of (l, r) \<Rightarrow> bindE (pair_too_large s l r) (\<lambda>large.
        if large then firstE (bridge_comparison_of s (reference_index s) l r) ?raws else Inr None)) = Inr (?g x)"
      using lr by (simp add: x pair_too_large_value [OF ok] active_in)
  qed
  moreover have "\<exists>c \<in> active_of s NK_COMPACTED. \<exists>raw \<in> active_of s NK_RAW.
      work_pair s c raw \<and> p = (nd_ref c, nd_ref raw)" if found: "first_opt ?g ?ps = Some p" for p
  proof -
    obtain x where "x \<in> set ?ps" "?g x = Some p" using first_opt_Some [OF found] by blast
    moreover obtain l r where x: "x = (l, r)" by (metis surj_pair)
    ultimately have v: "first_opt (bridge_value s l r) ?raws = Some p"
      and lr: "l \<in> active_of s NK_COMPACTED" "r \<in> active_of s NK_COMPACTED"
      using active_pairs [OF ok, of l r] by (auto split: if_splits)
    obtain raw where "raw \<in> active_of s NK_RAW" "bridge_value s l r raw = Some p"
      using first_opt_Some [OF v] by (auto simp: set_by_kind)
    with lr show ?thesis by (auto simp: bridge_value_def hit_def split: if_splits)
  qed
  ultimately show ?thesis by blast
qed

lemma unresolved_search:
  assumes ok: "planner_input_ok s"
  shows "\<exists>v. first_unresolved_too_large s (ordered_active_nodes s) = Inr v \<and>
    (case v of None \<Rightarrow> \<forall>l r. active_node s l \<and> active_node s r \<and> l \<noteq> r \<longrightarrow> \<not> too_large s l r
     | Some (p, t) \<Rightarrow> \<exists>l r. active_node s l \<and> active_node s r \<and> l \<noteq> r \<and> too_large s l r \<and>
         p = (nd_ref l, nd_ref r) \<and> t = pair_work_type l r)"
proof -
  let ?ps = "node_pairs (ordered_active_nodes s)"
  let ?g = "\<lambda>(l, r). if too_large s l r then Some ((nd_ref l, nd_ref r), pair_work_type l r) else None"
  have pairs: "active_node s l \<and> active_node s r \<and> l \<noteq> r" if "(l, r) \<in> set ?ps" for l r
    using node_pairs_mem [OF distinct_ordered(1) [OF ok] that] by (simp add: set_ordered)
  have val: "first_unresolved_too_large s (ordered_active_nodes s) = Inr (first_opt ?g ?ps)"
    unfolding first_unresolved_too_large_def
  proof (rule firstE_value)
    fix x assume "x \<in> set ?ps"
    moreover obtain l r where x: "x = (l, r)" by (metis surj_pair)
    ultimately have "l \<in> set (ps_nodes s)" "r \<in> set (ps_nodes s)"
      using pairs by (auto simp: active_node_def)
    then show "(case x of (l, r) \<Rightarrow> bindE (pair_too_large s l r) (\<lambda>large.
        Inr (if large then Some ((nd_ref l, nd_ref r), pair_work_type l r) else None))) = Inr (?g x)"
      by (simp add: x pair_too_large_value [OF ok])
  qed
  show ?thesis
  proof (cases "first_opt ?g ?ps")
    case None
    then have none: "\<not> too_large s l r" if "(l, r) \<in> set ?ps" for l r
      using that by (auto split: if_splits)
    have "\<not> too_large s l r" if "active_node s l" "active_node s r" "l \<noteq> r" for l r
      using node_pairs_complete [of l "ordered_active_nodes s" r] that none too_large_commute [of s l r]
      by (auto simp: set_ordered)
    with val None show ?thesis by (auto simp del: first_opt_None)
  next
    case (Some v)
    obtain x where "x \<in> set ?ps" "?g x = Some v" using first_opt_Some [OF Some] by blast
    moreover obtain l r where x: "x = (l, r)" by (metis surj_pair)
    ultimately have "active_node s l \<and> active_node s r \<and> l \<noteq> r \<and> too_large s l r"
      and "v = ((nd_ref l, nd_ref r), pair_work_type l r)"
      using pairs [of l r] by (simp_all split: if_splits)
    with val Some show ?thesis by (simp del: first_opt_None) blast
  qed
qed

section \<open>The decision\<close>

lemma estimated_ge_0: "planner_input_ok s \<Longrightarrow> 0 \<le> estimated_task_tokens s refs"
  by (cases "refs = []") (auto simp: estimated_task_tokens_def dest: estimated_positive intro: less_imp_le)

lemma prompt_tokens_known:
  assumes "budgeted t"
  obtains pt where "compaction_prompt_tokens t = Inr pt" "0 < pt"
    "2 * batch_limit t + pt + 300 \<le> 8000" "batch_limit t * 2 + 2 > 8000 - pt - 300"
  using assms by auto

text \<open>What a scheduled work item carries.\<close>

definition item_consistent :: "planner_state \<Rightarrow> work_type \<Rightarrow> next_work_item \<Rightarrow> bool" where
  "item_consistent s prompt_type w \<longleftrightarrow> nw_artifact_tokens w = estimated_task_tokens s (nw_node_refs w) \<and>
     compaction_prompt_tokens prompt_type = Inr (nw_prompt_tokens w) \<and>
     nw_input_tokens w = nw_prompt_tokens w + nw_artifact_tokens w \<and>
     nw_required_window w = nw_input_tokens w + nw_artifact_tokens w + 300"

lemma decision_of_work:
  assumes ok: "planner_input_ok s" and t: "budgeted t" and refs: "list_all (\<lambda>r. \<not> blank r) refs"
    and reason: "\<not> blank reason"
  shows "\<exists>w. decision_of s t refs reason = Inr \<lparr>dc_item = w, dc_reason = reason\<rparr> \<and>
    nw_type w = t \<and> nw_node_refs w = refs \<and> nw_resume_type w = None \<and> item_consistent s t w"
proof -
  obtain pt where pt: "compaction_prompt_tokens t = Inr pt" "0 < pt" by (rule prompt_tokens_known [OF t])
  have "t \<noteq> WT_DONE" using t by auto
  with ok pt refs reason estimated_ge_0 [OF ok, of refs] input_okD(2) [OF ok] show ?thesis
    by (simp add: decision_of_def Let_def input_tokens_of_def required_window_tokens_def make_decision_def
        next_work_item_post_init_def planner_decision_post_init_def resume_type_check_def text_tuple_def
        text_fields_Inr [THEN iffD2] item_consistent_def)
qed

lemma decision_of_done:
  assumes ok: "planner_input_ok s" and reason: "\<not> blank reason"
  shows "\<exists>w. decision_of s WT_DONE [] reason = Inr \<lparr>dc_item = w, dc_reason = reason\<rparr> \<and>
    nw_type w = WT_DONE \<and> nw_node_refs w = []"
  using reason input_okD(2) [OF ok]
  by (simp add: decision_of_def make_decision_def next_work_item_post_init_def
      planner_decision_post_init_def resume_type_check_def text_tuple_def)

lemma wait_decision:
  assumes ok: "planner_input_ok s" and t: "budgeted t" and refs: "list_all (\<lambda>r. \<not> blank r) refs"
    and reason: "\<not> blank reason"
  shows "\<exists>w. wait_for_user_model_choice s reason refs t = Inr \<lparr>dc_item = w, dc_reason = reason\<rparr> \<and>
    nw_type w = WAIT_FOR_USER_MODEL_CHOICE \<and> nw_node_refs w = refs \<and> nw_resume_type w = Some t \<and>
    item_consistent s t w"
proof -
  obtain pt where pt: "compaction_prompt_tokens t = Inr pt" "0 < pt" by (rule prompt_tokens_known [OF t])
  have "t \<noteq> WT_DONE" "t \<noteq> WAIT_FOR_USER_MODEL_CHOICE" using t by auto
  with ok pt refs reason estimated_ge_0 [OF ok, of refs] input_okD(2,3) [OF ok] show ?thesis
    by (simp add: wait_for_user_model_choice_def Let_def input_tokens_of_def required_window_tokens_def
        make_decision_def next_work_item_post_init_def planner_decision_post_init_def
        resume_type_check_def text_tuple_def text_fields_Inr [THEN iffD2] item_consistent_def)
qed

lemma planner_reasons:
  "\<not> blank ''two bridge comparisons merged after primary too-large pair''"
  "\<not> blank ''compacted-vs-compacted has highest priority''"
  "\<not> blank ''primary too-large compacted pair can be probed through raw node''"
  "\<not> blank ''pending raw node must be compared with compacted node''"
  "\<not> blank ''raw-vs-raw is lowest ordinary comparison priority''"
  "\<not> blank ''unresolved comparison is too large for primary model''"
  "\<not> blank ''all active components are reduced or known incompatible''"
  "\<not> blank ''no active pair remains for degraded fallback''"
  "\<not> blank ''ordinary comparison and reduced rewrite exceed primary budget''"
  by code_simp+

definition no_work :: "planner_state \<Rightarrow> node_kind \<Rightarrow> node_kind \<Rightarrow> bool" where
  "no_work s k k' \<longleftrightarrow> (\<forall>l \<in> active_of s k. \<forall>r \<in> active_of s k'. l \<noteq> r \<longrightarrow> \<not> work_pair s l r)"

text \<open>What the planner may answer, per type of work.\<close>

definition answers :: "planner_state \<Rightarrow> next_work_item \<Rightarrow> bool" where
  "answers s w \<longleftrightarrow> (case nw_type w of
     REDUCED_REWRITE \<Rightarrow> (\<exists>a b. nw_node_refs w = [a, b] \<and> rewrite_pair s a b) \<and>
       item_consistent s REDUCED_REWRITE w
   | COMPACTED_VS_COMPACTED \<Rightarrow> (\<exists>l \<in> active_of s NK_COMPACTED. \<exists>r \<in> active_of s NK_COMPACTED.
       l \<noteq> r \<and> work_pair s l r \<and> nw_node_refs w = [nd_ref l, nd_ref r]) \<and>
       item_consistent s COMPACTED_VS_COMPACTED w
   | MIXED \<Rightarrow> (\<exists>l \<in> active_of s NK_COMPACTED. \<exists>r \<in> active_of s NK_RAW.
       work_pair s l r \<and> nw_node_refs w = [nd_ref l, nd_ref r]) \<and>
       no_work s NK_COMPACTED NK_COMPACTED \<and> item_consistent s MIXED w
   | DRAFT_VS_DRAFT \<Rightarrow> (\<exists>l \<in> active_of s NK_RAW. \<exists>r \<in> active_of s NK_RAW.
       l \<noteq> r \<and> work_pair s l r \<and> nw_node_refs w = [nd_ref l, nd_ref r]) \<and>
       no_work s NK_COMPACTED NK_COMPACTED \<and> no_work s NK_COMPACTED NK_RAW \<and>
       item_consistent s DRAFT_VS_DRAFT w
   | WAIT_FOR_USER_MODEL_CHOICE \<Rightarrow> (\<exists>l r. active_node s l \<and> active_node s r \<and> l \<noteq> r \<and>
         too_large s l r \<and> nw_node_refs w = [nd_ref l, nd_ref r] \<and>
         nw_resume_type w = Some (pair_work_type l r) \<and> item_consistent s (pair_work_type l r) w) \<and>
       (\<forall>l r. active_node s l \<and> active_node s r \<and> l \<noteq> r \<longrightarrow> \<not> work_pair s l r)
   | WT_DONE \<Rightarrow> nw_node_refs w = [] \<and> (\<forall>l r. active_node s l \<and> active_node s r \<and> l \<noteq> r \<longrightarrow>
       \<not> work_pair s l r \<and> \<not> too_large s l r))"

lemma no_workD: "no_work s k k' \<Longrightarrow> l \<in> active_of s k \<Longrightarrow> r \<in> active_of s k' \<Longrightarrow> l \<noteq> r \<Longrightarrow> \<not> work_pair s l r"
  by (simp add: no_work_def)

lemma no_work_all:
  assumes none: "no_work s NK_COMPACTED NK_COMPACTED" "no_work s NK_COMPACTED NK_RAW" "no_work s NK_RAW NK_RAW"
    and "active_node s l" "active_node s r" and ne: "l \<noteq> r"
  shows "\<not> work_pair s l r"
proof -
  consider "l \<in> active_of s NK_COMPACTED" "r \<in> active_of s NK_COMPACTED"
    | "l \<in> active_of s NK_COMPACTED" "r \<in> active_of s NK_RAW"
    | "l \<in> active_of s NK_RAW" "r \<in> active_of s NK_COMPACTED"
    | "l \<in> active_of s NK_RAW" "r \<in> active_of s NK_RAW"
    using assms(4,5) by (auto simp: active_kind)
  then show ?thesis
  proof cases
    case 3
    have "\<not> work_pair s r l" by (rule no_workD [OF none(2) 3(2,1)]) (use ne in simp)
    then show ?thesis by (simp add: work_pair_commute)
  qed (use none no_workD ne in blast)+
qed


text \<open>One search in the chain: it raises nothing, and its answer is scheduled or it found nothing.\<close>

lemma search_step:
  assumes ok: "planner_input_ok s" and r: "r = Inr v" and t: "budgeted t" and reason: "\<not> blank reason"
    and refs: "\<And>p. v = Some p \<Longrightarrow> \<not> blank (fst p) \<and> \<not> blank (snd p)"
    and found: "\<And>w p. v = Some p \<Longrightarrow> nw_type w = t \<Longrightarrow> nw_node_refs w = [fst p, snd p] \<Longrightarrow>
      item_consistent s t w \<Longrightarrow> G w"
    and rest: "v = None \<Longrightarrow> \<exists>d. k = Inr d \<and> G (dc_item d)"
  shows "\<exists>d. bindE r (\<lambda>v. case v of Some p \<Rightarrow> decision_of s t (refs_of p) reason | None \<Rightarrow> k) = Inr d \<and>
    G (dc_item d)"
proof (cases v)
  case None
  with rest r show ?thesis by simp
next
  case (Some p)
  have "list_all (\<lambda>r. \<not> blank r) [fst p, snd p]" using refs [OF Some] by simp
  from decision_of_work [OF ok t this reason] obtain w where
    "decision_of s t [fst p, snd p] reason = Inr \<lparr>dc_item = w, dc_reason = reason\<rparr>"
    "nw_type w = t" "nw_node_refs w = [fst p, snd p]" "item_consistent s t w" by blast
  with found [OF Some, of w] r Some show ?thesis by (simp add: refs_of_def)
qed

lemma decides_value:
  "decides r P \<Longrightarrow> \<exists>v. r = Inr v \<and> (\<forall>p. v = Some p \<longrightarrow> (\<exists>a b. P a b \<and> p = (nd_ref a, nd_ref b))) \<and>
    (v = None \<longrightarrow> (\<forall>a b. \<not> P a b))"
  by (auto simp: decides_def split: sum.splits option.splits)

lemma plan_with_index_answers:
  assumes ok: "planner_input_ok s"
  shows "\<exists>d. plan_with_index s (reference_index s) = Inr d \<and> answers s (dc_item d)"
proof -
  let ?cs = "nodes_by_kind NK_COMPACTED (ordered_active_nodes s)"
    and ?raws = "nodes_by_kind NK_RAW (ordered_active_nodes s)"
  note node_ref = input_ok_node(1) [OF ok active_in]
  have kinds1: "pair_work_type l r = COMPACTED_VS_COMPACTED"
    if "l \<in> active_of s NK_COMPACTED" "r \<in> active_of s NK_COMPACTED" for l r
    by (rule kinds_work_type(1) [OF that])
  have kinds2: "pair_work_type l r = DRAFT_VS_DRAFT"
    if "l \<in> active_of s NK_RAW" "r \<in> active_of s NK_RAW" for l r
    by (rule kinds_work_type(2) [OF that])
  obtain v1 where v1: "find_bridge_rewrite s ?cs ?raws = Inr v1"
      and f1: "\<And>p. v1 = Some p \<Longrightarrow> rewrite_pair s (fst p) (snd p)"
    using rewrite_search [OF ok] by blast
  obtain v2 where v2: "first_comparable_pair s (reference_index s) COMPACTED_VS_COMPACTED ?cs = Inr v2"
      and f2: "\<And>p. v2 = Some p \<Longrightarrow> \<exists>l r. (l \<in> active_of s NK_COMPACTED \<and> r \<in> active_of s NK_COMPACTED \<and>
        l \<noteq> r \<and> work_pair s l r) \<and> p = (nd_ref l, nd_ref r)"
      and n2: "v2 = None \<Longrightarrow> \<forall>l r. \<not> (l \<in> active_of s NK_COMPACTED \<and> r \<in> active_of s NK_COMPACTED \<and>
        l \<noteq> r \<and> work_pair s l r)"
    using decides_value [OF same_kind_search [where k = NK_COMPACTED, OF ok kinds1]] by blast
  obtain v3 where v3: "find_bridge_comparison s (reference_index s) ?cs ?raws = Inr v3"
      and f3: "\<And>p. v3 = Some p \<Longrightarrow> \<exists>c \<in> active_of s NK_COMPACTED. \<exists>raw \<in> active_of s NK_RAW.
        work_pair s c raw \<and> p = (nd_ref c, nd_ref raw)"
    using bridge_search [OF ok] by blast
  obtain v4 where v4: "first_comparable_mixed_pair s (reference_index s) ?cs ?raws = Inr v4"
      and f4: "\<And>p. v4 = Some p \<Longrightarrow> \<exists>l r. (l \<in> active_of s NK_COMPACTED \<and> r \<in> active_of s NK_RAW \<and>
        work_pair s l r) \<and> p = (nd_ref l, nd_ref r)"
      and n4: "v4 = None \<Longrightarrow> \<forall>l r. \<not> (l \<in> active_of s NK_COMPACTED \<and> r \<in> active_of s NK_RAW \<and> work_pair s l r)"
    using decides_value [OF mixed_search [OF ok]] by blast
  obtain v5 where v5: "first_comparable_pair s (reference_index s) DRAFT_VS_DRAFT ?raws = Inr v5"
      and f5: "\<And>p. v5 = Some p \<Longrightarrow> \<exists>l r. (l \<in> active_of s NK_RAW \<and> r \<in> active_of s NK_RAW \<and>
        l \<noteq> r \<and> work_pair s l r) \<and> p = (nd_ref l, nd_ref r)"
      and n5: "v5 = None \<Longrightarrow> \<forall>l r. \<not> (l \<in> active_of s NK_RAW \<and> r \<in> active_of s NK_RAW \<and>
        l \<noteq> r \<and> work_pair s l r)"
    using decides_value [OF same_kind_search [where k = NK_RAW, OF ok kinds2]] by blast
  obtain v6 where v6: "first_unresolved_too_large s (ordered_active_nodes s) = Inr v6"
      and f6: "case v6 of None \<Rightarrow> \<forall>l r. active_node s l \<and> active_node s r \<and> l \<noteq> r \<longrightarrow> \<not> too_large s l r
        | Some (p, t) \<Rightarrow> \<exists>l r. active_node s l \<and> active_node s r \<and> l \<noteq> r \<and> too_large s l r \<and>
            p = (nd_ref l, nd_ref r) \<and> t = pair_work_type l r"
    using unresolved_search [OF ok] by blast
  have none2: "no_work s NK_COMPACTED NK_COMPACTED" if "v2 = None"
    using n2 [OF that] by (auto simp: no_work_def)
  have none4: "no_work s NK_COMPACTED NK_RAW" if "v4 = None"
    using n4 [OF that] by (auto simp: no_work_def)
  have none5: "no_work s NK_RAW NK_RAW" if "v5 = None"
    using n5 [OF that] by (auto simp: no_work_def)
  let ?k6 = "bindE (first_unresolved_too_large s (ordered_active_nodes s)) (\<lambda>unresolved. case unresolved of
      Some (p, resume) \<Rightarrow> wait_for_user_model_choice s
        ''unresolved comparison is too large for primary model'' (refs_of p) resume
    | None \<Rightarrow> decision_of s WT_DONE []
        ''all active components are reduced or known incompatible'')"
  let ?k5 = "bindE (first_comparable_pair s (reference_index s) DRAFT_VS_DRAFT ?raws) (\<lambda>v. case v of
      Some p \<Rightarrow> decision_of s DRAFT_VS_DRAFT (refs_of p)
        ''raw-vs-raw is lowest ordinary comparison priority''
    | None \<Rightarrow> ?k6)"
  let ?k4 = "bindE (first_comparable_mixed_pair s (reference_index s) ?cs ?raws) (\<lambda>v. case v of
      Some p \<Rightarrow> decision_of s MIXED (refs_of p) ''pending raw node must be compared with compacted node''
    | None \<Rightarrow> ?k5)"
  let ?k3 = "bindE (find_bridge_comparison s (reference_index s) ?cs ?raws) (\<lambda>v. case v of
      Some p \<Rightarrow> decision_of s MIXED (refs_of p)
        ''primary too-large compacted pair can be probed through raw node''
    | None \<Rightarrow> ?k4)"
  let ?k2 = "bindE (first_comparable_pair s (reference_index s) COMPACTED_VS_COMPACTED ?cs) (\<lambda>v. case v of
      Some p \<Rightarrow> decision_of s COMPACTED_VS_COMPACTED (refs_of p)
        ''compacted-vs-compacted has highest priority''
    | None \<Rightarrow> ?k3)"
  have s6: "\<exists>d. ?k6 = Inr d \<and> answers s (dc_item d)" if "v2 = None" "v4 = None" "v5 = None"
  proof -
    note none = no_work_all [OF none2 [OF that(1)] none4 [OF that(2)] none5 [OF that(3)]]
    show ?thesis
    proof (cases v6)
      case None
      with f6 have "\<not> too_large s l r" if "active_node s l" "active_node s r" "l \<noteq> r" for l r
        using that by simp
      with decision_of_done [OF ok planner_reasons(7)] v6 None none show ?thesis
        by (fastforce simp: answers_def)
    next
      case (Some q)
      with f6 obtain l r where lr: "active_node s l" "active_node s r" "l \<noteq> r" "too_large s l r"
          and q: "q = ((nd_ref l, nd_ref r), pair_work_type l r)" by (cases q) auto
      have "list_all (\<lambda>r. \<not> blank r) [nd_ref l, nd_ref r]"
        using lr(1,2) input_ok_node(1) [OF ok] by (simp add: active_node_def)
      from wait_decision [OF ok pair_work_type_budgeted this planner_reasons(6), of l r] obtain w where
        w: "wait_for_user_model_choice s ''unresolved comparison is too large for primary model''
            [nd_ref l, nd_ref r] (pair_work_type l r) = Inr \<lparr>dc_item = w, dc_reason =
            ''unresolved comparison is too large for primary model''\<rparr>"
          "nw_type w = WAIT_FOR_USER_MODEL_CHOICE" "nw_node_refs w = [nd_ref l, nd_ref r]"
          "nw_resume_type w = Some (pair_work_type l r)" "item_consistent s (pair_work_type l r) w" by blast
      have "answers s w" unfolding answers_def w(2) work_type.case using w(3-5) lr none by blast
      with v6 Some q w(1) show ?thesis by (simp add: refs_of_def)
    qed
  qed
  have s5: "\<exists>d. ?k5 = Inr d \<and> answers s (dc_item d)" if n: "v2 = None" "v4 = None"
  proof (rule search_step [OF ok v5 _ planner_reasons(5)])
    show "\<exists>d. ?k6 = Inr d \<and> answers s (dc_item d)" if "v5 = None" by (rule s6 [OF n that])
  qed (use f5 none2 [OF n(1)] none4 [OF n(2)] node_ref in \<open>fastforce simp: answers_def\<close>)+
  have s4: "\<exists>d. ?k4 = Inr d \<and> answers s (dc_item d)" if n: "v2 = None"
  proof (rule search_step [OF ok v4 _ planner_reasons(4)])
    show "\<exists>d. ?k5 = Inr d \<and> answers s (dc_item d)" if "v4 = None" by (rule s5 [OF n that])
  qed (use f4 none2 [OF n] node_ref in \<open>fastforce simp: answers_def\<close>)+
  have s3: "\<exists>d. ?k3 = Inr d \<and> answers s (dc_item d)" if n: "v2 = None"
  proof (rule search_step [OF ok v3 _ planner_reasons(3)])
    show "\<exists>d. ?k4 = Inr d \<and> answers s (dc_item d)" by (rule s4 [OF n])
  qed (use f3 none2 [OF n] node_ref in \<open>fastforce simp: answers_def\<close>)+
  have s2: "\<exists>d. ?k2 = Inr d \<and> answers s (dc_item d)"
  proof (rule search_step [OF ok v2 _ planner_reasons(2)])
    show "\<exists>d. ?k3 = Inr d \<and> answers s (dc_item d)" if "v2 = None" by (rule s3 [OF that])
  qed (use f2 node_ref in \<open>fastforce simp: answers_def\<close>)+
  show ?thesis
    unfolding plan_with_index_def Let_def
  proof (rule search_step [OF ok v1 _ planner_reasons(1)])
    show "\<exists>d. ?k2 = Inr d \<and> answers s (dc_item d)" by (rule s2)
  qed (use f1 rewrite_pair_not_blank [OF ok] in \<open>fastforce simp: answers_def\<close>)+
qed

section \<open>Properties\<close>

lemma user_choice_decision:
  assumes ok: "planner_input_ok s"
  shows "\<exists>d. (case first_pair_for_user_choice (ordered_active_nodes s) of
        None \<Rightarrow> decision_of s WT_DONE [] ''no active pair remains for degraded fallback''
      | Some (p, resume) \<Rightarrow> wait_for_user_model_choice s
          ''ordinary comparison and reduced rewrite exceed primary budget'' (refs_of p) resume) = Inr d"
proof (cases "node_pairs (ordered_active_nodes s)")
  case Nil
  with decision_of_done [OF ok planner_reasons(8)] show ?thesis
    by (auto simp: first_pair_for_user_choice_def)
next
  case (Cons x xs)
  obtain l r where x: "x = (l, r)" by (metis surj_pair)
  have "active_node s l" "active_node s r"
    using node_pairs_mem [OF distinct_ordered(1) [OF ok], of l r] Cons x by (simp_all add: set_ordered)
  then have "list_all (\<lambda>r. \<not> blank r) [nd_ref l, nd_ref r]"
    using input_ok_node(1) [OF ok] by (simp add: active_node_def)
  from wait_decision [OF ok pair_work_type_budgeted this planner_reasons(9), of l r] Cons x
  show ?thesis by (auto simp: first_pair_for_user_choice_def refs_of_def)
qed


text \<open>
  C24. The planner returns a decision on every state its constructors accept: the recursion of the
  union-find ends, no lookup fails, and every decision passes the checks of its constructor.
\<close>

theorem planner_decides:
  assumes "planner_input_ok s"
  shows "\<exists>d. plan_next_step s = Some (Inr d)"
  using plan_with_index_answers [OF assms] user_choice_decision [OF assms]
  by (auto simp: plan_next_step_def lineage_index_exact_ref)






section \<open>Separated origins\<close>

text \<open>
  Compacted node \<open>c\<close> came from merging the claims \<open>a1\<close> and \<open>a2\<close>; claim \<open>b\<close> is still raw. \<open>o\<close> is the
  origin of the compacted node that is separated from \<open>b\<close>.
\<close>

definition claim_node :: "string \<Rightarrow> node_kind \<Rightarrow> string list \<Rightarrow> bool \<Rightarrow> comp_node" where
  "claim_node r k refs active = \<lparr>nd_ref = r, nd_kind = k, nd_source_claims = refs, nd_sources = [],
     nd_active = active, nd_supersedes = [], nd_artifact_tokens = 100, nd_key = None, nd_claim = None,
     nd_triples = [], nd_claim_kind = None, nd_granularity = None, nd_merge_decision = None,
     nd_payload = None\<rparr>"

definition separated_state :: "string \<Rightarrow> planner_state" where
  "separated_state origin = \<lparr>ps_cluster = ''g'',
     ps_nodes = [claim_node ''n1'' NK_RAW [''a1''] False, claim_node ''n2'' NK_RAW [''a2''] False,
       claim_node ''c'' NK_COMPACTED [''a1'', ''a2''] True, claim_node ''r'' NK_RAW [''b''] True],
     ps_comparisons = [\<lparr>cp_left = ''n1'', cp_right = ''n2'', cp_status = CMP_MERGED, cp_result = Some ''c''\<rparr>],
     ps_rounds = [], ps_components = [], ps_incompatibilities = [],
     ps_separations = [\<lparr>se_origin_a = origin, se_origin_b = ''b'', se_batch_ref = None,
       se_work_item_id = None, se_dispatch_attempt_id = None\<rparr>],
     ps_budget_fit = \<lparr>bf_status = FITS_PRIMARY, bf_artifact_tokens = 0, bf_primary_model = ''m'',
       bf_degraded_model = ''d''\<rparr>,
     ps_primary_model = ''m'', ps_degraded_model = ''d''\<rparr>"

lemma separated_state_ok:
  "planner_input_ok (separated_state ''a1'')" "planner_input_ok (separated_state ''a2'')"
  by code_simp+

lemma separated_plans:
  "map_option (map_sum id (\<lambda>d. (nw_type (dc_item d), nw_node_refs (dc_item d))))
     (plan_next_step (separated_state ''a1'')) = Some (Inr (WT_DONE, []))"
  "map_option (map_sum id (\<lambda>d. (nw_type (dc_item d), nw_node_refs (dc_item d))))
     (plan_next_step (separated_state ''a2'')) = Some (Inr (MIXED, [''c'', ''r'']))"
  by code_simp+

lemma plan_with:
  assumes "map_option (map_sum id (\<lambda>d. (nw_type (dc_item d), nw_node_refs (dc_item d)))) p = Some (Inr (t, refs))"
  obtains d where "p = Some (Inr d)" "nw_type (dc_item d) = t" "nw_node_refs (dc_item d) = refs"
proof -
  from assms obtain r where "p = Some r" "map_sum id (\<lambda>d. (nw_type (dc_item d), nw_node_refs (dc_item d))) r = Inr (t, refs)"
    by auto
  with that show thesis by (cases r) auto
qed


theorem planner_decides_witness: "\<exists>d. plan_next_step (separated_state ''a1'') = Some (Inr d)"
  by (rule planner_decides [OF separated_state_ok(1)])




lemma claim_node_fields [simp]:
  "nd_ref (claim_node r k refs act) = r" "nd_source_claims (claim_node r k refs act) = refs"
  by (simp_all add: claim_node_def)




text \<open>
  A separation between two origins stops the planner only when it names the least origin of a merged
  class: with \<open>a1\<close> and \<open>a2\<close> merged into \<open>c\<close>, the separation of \<open>a1\<close> from \<open>b\<close> ends the planning, and the same
  separation of \<open>a2\<close> from \<open>b\<close> is forgotten and \<open>c\<close> is sent to be compared with \<open>b\<close>.
\<close>

theorem separation_forgotten:
  "\<exists>d d'. plan_next_step (separated_state ''a1'') = Some (Inr d) \<and> nw_type (dc_item d) = WT_DONE \<and>
     plan_next_step (separated_state ''a2'') = Some (Inr d') \<and> nw_type (dc_item d') = MIXED \<and>
     nw_node_refs (dc_item d') = [''c'', ''r''] \<and>
     list_ex (\<lambda>e. se_origin_a e = ''a2'' \<and> se_origin_b e = ''b'') (ps_separations (separated_state ''a2''))"
proof -
  obtain d where "plan_next_step (separated_state ''a1'') = Some (Inr d)" "nw_type (dc_item d) = WT_DONE"
    by (rule plan_with [OF separated_plans(1)])
  moreover obtain d' where "plan_next_step (separated_state ''a2'') = Some (Inr d')"
    "nw_type (dc_item d') = MIXED" "nw_node_refs (dc_item d') = [''c'', ''r'']"
    by (rule plan_with [OF separated_plans(2)])
  moreover have "list_ex (\<lambda>e. se_origin_a e = ''a2'' \<and> se_origin_b e = ''b'') (ps_separations (separated_state ''a2''))"
    by (simp add: separated_state_def)
  ultimately show ?thesis by blast
qed

end
