(* ===== verification/Capacity.thy ===== *)
theory Capacity
  imports CrmPrelude
begin

text \<open>
  The capacity runtime (\<open>src/src/contexts/capacity_runtime/domain\<close>): the request for a batch of
  items, the snapshot of what is available, and the admission policy that decides how many items
  may start.
\<close>

section \<open>Requests and snapshots\<close>

datatype capacity_resource_kind =
    WORKER_SLOT | CPU_SLOT | MEMORY_MB | DB_CONNECTION | FILESYSTEM_IO | LOCAL_GPU_LANE | EXTERNAL_IO

datatype capacity_work_class = LLM_BOUND | CPU_BOUND | EMBEDDING_BOUND | PARSING_BOUND | IO_BOUND

datatype capacity_status = CAP_ALLOW | CAP_THROTTLE | CAP_REJECT

record capacity_need =
  need_kind :: capacity_resource_kind
  need_amount :: int

record capacity_availability =
  av_kind :: capacity_resource_kind
  av_amount :: int

record capacity_request =
  rq_work_class :: capacity_work_class
  rq_needs :: "capacity_need list"
  rq_items :: int

record capacity_decision =
  cd_status :: capacity_status
  cd_work_class :: capacity_work_class
  cd_max_items :: int
  cd_blocking :: "capacity_resource_kind list"
  cd_reason :: string

definition capacity_need_post_init :: "capacity_need \<Rightarrow> py_error + capacity_need" where
  "capacity_need_post_init n =
     (if need_amount n \<le> 0 then Inl (ValueError ''amount must be > 0'') else Inr n)"

definition capacity_availability_post_init ::
    "capacity_availability \<Rightarrow> py_error + capacity_availability" where
  "capacity_availability_post_init a =
     (if av_amount a < 0 then Inl (ValueError ''available_amount must be >= 0'') else Inr a)"

fun require_unique_kinds :: "string \<Rightarrow> capacity_resource_kind list \<Rightarrow> capacity_resource_kind list \<Rightarrow>
    py_error + unit" where
  "require_unique_kinds field_name seen [] = Inr ()"
| "require_unique_kinds field_name seen (k # ks) =
     (if k \<in> set seen
      then Inl (ValueError (field_name @ '' must not contain duplicate resource_kind''))
      else require_unique_kinds field_name (k # seen) ks)"

definition capacity_request_post_init :: "capacity_request \<Rightarrow> py_error + capacity_request" where
  "capacity_request_post_init r =
     (if rq_needs r = [] then Inl (ValueError ''needs must be non-empty'')
      else bindE (require_unique_kinds ''needs'' [] (map need_kind (rq_needs r))) (\<lambda>_.
        if rq_items r \<le> 0 then Inl (ValueError ''requested_items must be > 0'') else Inr r))"

definition capacity_snapshot_post_init ::
    "capacity_availability list \<Rightarrow> py_error + capacity_availability list" where
  "capacity_snapshot_post_init s =
     bindE (require_unique_kinds ''availability'' [] (map av_kind s)) (\<lambda>_. Inr s)"

fun available_for :: "capacity_availability list \<Rightarrow> capacity_resource_kind \<Rightarrow> int" where
  "available_for [] k = 0"
| "available_for (a # s) k = (if av_kind a = k then av_amount a else available_for s k)"

definition capacity_decision_post_init :: "capacity_decision \<Rightarrow> py_error + capacity_decision" where
  "capacity_decision_post_init d =
     (if cd_max_items d < 0 then Inl (ValueError ''max_admissible_items must be >= 0'')
      else if blank (cd_reason d) then Inl (ValueError ''reason must be non-empty'')
      else if cd_status d = CAP_ALLOW then
        (if cd_blocking d \<noteq> []
         then Inl (ValueError ''ALLOW decision must not have blocking_resources'')
         else if cd_max_items d \<le> 0
         then Inl (ValueError ''ALLOW decision must have positive max_admissible_items'')
         else Inr d)
      else if cd_status d = CAP_REJECT then
        (if cd_max_items d \<noteq> 0
         then Inl (ValueError ''REJECT decision must have zero max_admissible_items'')
         else if cd_blocking d = []
         then Inl (ValueError ''REJECT decision must have blocking_resources'')
         else Inr d)
      else if cd_blocking d = []
      then Inl (ValueError ''THROTTLE decision must have blocking_resources'')
      else Inr d)"

section \<open>The policy\<close>

text \<open>\<open>a // b\<close> on ints is \<open>div\<close>: both round down.\<close>

definition item_capacity :: "capacity_availability list \<Rightarrow> capacity_need \<Rightarrow> int" where
  "item_capacity s n = available_for s (need_kind n) div need_amount n"

fun min_of :: "int list \<Rightarrow> int" where
  "min_of [] = 0"
| "min_of [x] = x"
| "min_of (x # xs) = min x (min_of xs)"

definition blocking_needs :: "capacity_availability list \<Rightarrow> capacity_request \<Rightarrow> capacity_need list" where
  "blocking_needs s r = filter (\<lambda>n. \<not> rq_items r \<le> item_capacity s n) (rq_needs r)"

definition decide :: "capacity_request \<Rightarrow> capacity_availability list \<Rightarrow> py_error + capacity_decision" where
  "decide r s =
     (let blocking = map need_kind (blocking_needs s r);
          unavailable = filter (\<lambda>n. available_for s (need_kind n) = 0) (blocking_needs s r);
          max_items = min (rq_items r) (min_of (map (item_capacity s) (rq_needs r)));
          decision = (\<lambda>status m bl reason. capacity_decision_post_init
            \<lparr>cd_status = status, cd_work_class = rq_work_class r, cd_max_items = m,
             cd_blocking = bl, cd_reason = reason\<rparr>)
      in
      if max_items = rq_items r then decision CAP_ALLOW max_items [] ''capacity_available''
      else if 0 < max_items then decision CAP_THROTTLE max_items blocking ''capacity_partially_available''
      else if unavailable \<noteq> [] then decision CAP_REJECT 0 blocking ''capacity_unavailable''
      else decision CAP_THROTTLE 0 blocking ''capacity_temporarily_insufficient'')"

section \<open>Well-formed inputs\<close>

definition request_ok :: "capacity_request \<Rightarrow> bool" where
  "request_ok r \<longleftrightarrow> capacity_request_post_init r = Inr r \<and>
     (\<forall>n \<in> set (rq_needs r). capacity_need_post_init n = Inr n)"

definition snapshot_ok :: "capacity_availability list \<Rightarrow> bool" where
  "snapshot_ok s \<longleftrightarrow> capacity_snapshot_post_init s = Inr s \<and>
     (\<forall>a \<in> set s. capacity_availability_post_init a = Inr a)"

lemma require_unique_kinds_Inr:
  "require_unique_kinds f seen ks = Inr u \<longleftrightarrow> distinct ks \<and> set ks \<inter> set seen = {}"
  by (induction ks arbitrary: seen) auto

lemma request_ok_facts:
  assumes "request_ok r"
  shows "rq_needs r \<noteq> []" "0 < rq_items r" "\<And>n. n \<in> set (rq_needs r) \<Longrightarrow> 0 < need_amount n"
  using assms
  by (auto simp: request_ok_def capacity_request_post_init_def capacity_need_post_init_def
      split: if_splits)

lemma available_for_nonneg: "\<forall>a \<in> set s. 0 \<le> av_amount a \<Longrightarrow> 0 \<le> available_for s k"
  by (induction s) auto

lemma snapshot_ok_nonneg: "snapshot_ok s \<Longrightarrow> 0 \<le> available_for s k"
  by (rule available_for_nonneg)
    (auto simp: snapshot_ok_def capacity_availability_post_init_def split: if_splits)

lemma min_of_le: "x \<in> set xs \<Longrightarrow> min_of xs \<le> x"
  by (induction xs rule: min_of.induct) auto

lemma min_of_in: "xs \<noteq> [] \<Longrightarrow> min_of xs \<in> set xs"
  by (induction xs rule: min_of.induct) (auto simp: min_def)

lemma le_min_of: "xs \<noteq> [] \<Longrightarrow> n \<le> min_of xs \<longleftrightarrow> (\<forall>x \<in> set xs. n \<le> x)"
  using min_of_le min_of_in by (meson order_trans)

text \<open>What it means that \<open>n\<close> items fit.\<close>

definition fits :: "capacity_request \<Rightarrow> capacity_availability list \<Rightarrow> int \<Rightarrow> bool" where
  "fits r s n \<longleftrightarrow> (\<forall>need \<in> set (rq_needs r). n * need_amount need \<le> available_for s (need_kind need))"

lemma le_item_capacity:
  assumes "0 < need_amount n"
  shows "m \<le> item_capacity s n \<longleftrightarrow> m * need_amount n \<le> available_for s (need_kind n)"
proof
  assume "m \<le> item_capacity s n"
  then have "m * need_amount n \<le> item_capacity s n * need_amount n"
    using assms by (simp add: mult_right_mono)
  also have "\<dots> \<le> available_for s (need_kind n)"
    using assms by (simp add: item_capacity_def) (metis minus_mod_eq_div_mult pos_mod_sign diff_le_eq le_add_same_cancel1)
  finally show "m * need_amount n \<le> available_for s (need_kind n)" .
next
  assume "m * need_amount n \<le> available_for s (need_kind n)"
  then have "m * need_amount n div need_amount n \<le> available_for s (need_kind n) div need_amount n"
    using assms by (rule zdiv_mono1)
  then show "m \<le> item_capacity s n" using assms by (simp add: item_capacity_def)
qed

lemma fits_iff:
  assumes "request_ok r"
  shows "fits r s n \<longleftrightarrow> n \<le> min_of (map (item_capacity s) (rq_needs r))"
  using request_ok_facts [OF assms] by (auto simp: fits_def le_min_of le_item_capacity)

section \<open>Properties\<close>

lemma decide_reasons [simp]: "\<not> blank ''capacity_available''" "\<not> blank ''capacity_partially_available''"
  "\<not> blank ''capacity_unavailable''" "\<not> blank ''capacity_temporarily_insufficient''"
  by code_simp+

lemma decide_largest:
  assumes "request_ok r" and "snapshot_ok s"
  shows "\<exists>d. decide r s = Inr d \<and> 0 \<le> cd_max_items d \<and> cd_max_items d \<le> rq_items r \<and>
     fits r s (cd_max_items d) \<and>
     (\<forall>n. n \<le> rq_items r \<longrightarrow> fits r s n \<longrightarrow> n \<le> cd_max_items d) \<and>
     (cd_status d = CAP_ALLOW \<longleftrightarrow> fits r s (rq_items r)) \<and>
     (cd_status d = CAP_REJECT \<longleftrightarrow> \<not> fits r s 1 \<and>
        (\<exists>n \<in> set (rq_needs r). available_for s (need_kind n) = 0))"
proof -
  note r = request_ok_facts [OF assms(1)]
  define m where "m = min_of (map (item_capacity s) (rq_needs r))"
  have fit: "fits r s n \<longleftrightarrow> n \<le> m" for n using fits_iff [OF assms(1)] by (simp add: m_def)
  have "0 \<le> item_capacity s n" if "n \<in> set (rq_needs r)" for n
    using snapshot_ok_nonneg [OF assms(2)] r(3) [OF that] by (simp add: item_capacity_def pos_imp_zdiv_nonneg_iff)
  then have m0: "0 \<le> m" using r(1) by (auto simp: m_def le_min_of)
  have bl: "blocking_needs s r \<noteq> []" if "m < rq_items r"
  proof -
    have "m \<in> set (map (item_capacity s) (rq_needs r))" unfolding m_def by (rule min_of_in) (simp add: r(1))
    with that obtain n where "n \<in> set (rq_needs r)" "\<not> rq_items r \<le> item_capacity s n" by fastforce
    then show ?thesis by (auto simp: blocking_needs_def filter_empty_conv)
  qed
  have unav: "filter (\<lambda>n. available_for s (need_kind n) = 0) (blocking_needs s r) \<noteq> [] \<longleftrightarrow>
      (\<exists>n \<in> set (rq_needs r). available_for s (need_kind n) = 0)"
  proof -
    have "\<not> rq_items r \<le> item_capacity s n" if "available_for s (need_kind n) = 0" for n
      using r(2) that by (simp add: item_capacity_def)
    then show ?thesis by (auto simp: blocking_needs_def filter_empty_conv)
  qed
  consider "rq_items r \<le> m" | "0 < m" "m < rq_items r" | "m = 0" "m < rq_items r" using m0 r(2) by linarith
  then show ?thesis
  proof cases
    case 1
    then show ?thesis using r(2) unfolding fit
      by (simp add: decide_def Let_def m_def [symmetric] capacity_decision_post_init_def min_def
        del: blank_Cons)
  next
    case 2
    then show ?thesis using bl unfolding fit
      by (simp add: decide_def Let_def m_def [symmetric] capacity_decision_post_init_def min_def
        del: blank_Cons)
  next
    case 3
    then show ?thesis using bl unav unfolding fit
      by (auto simp: decide_def Let_def m_def [symmetric] capacity_decision_post_init_def min_def
        simp del: blank_Cons)
  qed
qed

lemma decide_total:
  "request_ok r \<Longrightarrow> snapshot_ok s \<Longrightarrow> \<exists>d. decide r s = Inr d \<and> 0 \<le> cd_max_items d"
  using decide_largest by blast

text \<open>
  C14. The admission policy is total on checked inputs and admits the largest feasible batch: the
  decision passes its own constructor; it admits \<open>n\<close> items where \<open>n\<close> is the greatest number up to
  the requested one whose needs all fit into the snapshot; it allows exactly when the whole batch
  fits, and rejects exactly when nothing fits and a blocking resource is used up.
\<close>

theorem decide_admits_most:
  assumes "request_ok r" and "snapshot_ok s"
  shows "\<exists>d. decide r s = Inr d \<and> 0 \<le> cd_max_items d \<and> cd_max_items d \<le> rq_items r \<and>
     fits r s (cd_max_items d) \<and>
     (\<forall>n. n \<le> rq_items r \<longrightarrow> fits r s n \<longrightarrow> n \<le> cd_max_items d) \<and>
     (cd_status d = CAP_ALLOW \<longleftrightarrow> fits r s (rq_items r)) \<and>
     (cd_status d = CAP_REJECT \<longleftrightarrow> \<not> fits r s 1 \<and>
        (\<exists>n \<in> set (rq_needs r). available_for s (need_kind n) = 0))"
  by (rule decide_largest [OF assms])

definition request1 :: capacity_request where
  "request1 = \<lparr>rq_work_class = LLM_BOUND, rq_needs = [\<lparr>need_kind = WORKER_SLOT, need_amount = 2\<rparr>,
     \<lparr>need_kind = MEMORY_MB, need_amount = 100\<rparr>], rq_items = 4\<rparr>"

definition snapshot1 :: "capacity_availability list" where
  "snapshot1 = [\<lparr>av_kind = WORKER_SLOT, av_amount = 7\<rparr>, \<lparr>av_kind = MEMORY_MB, av_amount = 250\<rparr>]"

theorem decide_admits_most_witness:
  "\<exists>d. decide request1 snapshot1 = Inr d \<and> fits request1 snapshot1 (cd_max_items d) \<and>
     cd_max_items d \<le> 4"
proof -
  have "request_ok request1" "snapshot_ok snapshot1" by code_simp+
  from decide_admits_most [OF this] show ?thesis by (auto simp: request1_def)
qed

end
