(* ===== verification/LeaseAdmitted.thy ===== *)
theory LeaseAdmitted
  imports ExecRecovery Capacity
begin

text \<open>
  Leasing an admitted batch (\<open>application/use_cases/lease_due_work_item.py\<close>,
  \<open>lease_admitted_work_items.py\<close>): the capacity decision bounds the number of lease calls, and the
  loop stops when nothing is due. The repository the use case relies on is an interface, whose
  laws the table model discharges.
\<close>

section \<open>The lease queue interface\<close>

text \<open>
  \<open>lease tok s\<close> is one call with a token; \<open>due s\<close> counts what could still be leased. A call never
  fails, takes one due item or reports that none is left.
\<close>

locale lease_queue =
  fixes lease :: "'tok \<Rightarrow> 's \<Rightarrow> py_error + ('r option \<times> 's)"
    and inv :: "'s \<Rightarrow> bool"
    and token_ok :: "'tok \<Rightarrow> bool"
    and due :: "'s \<Rightarrow> nat"
  assumes lease_some: "inv s \<Longrightarrow> token_ok k \<Longrightarrow> 0 < due s \<Longrightarrow>
      \<exists>r s'. lease k s = Inr (Some r, s') \<and> inv s' \<and> Suc (due s') = due s"
    and lease_none: "inv s \<Longrightarrow> token_ok k \<Longrightarrow> due s = 0 \<Longrightarrow> lease k s = Inr (None, s)"

section \<open>The loop\<close>

text \<open>\<open>for index in range(n)\<close>: lease with the token of the index, stop at the first None.\<close>

fun lease_loop :: "(nat \<Rightarrow> 's \<Rightarrow> py_error + ('r option \<times> 's)) \<Rightarrow> nat \<Rightarrow> nat \<Rightarrow> 's \<Rightarrow>
    py_error + ('r list \<times> 's)" where
  "lease_loop call index 0 s = Inr ([], s)"
| "lease_loop call index (Suc n) s =
     bindE (call index s) (\<lambda>(result, s1).
       case result of
         None \<Rightarrow> Inr ([], s1)
       | Some r \<Rightarrow> bindE (lease_loop call (Suc index) n s1) (\<lambda>(rs, s2). Inr (r # rs, s2)))"

context lease_queue begin

lemma loop_takes:
  assumes "inv s" "\<And>i. token_ok (tok i)"
  shows "\<exists>rs s'. lease_loop (\<lambda>i. lease (tok i)) index n s = Inr (rs, s') \<and> inv s' \<and>
    length rs = min n (due s) \<and> due s' = due s - length rs"
  using assms(1)
proof (induction n arbitrary: index s)
  case 0
  then show ?case by simp
next
  case (Suc n)
  show ?case
  proof (cases "due s = 0")
    case True
    with lease_none [OF Suc.prems assms(2)] Suc.prems show ?thesis by simp
  next
    case False
    with lease_some [OF Suc.prems assms(2)] obtain r s1 where
      l: "lease (tok index) s = Inr (Some r, s1)" "inv s1" "Suc (due s1) = due s" by blast
    from Suc.IH [OF l(2), of "Suc index"] obtain rs s' where
      "lease_loop (\<lambda>i. lease (tok i)) (Suc index) n s1 = Inr (rs, s')" "inv s'"
      "length rs = min n (due s1)" "due s' = due s1 - length rs" by blast
    with l show ?thesis by (intro exI [of _ "r # rs"] exI [of _ s']) auto
  qed
qed

end

section \<open>The use cases\<close>

record lease_admitted_command =
  la_work_kind :: work_kind
  la_work_class :: capacity_work_class
  la_needs :: "capacity_need list"
  la_snapshot :: "capacity_availability list"
  la_requested_items :: int
  la_worker :: worker_ref
  la_token_prefix :: string
  la_expires_at :: datetime
  la_now :: datetime

definition lease_admitted_command_post_init ::
    "lease_admitted_command \<Rightarrow> py_error + lease_admitted_command" where
  "lease_admitted_command_post_init c =
     (if la_needs c = [] then Inl (ValueError ''capacity_needs must be non-empty'')
      else if la_requested_items c \<le> 0 then Inl (ValueError ''requested_items must be > 0'')
      else if blank (la_token_prefix c) then Inl (ValueError ''lease_token_prefix must be non-empty'')
      else if \<not> tz_aware (la_now c) then Inl (ValueError ''now must be timezone-aware'')
      else if \<not> tz_aware (la_expires_at c) then Inl (ValueError ''lease_expires_at must be timezone-aware'')
      else bindE (dt_le (la_expires_at c) (la_now c)) (\<lambda>past.
        if past then Inl (ValueError ''lease_expires_at must be > now'') else Inr c))"

text \<open>\<open>LeaseDueWorkItem\<close> passes a checked command to the repository.\<close>

definition lease_due_use_case :: "(string \<Rightarrow> string) \<Rightarrow> (string \<Rightarrow> bool) \<Rightarrow> work_kind \<Rightarrow> worker_ref \<Rightarrow>
    datetime \<Rightarrow> datetime \<Rightarrow> lease_token \<Rightarrow> exec_db \<Rightarrow>
    py_error + (leased_work_item_record option \<times> exec_db)" where
  "lease_due_use_case collate locked kind worker expires now token db =
     (if \<not> tz_aware now then Inl (ValueError ''now must be timezone-aware'')
      else if \<not> tz_aware expires then Inl (ValueError ''lease_expires_at must be timezone-aware'')
      else bindE (dt_le expires now) (\<lambda>past.
        if past then Inl (ValueError ''lease_expires_at must be > now'')
        else lease_due_work_item collate locked kind worker token expires now db))"

definition index_token :: "string \<Rightarrow> nat \<Rightarrow> string" where
  "index_token prefix index = prefix @ '':'' @ nat_str index"

definition lease_admitted_work_items :: "(string \<Rightarrow> string) \<Rightarrow> (string \<Rightarrow> bool) \<Rightarrow>
    lease_admitted_command \<Rightarrow> exec_db \<Rightarrow>
    py_error + ((capacity_decision \<times> leased_work_item_record list) \<times> exec_db)" where
  "lease_admitted_work_items collate locked c db =
     bindE (capacity_request_post_init \<lparr>rq_work_class = la_work_class c, rq_needs = la_needs c,
       rq_items = la_requested_items c\<rparr>) (\<lambda>request.
     bindE (decide request (la_snapshot c)) (\<lambda>decision.
       if cd_max_items decision = 0 then Inr ((decision, []), db)
       else
         bindE (lease_loop (\<lambda>index s. bindE (mk_lease_token (index_token (la_token_prefix c) index))
             (\<lambda>token. lease_due_use_case collate locked (la_work_kind c) (la_worker c)
               (la_expires_at c) (la_now c) token s))
           0 (nat (cd_max_items decision)) db) (\<lambda>(leased, db').
         if int (length leased) > cd_max_items decision
         then Inl (ValueError ''leased length must not exceed max_admissible_items'')
         else Inr ((decision, leased), db'))))"

section \<open>The tables as a lease queue\<close>

definition open_rows :: "(string \<Rightarrow> bool) \<Rightarrow> work_kind \<Rightarrow> exec_db \<Rightarrow> (wi_row \<times> schedule_row) list" where
  "open_rows locked kind db = filter (\<lambda>x. \<not> locked (row_id (fst x))) (due_rows kind db)"

lemma scheduled_ids_distinct:
  assumes "distinct (map row_id rs)" "distinct (map sr_work_item_id ss)"
  shows "distinct (map (\<lambda>x. row_id (fst x)) (concat (map (\<lambda>r. map (Pair r)
     (filter (\<lambda>s. sr_work_item_id s = row_id r) ss)) rs)))"
  using assms(1)
proof (induction rs)
  case Nil
  then show ?case by simp
next
  case (Cons r rs)
  have "length (filter (\<lambda>s. sr_work_item_id s = row_id r) ss) \<le> 1"
  proof (cases "filter (\<lambda>s. sr_work_item_id s = row_id r) ss")
    case (Cons s ss')
    then have "s \<in> set (filter (\<lambda>s. sr_work_item_id s = row_id r) ss)" by simp
    then have "s \<in> set ss" "sr_work_item_id s = row_id r" by simp_all
    with filter_unique [OF assms(2), of s "\<lambda>s. sr_work_item_id s = row_id r"] show ?thesis by simp
  qed simp
  then have "distinct (map (\<lambda>x. row_id (fst x)) (map (Pair r)
      (filter (\<lambda>s. sr_work_item_id s = row_id r) ss)))"
    by (cases "filter (\<lambda>s. sr_work_item_id s = row_id r) ss") (auto simp: length_Suc_conv)
  with Cons show ?case by (auto simp: rev_image_eqI)
qed

lemma open_rows_distinct:
  assumes "exec_ok db"
  shows "distinct (map (\<lambda>x. row_id (fst x)) (open_rows locked kind db))"
  using scheduled_ids_distinct [of "db_items db" "db_schedules db"] assms
  by (auto simp: open_rows_def due_rows_def scheduled_rows_def exec_ok_parts
      intro!: distinct_map_filter)

lemma open_rows_same_set:
  assumes "exec_ok db" "exec_ok db'" "set (open_rows locked kind db') = set (open_rows locked kind db) - {x}"
    "x \<in> set (open_rows locked kind db)"
  shows "Suc (length (open_rows locked kind db')) = length (open_rows locked kind db)"
proof -
  have d: "distinct (open_rows locked kind db)" "distinct (open_rows locked kind db')"
    using open_rows_distinct assms(1,2) by (auto simp: distinct_map)
  then have "length (open_rows locked kind db') = card (set (open_rows locked kind db) - {x})"
    using assms(3) distinct_card by metis
  also have "\<dots> = length (open_rows locked kind db) - 1"
    using assms(4) d(1) by (simp add: distinct_card)
  finally show ?thesis using assms(4) by (cases "open_rows locked kind db") auto
qed

type_synonym lease_request = "worker_ref \<times> lease_token \<times> datetime \<times> datetime"

definition lease_request_ok :: "lease_request \<Rightarrow> bool" where
  "lease_request_ok q \<longleftrightarrow> (case q of (w, k, e, n) \<Rightarrow> \<not> blank (worker_ref_value w) \<and>
     \<not> blank (lease_token_value k) \<and> tz_aware e \<and> tz_aware n \<and> utc_of n < utc_of e)"

definition lease_call :: "(string \<Rightarrow> string) \<Rightarrow> (string \<Rightarrow> bool) \<Rightarrow> work_kind \<Rightarrow> lease_request \<Rightarrow>
    exec_db \<Rightarrow> py_error + (leased_work_item_record option \<times> exec_db)" where
  "lease_call collate locked kind q db =
     (case q of (w, k, e, n) \<Rightarrow> lease_due_work_item collate locked kind w k e n db)"

lemma row_check_lease:
  assumes "row_check r" "work_item_ok leased"
  shows "row_check (lease_update leased now r)"
  using assms
  by (auto simp: row_check_def row_lease_shape_def lease_update_def leased_value utc_column_def
      work_item_ok_def lease_shape_def le_max_iff_disj simp del: set_map)

lemma lease_selected_total:
  assumes ok: "exec_ok db" and x: "x \<in> set (due_rows kind db)" and t: "n < e"
  shows "\<exists>rec db'. lease_selected_row x w k (Aware e) (Aware n) db = Inr (Some rec, db')"
proof -
  have row: "row_of db (row_id (fst x)) = Some (fst x)"
    using x by (simp add: exec_ok_row_of [OF ok] due_rows_in)
  from exec_ok_row [OF ok row] hydratableD obtain i where
    chk: "row_check (fst x)" and item: "hydrate_without_plan (fst x) = Inr (drop_plan i)" by blast
  let ?i = "drop_plan i"
  note facts = hydrate_facts [OF item [unfolded hydrate_without_plan_def]]
  have "wi_status ?i \<in> {WI_READY, WI_RETRYABLE_FAILED}"
    using facts(3) x by (cases "wi_status ?i") (simp_all add: due_rows_in)
  then obtain leased where leased: "lease_ready ?i w k (Aware e) (Aware n) = Inr leased"
    using t facts(6) by (auto simp: lease_ready_Inr work_item_ok_def)
  note lf = lease_ready_step [OF leased]
  have id: "wi_id leased = row_id (fst x)" using lf facts(1) by simp
  have "\<exists>db'. update_item (row_id (fst x)) (lease_update leased n) db = Inr db'"
    using ok row chk lf row_check_lease
    by (intro row_check_frame_update) (auto simp: exec_ok_parts list_all_iff)
  then show ?thesis
    using item leased id by (force simp: lease_selected_row_Inr)
qed

lemma lease_takes_row:
  assumes ok: "exec_ok db" and x: "x \<in> set (due_rows kind db)"
    and l: "lease_selected_row x w k e n db = Inr (res, db')"
  shows "set (due_rows kind db') = set (due_rows kind db) - {x}"
proof -
  from lease_selected_row_effect [OF ok x l] obtain r' where
    eff: "row_of db' (row_id (fst x)) = Some r'" "row_status r' = ''leased''"
    "\<forall>j. j \<noteq> row_id (fst x) \<longrightarrow> row_of db' j = row_of db j" by blast
  have items: "map row_id (db_items db') = map row_id (db_items db)"
    using l by (auto simp: lease_selected_row_Inr update_item_def dest: update_items_ids)
  have sch: "db_schedules db' = db_schedules db" by (rule lease_selected_schedules [OF l])
  have d: "distinct (map row_id (db_items db))" "distinct (map row_id (db_items db'))"
    using ok items by (simp_all add: exec_ok_parts)
  have in_iff: "r \<in> set (db_items db') \<longleftrightarrow> row_of db' (row_id r) = Some r"
    "r \<in> set (db_items db) \<longleftrightarrow> row_of db (row_id r) = Some r" for r
    using d by (simp_all add: row_of_iff)
  have same: "y = x" if "y \<in> set (due_rows kind db)" "row_id (fst y) = row_id (fst x)" for y
  proof -
    have eq: "fst y = fst x" using that x d(1) by (auto simp: due_rows_in distinct_map dest: inj_onD)
    have "distinct (map sr_work_item_id (db_schedules db))" using ok by (simp add: exec_ok_parts)
    then have "inj_on sr_work_item_id (set (db_schedules db))" by (simp add: distinct_map)
    moreover have "snd y \<in> set (db_schedules db)" "snd x \<in> set (db_schedules db)"
      "sr_work_item_id (snd y) = sr_work_item_id (snd x)"
      using that x by (simp_all add: due_rows_in)
    ultimately have "snd y = snd x" by (meson inj_onD)
    with eq show ?thesis by (rule prod_eqI)
  qed
  show ?thesis
  proof (intro set_eqI iffI)
    fix y assume y: "y \<in> set (due_rows kind db')"
    have "row_id (fst y) \<noteq> row_id (fst x)"
    proof
      assume "row_id (fst y) = row_id (fst x)"
      with y eff in_iff(1) have "fst y = r'" by (auto simp: due_rows_in)
      with y eff(2) show False by (simp add: due_rows_in)
    qed
    with y eff(3) in_iff sch show "y \<in> set (due_rows kind db) - {x}" by (auto simp: due_rows_in)
  next
    fix y assume y: "y \<in> set (due_rows kind db) - {x}"
    with same have "row_id (fst y) \<noteq> row_id (fst x)" by blast
    with y eff(3) in_iff sch show "y \<in> set (due_rows kind db')" by (auto simp: due_rows_in)
  qed
qed

interpretation exec_queue: lease_queue "lease_call collate locked kind" exec_ok lease_request_ok
  "\<lambda>db. length (open_rows locked kind db)" for collate locked kind
proof unfold_locales
  fix s :: exec_db and q :: lease_request
  assume ok: "exec_ok s" and q: "lease_request_ok q"
  obtain w k e n where qq: "q = (w, k, Aware e, Aware n)" and t: "n < e"
    and texts: "\<not> blank (worker_ref_value w)" "\<not> blank (lease_token_value k)"
    using q by (cases q) (auto simp: lease_request_ok_def tz_aware_iff)
  show "lease_call collate locked kind q s = Inr (None, s)" if "length (open_rows locked kind s) = 0"
    using that by (simp add: lease_call_def qq lease_due_work_item_def open_rows_def)
  assume "0 < length (open_rows locked kind s)"
  then obtain x where m: "min_by (due_order collate) (open_rows locked kind s) = Some x"
    using min_by_exists by blast
  then have x: "x \<in> set (open_rows locked kind s)" by (rule min_by_in)
  then have xd: "x \<in> set (due_rows kind s)" by (simp add: open_rows_def)
  from lease_selected_total [OF ok xd t, of w k] obtain rec s' where
    l: "lease_selected_row x w k (Aware e) (Aware n) s = Inr (Some rec, s')" by blast
  have "lease_call collate locked kind q s = Inr (Some rec, s')"
    using m l by (simp add: lease_call_def qq lease_due_work_item_def open_rows_def)
  moreover have ok': "exec_ok s'" by (rule lease_selected_step(1) [OF ok xd texts l])
  moreover have "Suc (length (open_rows locked kind s')) = length (open_rows locked kind s)"
    by (rule open_rows_same_set [OF ok ok' _ x])
      (use lease_takes_row [OF ok xd l] in \<open>auto simp: open_rows_def\<close>)
  ultimately show "\<exists>r s'. lease_call collate locked kind q s = Inr (Some r, s') \<and> exec_ok s' \<and>
      Suc (length (open_rows locked kind s')) = length (open_rows locked kind s)" by blast
qed

section \<open>Property\<close>

text \<open>
  C23. The admitted batch is leased in full: for a checked command on valid tables the use case
  succeeds, its decision is the policy's, and it leases exactly the smaller of the admitted number
  and the number of due, unlocked items of the kind.
\<close>

theorem lease_admitted_exact:
  assumes "exec_ok db" and "lease_admitted_command_post_init c = Inr c"
    and "request_ok \<lparr>rq_work_class = la_work_class c, rq_needs = la_needs c, rq_items = la_requested_items c\<rparr>"
    and "snapshot_ok (la_snapshot c)" and "\<not> blank (worker_ref_value (la_worker c))"
  shows "\<exists>d leased db'. lease_admitted_work_items collate locked c db = Inr ((d, leased), db') \<and>
     decide \<lparr>rq_work_class = la_work_class c, rq_needs = la_needs c, rq_items = la_requested_items c\<rparr>
       (la_snapshot c) = Inr d \<and>
     length leased = min (nat (cd_max_items d)) (length (open_rows locked (la_work_kind c) db)) \<and>
     exec_ok db'"
proof -
  let ?rq = "\<lparr>rq_work_class = la_work_class c, rq_needs = la_needs c, rq_items = la_requested_items c\<rparr>"
  from decide_total [OF assms(3,4)] obtain d where d: "decide ?rq (la_snapshot c) = Inr d"
    and d0: "0 \<le> cd_max_items d" by blast
  have rq: "capacity_request_post_init ?rq = Inr ?rq" using assms(3) by (simp add: request_ok_def)
  obtain e n where en: "la_expires_at c = Aware e" "la_now c = Aware n" "n < e"
    and prefix: "\<not> blank (la_token_prefix c)"
    using assms(2) by (auto simp: lease_admitted_command_post_init_def tz_aware_iff split: if_splits)
  define tok where "tok index = LeaseToken (index_token (la_token_prefix c) index)" for index
  have token: "mk_lease_token (index_token (la_token_prefix c) index) = Inr (tok index)" for index
    using prefix by (simp add: error_simps tok_def index_token_def)
  let ?call = "\<lambda>index. lease_call collate locked (la_work_kind c) (la_worker c, tok index, Aware e, Aware n)"
  have ne: "\<not> e \<le> n" using en(3) by simp
  have call: "(\<lambda>index s. bindE (mk_lease_token (index_token (la_token_prefix c) index))
      (\<lambda>token. lease_due_use_case collate locked (la_work_kind c) (la_worker c)
        (la_expires_at c) (la_now c) token s)) = ?call"
    using ne by (intro ext) (simp add: token lease_due_use_case_def lease_call_def en(1,2))
  have "lease_request_ok (la_worker c, tok index, Aware e, Aware n)" for index
    using assms(5) prefix en(3) by (simp add: lease_request_ok_def tok_def index_token_def)
  from exec_queue.loop_takes [OF assms(1), of "\<lambda>index. (la_worker c, tok index, Aware e, Aware n)", OF this]
  obtain rs db' where loop: "lease_loop ?call 0 (nat (cd_max_items d)) db = Inr (rs, db')"
    "exec_ok db'" "length rs = min (nat (cd_max_items d)) (length (open_rows locked (la_work_kind c) db))"
    by blast
  show ?thesis
  proof (cases "cd_max_items d = 0")
    case True
    with rq d assms(1) show ?thesis by (simp add: lease_admitted_work_items_def)
  next
    case False
    have "\<not> int (length rs) > cd_max_items d" using loop(3) d0 by simp
    with rq d False loop show ?thesis unfolding lease_admitted_work_items_def call by simp
  qed
qed

definition command1 :: lease_admitted_command where
  "command1 = \<lparr>la_work_kind = WorkKind ''k'', la_work_class = LLM_BOUND,
     la_needs = rq_needs request1, la_snapshot = snapshot1, la_requested_items = 4,
     la_worker = WorkerRef ''w'', la_token_prefix = ''p'', la_expires_at = Aware (Utc 9),
     la_now = Aware (Utc 2)\<rparr>"

theorem lease_admitted_exact_witness:
  "\<exists>d leased db'. lease_admitted_work_items (\<lambda>s. s) (\<lambda>_. False) command1 db1 = Inr ((d, leased), db') \<and>
     length leased \<le> 1"
proof -
  have 1: "lease_admitted_command_post_init command1 = Inr command1"
    and 2: "request_ok \<lparr>rq_work_class = la_work_class command1, rq_needs = la_needs command1,
      rq_items = la_requested_items command1\<rparr>"
    and 3: "snapshot_ok (la_snapshot command1)" and 4: "\<not> blank (worker_ref_value (la_worker command1))"
    and 5: "length (open_rows (\<lambda>_. False) (la_work_kind command1) db1) = 1" by code_simp+
  from lease_admitted_exact [OF db_ok(1) 1 2 3 4, of "\<lambda>s. s" "\<lambda>_. False"] 5 show ?thesis by auto
qed

end
