(* ===== verification/AdmissionQueue.thy ===== *)
theory AdmissionQueue
  imports LeaseAdmitted
begin

text \<open>
  The capacity admission queue (\<open>src/src/contexts/capacity_admission_queue\<close>): lane keys and window
  budgets, the projection rows of schedulable work, the selector of the first fitting row, the
  admitter, the lifecycle synchroniser and the dirty flags of the lanes with their claims. The rows
  and constraints are those of \<open>migrations/117\<close> to \<open>119\<close>; the four lane columns of a row are one
  \<open>lane_key\<close>. A clock value that reaches a statement is an aware one.
\<close>

section \<open>Lanes, budgets and selectable items\<close>

record lane_key =
  lk_work_kind :: string
  lk_provider :: string
  lk_model_ref :: string
  lk_account_ref :: "string option"

definition lane_key_post_init :: "lane_key \<Rightarrow> py_error + lane_key" where
  "lane_key_post_init k =
     (if lk_work_kind k = [] then Inl (ValueError ''work_kind must not be empty'')
      else if lk_provider k = [] then Inl (ValueError ''provider must not be empty'')
      else if lk_model_ref k = [] then Inl (ValueError ''model_ref must not be empty'')
      else if lk_account_ref k = Some [] then Inl (ValueError ''account_ref must not be empty'')
      else Inr k)"

record window_budget =
  wb_requests :: int
  wb_tokens :: int
  wb_daily_requests :: int
  wb_daily_tokens :: int

definition window_budget_post_init :: "window_budget \<Rightarrow> py_error + window_budget" where
  "window_budget_post_init b =
     (if wb_requests b < 0 then Inl (ValueError ''remaining_requests must be non-negative'')
      else if wb_tokens b < 0 then Inl (ValueError ''remaining_tokens must be non-negative'')
      else if wb_daily_requests b < 0 then Inl (ValueError ''remaining_daily_requests must be non-negative'')
      else if wb_daily_tokens b < 0 then Inl (ValueError ''remaining_daily_tokens must be non-negative'')
      else Inr b)"

definition admits_any_work :: "window_budget \<Rightarrow> bool" where
  "admits_any_work b \<longleftrightarrow> 0 < wb_requests b \<and> 0 < wb_tokens b \<and>
     0 < wb_daily_requests b \<and> 0 < wb_daily_tokens b"

definition max_required_window_tokens :: "window_budget \<Rightarrow> int" where
  "max_required_window_tokens b = min (wb_tokens b) (wb_daily_tokens b)"

record selectable_item =
  si_work_item_id :: string
  si_lane :: lane_key
  si_status :: string
  si_required :: int
  si_input :: "int option"
  si_artifact :: "int option"

definition selectable_post_init :: "selectable_item \<Rightarrow> py_error + selectable_item" where
  "selectable_post_init s =
     (if si_work_item_id s = [] then Inl (ValueError ''work_item_id must not be empty'')
      else if si_required s \<le> 0 then Inl (ValueError ''required_window_tokens must be positive'')
      else if \<not> pred_option (\<lambda>n. 0 < n) (si_input s) then Inl (ValueError ''input_tokens must be positive'')
      else if \<not> pred_option (\<lambda>n. 0 \<le> n) (si_artifact s)
        then Inl (ValueError ''artifact_tokens must be non-negative'')
      else Inr s)"

section \<open>Tables\<close>

record admission_row =
  ca_id :: string
  ca_lane :: lane_key
  ca_run :: "string option"
  ca_project :: "string option"
  ca_status :: string
  ca_retry_plan :: "string option"
  ca_input :: int
  ca_artifact :: int
  ca_required :: int
  ca_source_ref :: payload
  ca_created_at :: utc
  ca_updated_at :: utc

record flag_row =
  fl_lane :: lane_key
  fl_reason :: string
  fl_count :: int
  fl_first_marked_at :: utc
  fl_last_marked_at :: utc
  fl_claimed_by :: "string option"
  fl_claimed_until :: "utc option"

record claim_row =
  cl_lane :: lane_key
  cl_claimed_by :: string
  cl_claimed_until :: utc
  cl_claimed_at :: utc
  cl_version :: int

record lane_event_row =
  le_lane_id :: string
  le_event_type :: string
  le_lane :: lane_key
  le_work_item_id :: string
  le_reason :: string
  le_payload :: payload
  le_occurred_at :: utc

text \<open>\<open>CapacityWindowBudgetSnapshot\<close>, and the stored row it is read from.\<close>

record budget_snapshot =
  bs_minute_requests :: "int option"
  bs_minute_tokens :: "int option"
  bs_daily_requests :: "int option"
  bs_daily_tokens :: "int option"
  bs_reserved_minute_requests :: int
  bs_reserved_minute_tokens :: int
  bs_reserved_daily_requests :: int
  bs_reserved_daily_tokens :: int
  bs_minute_reset_at :: "utc option"
  bs_daily_reset_at :: "utc option"
  bs_frozen_until :: "utc option"

record budget_row = budget_snapshot +
  bs_created_at :: utc
  bs_updated_at :: utc

record route_reservation_row =
  rr_attempt_id :: string
  rr_provider :: string
  rr_account_ref :: string
  rr_model_ref :: string
  rr_requests :: int
  rr_tokens :: int
  rr_actual_tokens :: "int option"
  rr_status :: string
  rr_expires_at :: utc
  rr_created_at :: utc
  rr_finalized_at :: "utc option"

text \<open>
  A window is named by provider, account and model. Flags and claims are stored under their
  \<open>lane_id\<close>, budget rows under their window, the other tables as lists of rows.
\<close>

type_synonym window_key = "string \<times> string option \<times> string"

record queue_db =
  q_rows :: "admission_row list"
  q_flags :: "string \<Rightarrow> flag_row option"
  q_claims :: "string \<Rightarrow> claim_row option"
  q_events :: "lane_event_row list"
  q_budgets :: "window_key \<Rightarrow> budget_row option"
  q_reservations :: "route_reservation_row list"

definition lane_id :: "lane_key \<Rightarrow> string" where
  "lane_id k = lk_work_kind k @ '':'' @ lk_provider k @ '':'' @
     (case lk_account_ref k of Some a \<Rightarrow> a | None \<Rightarrow> ''-'') @ '':'' @ lk_model_ref k"

definition window_of :: "lane_key \<Rightarrow> window_key" where
  "window_of k = (lk_provider k, lk_account_ref k, lk_model_ref k)"

definition lane_check :: "lane_key \<Rightarrow> bool" where
  "lane_check k \<longleftrightarrow> sql_non_empty (lk_work_kind k) \<and> sql_non_empty (lk_provider k) \<and>
     sql_non_empty (lk_model_ref k) \<and> pred_option sql_non_empty (lk_account_ref k)"

definition admission_check :: "admission_row \<Rightarrow> bool" where
  "admission_check r \<longleftrightarrow> sql_non_empty (ca_id r) \<and> lane_check (ca_lane r) \<and>
     ca_status r \<in> set (map wi_status_value all_statuses) \<and>
     0 < ca_input r \<and> 0 \<le> ca_artifact r \<and> ca_input r \<le> ca_required r \<and>
     ca_input r + ca_artifact r \<le> ca_required r"

section \<open>Selecting the first fitting row\<close>

definition required_str :: "string \<Rightarrow> string \<Rightarrow> py_error + string" where
  "required_str key v = (if v = [] then Inl (ValueError (key @ '' must be a non-empty string'')) else Inr v)"

definition optional_str :: "string \<Rightarrow> string option \<Rightarrow> py_error + string option" where
  "optional_str key v = (if v = Some [] then Inl (ValueError (key @ '' must be null or a non-empty string''))
     else Inr v)"

definition row_lane :: "lane_key \<Rightarrow> py_error + lane_key" where
  "row_lane k =
     bindE (required_str ''work_kind'' (lk_work_kind k)) (\<lambda>_.
     bindE (required_str ''provider'' (lk_provider k)) (\<lambda>_.
     bindE (optional_str ''account_ref'' (lk_account_ref k)) (\<lambda>_.
     bindE (required_str ''model_ref'' (lk_model_ref k)) (\<lambda>_. lane_key_post_init k))))"

definition row_to_selectable :: "admission_row \<Rightarrow> py_error + selectable_item" where
  "row_to_selectable r =
     bindE (required_str ''status'' (ca_status r)) (\<lambda>status.
     if status \<notin> {''retryable_failed'', ''ready''}
     then Inl (ValueError (''unsupported capacity admission status: '' @ status))
     else bindE (row_lane (ca_lane r)) (\<lambda>lane.
       bindE (required_str ''work_item_id'' (ca_id r)) (\<lambda>i.
       if ca_required r \<le> 0 then Inl (ValueError ''required_window_tokens must be a positive integer'')
       else if ca_input r \<le> 0 then Inl (ValueError ''input_tokens must be null or a positive integer'')
       else if ca_artifact r < 0 then Inl (ValueError ''artifact_tokens must be null or a non-negative integer'')
       else selectable_post_init \<lparr>si_work_item_id = i, si_lane = lane, si_status = status,
         si_required = ca_required r, si_input = Some (ca_input r), si_artifact = Some (ca_artifact r)\<rparr>)))"

definition fit_rows :: "lane_key \<Rightarrow> string \<Rightarrow> int \<Rightarrow> queue_db \<Rightarrow> admission_row list" where
  "fit_rows lane status max_tokens db = filter (\<lambda>r. ca_lane r = lane \<and> ca_status r = status \<and>
     ca_required r \<le> max_tokens) (q_rows db)"

definition fit_order :: "(string \<Rightarrow> string) \<Rightarrow> admission_row \<Rightarrow> utc \<times> string" where
  "fit_order collate r = (ca_updated_at r, collate (ca_id r))"

text \<open>\<open>locked\<close> are the rows other transactions hold (\<open>SKIP LOCKED\<close>), \<open>collate\<close> the text order.\<close>

definition select_first_fit :: "(string \<Rightarrow> string) \<Rightarrow> (string \<Rightarrow> bool) \<Rightarrow> lane_key \<Rightarrow> string \<Rightarrow> int \<Rightarrow>
    queue_db \<Rightarrow> py_error + selectable_item option" where
  "select_first_fit collate locked lane status max_tokens db =
     (if max_tokens \<le> 0 then Inl (ValueError ''max_required_window_tokens must be positive'')
      else case min_by (fit_order collate)
          (filter (\<lambda>r. \<not> locked (ca_id r)) (fit_rows lane status max_tokens db)) of
        None \<Rightarrow> Inr None
      | Some r \<Rightarrow> bindE (row_to_selectable r) (\<lambda>s. Inr (Some s)))"

record selection =
  sel_item :: "selectable_item option"
  sel_skipped :: "string option"

definition select_admission_work_item :: "(string \<Rightarrow> string) \<Rightarrow> (string \<Rightarrow> bool) \<Rightarrow> lane_key \<Rightarrow>
    window_budget \<Rightarrow> queue_db \<Rightarrow> py_error + selection" where
  "select_admission_work_item collate locked lane budget db =
     (if \<not> admits_any_work budget
      then Inr \<lparr>sel_item = None, sel_skipped = Some ''capacity_exhausted''\<rparr>
      else let max_tokens = max_required_window_tokens budget in
        bindE (select_first_fit collate locked lane ''retryable_failed'' max_tokens db) (\<lambda>retryable.
        case retryable of
          Some s \<Rightarrow> Inr \<lparr>sel_item = Some s, sel_skipped = None\<rparr>
        | None \<Rightarrow>
            bindE (select_first_fit collate locked lane ''ready'' max_tokens db) (\<lambda>ready.
            case ready of
              Some s \<Rightarrow> Inr \<lparr>sel_item = Some s, sel_skipped = None\<rparr>
            | None \<Rightarrow> Inr \<lparr>sel_item = None, sel_skipped = Some ''no_fitting_work_item''\<rparr>)))"

section \<open>Admitting a projection row\<close>

record projection_lease =
  pj_work_item_id :: string
  pj_lane :: lane_key
  pj_leased_at :: datetime
  pj_reason :: string

definition projection_lease_post_init :: "projection_lease \<Rightarrow> py_error + projection_lease" where
  "projection_lease_post_init l =
     (if blank (pj_work_item_id l) then Inl (ValueError ''work_item_id must be non-empty'')
      else if \<not> tz_aware (pj_leased_at l) then Inl (ValueError ''leased_at must be timezone-aware'')
      else if blank (pj_reason l) then Inl (ValueError ''lease_reason must be non-empty'')
      else Inr l)"

record projection_lease_result =
  pr_work_item_id :: string
  pr_lane :: lane_key
  pr_previous_status :: string
  pr_status :: string
  pr_event_id :: nat

definition projection_lease_result_post_init ::
    "projection_lease_result \<Rightarrow> py_error + projection_lease_result" where
  "projection_lease_result_post_init r =
     (if blank (pr_work_item_id r) then Inl (ValueError ''work_item_id must be non-empty'')
      else if pr_previous_status r \<notin> {''ready'', ''retryable_failed''}
        then Inl (ValueError ''previous_status must be ready or retryable_failed'')
      else if pr_status r \<noteq> ''leased'' then Inl (ValueError ''status must be leased'')
      else Inr r)"

text \<open>
  An event is identified by its position in the event table, in place of the fresh UUID the code
  draws for it.
\<close>

definition append_lane_event :: "lane_event_row \<Rightarrow> queue_db \<Rightarrow> nat \<times> queue_db" where
  "append_lane_event e db = (length (q_events db), db\<lparr>q_events := q_events db @ [e]\<rparr>)"

definition set_leased :: "utc \<Rightarrow> admission_row \<Rightarrow> admission_row" where
  "set_leased t r = r\<lparr>ca_status := ''leased'', ca_updated_at := t\<rparr>"

definition update_rows :: "(admission_row \<Rightarrow> bool) \<Rightarrow> (admission_row \<Rightarrow> admission_row) \<Rightarrow>
    queue_db \<Rightarrow> queue_db" where
  "update_rows P f db = db\<lparr>q_rows := map (\<lambda>r. if P r then f r else r) (q_rows db)\<rparr>"

definition admissible :: "(string \<Rightarrow> bool) \<Rightarrow> projection_lease \<Rightarrow> admission_row \<Rightarrow> bool" where
  "admissible locked l r \<longleftrightarrow> ca_id r = pj_work_item_id l \<and> ca_lane r = pj_lane l \<and>
     ca_status r \<in> {''ready'', ''retryable_failed''} \<and> \<not> locked (ca_id r)"

definition admit_projection_work_item :: "(string \<Rightarrow> bool) \<Rightarrow> projection_lease \<Rightarrow> queue_db \<Rightarrow>
    py_error + (projection_lease_result option \<times> queue_db)" where
  "admit_projection_work_item locked l db =
     (case pj_leased_at l of
        Naive _ \<Rightarrow> Inl (DatabaseError ''naive timestamp'')
      | Aware t \<Rightarrow>
          (case List.find (admissible locked l) (q_rows db) of
             None \<Rightarrow> Inr (None, db)
           | Some r \<Rightarrow>
               let (event_id, db2) = append_lane_event
                 \<lparr>le_lane_id = lane_id (pj_lane l), le_event_type = ''CapacityWindowLeasedWorkItem'',
                  le_lane = pj_lane l, le_work_item_id = pj_work_item_id l, le_reason = pj_reason l,
                  le_payload = [], le_occurred_at = t\<rparr>
                 (update_rows (\<lambda>x. ca_id x = ca_id r) (set_leased t) db)
               in bindE (required_str ''work_item_id'' (ca_id r)) (\<lambda>i.
                  bindE (row_lane (ca_lane r)) (\<lambda>lane.
                  bindE (projection_lease_result_post_init
                    \<lparr>pr_work_item_id = i, pr_lane = lane, pr_previous_status = ca_status r,
                     pr_status = ''leased'', pr_event_id = event_id\<rparr>) (\<lambda>res.
                  Inr (Some res, db2))))))"

section \<open>Dirty flags and claims of lanes\<close>

definition mark_lane_dirty :: "lane_key \<Rightarrow> string \<Rightarrow> utc \<Rightarrow> queue_db \<Rightarrow> queue_db" where
  "mark_lane_dirty lane reason t db = db\<lparr>q_flags := (q_flags db)(lane_id lane \<mapsto>
     (case q_flags db (lane_id lane) of
        None \<Rightarrow> \<lparr>fl_lane = lane, fl_reason = reason, fl_count = 1, fl_first_marked_at = t,
          fl_last_marked_at = t, fl_claimed_by = None, fl_claimed_until = None\<rparr>
      | Some f \<Rightarrow> f\<lparr>fl_reason := reason, fl_count := fl_count f + 1, fl_last_marked_at := t,
          fl_claimed_by := None, fl_claimed_until := None\<rparr>))\<rparr>"

record lane_claim =
  lc_lane_id :: string
  lc_lane :: lane_key
  lc_claimed_by :: string
  lc_claimed_until :: utc
  lc_version :: int

fun plus_seconds :: "utc \<Rightarrow> int \<Rightarrow> utc" where
  "plus_seconds (Utc t) s = Utc (t + 1000000 * s)"

definition claimable :: "lane_key \<Rightarrow> utc \<Rightarrow> flag_row \<Rightarrow> bool" where
  "claimable lane t f \<longleftrightarrow> fl_lane f = lane \<and>
     (fl_claimed_by f = None \<or> (case fl_claimed_until f of Some u \<Rightarrow> u \<le> t | None \<Rightarrow> False))"

definition claimed_row :: "string \<Rightarrow> int \<Rightarrow> utc \<Rightarrow> lane_key \<Rightarrow> claim_row option \<Rightarrow> claim_row" where
  "claimed_row worker ttl t lane old = \<lparr>cl_lane = (case old of Some c \<Rightarrow> cl_lane c | None \<Rightarrow> lane),
     cl_claimed_by = worker, cl_claimed_until = plus_seconds t ttl, cl_claimed_at = t,
     cl_version = (case old of Some c \<Rightarrow> cl_version c + 1 | None \<Rightarrow> 1)\<rparr>"

definition claim_dirty_lane :: "(string \<Rightarrow> bool) \<Rightarrow> lane_key \<Rightarrow> string \<Rightarrow> utc \<Rightarrow> int \<Rightarrow> queue_db \<Rightarrow>
    py_error + (lane_claim option \<times> queue_db)" where
  "claim_dirty_lane flag_locked lane worker t ttl db =
     (if ttl \<le> 0 then Inl (ValueError ''claim_ttl_seconds must be positive'')
      else case q_flags db (lane_id lane) of
        None \<Rightarrow> Inr (None, db)
      | Some f \<Rightarrow>
          if flag_locked (lane_id lane) \<or> \<not> claimable lane t f then Inr (None, db)
          else if \<not> sql_non_empty worker
            then Inl (DatabaseError ''chk_capacity_admission_lane_claims_non_empty_text'')
          else
            let c = claimed_row worker ttl t lane (q_claims db (lane_id lane));
                db2 = db\<lparr>q_claims := (q_claims db)(lane_id lane \<mapsto> c),
                  q_flags := (q_flags db)(lane_id lane \<mapsto> f\<lparr>fl_claimed_by := Some (cl_claimed_by c),
                    fl_claimed_until := Some (cl_claimed_until c)\<rparr>)\<rparr>
            in bindE (row_lane (cl_lane c)) (\<lambda>l.
               if cl_version c \<le> 0 then Inl (ValueError ''claim_version must be positive integer'')
               else Inr (Some \<lparr>lc_lane_id = lane_id lane, lc_lane = l, lc_claimed_by = cl_claimed_by c,
                 lc_claimed_until = cl_claimed_until c, lc_version = cl_version c\<rparr>, db2)))"

definition release_lane_claim :: "string \<Rightarrow> string \<Rightarrow> utc \<Rightarrow> queue_db \<Rightarrow> queue_db" where
  "release_lane_claim i worker t db =
     (case q_flags db i of
        Some f \<Rightarrow> if fl_claimed_by f = Some worker
          then db\<lparr>q_flags := (q_flags db)(i \<mapsto> f\<lparr>fl_claimed_by := None, fl_claimed_until := None,
            fl_last_marked_at := max (fl_last_marked_at f) t\<rparr>)\<rparr>
          else db
      | None \<Rightarrow> db)"

definition clear_dirty_flag :: "string \<Rightarrow> string \<Rightarrow> utc \<Rightarrow> queue_db \<Rightarrow> queue_db" where
  "clear_dirty_flag i worker t db =
     (case q_flags db i of
        Some f \<Rightarrow> if fl_claimed_by f = Some worker \<and> fl_last_marked_at f \<le> t
          then db\<lparr>q_flags := (q_flags db)(i := None)\<rparr> else db
      | None \<Rightarrow> db)"

end
