(* ===== verification/AdmissionProjection.thy ===== *)
theory AdmissionProjection
  imports AdmissionQueue
begin

text \<open>
  Writing the projection of the admission queue: the synchronisation of a work item's lifecycle
  status (\<open>sync_capacity_admission_projection_lifecycle.py\<close> and its Postgres adapter), and the
  candidates built from schedule plans
  (\<open>build_capacity_admission_projection_candidates.py\<close>) with the writer that upserts them.
\<close>

section \<open>Lifecycle synchronisation\<close>

definition projected_statuses :: "string list" where
  "projected_statuses = [''ready'', ''leased'', ''retryable_failed'', ''completed'',
     ''terminal_failed'', ''cancelled'', ''split_superseded'', ''user_action_required'']"

record lifecycle_update =
  lu_work_item_id :: string
  lu_status :: string
  lu_changed_at :: datetime
  lu_retry_plan :: "string option"
  lu_model_ref :: "string option"

definition lifecycle_update_post_init :: "lifecycle_update \<Rightarrow> py_error + lifecycle_update" where
  "lifecycle_update_post_init u =
     (if blank (lu_work_item_id u) then Inl (ValueError ''work_item_id must be non-empty'')
      else if lu_status u \<notin> set projected_statuses
        then Inl (ValueError ''status must be a known capacity admission projection status'')
      else if \<not> tz_aware (lu_changed_at u) then Inl (ValueError ''changed_at must be timezone-aware'')
      else if lu_status u = ''retryable_failed'' then
        (case lu_retry_plan u of
           None \<Rightarrow> Inl (ValueError ''retry_plan is required for retryable_failed'')
         | Some p \<Rightarrow>
             if blank p then Inl (ValueError ''retry_plan must be non-empty'')
             else if (case lu_model_ref u of Some v \<Rightarrow> blank v | None \<Rightarrow> False)
               then Inl (ValueError ''model_ref must be non-empty'')
             else Inr u)
      else if lu_retry_plan u \<noteq> None
        then Inl (ValueError ''retry_plan is only allowed for retryable_failed'')
      else if lu_model_ref u \<noteq> None
        then Inl (ValueError ''model_ref is only allowed for retryable_failed'')
      else Inr u)"

record lifecycle_sync_result =
  ls_work_item_id :: string
  ls_lane :: lane_key
  ls_previous_status :: string
  ls_status :: string
  ls_retry_plan :: "string option"
  ls_event_type :: string
  ls_reason :: string
  ls_event_id :: nat

definition lifecycle_sync_result_post_init ::
    "lifecycle_sync_result \<Rightarrow> py_error + lifecycle_sync_result" where
  "lifecycle_sync_result_post_init r =
     (if blank (ls_work_item_id r) then Inl (ValueError ''work_item_id must be non-empty'')
      else if ls_previous_status r \<notin> set projected_statuses \<or> ls_status r \<notin> set projected_statuses
        then Inl (ValueError ''status must be a known capacity admission projection status'')
      else if blank (ls_event_type r) then Inl (ValueError ''event_type must be non-empty'')
      else if blank (ls_reason r) then Inl (ValueError ''reason must be non-empty'')
      else if ls_status r = ''retryable_failed'' then
        (case ls_retry_plan r of
           None \<Rightarrow> Inl (ValueError ''retry_plan is required for retryable_failed'')
         | Some p \<Rightarrow> if blank p then Inl (ValueError ''retry_plan must be non-empty'') else Inr r)
      else if ls_retry_plan r \<noteq> None
        then Inl (ValueError ''retry_plan is only allowed for retryable_failed'')
      else Inr r)"

definition event_type_for_status :: "string \<Rightarrow> string" where
  "event_type_for_status s =
     (if s \<in> {''ready'', ''retryable_failed''} then ''DueWorkQueueChanged'' else ''CapacityWindowChanged'')"

definition reason_for_status :: "string \<Rightarrow> string" where
  "reason_for_status s =
     (if s = ''retryable_failed'' then ''work_item_returned_retryable''
      else if s = ''ready'' then ''work_item_released_ready''
      else if s = ''split_superseded'' then ''leased_work_item_split_superseded''
      else if s = ''user_action_required'' then ''work_item_requires_user_action''
      else ''attempt_finished_capacity_available'')"

text \<open>\<open>COALESCE($5, model_ref)\<close> in the UPDATE, and the guard under which it writes.\<close>

definition set_lifecycle :: "lifecycle_update \<Rightarrow> utc \<Rightarrow> admission_row \<Rightarrow> admission_row" where
  "set_lifecycle u t r = r\<lparr>ca_status := lu_status u, ca_retry_plan := lu_retry_plan u,
     ca_updated_at := t,
     ca_lane := (case lu_model_ref u of None \<Rightarrow> ca_lane r | Some v \<Rightarrow> (ca_lane r)\<lparr>lk_model_ref := v\<rparr>)\<rparr>"

definition lifecycle_changes :: "lifecycle_update \<Rightarrow> admission_row \<Rightarrow> bool" where
  "lifecycle_changes u r \<longleftrightarrow> ca_status r \<noteq> lu_status u \<or> ca_retry_plan r \<noteq> lu_retry_plan u \<or>
     (case lu_model_ref u of None \<Rightarrow> False | Some v \<Rightarrow> lk_model_ref (ca_lane r) \<noteq> v)"

definition known_status :: "string \<Rightarrow> string \<Rightarrow> py_error + string" where
  "known_status key v = (if v \<in> set projected_statuses then Inr v
     else Inl (ValueError (key @ '' must be a known projection status'')))"

definition lifecycle_payload :: "lifecycle_update \<Rightarrow> string \<Rightarrow> admission_row \<Rightarrow> payload" where
  "lifecycle_payload u previous r =
     [(''work_item_id'', JStr (lu_work_item_id u)), (''previous_status'', JStr previous),
      (''status'', JStr (ca_status r)),
      (''retry_plan'', case ca_retry_plan r of None \<Rightarrow> JNull | Some p \<Rightarrow> JStr p),
      (''model_ref'', JStr (lk_model_ref (ca_lane r)))]"

definition sync_projection_lifecycle :: "lifecycle_update \<Rightarrow> queue_db \<Rightarrow>
    py_error + (lifecycle_sync_result option \<times> queue_db)" where
  "sync_projection_lifecycle u db =
     (case lu_changed_at u of
        Naive _ \<Rightarrow> Inl (DatabaseError ''naive timestamp'')
      | Aware t \<Rightarrow>
          (case List.find (\<lambda>r. ca_id r = lu_work_item_id u \<and> lifecycle_changes u r) (q_rows db) of
             None \<Rightarrow> Inr (None, db)
           | Some old \<Rightarrow>
               let r = set_lifecycle u t old;
                   db1 = update_rows (\<lambda>x. ca_id x = lu_work_item_id u \<and> lifecycle_changes u x)
                     (set_lifecycle u t) db
               in bindE (row_lane (ca_lane r)) (\<lambda>lane.
                  bindE (known_status ''previous_status'' (ca_status old)) (\<lambda>previous.
                  bindE (known_status ''status'' (ca_status r)) (\<lambda>status.
                  bindE (optional_str ''retry_plan'' (ca_retry_plan r)) (\<lambda>plan.
                  let db2 = mark_lane_dirty lane (reason_for_status (lu_status u)) t db1;
                      (event_id, db3) = append_lane_event
                        \<lparr>le_lane_id = lane_id lane, le_event_type = event_type_for_status (lu_status u),
                         le_lane = lane, le_work_item_id = lu_work_item_id u,
                         le_reason = reason_for_status (lu_status u),
                         le_payload = lifecycle_payload u previous r, le_occurred_at = t\<rparr> db2
                  in bindE (required_str ''work_item_id'' (ca_id r)) (\<lambda>i.
                     bindE (lifecycle_sync_result_post_init
                       \<lparr>ls_work_item_id = i, ls_lane = lane, ls_previous_status = previous,
                        ls_status = status, ls_retry_plan = plan,
                        ls_event_type = event_type_for_status (lu_status u),
                        ls_reason = reason_for_status (lu_status u), ls_event_id = event_id\<rparr>) (\<lambda>res.
                     Inr (Some res, db3)))))))))"

section \<open>Candidates\<close>

record lane_target =
  lt_provider :: string
  lt_model_ref :: string
  lt_account_ref :: "string option"

definition lane_target_post_init :: "lane_target \<Rightarrow> py_error + lane_target" where
  "lane_target_post_init t =
     (if blank (lt_provider t) then Inl (ValueError ''provider must be non-empty text'')
      else if blank (lt_model_ref t) then Inl (ValueError ''model_ref must be non-empty text'')
      else if (case lt_account_ref t of Some a \<Rightarrow> blank a | None \<Rightarrow> False)
        then Inl (ValueError ''account_ref must be non-empty text'')
      else Inr t)"

record candidate =
  cn_work_item_id :: string
  cn_work_kind :: string
  cn_run :: "string option"
  cn_project :: "string option"
  cn_target :: lane_target
  cn_status :: work_item_status
  cn_retry_plan :: "string option"
  cn_input :: int
  cn_artifact :: int
  cn_required :: int
  cn_source_ref :: payload

definition candidate_post_init :: "candidate \<Rightarrow> py_error + candidate" where
  "candidate_post_init c =
     (if blank (cn_work_item_id c) then Inl (ValueError ''work_item_id must be non-empty text'')
      else if blank (cn_work_kind c) then Inl (ValueError ''work_kind must be non-empty text'')
      else if (case cn_run c of Some v \<Rightarrow> blank v | None \<Rightarrow> False)
        then Inl (ValueError ''workflow_run_id must be non-empty text'')
      else if (case cn_project c of Some v \<Rightarrow> blank v | None \<Rightarrow> False)
        then Inl (ValueError ''project_id must be non-empty text'')
      else if blank (lt_provider (cn_target c)) then Inl (ValueError ''provider must be non-empty text'')
      else if (case lt_account_ref (cn_target c) of Some v \<Rightarrow> blank v | None \<Rightarrow> False)
        then Inl (ValueError ''account_ref must be non-empty text'')
      else if blank (lt_model_ref (cn_target c)) then Inl (ValueError ''model_ref must be non-empty text'')
      else if cn_status c \<noteq> WI_READY
        then Inl (ValueError ''scheduled admission projection candidate status must be READY'')
      else if (case cn_retry_plan c of Some v \<Rightarrow> blank v | None \<Rightarrow> False)
        then Inl (ValueError ''retry_plan must be non-empty text'')
      else if cn_input c \<le> 0 then Inl (ValueError ''input_tokens must be positive int'')
      else if cn_artifact c < 0 then Inl (ValueError ''artifact_tokens must be non-negative int'')
      else if cn_required c \<le> 0 then Inl (ValueError ''required_window_tokens must be positive int'')
      else if cn_required c < cn_input c + cn_artifact c
        then Inl (ValueError ''required_window_tokens must cover input and output tokens'')
      else Inr c)"

definition estimate_of :: "payload \<Rightarrow> py_error + payload" where
  "estimate_of p = (case payload_get p ''llm_capacity_estimate'' of
     Some (JObject e) \<Rightarrow> Inr e
   | _ \<Rightarrow> Inl (ValueError ''schedule payload must contain llm_capacity_estimate mapping''))"

definition positive_int :: "payload \<Rightarrow> string \<Rightarrow> py_error + int" where
  "positive_int p key = (case payload_get p key of
     Some (JInt n) \<Rightarrow> if 0 < n then Inr n else Inl (ValueError (key @ '' must be positive int''))
   | _ \<Rightarrow> Inl (ValueError (key @ '' must be positive int'')))"

definition non_negative_int :: "payload \<Rightarrow> string \<Rightarrow> py_error + int" where
  "non_negative_int p key = (case payload_get p key of
     Some (JInt n) \<Rightarrow> if 0 \<le> n then Inr n else Inl (ValueError (key @ '' must be non-negative int''))
   | _ \<Rightarrow> Inl (ValueError (key @ '' must be non-negative int'')))"

definition optional_text :: "payload \<Rightarrow> string \<Rightarrow> py_error + string option" where
  "optional_text p key = (case payload_get p key of
     None \<Rightarrow> Inr None
   | Some (JStr v) \<Rightarrow> if blank v then Inl (ValueError (key @ '' must be non-empty text when provided''))
       else Inr (Some v)
   | Some _ \<Rightarrow> Inl (ValueError (key @ '' must be non-empty text when provided'')))"

definition source_ref_keys :: "string list" where
  "source_ref_keys = [''workflow_run_id'', ''project_id'', ''source_document_ref'', ''source_unit_ref'', ''phase'']"

definition source_ref_of :: "payload \<Rightarrow> payload" where
  "source_ref_of p = concat (map (\<lambda>k. case payload_get p k of
     Some (JStr v) \<Rightarrow> if blank v then [] else [(k, JStr v)]
   | _ \<Rightarrow> []) source_ref_keys)"

definition candidate_of_plan :: "lane_target \<Rightarrow> work_item_schedule_plan \<Rightarrow> py_error + candidate" where
  "candidate_of_plan target plan =
     bindE (estimate_of (sp_payload plan)) (\<lambda>estimate.
     bindE (positive_int estimate ''input_tokens'') (\<lambda>input.
     bindE (non_negative_int estimate ''artifact_tokens'') (\<lambda>artifact.
     bindE (positive_int estimate ''required_window_tokens'') (\<lambda>needed.
     bindE (optional_text (sp_payload plan) ''workflow_run_id'') (\<lambda>run.
     bindE (optional_text (sp_payload plan) ''project_id'') (\<lambda>project.
       candidate_post_init
         \<lparr>cn_work_item_id = sp_work_item_id plan, cn_work_kind = work_kind_value (sp_work_kind plan),
          cn_run = run, cn_project = project, cn_target = target, cn_status = WI_READY,
          cn_retry_plan = None, cn_input = input, cn_artifact = artifact, cn_required = needed,
          cn_source_ref = source_ref_of (sp_payload plan)\<rparr>))))))"

definition build_candidates :: "lane_target \<Rightarrow> work_item_schedule_plan list \<Rightarrow>
    py_error + candidate list" where
  "build_candidates target plans = traverseE (candidate_of_plan target) plans"

text \<open>\<open>resolve_lane_target_for_work_kind\<close> over the registry's dict.\<close>

definition resolve_lane_target :: "(string \<Rightarrow> lane_target option) \<Rightarrow> string \<Rightarrow>
    py_error + lane_target option" where
  "resolve_lane_target targets kind =
     (if blank kind then Inl (ValueError ''work_kind must be non-empty'') else Inr (targets kind))"

section \<open>The writer\<close>

definition candidate_lane :: "candidate \<Rightarrow> lane_key" where
  "candidate_lane c = \<lparr>lk_work_kind = cn_work_kind c, lk_provider = lt_provider (cn_target c),
     lk_model_ref = lt_model_ref (cn_target c), lk_account_ref = lt_account_ref (cn_target c)\<rparr>"

definition candidate_row :: "candidate \<Rightarrow> utc \<Rightarrow> admission_row" where
  "candidate_row c t = \<lparr>ca_id = cn_work_item_id c, ca_lane = candidate_lane c, ca_run = cn_run c,
     ca_project = cn_project c, ca_status = wi_status_value (cn_status c),
     ca_retry_plan = cn_retry_plan c, ca_input = cn_input c, ca_artifact = cn_artifact c,
     ca_required = cn_required c, ca_source_ref = cn_source_ref c, ca_created_at = t, ca_updated_at = t\<rparr>"

text \<open>\<open>ON CONFLICT (work_item_id) DO UPDATE\<close> overwrites every column except \<open>created_at\<close>.\<close>

definition overwrite_row :: "admission_row \<Rightarrow> admission_row \<Rightarrow> admission_row" where
  "overwrite_row excluded r = excluded\<lparr>ca_id := ca_id r, ca_created_at := ca_created_at r\<rparr>"

text \<open>\<open>exists\<close>: the work items of the execution runtime, which the foreign key refers to.\<close>

definition persist_candidate :: "(string \<Rightarrow> bool) \<Rightarrow> utc \<Rightarrow> candidate \<Rightarrow> queue_db \<Rightarrow>
    py_error + queue_db" where
  "persist_candidate exists t c db =
     (let r = candidate_row c t in
      if \<not> admission_check r then Inl (DatabaseError ''chk_capacity_admission_work_items'')
      else if \<exists>x \<in> set (q_rows db). ca_id x = ca_id r
        then Inr (update_rows (\<lambda>x. ca_id x = ca_id r) (overwrite_row r) db)
      else if \<not> exists (ca_id r) then Inl (DatabaseError ''capacity_admission_work_items_work_item_id_fkey'')
      else Inr (db\<lparr>q_rows := q_rows db @ [r]\<rparr>))"

definition wakeup_event :: "candidate \<Rightarrow> utc \<Rightarrow> lane_event_row" where
  "wakeup_event c t = \<lparr>le_lane_id = lane_id (candidate_lane c), le_event_type = ''DueWorkQueueChanged'',
     le_lane = candidate_lane c, le_work_item_id = cn_work_item_id c,
     le_reason = ''scheduled_projection_upserted'',
     le_payload = [(''work_item_id'', JStr (cn_work_item_id c)),
       (''status'', JStr (wi_status_value (cn_status c))),
       (''required_window_tokens'', JInt (cn_required c))],
     le_occurred_at = t\<rparr>"

fun persist_candidates_loop :: "(string \<Rightarrow> bool) \<Rightarrow> utc \<Rightarrow> string list \<Rightarrow> candidate list \<Rightarrow> queue_db \<Rightarrow>
    py_error + queue_db" where
  "persist_candidates_loop exists t dirty [] db = Inr db"
| "persist_candidates_loop exists t dirty (c # cs) db =
     bindE (persist_candidate exists t c db) (\<lambda>db1.
       if lane_id (candidate_lane c) \<in> set dirty then persist_candidates_loop exists t dirty cs db1
       else
         let db2 = mark_lane_dirty (candidate_lane c) ''scheduled_projection_upserted'' t db1;
             db3 = snd (append_lane_event (wakeup_event c t) db2)
         in persist_candidates_loop exists t (lane_id (candidate_lane c) # dirty) cs db3)"

definition persist_projection_candidates :: "(string \<Rightarrow> bool) \<Rightarrow> utc \<Rightarrow> candidate list \<Rightarrow> queue_db \<Rightarrow>
    py_error + (nat \<times> queue_db)" where
  "persist_projection_candidates exists now cs db =
     bindE (persist_candidates_loop exists now [] cs db) (\<lambda>db'. Inr (length cs, db'))"

end
