(* ===== verification/AdmissionResult.thy ===== *)
theory AdmissionResult
  imports AdmissionProjection
begin

text \<open>
  The result of an admission pass (\<open>application/capacity_window_admission_result.py\<close>): the
  summaries of admitted items, projection leases, reservations and started attempts, and the
  constructor that checks how they fit together.
\<close>

section \<open>Reasons and log events\<close>

datatype skipped_reason =
    CAPACITY_EXHAUSTED
  | NO_FITTING_WORK_ITEM
  | ACTIVE_LEASED_WAIT
  | SOURCE_SPLIT_REQUIRED
  | PROJECTION_CONFLICT
  | EXECUTION_LEASE_LOST

datatype admission_log_event =
    PASS_STARTED
  | PASS_COMPLETED
  | PASS_SKIPPED
  | CANDIDATE_SELECTED
  | LOG_PROJECTION_CONFLICT
  | LOG_EXECUTION_LEASE_LOST
  | ATTEMPT_STARTED

section \<open>Summaries\<close>

text \<open>\<open>_require_non_empty_text\<close>, also on an optional field and on a tuple of texts.\<close>

definition need_text :: "string \<Rightarrow> string \<Rightarrow> py_error + unit" where
  "need_text field v = require (\<not> blank v) (ValueError (field @ '' must be non-empty''))"

definition need_opt_text :: "string \<Rightarrow> string option \<Rightarrow> py_error + unit" where
  "need_opt_text field v = (case v of None \<Rightarrow> Inr () | Some t \<Rightarrow> need_text field t)"

definition need_texts :: "string \<Rightarrow> string list \<Rightarrow> py_error + unit" where
  "need_texts field vs = bindE (traverseE (need_text field) vs) (\<lambda>_. Inr ())"

lemma need_text_Inr [simp]: "need_text field v = Inr u \<longleftrightarrow> \<not> blank v"
  by (simp add: need_text_def)

lemma need_opt_text_Inr [simp]: "need_opt_text field v = Inr u \<longleftrightarrow> (\<forall>t. v = Some t \<longrightarrow> \<not> blank t)"
  by (simp add: need_opt_text_def split: option.splits)

lemma need_texts_Inr [simp]: "need_texts field vs = Inr u \<longleftrightarrow> (\<forall>v \<in> set vs. \<not> blank v)"
proof -
  have "(\<exists>ys. traverseE (need_text field) vs = Inr ys) \<longleftrightarrow> (\<forall>v \<in> set vs. \<not> blank v)"
    by (induction vs) auto
  then show ?thesis by (auto simp: need_texts_def)
qed

definition lane_summary_post_init :: "lane_key \<Rightarrow> py_error + lane_key" where
  "lane_summary_post_init k =
     bindE (need_text ''work_kind'' (lk_work_kind k)) (\<lambda>_.
     bindE (need_text ''provider'' (lk_provider k)) (\<lambda>_.
     bindE (need_text ''model_ref'' (lk_model_ref k)) (\<lambda>_.
     bindE (need_opt_text ''account_ref'' (lk_account_ref k)) (\<lambda>_. Inr k))))"

record dispatch_context =
  dx_source_ref :: "string option"
  dx_source_unit_ref :: "string option"
  dx_cluster_ref :: "string option"
  dx_subcluster_ref :: "string option"
  dx_group_ref :: "string option"
  dx_batch_ref :: "string option"
  dx_round_index :: "int option"
  dx_expected_output_kind :: "string option"
  dx_input_node_refs :: "string list"
  dx_input_claim_refs :: "string list"

definition dispatch_context_post_init :: "dispatch_context \<Rightarrow> py_error + dispatch_context" where
  "dispatch_context_post_init d =
     bindE (need_opt_text ''source_ref'' (dx_source_ref d)) (\<lambda>_.
     bindE (need_opt_text ''source_unit_ref'' (dx_source_unit_ref d)) (\<lambda>_.
     bindE (need_opt_text ''cluster_ref'' (dx_cluster_ref d)) (\<lambda>_.
     bindE (need_opt_text ''subcluster_ref'' (dx_subcluster_ref d)) (\<lambda>_.
     bindE (need_opt_text ''group_ref'' (dx_group_ref d)) (\<lambda>_.
     bindE (need_opt_text ''batch_ref'' (dx_batch_ref d)) (\<lambda>_.
     bindE (need_opt_text ''expected_output_kind'' (dx_expected_output_kind d)) (\<lambda>_.
     bindE (require (pred_option (\<lambda>n. 0 \<le> n) (dx_round_index d))
       (ValueError ''round_index must be non-negative'')) (\<lambda>_.
     bindE (need_texts ''input_node_refs'' (dx_input_node_refs d)) (\<lambda>_.
     bindE (need_texts ''input_claim_refs'' (dx_input_claim_refs d)) (\<lambda>_. Inr d))))))))))"

record admitted_item =
  ai_work_item_id :: string
  ai_lane :: lane_key
  ai_selection_kind :: string
  ai_input :: int
  ai_artifact :: int
  ai_required :: int
  ai_context :: "dispatch_context option"

definition admitted_item_post_init :: "admitted_item \<Rightarrow> py_error + admitted_item" where
  "admitted_item_post_init a =
     (if blank (ai_work_item_id a) then Inl (ValueError ''work_item_id must be non-empty'')
      else if ai_selection_kind a \<notin> {''fresh'', ''retryable''}
        then Inl (ValueError ''selection_kind must be fresh or retryable'')
      else if ai_input a \<le> 0 then Inl (ValueError ''input_tokens must be positive'')
      else if ai_artifact a < 0 then Inl (ValueError ''artifact_tokens must be non-negative'')
      else if ai_required a \<le> 0 then Inl (ValueError ''required_window_tokens must be positive'')
      else if ai_required a < ai_input a
        then Inl (ValueError ''required_window_tokens must be at least input_tokens'')
      else Inr a)"

record projection_summary =
  ps_work_item_id :: string
  ps_lane :: lane_key
  ps_previous_status :: string
  ps_status :: string
  ps_event_id :: nat

definition projection_summary_post_init :: "projection_summary \<Rightarrow> py_error + projection_summary" where
  "projection_summary_post_init p =
     (if blank (ps_work_item_id p) then Inl (ValueError ''work_item_id must be non-empty'')
      else if ps_previous_status p \<notin> {''ready'', ''retryable_failed''}
        then Inl (ValueError ''previous_status must be ready or retryable_failed'')
      else if ps_status p \<noteq> ''leased'' then Inl (ValueError ''status must be leased'')
      else Inr p)"

record reservation_summary =
  rs_reservation_ref :: string
  rs_work_item_id :: string
  rs_lane :: lane_key
  rs_requests :: int
  rs_tokens :: int
  rs_expires_at :: datetime

definition reservation_summary_post_init :: "reservation_summary \<Rightarrow> py_error + reservation_summary" where
  "reservation_summary_post_init r =
     (if blank (rs_reservation_ref r) then Inl (ValueError ''reservation_ref must be non-empty'')
      else if blank (rs_work_item_id r) then Inl (ValueError ''work_item_id must be non-empty'')
      else if rs_requests r \<le> 0 then Inl (ValueError ''reserved_requests must be positive'')
      else if rs_tokens r \<le> 0 then Inl (ValueError ''reserved_tokens must be positive'')
      else if \<not> tz_aware (rs_expires_at r) then Inl (ValueError ''expires_at must be timezone-aware'')
      else Inr r)"

record started_summary =
  sa_attempt_id :: string
  sa_work_item_id :: string
  sa_attempt_number :: int

definition started_summary_post_init :: "started_summary \<Rightarrow> py_error + started_summary" where
  "started_summary_post_init a =
     (if blank (sa_attempt_id a) then Inl (ValueError ''attempt_id must be non-empty'')
      else if blank (sa_work_item_id a) then Inl (ValueError ''work_item_id must be non-empty'')
      else if sa_attempt_number a \<le> 0 then Inl (ValueError ''attempt_number must be positive'')
      else Inr a)"

record frontend_summary =
  fs_event_kind :: string
  fs_run :: string
  fs_phase :: string
  fs_operation_key :: string
  fs_work_kind :: string
  fs_lane :: lane_key
  fs_admitted_count :: nat
  fs_started_count :: nat
  fs_skipped_reason :: "skipped_reason option"
  fs_work_item_ids :: "string list"
  fs_attempt_ids :: "string list"
  fs_projection_event_ids :: "nat list"
  fs_occurred_at :: datetime

definition frontend_summary_post_init :: "frontend_summary \<Rightarrow> py_error + frontend_summary" where
  "frontend_summary_post_init f =
     bindE (need_text ''event_kind'' (fs_event_kind f)) (\<lambda>_.
     bindE (need_text ''workflow_run_id'' (fs_run f)) (\<lambda>_.
     bindE (need_text ''phase'' (fs_phase f)) (\<lambda>_.
     bindE (need_text ''operation_key'' (fs_operation_key f)) (\<lambda>_.
     bindE (need_text ''work_kind'' (fs_work_kind f)) (\<lambda>_.
     bindE (need_texts ''work_item_ids'' (fs_work_item_ids f)) (\<lambda>_.
     bindE (need_texts ''attempt_ids'' (fs_attempt_ids f)) (\<lambda>_.
     bindE (require (tz_aware (fs_occurred_at f)) (ValueError ''occurred_at must be timezone-aware'')) (\<lambda>_.
       Inr f))))))))"

section \<open>The result of a pass\<close>

record pass_result =
  pa_run :: string
  pa_phase :: string
  pa_operation_key :: string
  pa_work_kind :: string
  pa_lane :: lane_key
  pa_admitted :: "admitted_item list"
  pa_projections :: "projection_summary list"
  pa_reservations :: "reservation_summary list"
  pa_started :: "started_summary list"
  pa_command_refs :: "string list"
  pa_skipped_reason :: "skipped_reason option"
  pa_frontend :: "frontend_summary option"
  pa_log_event :: admission_log_event

definition reservation_lane_matches :: "lane_key \<Rightarrow> lane_key \<Rightarrow> bool" where
  "reservation_lane_matches a b \<longleftrightarrow> lk_work_kind a = lk_work_kind b \<and>
     lk_provider a = lk_provider b \<and> lk_model_ref a = lk_model_ref b"

definition validate_admitted :: "pass_result \<Rightarrow> py_error + unit" where
  "validate_admitted r =
     (let n = length (pa_admitted r); refs = length (pa_started r) + length (pa_command_refs r);
          ids = set (map ai_work_item_id (pa_admitted r)) in
      if pa_admitted r = [] then Inl (ValueError ''admitted result must include admitted_items'')
      else if length (pa_projections r) \<noteq> n
        then Inl (ValueError ''admitted result projection_leases length must equal admitted_items length'')
      else if pa_reservations r \<noteq> [] \<and> length (pa_reservations r) \<noteq> n
        then Inl (ValueError ''capacity_reservations length must equal admitted_items when present'')
      else if refs = 0
        then Inl (ValueError ''admitted result must include started_attempts or appended_execute_command_refs'')
      else if refs \<noteq> n
        then Inl (ValueError ''started/appended execution refs count must equal admitted_items'')
      else if ids \<noteq> set (map ps_work_item_id (pa_projections r))
        then Inl (ValueError ''projection leases must reference the same work items as admitted_items'')
      else if pa_started r \<noteq> [] \<and> set (map sa_work_item_id (pa_started r)) \<noteq> ids
        then Inl (ValueError ''started attempts must reference admitted work items exactly'')
      else Inr ())"

definition validate_skipped :: "pass_result \<Rightarrow> py_error + unit" where
  "validate_skipped r =
     (if pa_admitted r \<noteq> [] then Inl (ValueError ''skipped result must not include admitted_items'')
      else if pa_projections r \<noteq> [] then Inl (ValueError ''skipped result must not include projection_leases'')
      else if pa_reservations r \<noteq> []
        then Inl (ValueError ''skipped result must not include capacity_reservations'')
      else if pa_started r \<noteq> [] then Inl (ValueError ''skipped result must not include started_attempts'')
      else if pa_command_refs r \<noteq> []
        then Inl (ValueError ''skipped result must not include appended_execute_command_refs'')
      else if pa_log_event r \<noteq> PASS_SKIPPED
        then Inl (ValueError ''skipped result log_event must be PASS_SKIPPED'')
      else Inr ())"

definition pass_result_post_init :: "pass_result \<Rightarrow> py_error + pass_result" where
  "pass_result_post_init r =
     bindE (need_text ''workflow_run_id'' (pa_run r)) (\<lambda>_.
     bindE (need_text ''phase'' (pa_phase r)) (\<lambda>_.
     bindE (need_text ''operation_key'' (pa_operation_key r)) (\<lambda>_.
     bindE (need_text ''work_kind'' (pa_work_kind r)) (\<lambda>_.
     bindE (require (lk_work_kind (pa_lane r) = pa_work_kind r)
       (ValueError ''lane work_kind must match result work_kind'')) (\<lambda>_.
     bindE (require (\<forall>a \<in> set (pa_admitted r). ai_lane a = pa_lane r)
       (ValueError ''admitted item lane must match result lane'')) (\<lambda>_.
     bindE (require (\<forall>p \<in> set (pa_projections r). ps_lane p = pa_lane r)
       (ValueError ''projection lease lane must match result lane'')) (\<lambda>_.
     bindE (require (\<forall>v \<in> set (pa_reservations r). reservation_lane_matches (rs_lane v) (pa_lane r))
       (ValueError ''capacity reservation lane must match result lane'')) (\<lambda>_.
     bindE (need_texts ''appended_execute_command_refs'' (pa_command_refs r)) (\<lambda>_.
     bindE (if pa_skipped_reason r = None then validate_admitted r else validate_skipped r) (\<lambda>_.
       Inr r))))))))))"

end
