(* ===== verification/BudgetWindow.thy ===== *)
theory BudgetWindow
  imports AdmissionProjection
begin

text \<open>
  The budget of a capacity window
  (\<open>postgres_capacity_window_budget_repository.py\<close>): what a provider last reported to remain, what
  is reserved of it, and until when the window is frozen. Every statement names one window. The
  invariant says that no more is reserved than remains, and every operation keeps it.
\<close>

section \<open>Rows\<close>

definition budget_check :: "window_key \<Rightarrow> budget_row \<Rightarrow> bool" where
  "budget_check k r \<longleftrightarrow>
     (case k of (provider, account, model) \<Rightarrow> sql_non_empty provider \<and> sql_non_empty model \<and>
        pred_option sql_non_empty account \<and> account \<noteq> None) \<and>
     0 \<le> bs_reserved_minute_requests r \<and> 0 \<le> bs_reserved_minute_tokens r \<and>
     0 \<le> bs_reserved_daily_requests r \<and> 0 \<le> bs_reserved_daily_tokens r \<and>
     pred_option (\<lambda>n. 0 \<le> n) (bs_minute_requests r) \<and> pred_option (\<lambda>n. 0 \<le> n) (bs_minute_tokens r) \<and>
     pred_option (\<lambda>n. 0 \<le> n) (bs_daily_requests r) \<and> pred_option (\<lambda>n. 0 \<le> n) (bs_daily_tokens r)"

definition snapshot_of :: "budget_row \<Rightarrow> budget_snapshot" where
  "snapshot_of r = budget_snapshot.truncate r"

record capacity_reservation =
  cr_window :: window_key
  cr_requests :: int
  cr_tokens :: int
  cr_reserved_at :: utc

section \<open>Operations\<close>

definition get_window :: "window_key \<Rightarrow> queue_db \<Rightarrow> py_error + budget_snapshot" where
  "get_window k db = (case q_budgets db k of
     None \<Rightarrow> Inl (RuntimeError ''capacity budget window is not initialized'')
   | Some r \<Rightarrow> Inr (snapshot_of r))"

text \<open>\<open>remaining IS NULL OR remaining - reserved >= needed\<close>.\<close>

definition leaves :: "int option \<Rightarrow> int \<Rightarrow> int \<Rightarrow> bool" where
  "leaves remaining reserved needed \<longleftrightarrow> pred_option (\<lambda>r. needed \<le> r - reserved) remaining"

definition reservable :: "int \<Rightarrow> int \<Rightarrow> utc \<Rightarrow> budget_row \<Rightarrow> bool" where
  "reservable requests tokens now r \<longleftrightarrow> pred_option (\<lambda>u. u \<le> now) (bs_frozen_until r) \<and>
     leaves (bs_minute_requests r) (bs_reserved_minute_requests r) requests \<and>
     leaves (bs_minute_tokens r) (bs_reserved_minute_tokens r) tokens \<and>
     leaves (bs_daily_requests r) (bs_reserved_daily_requests r) requests \<and>
     leaves (bs_daily_tokens r) (bs_reserved_daily_tokens r) tokens"

definition add_reserved :: "int \<Rightarrow> int \<Rightarrow> utc \<Rightarrow> budget_row \<Rightarrow> budget_row" where
  "add_reserved requests tokens now r = r\<lparr>
     bs_reserved_minute_requests := bs_reserved_minute_requests r + requests,
     bs_reserved_minute_tokens := bs_reserved_minute_tokens r + tokens,
     bs_reserved_daily_requests := bs_reserved_daily_requests r + requests,
     bs_reserved_daily_tokens := bs_reserved_daily_tokens r + tokens,
     bs_updated_at := now\<rparr>"

definition try_reserve :: "window_key \<Rightarrow> int \<Rightarrow> int \<Rightarrow> utc \<Rightarrow> queue_db \<Rightarrow>
    py_error + (capacity_reservation option \<times> queue_db)" where
  "try_reserve k requests tokens now db =
     (if requests \<le> 0 then Inl (ValueError ''request_count must be positive'')
      else if tokens \<le> 0 then Inl (ValueError ''token_count must be positive'')
      else case q_budgets db k of
        None \<Rightarrow> Inr (None, db)
      | Some r \<Rightarrow>
          if reservable requests tokens now r
          then Inr (Some \<lparr>cr_window = k, cr_requests = requests, cr_tokens = tokens, cr_reserved_at = now\<rparr>,
            db\<lparr>q_budgets := (q_budgets db)(k \<mapsto> add_reserved requests tokens now r)\<rparr>)
          else Inr (None, db))"

definition subtract_reserved :: "capacity_reservation \<Rightarrow> utc \<Rightarrow> budget_row \<Rightarrow> budget_row" where
  "subtract_reserved v now r = r\<lparr>
     bs_reserved_minute_requests := max 0 (bs_reserved_minute_requests r - cr_requests v),
     bs_reserved_minute_tokens := max 0 (bs_reserved_minute_tokens r - cr_tokens v),
     bs_reserved_daily_requests := max 0 (bs_reserved_daily_requests r - cr_requests v),
     bs_reserved_daily_tokens := max 0 (bs_reserved_daily_tokens r - cr_tokens v),
     bs_updated_at := now\<rparr>"

definition release_reservation :: "capacity_reservation \<Rightarrow> utc \<Rightarrow> queue_db \<Rightarrow> queue_db" where
  "release_reservation v now db = (case q_budgets db (cr_window v) of
     None \<Rightarrow> db
   | Some r \<Rightarrow> db\<lparr>q_budgets := (q_budgets db)(cr_window v \<mapsto> subtract_reserved v now r)\<rparr>)"

record capacity_observation =
  co_minute_requests :: "int option"
  co_minute_tokens :: "int option"
  co_daily_requests :: "int option"
  co_daily_tokens :: "int option"
  co_minute_reset_at :: "utc option"
  co_daily_reset_at :: "utc option"
  co_observed_at :: utc

text \<open>The upsert: a new observation starts the window anew, without reservations or freeze.\<close>

definition observed_row :: "capacity_observation \<Rightarrow> budget_row option \<Rightarrow> budget_row" where
  "observed_row o' old = \<lparr>
     bs_minute_requests = co_minute_requests o', bs_minute_tokens = co_minute_tokens o',
     bs_daily_requests = co_daily_requests o', bs_daily_tokens = co_daily_tokens o',
     bs_reserved_minute_requests = 0, bs_reserved_minute_tokens = 0,
     bs_reserved_daily_requests = 0, bs_reserved_daily_tokens = 0,
     bs_minute_reset_at = co_minute_reset_at o', bs_daily_reset_at = co_daily_reset_at o',
     bs_frozen_until = None,
     bs_created_at = (case old of Some r \<Rightarrow> bs_created_at r | None \<Rightarrow> co_observed_at o'),
     bs_updated_at = co_observed_at o'\<rparr>"

definition apply_capacity_observation :: "window_key \<Rightarrow> capacity_observation \<Rightarrow> queue_db \<Rightarrow>
    py_error + (budget_snapshot \<times> queue_db)" where
  "apply_capacity_observation k o' db =
     (let r = observed_row o' (q_budgets db k) in
      if budget_check k r
      then Inr (snapshot_of r, db\<lparr>q_budgets := (q_budgets db)(k \<mapsto> r)\<rparr>)
      else Inl (DatabaseError ''chk_capacity_window_budget_state''))"

definition freeze_until :: "window_key \<Rightarrow> utc \<Rightarrow> utc \<Rightarrow> queue_db \<Rightarrow> queue_db" where
  "freeze_until k until now db = (case q_budgets db k of
     None \<Rightarrow> db
   | Some r \<Rightarrow> db\<lparr>q_budgets := (q_budgets db)(k \<mapsto> r\<lparr>
       bs_frozen_until := (case bs_frozen_until r of
          None \<Rightarrow> Some until
        | Some u \<Rightarrow> if u < until then Some until else Some u),
       bs_updated_at := now\<rparr>)\<rparr>)"

section \<open>The invariant\<close>

text \<open>What is reserved fits into what remains, in each of the four quantities.\<close>

definition within_budget :: "budget_row \<Rightarrow> bool" where
  "within_budget r \<longleftrightarrow>
     leaves (bs_minute_requests r) (bs_reserved_minute_requests r) 0 \<and>
     leaves (bs_minute_tokens r) (bs_reserved_minute_tokens r) 0 \<and>
     leaves (bs_daily_requests r) (bs_reserved_daily_requests r) 0 \<and>
     leaves (bs_daily_tokens r) (bs_reserved_daily_tokens r) 0"

definition budgets_ok :: "queue_db \<Rightarrow> bool" where
  "budgets_ok db \<longleftrightarrow> (\<forall>k r. q_budgets db k = Some r \<longrightarrow> budget_check k r \<and> within_budget r)"

lemma leaves_simps [simp]:
  "leaves None reserved needed"
  "leaves (Some r) reserved needed \<longleftrightarrow> needed \<le> r - reserved"
  by (simp_all add: leaves_def)

lemma leaves_mono: "leaves remaining reserved needed \<Longrightarrow> reserved' + needed' \<le> reserved + needed \<Longrightarrow>
    leaves remaining reserved' needed'"
  by (cases remaining) auto

lemma budgets_okD:
  "budgets_ok db \<Longrightarrow> q_budgets db k = Some r \<Longrightarrow> budget_check k r"
  "budgets_ok db \<Longrightarrow> q_budgets db k = Some r \<Longrightarrow> within_budget r"
  unfolding budgets_ok_def by blast+

lemma budgets_ok_update:
  assumes "budgets_ok db" "budget_check k r" "within_budget r"
  shows "budgets_ok (db\<lparr>q_budgets := (q_budgets db)(k \<mapsto> r)\<rparr>)"
  using assms by (simp add: budgets_ok_def del: split_paired_All)

lemma within_observed:
  assumes "budget_check k (observed_row o' old)"
  shows "within_budget (observed_row o' old)"
  using assms
  by (auto simp: budget_check_def within_budget_def observed_row_def leaves_def option.pred_set)

lemma apply_observation_ok:
  assumes "budgets_ok db" "apply_capacity_observation k o' db = Inr (s, db')"
  shows "budgets_ok db'"
  using assms
  by (auto simp: apply_capacity_observation_def Let_def intro!: budgets_ok_update
    intro: within_observed split: if_splits)

lemma try_reserve_ok:
  assumes "budgets_ok db" "try_reserve k n t now db = Inr (v, db')"
  shows "budgets_ok db'"
proof -
  have "budget_check k (add_reserved n t now r) \<and> within_budget (add_reserved n t now r)"
    if r: "q_budgets db k = Some r" "reservable n t now r" "0 < n" "0 < t" for r
  proof
    from assms(1) r(1) have "budget_check k r" by (rule budgets_okD)
    with r(3,4) show "budget_check k (add_reserved n t now r)"
      by (simp add: budget_check_def add_reserved_def)
    show "within_budget (add_reserved n t now r)"
      using r(2) by (auto simp: within_budget_def add_reserved_def reservable_def elim!: leaves_mono)
  qed
  with assms show ?thesis
    by (auto simp: try_reserve_def split: if_splits option.splits intro!: budgets_ok_update)
qed

lemma release_ok:
  assumes "budgets_ok db" "0 \<le> cr_requests v" "0 \<le> cr_tokens v"
  shows "budgets_ok (release_reservation v now db)"
proof (cases "q_budgets db (cr_window v)")
  case None
  with assms(1) show ?thesis by (simp add: release_reservation_def)
next
  case (Some r)
  with assms(1) have r: "budget_check (cr_window v) r" "within_budget r" by (auto dest: budgets_okD)
  have "budget_check (cr_window v) (subtract_reserved v now r)"
    using r(1) by (simp add: budget_check_def subtract_reserved_def)
  moreover have "within_budget (subtract_reserved v now r)"
    using r assms(2,3)
    by (auto simp: within_budget_def subtract_reserved_def budget_check_def elim!: leaves_mono)
  ultimately show ?thesis
    using assms(1) Some by (simp add: release_reservation_def budgets_ok_update)
qed

lemma freeze_ok:
  assumes "budgets_ok db"
  shows "budgets_ok (freeze_until k u now db)"
proof (cases "q_budgets db k")
  case None
  with assms show ?thesis by (simp add: freeze_until_def)
next
  case (Some r)
  with assms have "budget_check k r" "within_budget r" by (auto dest: budgets_okD)
  then have "budget_check k (r\<lparr>bs_frozen_until := f, bs_updated_at := now\<rparr>)"
    "within_budget (r\<lparr>bs_frozen_until := f, bs_updated_at := now\<rparr>)" for f
    by (simp_all add: budget_check_def within_budget_def)
  with assms Some show ?thesis by (simp add: freeze_until_def budgets_ok_update)
qed

section \<open>Runs of window operations\<close>

inductive budget_step :: "queue_db \<Rightarrow> queue_db \<Rightarrow> bool" where
  observe: "apply_capacity_observation k o' db = Inr (s, db') \<Longrightarrow> budget_step db db'"
| reserve: "try_reserve k n t now db = Inr (v, db') \<Longrightarrow> budget_step db db'"
| release: "0 < cr_requests v \<Longrightarrow> 0 < cr_tokens v \<Longrightarrow> budget_step db (release_reservation v now db)"
| freeze: "budget_step db (freeze_until k u now db)"

lemma budget_step_ok: "budget_step db db' \<Longrightarrow> budgets_ok db \<Longrightarrow> budgets_ok db'"
proof (induction rule: budget_step.induct)
  case (release v db now)
  then show ?case by (simp add: release_ok)
qed (auto intro: apply_observation_ok try_reserve_ok freeze_ok)

lemma budget_run_ok: "budget_step\<^sup>*\<^sup>* db db' \<Longrightarrow> budgets_ok db \<Longrightarrow> budgets_ok db'"
  by (induction rule: rtranclp_induct) (auto intro: budget_step_ok)

text \<open>
  A successful reservation adds exactly what was asked for, which was free, and the window was not
  frozen; a refused one changes nothing and means that the window is unknown, frozen or too full.
\<close>

lemma try_reserve_cases:
  assumes "0 < n" "0 < t"
  shows "(case q_budgets db k of
     Some r \<Rightarrow> if reservable n t now r
       then try_reserve k n t now db = Inr (Some \<lparr>cr_window = k, cr_requests = n, cr_tokens = t,
         cr_reserved_at = now\<rparr>, db\<lparr>q_budgets := (q_budgets db)(k \<mapsto> add_reserved n t now r)\<rparr>)
       else try_reserve k n t now db = Inr (None, db)
   | None \<Rightarrow> try_reserve k n t now db = Inr (None, db))"
  using assms by (auto simp: try_reserve_def split: option.splits)

lemma try_reserve_Some:
  assumes "try_reserve k n t now db = Inr (Some v, db')"
  shows "\<exists>r. q_budgets db k = Some r \<and> reservable n t now r \<and>
    q_budgets db' = (q_budgets db)(k \<mapsto> add_reserved n t now r)"
  using assms by (auto simp: try_reserve_def split: if_splits option.splits)

end
