(* ===== verification/RouteCatalog.thy ===== *)
theory RouteCatalog
  imports CrmPrelude
begin

text \<open>
  The catalogue of model routes
  (\<open>src/src/contexts/llm_runtime/domain/capacity/llm_model_route_catalog.py\<close>): one primary route,
  automatic fallbacks in rank order and one degraded route the user must choose, each with its
  execution settings and token limits.
\<close>

section \<open>Routes\<close>

datatype route_role = ROLE_PRIMARY | ROLE_AUTOMATIC_FALLBACK | ROLE_DEGRADED_USER_CHOICE

record execution_settings =
  es_reasoning_enabled :: bool
  es_reasoning_effort :: "string option"

definition execution_settings_post_init :: "execution_settings \<Rightarrow> py_error + execution_settings" where
  "execution_settings_post_init s =
     (if (case es_reasoning_effort s of Some v \<Rightarrow> blank v | None \<Rightarrow> False)
        then Inl (ValueError ''reasoning_effort must be non-empty'')
      else if \<not> es_reasoning_enabled s \<and> es_reasoning_effort s \<noteq> None
        then Inl (ValueError ''reasoning_effort must be None when reasoning_enabled is False'')
      else Inr s)"

definition to_provider_options :: "execution_settings \<Rightarrow> payload" where
  "to_provider_options s =
     (if \<not> es_reasoning_enabled s then [(''reasoning_enabled'', JBool False)]
      else (''reasoning_enabled'', JBool True) #
        (case es_reasoning_effort s of Some v \<Rightarrow> [(''reasoning_effort'', JStr v)] | None \<Rightarrow> []))"

record capacity_limits =
  cl_input_limit :: int
  cl_output_limit :: int

definition capacity_limits_post_init :: "capacity_limits \<Rightarrow> py_error + capacity_limits" where
  "capacity_limits_post_init l =
     (if cl_input_limit l \<le> 0 then Inl (ValueError ''input_token_limit must be positive'')
      else if cl_output_limit l \<le> 0 then Inl (ValueError ''output_token_limit must be positive'')
      else Inr l)"

record model_route =
  mr_model_ref :: string
  mr_role :: route_role
  mr_order :: int
  mr_settings :: execution_settings
  mr_limits :: capacity_limits

definition model_route_post_init :: "model_route \<Rightarrow> py_error + model_route" where
  "model_route_post_init r =
     (if blank (mr_model_ref r) then Inl (ValueError ''model_ref must be non-empty'')
      else if mr_order r < 0 then Inl (ValueError ''order must be >= 0'')
      else Inr r)"

section \<open>The catalogue\<close>

type_synonym route_catalog = "model_route list"

definition routes_with_role :: "route_role \<Rightarrow> route_catalog \<Rightarrow> model_route list" where
  "routes_with_role role rs = filter (\<lambda>r. mr_role r = role) rs"

definition ordered_routes_with_role :: "route_role \<Rightarrow> route_catalog \<Rightarrow> model_route list" where
  "ordered_routes_with_role role rs = sort_key mr_order (routes_with_role role rs)"

definition route_catalog_post_init :: "route_catalog \<Rightarrow> py_error + route_catalog" where
  "route_catalog_post_init rs =
     (if rs = [] then Inl (ValueError ''routes must be non-empty'')
      else if \<not> distinct (map mr_model_ref rs) then Inl (ValueError ''routes must have unique model_ref'')
      else if \<not> distinct (map mr_order rs) then Inl (ValueError ''routes must have unique order'')
      else if length (routes_with_role ROLE_PRIMARY rs) \<noteq> 1
        then Inl (ValueError ''routes must contain exactly one PRIMARY'')
      else if length (routes_with_role ROLE_DEGRADED_USER_CHOICE rs) \<noteq> 1
        then Inl (ValueError ''routes must contain exactly one DEGRADED_USER_CHOICE'')
      else Inr rs)"

text \<open>\<open>[0]\<close> of an empty tuple raises; a checked catalogue has the route.\<close>

definition head_model_ref :: "model_route list \<Rightarrow> py_error + string" where
  "head_model_ref rs = (case rs of [] \<Rightarrow> Inl (KeyError ''tuple index out of range'') | r # _ \<Rightarrow> Inr (mr_model_ref r))"

definition primary_model_ref :: "route_catalog \<Rightarrow> py_error + string" where
  "primary_model_ref rs = head_model_ref (ordered_routes_with_role ROLE_PRIMARY rs)"

definition degraded_user_choice_model_ref :: "route_catalog \<Rightarrow> py_error + string" where
  "degraded_user_choice_model_ref rs = head_model_ref (ordered_routes_with_role ROLE_DEGRADED_USER_CHOICE rs)"

definition automatic_fallback_model_refs :: "route_catalog \<Rightarrow> string list" where
  "automatic_fallback_model_refs rs = map mr_model_ref (ordered_routes_with_role ROLE_AUTOMATIC_FALLBACK rs)"

definition daily_limit_excluded :: "string list" where
  "daily_limit_excluded = [''openai/gpt-oss-120b'']"

definition daily_limit_fallback_model_refs :: "route_catalog \<Rightarrow> string list" where
  "daily_limit_fallback_model_refs rs =
     filter (\<lambda>v. v \<notin> set daily_limit_excluded) (automatic_fallback_model_refs rs)"

definition route_for_model_ref :: "string \<Rightarrow> route_catalog \<Rightarrow> py_error + model_route option" where
  "route_for_model_ref v rs =
     (if blank v then Inl (ValueError ''model_ref must be non-empty'')
      else Inr (List.find (\<lambda>r. mr_model_ref r = v) rs))"

definition execution_settings_for_model_ref :: "string \<Rightarrow> route_catalog \<Rightarrow> py_error + execution_settings" where
  "execution_settings_for_model_ref v rs = bindE (route_for_model_ref v rs) (\<lambda>found.
     case found of None \<Rightarrow> Inl (ValueError ''model_ref is not in route catalog'')
     | Some r \<Rightarrow> Inr (mr_settings r))"

definition capacity_limits_for_model_ref :: "string \<Rightarrow> route_catalog \<Rightarrow> py_error + capacity_limits" where
  "capacity_limits_for_model_ref v rs = bindE (route_for_model_ref v rs) (\<lambda>found.
     case found of None \<Rightarrow> Inl (ValueError ''model_ref is not in route catalog'')
     | Some r \<Rightarrow> Inr (mr_limits r))"

definition larger_output_fallback_model_refs :: "string \<Rightarrow> route_catalog \<Rightarrow> py_error + string list" where
  "larger_output_fallback_model_refs v rs = bindE (capacity_limits_for_model_ref v rs) (\<lambda>current.
     Inr (map mr_model_ref (filter (\<lambda>r. cl_output_limit current < cl_output_limit (mr_limits r))
       (ordered_routes_with_role ROLE_AUTOMATIC_FALLBACK rs))))"

definition larger_input_fallback_model_refs :: "string \<Rightarrow> route_catalog \<Rightarrow> py_error + string list" where
  "larger_input_fallback_model_refs v rs = bindE (capacity_limits_for_model_ref v rs) (\<lambda>current.
     Inr (map mr_model_ref (filter (\<lambda>r. cl_input_limit current < cl_input_limit (mr_limits r))
       (ordered_routes_with_role ROLE_AUTOMATIC_FALLBACK rs))))"

text \<open>Python's \<open>max\<close> keeps the first of the largest: the first least of the negated limit.\<close>

definition highest_input_limit_model_ref :: "route_catalog \<Rightarrow> py_error + string" where
  "highest_input_limit_model_ref rs =
     (case min_by (\<lambda>r. - cl_input_limit (mr_limits r)) (ordered_routes_with_role ROLE_AUTOMATIC_FALLBACK rs) of
        None \<Rightarrow> primary_model_ref rs
      | Some r \<Rightarrow> Inr (mr_model_ref r))"

definition groq_route :: "string \<Rightarrow> route_role \<Rightarrow> int \<Rightarrow> int \<Rightarrow> int \<Rightarrow> model_route" where
  "groq_route v role order input output = \<lparr>mr_model_ref = v, mr_role = role, mr_order = order,
     mr_settings = \<lparr>es_reasoning_enabled = False, es_reasoning_effort = None\<rparr>,
     mr_limits = \<lparr>cl_input_limit = input, cl_output_limit = output\<rparr>\<rparr>"

definition default_groq_catalog :: route_catalog where
  "default_groq_catalog =
     [groq_route ''qwen/qwen3-32b'' ROLE_PRIMARY 0 6000 8192,
      groq_route ''llama-3.3-70b-versatile'' ROLE_AUTOMATIC_FALLBACK 1 12000 32768,
      groq_route ''meta-llama/llama-4-scout-17b-16e-instruct'' ROLE_AUTOMATIC_FALLBACK 2 30000 32768,
      groq_route ''openai/gpt-oss-120b'' ROLE_AUTOMATIC_FALLBACK 3 131072 65536,
      groq_route ''llama-3.1-8b-instant'' ROLE_DEGRADED_USER_CHOICE 4 6000 4096]"

section \<open>What a checked catalogue offers\<close>

lemma default_groq_catalog_ok: "route_catalog_post_init default_groq_catalog = Inr default_groq_catalog"
  by (simp add: route_catalog_post_init_def default_groq_catalog_def groq_route_def routes_with_role_def)

lemma ordered_routes_set: "set (ordered_routes_with_role role rs) = {r \<in> set rs. mr_role r = role}"
  by (auto simp: ordered_routes_with_role_def routes_with_role_def)

lemma ordered_routes_sorted: "sorted (map mr_order (ordered_routes_with_role role rs))"
  by (simp add: ordered_routes_with_role_def)

lemma route_found:
  assumes "route_catalog_post_init rs = Inr rs" "r \<in> set rs" "\<not> blank (mr_model_ref r)"
  shows "route_for_model_ref (mr_model_ref r) rs = Inr (Some r)"
  using assms find_distinct_key [of mr_model_ref rs r]
  by (auto simp: route_for_model_ref_def route_catalog_post_init_def split: if_splits)

end
