(* ===== verification/RouteReservation.thy ===== *)
theory RouteReservation
  imports AdmissionResult BudgetWindow RouteCatalog
begin

text \<open>
  Reservations of route capacity: the reservation table
  (\<open>postgres_llm_route_capacity_reservation_repository.py\<close>), the observations of what attempts
  left of a provider window (\<open>postgres_llm_attempt_capacity_observation_repository.py\<close>), and the
  use case that previews and reserves capacity for a selected item
  (\<open>src/src/interfaces/composition/capacity_window_admission_reservation.py\<close>).
\<close>

section \<open>Capacity observations\<close>

record attempt_observation =
  ao_provider :: string
  ao_account_ref :: string
  ao_model_ref :: string
  ao_minute_requests :: "int option"
  ao_minute_tokens :: "int option"
  ao_daily_requests :: "int option"
  ao_daily_tokens :: "int option"
  ao_minute_reset_at :: "utc option"
  ao_daily_reset_at :: "utc option"
  ao_prompt_tokens :: "int option"
  ao_completion_tokens :: "int option"
  ao_total_tokens :: "int option"
  ao_outcome_class :: string
  ao_observed_at :: utc

definition observation_numbers :: "attempt_observation \<Rightarrow> int option list" where
  "observation_numbers o' = [ao_minute_requests o', ao_minute_tokens o', ao_daily_requests o',
     ao_daily_tokens o', ao_prompt_tokens o', ao_completion_tokens o', ao_total_tokens o']"

definition attempt_observation_post_init :: "attempt_observation \<Rightarrow> py_error + attempt_observation" where
  "attempt_observation_post_init o' =
     bindE (need_text ''provider'' (ao_provider o')) (\<lambda>_.
     bindE (need_text ''account_ref'' (ao_account_ref o')) (\<lambda>_.
     bindE (need_text ''model_ref'' (ao_model_ref o')) (\<lambda>_.
     bindE (need_text ''outcome_class'' (ao_outcome_class o')) (\<lambda>_.
     bindE (require (\<forall>v \<in> set (observation_numbers o'). pred_option (\<lambda>n. 0 \<le> n) v)
       (ValueError ''remaining and actual numbers must be >= 0'')) (\<lambda>_. Inr o')))))"

text \<open>
  The latest observation of a window. Of several with the same timestamp the database may return
  any; the model returns the first.
\<close>

definition latest_observation :: "string \<Rightarrow> string \<Rightarrow> string \<Rightarrow> attempt_observation list \<Rightarrow>
    py_error + attempt_observation option" where
  "latest_observation provider account model obs =
     bindE (need_text ''provider'' provider) (\<lambda>_.
     bindE (need_text ''model_ref'' model) (\<lambda>_.
     bindE (need_text ''account_refs'' account) (\<lambda>_.
       optE attempt_observation_post_init
         (min_by (\<lambda>o'. - utc_micros (ao_observed_at o'))
           (filter (\<lambda>o'. ao_provider o' = provider \<and> ao_account_ref o' = account \<and>
             ao_model_ref o' = model) obs)))))"

text \<open>\<open>observation_id\<close>, the digest of the identity of an observation, is \<open>identity\<close>.\<close>

definition record_observation :: "(attempt_observation \<Rightarrow> string) \<Rightarrow> attempt_observation \<Rightarrow>
    attempt_observation list \<Rightarrow> attempt_observation list" where
  "record_observation identity o' obs =
     (if \<exists>x \<in> set obs. identity x = identity o'
      then map (\<lambda>x. if identity x = identity o' then o' else x) obs
      else obs @ [o'])"

section \<open>The reservation table\<close>

record route_reservation =
  rv_attempt_id :: string
  rv_provider :: string
  rv_account_ref :: string
  rv_model_ref :: string
  rv_requests :: int
  rv_tokens :: int
  rv_expires_at :: datetime
  rv_created_at :: datetime

definition route_reservation_post_init :: "route_reservation \<Rightarrow> py_error + route_reservation" where
  "route_reservation_post_init v =
     bindE (need_text ''attempt_id'' (rv_attempt_id v)) (\<lambda>_.
     bindE (need_text ''provider'' (rv_provider v)) (\<lambda>_.
     bindE (need_text ''account_ref'' (rv_account_ref v)) (\<lambda>_.
     bindE (need_text ''model_ref'' (rv_model_ref v)) (\<lambda>_.
     bindE (require (0 < rv_requests v) (ValueError ''reserved_requests must be > 0'')) (\<lambda>_.
     bindE (require (0 < rv_tokens v) (ValueError ''reserved_tokens must be > 0'')) (\<lambda>_.
     bindE (require (tz_aware (rv_expires_at v)) (ValueError ''expires_at must be timezone-aware'')) (\<lambda>_.
     bindE (require (tz_aware (rv_created_at v)) (ValueError ''created_at must be timezone-aware'')) (\<lambda>_.
     bindE (dt_le (rv_expires_at v) (rv_created_at v)) (\<lambda>past.
     if past then Inl (ValueError ''expires_at must be after created_at'') else Inr v)))))))))"

definition active_on :: "string \<Rightarrow> string \<Rightarrow> string \<Rightarrow> utc \<Rightarrow> route_reservation_row \<Rightarrow> bool" where
  "active_on provider account model now r \<longleftrightarrow> rr_provider r = provider \<and> rr_account_ref r = account \<and>
     rr_model_ref r = model \<and> rr_status r = ''active'' \<and> now < rr_expires_at r"

text \<open>
  \<open>active_totals\<close> for one account, summed as the caller sums it: the number of active rows and the
  tokens they hold.
\<close>

definition active_totals :: "string \<Rightarrow> string \<Rightarrow> string \<Rightarrow> utc \<Rightarrow> queue_db \<Rightarrow> int \<times> int" where
  "active_totals provider account model now db =
     (let rows = filter (active_on provider account model now) (q_reservations db)
      in (int (length rows), sum_list (map rr_tokens rows)))"

text \<open>\<open>attempts\<close>: the started attempts, which the foreign key refers to.\<close>

definition insert_reservation :: "(string \<Rightarrow> bool) \<Rightarrow> route_reservation \<Rightarrow> queue_db \<Rightarrow> py_error + queue_db" where
  "insert_reservation attempts v db =
     (case (rv_expires_at v, rv_created_at v) of
        (Aware ea, Aware ca) \<Rightarrow>
          if \<exists>r \<in> set (q_reservations db). rr_attempt_id r = rv_attempt_id v then Inr db
          else if \<not> attempts (rv_attempt_id v)
            then Inl (DatabaseError ''llm_route_capacity_reservations_attempt_id_fkey'')
          else Inr (db\<lparr>q_reservations := q_reservations db @
            [\<lparr>rr_attempt_id = rv_attempt_id v, rr_provider = rv_provider v,
              rr_account_ref = rv_account_ref v, rr_model_ref = rv_model_ref v,
              rr_requests = rv_requests v, rr_tokens = rv_tokens v, rr_actual_tokens = None,
              rr_status = ''active'', rr_expires_at = ea, rr_created_at = ca, rr_finalized_at = None\<rparr>]\<rparr>)
      | _ \<Rightarrow> Inl (DatabaseError ''naive timestamp''))"

definition finalize_reservation :: "string \<Rightarrow> string \<Rightarrow> int option \<Rightarrow> datetime \<Rightarrow> queue_db \<Rightarrow>
    py_error + queue_db" where
  "finalize_reservation attempt final_status actual t db =
     (if blank attempt then Inl (ValueError ''attempt_id must be non-empty'')
      else if final_status \<notin> {''committed'', ''released''}
        then Inl (ValueError ''final_status must be committed or released'')
      else if (case actual of Some n \<Rightarrow> n < 0 | None \<Rightarrow> False)
        then Inl (ValueError ''actual_tokens must be >= 0 when provided'')
      else case t of
        Naive _ \<Rightarrow> Inl (ValueError ''finalized_at must be timezone-aware'')
      | Aware ft \<Rightarrow> Inr (db\<lparr>q_reservations := map (\<lambda>r.
          if rr_attempt_id r = attempt \<and> rr_status r = ''active''
          then r\<lparr>rr_status := final_status, rr_actual_tokens := actual, rr_finalized_at := Some ft\<rparr>
          else r) (q_reservations db)\<rparr>))"

section \<open>Budgets\<close>

definition restored_minute_token_limit :: "string \<Rightarrow> int \<Rightarrow> int" where
  "restored_minute_token_limit model fallback = (if model = ''qwen/qwen3-32b'' then 6000 else fallback)"

definition min_if_observed :: "int \<Rightarrow> int option \<Rightarrow> int" where
  "min_if_observed n v = (case v of None \<Rightarrow> n | Some k \<Rightarrow> min n k)"

definition has_reset :: "utc option \<Rightarrow> utc \<Rightarrow> bool" where
  "has_reset at now \<longleftrightarrow> (case at of None \<Rightarrow> False | Some t \<Rightarrow> t \<le> now)"

definition budget_clamped :: "window_budget \<Rightarrow> attempt_observation \<Rightarrow> utc \<Rightarrow> window_budget" where
  "budget_clamped b o' now =
     (let minute_reset = has_reset (ao_minute_reset_at o') now;
          requests = (if minute_reset then max (wb_requests b) 1
            else min_if_observed (wb_requests b) (ao_minute_requests o'));
          tokens = (if minute_reset
            then max (wb_tokens b) (restored_minute_token_limit (ao_model_ref o') (wb_tokens b))
            else min_if_observed (wb_tokens b) (ao_minute_tokens o'));
          daily_open = has_reset (ao_daily_reset_at o') now \<or>
            (ao_daily_requests o' = None \<and> ao_daily_tokens o' = None \<and> ao_daily_reset_at o' = None)
      in \<lparr>wb_requests = requests, wb_tokens = tokens,
          wb_daily_requests = (if daily_open then max (wb_daily_requests b) requests
            else min_if_observed (wb_daily_requests b) (ao_daily_requests o')),
          wb_daily_tokens = (if daily_open then max (wb_daily_tokens b) tokens
            else min_if_observed (wb_daily_tokens b) (ao_daily_tokens o'))\<rparr>)"

text \<open>\<open>obs\<close> is \<open>None\<close> when the use case was built without an observation repository.\<close>

definition budget_after_observation :: "attempt_observation list option \<Rightarrow> string \<Rightarrow> string \<Rightarrow> string \<Rightarrow>
    utc \<Rightarrow> window_budget \<Rightarrow> py_error + window_budget" where
  "budget_after_observation obs provider account model now b =
     (case obs of
        None \<Rightarrow> Inr b
      | Some os \<Rightarrow> bindE (latest_observation provider account model os) (\<lambda>found.
          case found of
            None \<Rightarrow> Inr b
          | Some o' \<Rightarrow> window_budget_post_init (budget_clamped b o' now)))"

definition available_budget :: "window_budget \<Rightarrow> int \<times> int \<Rightarrow> window_budget" where
  "available_budget b used =
     \<lparr>wb_requests = max 0 (wb_requests b - fst used), wb_tokens = max 0 (wb_tokens b - snd used),
      wb_daily_requests = max 0 (wb_daily_requests b - fst used),
      wb_daily_tokens = max 0 (wb_daily_tokens b - snd used)\<rparr>"

definition budget_after_reservation :: "window_budget \<Rightarrow> int \<Rightarrow> window_budget" where
  "budget_after_reservation b tokens =
     \<lparr>wb_requests = max 0 (wb_requests b - 1), wb_tokens = max 0 (wb_tokens b - tokens),
      wb_daily_requests = max 0 (wb_daily_requests b - 1),
      wb_daily_tokens = max 0 (wb_daily_tokens b - tokens)\<rparr>"

section \<open>Preview and reservation\<close>

record preview_result =
  pv_available :: bool
  pv_budget :: window_budget
  pv_skipped_reason :: "skipped_reason option"

record reservation_result =
  rx_reserved :: bool
  rx_budget_after :: window_budget
  rx_summary :: "reservation_summary option"
  rx_skipped_reason :: "skipped_reason option"

definition preview_post_init :: "preview_result \<Rightarrow> py_error + preview_result" where
  "preview_post_init p =
     (if pv_available p \<and> pv_skipped_reason p \<noteq> None
        then Inl (ValueError ''available preview must not include skipped_reason'')
      else if \<not> pv_available p \<and> pv_skipped_reason p = None
        then Inl (ValueError ''unavailable preview must include skipped_reason'')
      else Inr p)"

definition reservation_result_post_init :: "reservation_result \<Rightarrow> py_error + reservation_result" where
  "reservation_result_post_init r =
     (if rx_reserved r \<and> rx_summary r = None
        then Inl (ValueError ''reserved result must include reservation_summary'')
      else if rx_reserved r \<and> rx_skipped_reason r \<noteq> None
        then Inl (ValueError ''reserved result must not include skipped_reason'')
      else if \<not> rx_reserved r \<and> rx_skipped_reason r = None
        then Inl (ValueError ''not reserved result must include skipped_reason'')
      else if \<not> rx_reserved r \<and> rx_summary r \<noteq> None
        then Inl (ValueError ''not reserved result must not include reservation_summary'')
      else Inr r)"

definition check_execution_lane :: "string \<Rightarrow> selectable_item \<Rightarrow> lane_key \<Rightarrow> py_error + string" where
  "check_execution_lane needs_account item lane =
     (case lk_account_ref lane of
        None \<Rightarrow> Inl (ValueError needs_account)
      | Some account \<Rightarrow>
          if lk_work_kind (si_lane item) \<noteq> lk_work_kind lane
            then Inl (ValueError ''execution lane work_kind must match selected work item'')
          else if lk_provider (si_lane item) \<noteq> lk_provider lane
            then Inl (ValueError ''execution lane provider must match selected work item'')
          else if lk_model_ref (si_lane item) \<noteq> lk_model_ref lane
            then Inl (ValueError ''execution lane model_ref must match selected work item'')
          else Inr account)"

text \<open>
  What both calls compute under the route's advisory lock: the budget after the latest observation,
  less the active reservations. \<open>_route_key\<close> checks the texts of the route first.
\<close>

definition live_available_budget :: "attempt_observation list option \<Rightarrow> lane_key \<Rightarrow> string \<Rightarrow> utc \<Rightarrow>
    window_budget \<Rightarrow> queue_db \<Rightarrow> py_error + window_budget" where
  "live_available_budget obs lane account now b db =
     bindE (need_text ''provider'' (lk_provider lane)) (\<lambda>_.
     bindE (need_text ''account_ref'' account) (\<lambda>_.
     bindE (need_text ''model_ref'' (lk_model_ref lane)) (\<lambda>_.
     bindE (budget_after_observation obs (lk_provider lane) account (lk_model_ref lane) now b) (\<lambda>live.
       let used = active_totals (lk_provider lane) account (lk_model_ref lane) now db in
       bindE (require (0 \<le> snd used) (ValueError ''active_reserved_tokens must be non-negative'')) (\<lambda>_.
       window_budget_post_init (available_budget live used))))))"

definition fits_available :: "selectable_item \<Rightarrow> window_budget \<Rightarrow> bool" where
  "fits_available item b \<longleftrightarrow> admits_any_work b \<and> si_required item \<le> max_required_window_tokens b"

definition aware_now :: "string \<Rightarrow> datetime \<Rightarrow> py_error + utc" where
  "aware_now field t = (case t of Aware u \<Rightarrow> Inr u
     | Naive _ \<Rightarrow> Inl (ValueError (field @ '' must be timezone-aware'')))"

definition preview_capacity :: "attempt_observation list option \<Rightarrow> selectable_item \<Rightarrow> lane_key \<Rightarrow>
    window_budget \<Rightarrow> datetime \<Rightarrow> queue_db \<Rightarrow> py_error + preview_result" where
  "preview_capacity obs item lane b now db =
     bindE (aware_now ''now'' now) (\<lambda>t.
     bindE (check_execution_lane ''capacity admission preview requires account_ref'' item lane) (\<lambda>account.
     bindE (live_available_budget obs lane account t b db) (\<lambda>available.
     preview_post_init
       (if fits_available item available
        then \<lparr>pv_available = True, pv_budget = available, pv_skipped_reason = None\<rparr>
        else \<lparr>pv_available = False, pv_budget = available, pv_skipped_reason = Some CAPACITY_EXHAUSTED\<rparr>))))"

definition reserve_capacity :: "attempt_observation list option \<Rightarrow> (string \<Rightarrow> bool) \<Rightarrow> string \<Rightarrow> string \<Rightarrow>
    selectable_item \<Rightarrow> lane_key \<Rightarrow> window_budget \<Rightarrow> datetime \<Rightarrow> datetime \<Rightarrow> queue_db \<Rightarrow>
    py_error + (reservation_result \<times> queue_db)" where
  "reserve_capacity obs attempts attempt_id ref item lane b now expires db =
     bindE (need_text ''attempt_id'' attempt_id) (\<lambda>_.
     bindE (need_text ''reservation_ref'' ref) (\<lambda>_.
     bindE (aware_now ''now'' now) (\<lambda>t.
     bindE (aware_now ''expires_at'' expires) (\<lambda>_.
     bindE (check_execution_lane ''capacity admission reservation requires account_ref'' item lane) (\<lambda>account.
     bindE (live_available_budget obs lane account t b db) (\<lambda>available.
     if \<not> fits_available item available
     then bindE (reservation_result_post_init \<lparr>rx_reserved = False, rx_budget_after = available,
         rx_summary = None, rx_skipped_reason = Some CAPACITY_EXHAUSTED\<rparr>) (\<lambda>r. Inr (r, db))
     else
       bindE (route_reservation_post_init \<lparr>rv_attempt_id = attempt_id, rv_provider = lk_provider lane,
         rv_account_ref = account, rv_model_ref = lk_model_ref lane, rv_requests = 1,
         rv_tokens = si_required item, rv_expires_at = expires, rv_created_at = now\<rparr>) (\<lambda>v.
       bindE (insert_reservation attempts v db) (\<lambda>db'.
       bindE (window_budget_post_init (budget_after_reservation available (si_required item))) (\<lambda>after.
       bindE (lane_summary_post_init lane) (\<lambda>l.
       bindE (reservation_summary_post_init \<lparr>rs_reservation_ref = ref,
         rs_work_item_id = si_work_item_id item, rs_lane = l, rs_requests = 1,
         rs_tokens = si_required item, rs_expires_at = expires\<rparr>) (\<lambda>summary.
       bindE (reservation_result_post_init \<lparr>rx_reserved = True, rx_budget_after = after,
         rx_summary = Some summary, rx_skipped_reason = None\<rparr>) (\<lambda>r. Inr (r, db'))))))))))))) "

end
