(* ===== verification/AdmissionPass.thy ===== *)
theory AdmissionPass
  imports RouteReservation
begin

text \<open>
  One admission pass over a lane
  (\<open>application/capacity_window_admission_pass.py\<close>): up to a given number of times, select the
  first fitting row, preview its capacity, lease it in the execution runtime and in the projection,
  start its attempt and reserve its capacity. The pass is written over its ports; each port works
  on the state \<open>'s\<close> of the transaction.
\<close>

section \<open>References to an execution\<close>

record execution_reference =
  er_work_item_id :: string
  er_attempt_id :: "string option"
  er_attempt_number :: "int option"
  er_command_ref :: "string option"

definition execution_reference_post_init :: "execution_reference \<Rightarrow> py_error + execution_reference" where
  "execution_reference_post_init r =
     bindE (need_text ''work_item_id'' (er_work_item_id r)) (\<lambda>_.
     bindE (need_opt_text ''attempt_id'' (er_attempt_id r)) (\<lambda>_.
     bindE (require (pred_option (\<lambda>n. 0 < n) (er_attempt_number r))
       (ValueError ''attempt_number must be positive'')) (\<lambda>_.
     bindE (need_opt_text ''execute_command_ref'' (er_command_ref r)) (\<lambda>_.
       let has_attempt = er_attempt_id r \<noteq> None \<or> er_attempt_number r \<noteq> None;
           has_command = er_command_ref r \<noteq> None in
       if has_attempt \<and> has_command
         then Inl (ValueError ''execution reference must contain either attempt or command ref'')
       else if \<not> has_attempt \<and> \<not> has_command
         then Inl (ValueError ''execution reference must contain attempt or command ref'')
       else if has_attempt \<and> (er_attempt_id r = None \<or> er_attempt_number r = None)
         then Inl (ValueError ''attempt execution reference requires id and number'')
       else Inr r))))"

definition started_summary_of :: "execution_reference \<Rightarrow> py_error + started_summary option" where
  "started_summary_of r = (case (er_attempt_id r, er_attempt_number r) of
     (Some i, Some n) \<Rightarrow> bindE (started_summary_post_init
       \<lparr>sa_attempt_id = i, sa_work_item_id = er_work_item_id r, sa_attempt_number = n\<rparr>) (\<lambda>s. Inr (Some s))
   | _ \<Rightarrow> Inr None)"

section \<open>The command\<close>

record pass_command =
  pc_run :: string
  pc_phase :: string
  pc_operation_key :: string
  pc_lane :: lane_key
  pc_execution_lane :: lane_key
  pc_budget :: window_budget
  pc_worker :: worker_ref
  pc_token_prefix :: string
  pc_expires_at :: datetime
  pc_now :: datetime
  pc_max_items :: int

definition pass_command_post_init :: "pass_command \<Rightarrow> py_error + pass_command" where
  "pass_command_post_init c =
     bindE (need_text ''workflow_run_id'' (pc_run c)) (\<lambda>_.
     bindE (need_text ''phase'' (pc_phase c)) (\<lambda>_.
     bindE (need_text ''operation_key'' (pc_operation_key c)) (\<lambda>_.
     bindE (require (lk_account_ref (pc_execution_lane c) \<noteq> None)
       (ValueError ''execution_lane_key account_ref is required'')) (\<lambda>_.
     bindE (require (lk_work_kind (pc_execution_lane c) = lk_work_kind (pc_lane c))
       (ValueError ''execution_lane_key work_kind must match lane_key'')) (\<lambda>_.
     bindE (require (lk_provider (pc_execution_lane c) = lk_provider (pc_lane c))
       (ValueError ''execution_lane_key provider must match lane_key'')) (\<lambda>_.
     bindE (require (lk_model_ref (pc_execution_lane c) = lk_model_ref (pc_lane c))
       (ValueError ''execution_lane_key model_ref must match lane_key'')) (\<lambda>_.
     bindE (need_text ''lease_token_prefix'' (pc_token_prefix c)) (\<lambda>_.
     bindE (require (tz_aware (pc_expires_at c)) (ValueError ''lease_expires_at must be timezone-aware'')) (\<lambda>_.
     bindE (require (tz_aware (pc_now c)) (ValueError ''now must be timezone-aware'')) (\<lambda>_.
     bindE (dt_le (pc_expires_at c) (pc_now c)) (\<lambda>past.
     if past then Inl (ValueError ''lease_expires_at must be after now'')
     else if pc_max_items c \<le> 0 then Inl (ValueError ''max_admitted_items must be positive'')
     else Inr c)))))))))))"

section \<open>Ports\<close>

record 's pass_ports =
  po_select :: "lane_key \<Rightarrow> window_budget \<Rightarrow> 's \<Rightarrow> py_error + (selection \<times> 's)"
  po_preview :: "selectable_item \<Rightarrow> lane_key \<Rightarrow> window_budget \<Rightarrow> datetime \<Rightarrow> 's \<Rightarrow>
    py_error + (preview_result \<times> 's)"
  po_lease :: "work_kind \<Rightarrow> string \<Rightarrow> worker_ref \<Rightarrow> lease_token \<Rightarrow> datetime \<Rightarrow> datetime \<Rightarrow> 's \<Rightarrow>
    py_error + (leased_work_item_record option \<times> 's)"
  po_admit :: "projection_lease \<Rightarrow> 's \<Rightarrow> py_error + (projection_lease_result option \<times> 's)"
  po_start :: "selectable_item \<Rightarrow> lane_key \<Rightarrow> leased_work_item_record \<Rightarrow> reservation_summary \<Rightarrow>
    datetime \<Rightarrow> 's \<Rightarrow> py_error + (execution_reference \<times> 's)"
  po_reserve :: "string \<Rightarrow> string \<Rightarrow> selectable_item \<Rightarrow> lane_key \<Rightarrow> window_budget \<Rightarrow> datetime \<Rightarrow>
    datetime \<Rightarrow> 's \<Rightarrow> py_error + (reservation_result \<times> 's)"
  po_active :: "lane_key \<Rightarrow> datetime \<Rightarrow> 's \<Rightarrow> py_error + (bool \<times> 's)"

section \<open>Leasing the selected item\<close>

record lease_selected_result =
  lx_execution :: "leased_work_item_record option"
  lx_projection :: "projection_lease_result option"
  lx_skipped_reason :: "string option"

definition lease_selected_check :: "datetime \<Rightarrow> datetime \<Rightarrow> py_error + unit" where
  "lease_selected_check expires now =
     bindE (require (tz_aware expires) (ValueError ''lease_expires_at must be timezone-aware'')) (\<lambda>_.
     bindE (require (tz_aware now) (ValueError ''now must be timezone-aware'')) (\<lambda>_.
     bindE (dt_le expires now) (\<lambda>past.
     require (\<not> past) (ValueError ''lease_expires_at must be after now''))))"

definition lease_selected :: "'s pass_ports \<Rightarrow> selectable_item \<Rightarrow> worker_ref \<Rightarrow> lease_token \<Rightarrow>
    datetime \<Rightarrow> datetime \<Rightarrow> 's \<Rightarrow> py_error + (lease_selected_result \<times> 's)" where
  "lease_selected ports item worker token expires now s =
     bindE (lease_selected_check expires now) (\<lambda>_.
     bindE (mk_work_kind (lk_work_kind (si_lane item))) (\<lambda>kind.
     bindE (po_lease ports kind (si_work_item_id item) worker token expires now s) (\<lambda>(execution, s1).
     case execution of
       None \<Rightarrow> Inr (\<lparr>lx_execution = None, lx_projection = None,
         lx_skipped_reason = Some ''execution_work_item_not_leased''\<rparr>, s1)
     | Some record \<Rightarrow>
         bindE (projection_lease_post_init \<lparr>pj_work_item_id = si_work_item_id item,
           pj_lane = si_lane item, pj_leased_at = now, pj_reason = ''capacity_window_admitted''\<rparr>) (\<lambda>l.
         bindE (po_admit ports l s1) (\<lambda>(projection, s2).
         Inr (\<lparr>lx_execution = Some record, lx_projection = projection,
           lx_skipped_reason = (if projection = None then Some ''capacity_projection_not_admitted''
             else None)\<rparr>, s2))))))"

section \<open>Summaries of an admission\<close>

definition sequence_texts :: "payload \<Rightarrow> string \<Rightarrow> py_error + string list" where
  "sequence_texts p key = (case payload_get p key of
     None \<Rightarrow> Inr []
   | Some (JArray vs) \<Rightarrow> traverseE (\<lambda>v. case v of
       JStr t \<Rightarrow> if blank t then Inl (ValueError (''schedule_payload '' @ key @ '' must contain non-empty text''))
         else Inr t
     | _ \<Rightarrow> Inl (ValueError (''schedule_payload '' @ key @ '' must contain non-empty text''))) vs
   | Some _ \<Rightarrow> Inl (TypeError (''schedule_payload '' @ key @ '' must be sequence'')))"

definition schedule_text :: "payload \<Rightarrow> string \<Rightarrow> py_error + string option" where
  "schedule_text p key = (case payload_get p key of
     None \<Rightarrow> Inr None
   | Some (JStr t) \<Rightarrow> if blank t then Inl (ValueError (''schedule_payload '' @ key @ '' must be non-empty text''))
       else Inr (Some t)
   | Some _ \<Rightarrow> Inl (ValueError (''schedule_payload '' @ key @ '' must be non-empty text'')))"

text \<open>\<open>isinstance(value, int)\<close> also accepts a bool.\<close>

definition schedule_int :: "payload \<Rightarrow> string \<Rightarrow> py_error + int option" where
  "schedule_int p key = (case payload_get p key of
     None \<Rightarrow> Inr None
   | Some (JInt n) \<Rightarrow> if n < 0 then Inl (ValueError (''schedule_payload '' @ key @ '' must be non-negative''))
       else Inr (Some n)
   | Some (JBool b) \<Rightarrow> Inr (Some (if b then 1 else 0))
   | Some _ \<Rightarrow> Inl (TypeError (''schedule_payload '' @ key @ '' must be int'')))"

definition node_refs_of :: "payload \<Rightarrow> py_error + string list" where
  "node_refs_of p =
     bindE (sequence_texts p ''source_node_refs'') (\<lambda>refs.
     if refs \<noteq> [] then Inr refs
     else bindE (schedule_text p ''left_node_ref'') (\<lambda>left.
       bindE (schedule_text p ''right_node_ref'') (\<lambda>right.
       Inr ((case left of Some v \<Rightarrow> [v] | None \<Rightarrow> []) @ (case right of Some v \<Rightarrow> [v] | None \<Rightarrow> [])))))"

definition dispatch_context_of :: "payload \<Rightarrow> py_error + dispatch_context option" where
  "dispatch_context_of p =
     bindE (schedule_text p ''source_document_ref'') (\<lambda>source.
     bindE (schedule_text p ''source_unit_ref'') (\<lambda>unit_ref.
     bindE (schedule_text p ''group_ref'') (\<lambda>group.
     bindE (schedule_text p ''batch_ref'') (\<lambda>batch.
     bindE (schedule_text p ''expected_output_kind'') (\<lambda>output.
     bindE (schedule_int p ''round_index'') (\<lambda>round.
     bindE (sequence_texts p ''source_claim_refs'') (\<lambda>claims.
     bindE (node_refs_of p) (\<lambda>nodes.
     if source = None \<and> unit_ref = None \<and> group = None \<and> batch = None \<and> output = None \<and>
       round = None \<and> claims = [] \<and> nodes = []
     then Inr None
     else bindE (dispatch_context_post_init
       \<lparr>dx_source_ref = source, dx_source_unit_ref = unit_ref, dx_cluster_ref = None,
        dx_subcluster_ref = None, dx_group_ref = group, dx_batch_ref = batch, dx_round_index = round,
        dx_expected_output_kind = output, dx_input_node_refs = nodes, dx_input_claim_refs = claims\<rparr>)
       (\<lambda>d. Inr (Some d))))))))))"

definition selection_kind_of :: "selectable_item \<Rightarrow> string" where
  "selection_kind_of item = (if si_status item = ''retryable_failed'' then ''retryable'' else ''fresh'')"

definition admitted_summary :: "selectable_item \<Rightarrow> payload \<Rightarrow> py_error + admitted_item" where
  "admitted_summary item p =
     bindE (lane_summary_post_init (si_lane item)) (\<lambda>lane.
     bindE (dispatch_context_of p) (\<lambda>context.
     admitted_item_post_init
       \<lparr>ai_work_item_id = si_work_item_id item, ai_lane = lane, ai_selection_kind = selection_kind_of item,
        ai_input = (case si_input item of Some n \<Rightarrow> n | None \<Rightarrow> si_required item),
        ai_artifact = (case si_artifact item of Some n \<Rightarrow> n | None \<Rightarrow> 0),
        ai_required = si_required item, ai_context = context\<rparr>))"

definition projection_summary_of :: "projection_lease_result \<Rightarrow> py_error + projection_summary" where
  "projection_summary_of l =
     bindE (lane_summary_post_init (pr_lane l)) (\<lambda>lane.
     projection_summary_post_init
       \<lparr>ps_work_item_id = pr_work_item_id l, ps_lane = lane, ps_previous_status = pr_previous_status l,
        ps_status = pr_status l, ps_event_id = pr_event_id l\<rparr>)"

definition indexed_ref :: "string \<Rightarrow> nat \<Rightarrow> string \<Rightarrow> string" where
  "indexed_ref prefix index i = prefix @ '':'' @ nat_str (index + 1) @ '':'' @ i"

section \<open>Results\<close>

record pass_acc =
  ac_admitted :: "admitted_item list"
  ac_projections :: "projection_summary list"
  ac_reservations :: "reservation_summary list"
  ac_started :: "started_summary list"
  ac_commands :: "string list"

definition admitted_frontend :: "pass_command \<Rightarrow> pass_acc \<Rightarrow> lane_key \<Rightarrow> frontend_summary" where
  "admitted_frontend c acc lane =
     \<lparr>fs_event_kind = ''capacity_admission_pass_completed'', fs_run = pc_run c, fs_phase = pc_phase c,
      fs_operation_key = pc_operation_key c, fs_work_kind = lk_work_kind (pc_lane c), fs_lane = lane,
      fs_admitted_count = length (ac_admitted acc), fs_started_count = length (ac_started acc),
      fs_skipped_reason = None, fs_work_item_ids = map ai_work_item_id (ac_admitted acc),
      fs_attempt_ids = map sa_attempt_id (ac_started acc),
      fs_projection_event_ids = map ps_event_id (ac_projections acc), fs_occurred_at = pc_now c\<rparr>"

definition admitted_result :: "pass_command \<Rightarrow> pass_acc \<Rightarrow> py_error + pass_result" where
  "admitted_result c acc =
     bindE (lane_summary_post_init (pc_lane c)) (\<lambda>lane.
     bindE (frontend_summary_post_init (admitted_frontend c acc lane)) (\<lambda>frontend.
     pass_result_post_init
       \<lparr>pa_run = pc_run c, pa_phase = pc_phase c, pa_operation_key = pc_operation_key c,
        pa_work_kind = lk_work_kind (pc_lane c), pa_lane = lane, pa_admitted = ac_admitted acc,
        pa_projections = ac_projections acc, pa_reservations = ac_reservations acc,
        pa_started = ac_started acc, pa_command_refs = ac_commands acc, pa_skipped_reason = None,
        pa_frontend = Some frontend, pa_log_event = PASS_COMPLETED\<rparr>))"

definition skipped_frontend :: "pass_command \<Rightarrow> skipped_reason \<Rightarrow> lane_key \<Rightarrow> frontend_summary" where
  "skipped_frontend c reason lane =
     \<lparr>fs_event_kind = ''capacity_admission_pass_skipped'', fs_run = pc_run c, fs_phase = pc_phase c,
      fs_operation_key = pc_operation_key c, fs_work_kind = lk_work_kind (pc_lane c), fs_lane = lane,
      fs_admitted_count = 0, fs_started_count = 0, fs_skipped_reason = Some reason,
      fs_work_item_ids = [], fs_attempt_ids = [], fs_projection_event_ids = [],
      fs_occurred_at = pc_now c\<rparr>"

definition skipped_result :: "pass_command \<Rightarrow> skipped_reason \<Rightarrow> py_error + pass_result" where
  "skipped_result c reason =
     bindE (lane_summary_post_init (pc_lane c)) (\<lambda>lane.
     bindE (frontend_summary_post_init (skipped_frontend c reason lane)) (\<lambda>frontend.
     pass_result_post_init
       \<lparr>pa_run = pc_run c, pa_phase = pc_phase c, pa_operation_key = pc_operation_key c,
        pa_work_kind = lk_work_kind (pc_lane c), pa_lane = lane, pa_admitted = [],
        pa_projections = [], pa_reservations = [], pa_started = [], pa_command_refs = [],
        pa_skipped_reason = Some reason, pa_frontend = Some frontend, pa_log_event = PASS_SKIPPED\<rparr>))"

text \<open>Every way out of the loop: what was admitted so far, or the reason why nothing was.\<close>

definition stop_pass :: "pass_command \<Rightarrow> pass_acc \<Rightarrow> skipped_reason \<Rightarrow> 's \<Rightarrow> py_error + (pass_result \<times> 's)" where
  "stop_pass c acc reason s =
     bindE (if ac_admitted acc \<noteq> [] then admitted_result c acc else skipped_result c reason) (\<lambda>r. Inr (r, s))"

definition selection_skipped_reason :: "'s pass_ports \<Rightarrow> pass_command \<Rightarrow> string option \<Rightarrow> 's \<Rightarrow>
    py_error + (skipped_reason \<times> 's)" where
  "selection_skipped_reason ports c reason s =
     (if reason = Some ''capacity_exhausted'' then Inr (CAPACITY_EXHAUSTED, s)
      else if reason = Some ''no_fitting_work_item'' then
        bindE (po_active ports (pc_lane c) (pc_now c) s) (\<lambda>(active, s1).
        Inr (if active then ACTIVE_LEASED_WAIT else NO_FITTING_WORK_ITEM, s1))
      else Inr (NO_FITTING_WORK_ITEM, s))"

definition lease_skipped_reason :: "string option \<Rightarrow> skipped_reason" where
  "lease_skipped_reason reason =
     (if reason = Some ''execution_work_item_not_leased'' then EXECUTION_LEASE_LOST else PROJECTION_CONFLICT)"

section \<open>One admission\<close>

datatype pass_step = Pass_Stop skipped_reason | Pass_Next pass_acc window_budget

definition provisional_reservation :: "pass_command \<Rightarrow> string \<Rightarrow> selectable_item \<Rightarrow>
    py_error + reservation_summary" where
  "provisional_reservation c ref item =
     bindE (lane_summary_post_init (pc_execution_lane c)) (\<lambda>lane.
     reservation_summary_post_init \<lparr>rs_reservation_ref = ref, rs_work_item_id = si_work_item_id item,
       rs_lane = lane, rs_requests = 1, rs_tokens = si_required item, rs_expires_at = pc_expires_at c\<rparr>)"

definition add_admission :: "selectable_item \<Rightarrow> leased_work_item_record \<Rightarrow> projection_lease_result \<Rightarrow>
    pass_acc \<Rightarrow> py_error + pass_acc" where
  "add_admission item record projection acc =
     bindE (admitted_summary item (lr_schedule_payload record)) (\<lambda>a.
     bindE (projection_summary_of projection) (\<lambda>p.
     Inr (acc\<lparr>ac_admitted := ac_admitted acc @ [a], ac_projections := ac_projections acc @ [p]\<rparr>)))"

definition reserve_started :: "'s pass_ports \<Rightarrow> pass_command \<Rightarrow> string \<Rightarrow> selectable_item \<Rightarrow>
    leased_work_item_record \<Rightarrow> projection_lease_result \<Rightarrow> execution_reference \<Rightarrow> string \<Rightarrow>
    window_budget \<Rightarrow> pass_acc \<Rightarrow> 's \<Rightarrow> py_error + (pass_step \<times> 's)" where
  "reserve_started ports c ref item record projection reference attempt budget acc s =
     bindE (po_reserve ports attempt ref item (pc_execution_lane c) budget (pc_now c) (pc_expires_at c) s)
       (\<lambda>(reservation, s1).
     if \<not> rx_reserved reservation
     then Inr (Pass_Stop (case rx_skipped_reason reservation of Some r \<Rightarrow> r | None \<Rightarrow> CAPACITY_EXHAUSTED), s1)
     else case rx_summary reservation of
       None \<Rightarrow> Inl (RuntimeError ''reserved result must include reservation_summary'')
     | Some summary \<Rightarrow>
         bindE (add_admission item record projection acc) (\<lambda>acc1.
         bindE (started_summary_of reference) (\<lambda>started.
         case started of
           Some a \<Rightarrow> Inr (Pass_Next (acc1\<lparr>ac_reservations := ac_reservations acc1 @ [summary],
             ac_started := ac_started acc1 @ [a]\<rparr>) (rx_budget_after reservation), s1)
         | None \<Rightarrow> (case er_command_ref reference of
             Some r \<Rightarrow> Inr (Pass_Next (acc1\<lparr>ac_reservations := ac_reservations acc1 @ [summary],
               ac_commands := ac_commands acc1 @ [r]\<rparr>) (rx_budget_after reservation), s1)
           | None \<Rightarrow> Inl (RuntimeError ''execution boundary returned invalid reference'')))))"

definition start_leased :: "'s pass_ports \<Rightarrow> pass_command \<Rightarrow> string \<Rightarrow> selectable_item \<Rightarrow>
    leased_work_item_record \<Rightarrow> projection_lease_result \<Rightarrow> window_budget \<Rightarrow> pass_acc \<Rightarrow> 's \<Rightarrow>
    py_error + (pass_step \<times> 's)" where
  "start_leased ports c ref item record projection budget acc s =
     bindE (provisional_reservation c ref item) (\<lambda>provisional.
     bindE (po_start ports item (pc_execution_lane c) record provisional (pc_now c) s) (\<lambda>(reference, s1).
     case er_attempt_id reference of
       None \<Rightarrow> (case er_command_ref reference of
           None \<Rightarrow> Inl (RuntimeError ''execution boundary returned invalid reference'')
         | Some r \<Rightarrow> bindE (add_admission item record projection acc) (\<lambda>acc1.
             Inr (Pass_Next (acc1\<lparr>ac_commands := ac_commands acc1 @ [r]\<rparr>) budget, s1)))
     | Some attempt \<Rightarrow> reserve_started ports c ref item record projection reference attempt budget acc s1))"

definition admit_item :: "'s pass_ports \<Rightarrow> pass_command \<Rightarrow> nat \<Rightarrow> selectable_item \<Rightarrow> window_budget \<Rightarrow>
    pass_acc \<Rightarrow> 's \<Rightarrow> py_error + (pass_step \<times> 's)" where
  "admit_item ports c index item budget acc s =
     (let ref = indexed_ref (pc_token_prefix c) index (si_work_item_id item) in
      bindE (po_preview ports item (pc_execution_lane c) budget (pc_now c) s) (\<lambda>(preview, s1).
      if \<not> pv_available preview
      then Inr (Pass_Stop (case pv_skipped_reason preview of Some r \<Rightarrow> r | None \<Rightarrow> CAPACITY_EXHAUSTED), s1)
      else bindE (mk_lease_token ref) (\<lambda>token.
        bindE (lease_selected ports item (pc_worker c) token (pc_expires_at c) (pc_now c) s1) (\<lambda>(lease, s2).
        case (lx_execution lease, lx_projection lease) of
          (Some record, Some projection) \<Rightarrow> start_leased ports c ref item record projection budget acc s2
        | _ \<Rightarrow> Inr (Pass_Stop (lease_skipped_reason (lx_skipped_reason lease)), s2)))))"

section \<open>The pass\<close>

fun pass_loop :: "'s pass_ports \<Rightarrow> pass_command \<Rightarrow> nat \<Rightarrow> nat \<Rightarrow> window_budget \<Rightarrow> pass_acc \<Rightarrow> 's \<Rightarrow>
    py_error + (pass_result \<times> 's)" where
  "pass_loop ports c index 0 budget acc s = stop_pass c acc NO_FITTING_WORK_ITEM s"
| "pass_loop ports c index (Suc n) budget acc s =
     bindE (po_select ports (pc_lane c) budget s) (\<lambda>(sel, s1).
     case sel_item sel of
       None \<Rightarrow> bindE (selection_skipped_reason ports c (sel_skipped sel) s1) (\<lambda>(reason, s2).
         stop_pass c acc reason s2)
     | Some item \<Rightarrow> bindE (admit_item ports c index item budget acc s1) (\<lambda>(step, s2).
         case step of
           Pass_Stop reason \<Rightarrow> stop_pass c acc reason s2
         | Pass_Next acc1 budget1 \<Rightarrow> pass_loop ports c (Suc index) n budget1 acc1 s2))"

definition no_admissions :: pass_acc where
  "no_admissions = \<lparr>ac_admitted = [], ac_projections = [], ac_reservations = [], ac_started = [],
     ac_commands = []\<rparr>"

definition admission_pass :: "'s pass_ports \<Rightarrow> pass_command \<Rightarrow> 's \<Rightarrow> py_error + (pass_result \<times> 's)" where
  "admission_pass ports c s = pass_loop ports c 0 (nat (pc_max_items c)) (pc_budget c) no_admissions s"

end
