(* ===== verification/AdmissionPorts.thy ===== *)
theory AdmissionPorts
  imports AdmissionPass "HOL-Library.Sublist"
begin

text \<open>
  The ports of the admission pass as the composition wires them
  (\<open>src/src/interfaces/composition/capacity_window_admission_execution_boundary.py\<close>,
  \<open>start_llm_admitted_work_item_attempts.py\<close>, \<open>lease_llm_admitted_work_items.py\<close> and the lease
  inspector of \<open>knowledge_extraction_workflow_resume.py\<close>): one transaction over the execution
  tables, the admission tables and the capacity observations.
\<close>

section \<open>The slot of a reservation\<close>

text \<open>\<open>str.find\<close> and the slice from the found position on.\<close>

fun from_first :: "string \<Rightarrow> string \<Rightarrow> string option" where
  "from_first pat [] = (if pat = [] then Some [] else None)"
| "from_first pat (c # s) = (if prefix pat (c # s) then Some (c # s) else from_first pat s)"

fun split_colon :: "string \<Rightarrow> string list" where
  "split_colon [] = [[]]"
| "split_colon (c # s) = (if c = CHR '':'' then [] # split_colon s
     else (case split_colon s of p # ps \<Rightarrow> (c # p) # ps | [] \<Rightarrow> [[c]]))"

text \<open>
  \<open>str.isdigit\<close> on the code points below 256 accepts the superscripts one to three too, which
  \<open>int\<close> then rejects.
\<close>

definition ascii_digit :: "char \<Rightarrow> bool" where
  "ascii_digit c \<longleftrightarrow> (let n = (of_char c :: nat) in 48 \<le> n \<and> n \<le> 57)"

definition digit_char :: "char \<Rightarrow> bool" where
  "digit_char c \<longleftrightarrow> ascii_digit c \<or> (of_char c :: nat) \<in> {178, 179, 185}"

definition slot_from_number :: "string \<Rightarrow> py_error + int" where
  "slot_from_number raw =
     (if raw = [] \<or> \<not> list_all digit_char raw
        then Inl (ValueError ''reservation_ref admission index must be numeric'')
      else if \<not> list_all ascii_digit raw then Inl (ValueError ''invalid literal for int()'')
      else if digits_value raw = 0
        then Inl (ValueError ''reservation_ref admission index must be positive'')
      else Inr (int (digits_value raw) - 1))"

definition workflow_scope :: string where
  "workflow_scope = '':knowledge-extraction:source-document:''"

definition slot_index_of_ref :: "string \<Rightarrow> py_error + int" where
  "slot_index_of_ref ref =
     (case from_first workflow_scope ref of
        None \<Rightarrow>
          let parts = split_colon ref in
          if length parts < 3 then Inl (ValueError ''reservation_ref must include admission index'')
          else slot_from_number (parts ! 1)
      | Some suffix_text \<Rightarrow>
          let parts = split_colon (tl suffix_text) in
          if length parts < 5
          then Inl (ValueError ''reservation_ref must include workflow scope and admission index'')
          else slot_from_number (parts ! 4))"

section \<open>Starting the attempt\<close>

record allocation_slot =
  as_provider :: string
  as_account_ref :: string
  as_model_ref :: string
  as_slot_index :: int

definition allocation_slot_post_init :: "allocation_slot \<Rightarrow> py_error + allocation_slot" where
  "allocation_slot_post_init a =
     bindE (need_text ''provider'' (as_provider a)) (\<lambda>_.
     bindE (need_text ''account_ref'' (as_account_ref a)) (\<lambda>_.
     bindE (need_text ''model_ref'' (as_model_ref a)) (\<lambda>_.
     bindE (require (0 \<le> as_slot_index a) (ValueError ''slot_index must be >= 0'')) (\<lambda>_. Inr a))))"

definition allocation_payload :: "allocation_slot \<Rightarrow> payload" where
  "allocation_payload a = [(''provider'', JStr (as_provider a)), (''account_ref'', JStr (as_account_ref a)),
     (''model_ref'', JStr (as_model_ref a)), (''slot_index'', JInt (as_slot_index a))]"

record admitted_leased_item =
  al_leased :: leased_work_item_record
  al_allocation :: allocation_slot
  al_settings :: execution_settings
  al_selection_kind :: string
  al_payload_override :: "payload option"

definition admitted_leased_post_init :: "admitted_leased_item \<Rightarrow> py_error + admitted_leased_item" where
  "admitted_leased_post_init a =
     bindE (require (al_selection_kind a \<in> {''fresh'', ''retryable''})
       (ValueError ''selection_kind must be fresh or retryable'')) (\<lambda>_. Inr a)"

definition admitted_schedule_payload :: "admitted_leased_item \<Rightarrow> payload" where
  "admitted_schedule_payload a = (case al_payload_override a of
     None \<Rightarrow> lr_schedule_payload (al_leased a) | Some p \<Rightarrow> p)"

definition dispatch_payload_of :: "admitted_leased_item \<Rightarrow> payload" where
  "dispatch_payload_of a =
     [(''work_item_id'', JStr (wi_id (lr_work_item (al_leased a)))),
      (''schedule_payload'', JObject (admitted_schedule_payload a)),
      (''llm_allocation'', JObject (allocation_payload (al_allocation a))),
      (''llm_execution_settings'', JObject (to_provider_options (al_settings a)))]"

definition build_dispatch_record :: "admitted_leased_item \<Rightarrow> datetime \<Rightarrow> py_error + dispatch_record" where
  "build_dispatch_record a started =
     (let i = lr_work_item (al_leased a) in
      if wi_status i \<noteq> WI_LEASED then Inl (ValueError ''work_item must be leased'')
      else case (wi_lease_token i, wi_leased_by i) of
        (None, _) \<Rightarrow> Inl (ValueError ''leased work_item must have lease_token'')
      | (_, None) \<Rightarrow> Inl (ValueError ''leased work_item must have leased_by'')
      | (Some token, Some worker) \<Rightarrow>
          if wi_attempt_count i \<le> 0 then Inl (ValueError ''leased work_item attempt_count must be > 0'')
          else dispatch_record_post_init
            \<lparr>dp_attempt_id = lease_token_value token, dp_work_item_id = wi_id i,
             dp_attempt_number = wi_attempt_count i, dp_lease_token = lease_token_value token,
             dp_worker_ref = worker_ref_value worker,
             dp_schedule_payload = admitted_schedule_payload a,
             dp_llm_allocation_payload = allocation_payload (al_allocation a),
             dp_dispatch_payload = dispatch_payload_of a, dp_started_at = started\<rparr>)"

record started_attempt =
  sd_attempt_id :: string
  sd_work_item_id :: string
  sd_attempt_number :: int
  sd_dispatch_payload :: payload

definition started_attempt_post_init :: "started_attempt \<Rightarrow> py_error + started_attempt" where
  "started_attempt_post_init a =
     bindE (need_text ''attempt_id'' (sd_attempt_id a)) (\<lambda>_.
     bindE (need_text ''work_item_id'' (sd_work_item_id a)) (\<lambda>_.
     bindE (require (0 < sd_attempt_number a) (ValueError ''attempt_number must be > 0'')) (\<lambda>_. Inr a)))"

fun start_admitted_attempts :: "(payload \<Rightarrow> string) \<Rightarrow> datetime \<Rightarrow> admitted_leased_item list \<Rightarrow> exec_db \<Rightarrow>
    py_error + (started_attempt list \<times> exec_db)" where
  "start_admitted_attempts dumps started [] db = Inr ([], db)"
| "start_admitted_attempts dumps started (a # as) db =
     bindE (build_dispatch_record a started) (\<lambda>d.
     bindE (save_started_dispatch_attempt dumps d db) (\<lambda>db1.
     bindE (started_attempt_post_init \<lparr>sd_attempt_id = dp_attempt_id d,
       sd_work_item_id = dp_work_item_id d, sd_attempt_number = dp_attempt_number d,
       sd_dispatch_payload = dp_dispatch_payload d\<rparr>) (\<lambda>x.
     bindE (start_admitted_attempts dumps started as db1) (\<lambda>(xs, db2). Inr (x # xs, db2)))))"

definition start_attempts :: "(payload \<Rightarrow> string) \<Rightarrow> datetime \<Rightarrow> admitted_leased_item list \<Rightarrow> exec_db \<Rightarrow>
    py_error + (started_attempt list \<times> exec_db)" where
  "start_attempts dumps started as db =
     bindE (require (tz_aware started) (ValueError ''started_at must be timezone-aware'')) (\<lambda>_.
     start_admitted_attempts dumps started as db)"

definition boundary_selection_kind :: "selectable_item \<Rightarrow> py_error + string" where
  "boundary_selection_kind item =
     (if si_status item = ''retryable_failed'' then Inr ''retryable''
      else if si_status item = ''ready'' then Inr ''fresh''
      else Inl (ValueError ''unsupported capacity admission projection status''))"

definition start_execution :: "(payload \<Rightarrow> string) \<Rightarrow> route_catalog \<Rightarrow> selectable_item \<Rightarrow> lane_key \<Rightarrow>
    leased_work_item_record \<Rightarrow> reservation_summary \<Rightarrow> datetime \<Rightarrow> exec_db \<Rightarrow>
    py_error + (execution_reference \<times> exec_db)" where
  "start_execution dumps catalog item lane record reservation now db =
     bindE (check_execution_lane ''capacity admission execution requires account_ref'' item lane) (\<lambda>account.
     bindE (slot_index_of_ref (rs_reservation_ref reservation)) (\<lambda>slot.
     bindE (allocation_slot_post_init \<lparr>as_provider = lk_provider lane, as_account_ref = account,
       as_model_ref = lk_model_ref lane, as_slot_index = slot\<rparr>) (\<lambda>allocation.
     bindE (execution_settings_for_model_ref (lk_model_ref lane) catalog) (\<lambda>settings.
     bindE (boundary_selection_kind item) (\<lambda>kind.
     bindE (admitted_leased_post_init \<lparr>al_leased = record, al_allocation = allocation,
       al_settings = settings, al_selection_kind = kind, al_payload_override = None\<rparr>) (\<lambda>a.
     bindE (start_attempts dumps now [a] db) (\<lambda>(started, db1).
     case started of
       [x] \<Rightarrow> bindE (execution_reference_post_init \<lparr>er_work_item_id = sd_work_item_id x,
           er_attempt_id = Some (sd_attempt_id x), er_attempt_number = Some (sd_attempt_number x),
           er_command_ref = None\<rparr>) (\<lambda>r. Inr (r, db1))
     | _ \<Rightarrow> Inl (RuntimeError ''capacity admission execution must start one attempt''))))))))"

section \<open>The transaction\<close>

record admission_world =
  aw_exec :: exec_db
  aw_queue :: queue_db
  aw_observations :: "attempt_observation list"

definition has_active_leased_work :: "lane_key \<Rightarrow> utc \<Rightarrow> admission_world \<Rightarrow> bool" where
  "has_active_leased_work lane t w \<longleftrightarrow>
     (\<exists>c \<in> set (q_rows (aw_queue w)). ca_lane c = lane \<and> ca_status c = ''leased'' \<and>
       (\<exists>r \<in> set (db_items (aw_exec w)). row_id r = ca_id c \<and> row_status r = ''leased'' \<and>
         (case row_lease_expires_at r of Some u \<Rightarrow> t < u | None \<Rightarrow> False)))"

text \<open>
  \<open>locked\<close> are the projection rows and \<open>exec_locked\<close> the work items other transactions hold;
  \<open>observing\<close> says whether the reservation was built with an observation repository.
\<close>

definition on_queue :: "(queue_db \<Rightarrow> py_error + ('a \<times> queue_db)) \<Rightarrow> admission_world \<Rightarrow>
    py_error + ('a \<times> admission_world)" where
  "on_queue f w = bindE (f (aw_queue w)) (\<lambda>(x, db). Inr (x, w\<lparr>aw_queue := db\<rparr>))"

definition on_exec :: "(exec_db \<Rightarrow> py_error + ('a \<times> exec_db)) \<Rightarrow> admission_world \<Rightarrow>
    py_error + ('a \<times> admission_world)" where
  "on_exec f w = bindE (f (aw_exec w)) (\<lambda>(x, db). Inr (x, w\<lparr>aw_exec := db\<rparr>))"

definition observed :: "bool \<Rightarrow> admission_world \<Rightarrow> attempt_observation list option" where
  "observed observing w = (if observing then Some (aw_observations w) else None)"

definition started_attempts :: "admission_world \<Rightarrow> string \<Rightarrow> bool" where
  "started_attempts w i \<longleftrightarrow> (\<exists>a \<in> set (db_attempts (aw_exec w)). ar_attempt_id a = i)"

definition world_ports :: "(string \<Rightarrow> string) \<Rightarrow> (string \<Rightarrow> bool) \<Rightarrow> (string \<Rightarrow> bool) \<Rightarrow> (payload \<Rightarrow> string) \<Rightarrow>
    route_catalog \<Rightarrow> bool \<Rightarrow> admission_world pass_ports" where
  "world_ports collate locked exec_locked dumps catalog observing =
     \<lparr>po_select = (\<lambda>lane b. on_queue (\<lambda>db. bindE (select_admission_work_item collate locked lane b db)
        (\<lambda>sel. Inr (sel, db)))),
      po_preview = (\<lambda>item lane b now w. bindE (preview_capacity (observed observing w) item lane b now (aw_queue w))
        (\<lambda>p. Inr (p, w))),
      po_lease = (\<lambda>kind i worker token expires now.
        on_exec (lease_due_work_item_by_id exec_locked kind i worker token expires now)),
      po_admit = (\<lambda>l. on_queue (admit_projection_work_item locked l)),
      po_start = (\<lambda>item lane record reservation now.
        on_exec (start_execution dumps catalog item lane record reservation now)),
      po_reserve = (\<lambda>attempt ref item lane b now expires w.
        on_queue (reserve_capacity (observed observing w) (started_attempts w) attempt ref item lane b now expires) w),
      po_active = (\<lambda>lane now w. bindE (aware_now ''now'' now) (\<lambda>t. Inr (has_active_leased_work lane t w, w)))\<rparr>"

text \<open>
  The recovery of expired leases, as the runtime loop runs it: its statement touches the execution
  tables only.
\<close>

definition recover_expired :: "(string \<Rightarrow> string) \<Rightarrow> (string \<Rightarrow> bool) \<Rightarrow> datetime \<Rightarrow> int \<Rightarrow> admission_world \<Rightarrow>
    py_error + (expired_lease_recovery \<times> admission_world)" where
  "recover_expired collate exec_locked now limit = on_exec (reclaim_expired collate exec_locked now limit)"

end
