(* ===== verification/AdmissionLaws.thy ===== *)
theory AdmissionLaws
  imports AdmissionPass
begin

text \<open>
  What an admission pass promises whatever its ports are, as long as they keep their contract:
  \<open>held\<close> marks the items leased in the projection and \<open>owned\<close> those leased in the execution
  runtime. The second contract adds what a reservation does to the budget.
\<close>

section \<open>The promise of a pass\<close>

definition pass_post :: "pass_command \<Rightarrow> (string \<Rightarrow> 's \<Rightarrow> bool) \<Rightarrow> (string \<Rightarrow> 's \<Rightarrow> bool) \<Rightarrow> 's \<Rightarrow>
    pass_result \<Rightarrow> 's \<Rightarrow> bool" where
  "pass_post c held owned s res s' \<longleftrightarrow>
     (let ids = map ai_work_item_id (pa_admitted res) in
      length ids \<le> nat (pc_max_items c) \<and> distinct ids \<and>
      map ps_work_item_id (pa_projections res) = ids \<and>
      map rs_work_item_id (pa_reservations res) = ids \<and>
      map sa_work_item_id (pa_started res) = ids \<and> pa_command_refs res = [] \<and>
      (pa_skipped_reason res = None \<longleftrightarrow> ids \<noteq> []) \<and>
      (\<forall>i \<in> set ids. \<not> held i s \<and> held i s' \<and> owned i s') \<and>
      (\<forall>i. held i s \<longrightarrow> held i s'))"

definition acc_ids :: "pass_acc \<Rightarrow> string list" where
  "acc_ids acc = map ai_work_item_id (ac_admitted acc)"

text \<open>The accumulators of the loop agree with each other.\<close>

definition acc_ok :: "pass_command \<Rightarrow> pass_acc \<Rightarrow> bool" where
  "acc_ok c acc \<longleftrightarrow> distinct (acc_ids acc) \<and>
     map ps_work_item_id (ac_projections acc) = acc_ids acc \<and>
     map rs_work_item_id (ac_reservations acc) = acc_ids acc \<and>
     map sa_work_item_id (ac_started acc) = acc_ids acc \<and> ac_commands acc = [] \<and>
     (\<forall>a \<in> set (ac_admitted acc). ai_lane a = pc_lane c \<and> \<not> blank (ai_work_item_id a)) \<and>
     (\<forall>p \<in> set (ac_projections acc). ps_lane p = pc_lane c) \<and>
     (\<forall>v \<in> set (ac_reservations acc). reservation_lane_matches (rs_lane v) (pc_lane c)) \<and>
     (\<forall>a \<in> set (ac_started acc). \<not> blank (sa_attempt_id a))"

lemma acc_ok_empty: "acc_ok c no_admissions"
  by (simp add: acc_ok_def acc_ids_def no_admissions_def)

lemma lane_summary_Inr: "lane_summary_post_init k = Inr l \<Longrightarrow> l = k"
  by (auto simp: lane_summary_post_init_def)

lemma pass_result_Inr: "pass_result_post_init r = Inr r' \<Longrightarrow> r' = r"
  by (auto simp: pass_result_post_init_def)

lemma frontend_summary_Inr: "frontend_summary_post_init f = Inr g \<Longrightarrow> g = f"
  by (auto simp: frontend_summary_post_init_def)

lemma pass_command_checked:
  assumes "pass_command_post_init c = Inr c"
  shows "\<not> blank (pc_run c)" "\<not> blank (pc_phase c)" "\<not> blank (pc_operation_key c)"
    "tz_aware (pc_now c)" "tz_aware (pc_expires_at c)" "0 < pc_max_items c"
    "reservation_lane_matches (pc_execution_lane c) (pc_lane c)"
  using assms by (auto simp: pass_command_post_init_def reservation_lane_matches_def split: if_splits)

section \<open>The result's constructor never refuses\<close>

lemma length_of_ids: "map f xs = map g ys \<Longrightarrow> length xs = length ys"
  by (metis length_map)

lemma event_kinds: "\<not> blank ''capacity_admission_pass_completed''" "\<not> blank ''capacity_admission_pass_skipped''"
  by code_simp+

lemma frontend_returns:
  assumes "\<not> blank (fs_event_kind f)" "\<not> blank (fs_run f)" "\<not> blank (fs_phase f)"
    "\<not> blank (fs_operation_key f)" "\<not> blank (fs_work_kind f)"
    "\<forall>v \<in> set (fs_work_item_ids f). \<not> blank v" "\<forall>v \<in> set (fs_attempt_ids f). \<not> blank v"
    "tz_aware (fs_occurred_at f)"
  shows "frontend_summary_post_init f = Inr f"
  using assms by (simp add: frontend_summary_post_init_def)

lemma pass_result_returns:
  assumes "\<not> blank (pa_run r)" "\<not> blank (pa_phase r)" "\<not> blank (pa_operation_key r)"
    "\<not> blank (pa_work_kind r)" "lk_work_kind (pa_lane r) = pa_work_kind r"
    "\<forall>a \<in> set (pa_admitted r). ai_lane a = pa_lane r" "\<forall>p \<in> set (pa_projections r). ps_lane p = pa_lane r"
    "\<forall>v \<in> set (pa_reservations r). reservation_lane_matches (rs_lane v) (pa_lane r)"
    "\<forall>v \<in> set (pa_command_refs r). \<not> blank v"
    "(if pa_skipped_reason r = None then validate_admitted r else validate_skipped r) = Inr ()"
  shows "pass_result_post_init r = Inr r"
  using assms by (simp add: pass_result_post_init_def)

lemma validate_admitted_returns:
  assumes "pa_admitted r \<noteq> []" "pa_command_refs r = []"
    and "map ps_work_item_id (pa_projections r) = map ai_work_item_id (pa_admitted r)"
    and "map rs_work_item_id (pa_reservations r) = map ai_work_item_id (pa_admitted r)"
    and "map sa_work_item_id (pa_started r) = map ai_work_item_id (pa_admitted r)"
  shows "validate_admitted r = Inr ()"
proof -
  from assms have n: "length (pa_projections r) = length (pa_admitted r)"
    "length (pa_reservations r) = length (pa_admitted r)" "length (pa_started r) = length (pa_admitted r)"
    by (auto dest: length_of_ids)
  have "set (map ps_work_item_id (pa_projections r)) = set (map ai_work_item_id (pa_admitted r))"
    "set (map sa_work_item_id (pa_started r)) = set (map ai_work_item_id (pa_admitted r))"
    using assms(3,5) by (simp_all del: set_map)
  with n assms(1,2) show ?thesis by (simp add: validate_admitted_def Let_def del: set_map)
qed

lemma admitted_result_returns:
  assumes c: "pass_command_post_init c = Inr c" and lane: "lane_summary_post_init (pc_lane c) = Inr (pc_lane c)"
    and ok: "acc_ok c acc" and ne: "ac_admitted acc \<noteq> []"
  shows "\<exists>res. admitted_result c acc = Inr res"
proof -
  note k = pass_command_checked [OF c]
  have kind: "\<not> blank (lk_work_kind (pc_lane c))" using lane by (simp add: lane_summary_post_init_def)
  have "frontend_summary_post_init (admitted_frontend c acc (pc_lane c)) = Inr (admitted_frontend c acc (pc_lane c))"
    using k kind ok event_kinds
    by (intro frontend_returns) (simp_all add: admitted_frontend_def acc_ok_def del: blank_Cons)
  with k kind ok ne show ?thesis
    unfolding admitted_result_def lane
    by (simp add: acc_ok_def acc_ids_def pass_result_returns validate_admitted_returns)
qed

lemma skipped_result_returns:
  assumes c: "pass_command_post_init c = Inr c" and lane: "lane_summary_post_init (pc_lane c) = Inr (pc_lane c)"
  shows "\<exists>res. skipped_result c reason = Inr res"
proof -
  note k = pass_command_checked [OF c]
  have kind: "\<not> blank (lk_work_kind (pc_lane c))" using lane by (simp add: lane_summary_post_init_def)
  have "frontend_summary_post_init (skipped_frontend c reason (pc_lane c)) = Inr (skipped_frontend c reason (pc_lane c))"
    using k kind event_kinds by (intro frontend_returns) (simp_all add: skipped_frontend_def del: blank_Cons)
  with k kind show ?thesis
    unfolding skipped_result_def lane by (simp add: pass_result_returns validate_skipped_def)
qed

lemma stop_pass_returns:
  assumes "pass_command_post_init c = Inr c" "lane_summary_post_init (pc_lane c) = Inr (pc_lane c)" "acc_ok c acc"
  shows "\<exists>res. stop_pass c acc reason s = Inr (res, s)"
  using admitted_result_returns [OF assms] skipped_result_returns [OF assms(1,2)]
  by (auto simp: stop_pass_def)

lemma stop_pass_Inr:
  assumes "stop_pass c acc reason s = Inr (res, s')"
  shows "s' = s \<and> pa_admitted res = ac_admitted acc \<and>
    (ac_admitted acc \<noteq> [] \<longrightarrow> pa_projections res = ac_projections acc \<and> pa_reservations res = ac_reservations acc \<and>
      pa_started res = ac_started acc \<and> pa_command_refs res = ac_commands acc \<and> pa_skipped_reason res = None) \<and>
    (ac_admitted acc = [] \<longrightarrow> pa_projections res = [] \<and> pa_reservations res = [] \<and> pa_started res = [] \<and>
      pa_command_refs res = [] \<and> pa_skipped_reason res = Some reason)"
  using assms
  by (auto simp: stop_pass_def admitted_result_def skipped_result_def dest!: pass_result_Inr lane_summary_Inr
    frontend_summary_Inr split: if_splits)

section \<open>The ports' contract\<close>

locale pass_contract =
  fixes ports :: "'s pass_ports" and inv :: "'s \<Rightarrow> bool"
    and held :: "string \<Rightarrow> 's \<Rightarrow> bool" and owned :: "string \<Rightarrow> 's \<Rightarrow> bool"
  assumes select_law: "inv s \<Longrightarrow> po_select ports lane b s = Inr (sel, s') \<Longrightarrow>
      s' = s \<and> (\<forall>item. sel_item sel = Some item \<longrightarrow> si_lane item = lane \<and> \<not> held (si_work_item_id item) s)"
    and preview_law: "po_preview ports item lane b now s = Inr (pv, s') \<Longrightarrow> s' = s"
    and active_law: "po_active ports lane now s = Inr (a, s') \<Longrightarrow> s' = s"
    and lease_law: "inv s \<Longrightarrow> po_lease ports kind i worker token expires now s = Inr (r, s') \<Longrightarrow>
      mk_lease_token v = Inr token \<Longrightarrow> mk_worker_ref wv = Inr worker \<Longrightarrow> inv s' \<and> (\<forall>j. held j s' = held j s) \<and> (\<forall>j. owned j s \<longrightarrow> owned j s') \<and>
      (\<forall>rec. r = Some rec \<longrightarrow> wi_id (lr_work_item rec) = i \<and> owned i s')"
    and admit_law: "inv s \<Longrightarrow> po_admit ports l s = Inr (p, s') \<Longrightarrow>
      inv s' \<and> (\<forall>j. owned j s' = owned j s) \<and>
      (\<forall>j. held j s' = (held j s \<or> p \<noteq> None \<and> j = pj_work_item_id l)) \<and>
      (\<forall>q. p = Some q \<longrightarrow> pr_work_item_id q = pj_work_item_id l \<and> pr_lane q = pj_lane l)"
    and start_law: "inv s \<Longrightarrow> po_start ports item lane rec rsv now s = Inr (er, s') \<Longrightarrow>
      inv s' \<and> (\<forall>j. held j s' = held j s) \<and> (\<forall>j. owned j s' = owned j s) \<and>
      er_work_item_id er = wi_id (lr_work_item rec) \<and> er_attempt_id er \<noteq> None \<and> er_attempt_number er \<noteq> None"
    and reserve_law: "inv s \<Longrightarrow> po_reserve ports attempt ref item lane b now expires s = Inr (rv, s') \<Longrightarrow>
      inv s' \<and> (\<forall>j. held j s' = held j s) \<and> (\<forall>j. owned j s' = owned j s) \<and>
      (\<forall>sm. rx_reserved rv \<and> rx_summary rv = Some sm \<longrightarrow> rs_work_item_id sm = si_work_item_id item \<and>
        rs_lane sm = lane \<and> rs_tokens sm = si_required item)"

text \<open>What is kept of the state at the start of a pass while the loop runs.\<close>

definition kept :: "(string \<Rightarrow> 's \<Rightarrow> bool) \<Rightarrow> (string \<Rightarrow> 's \<Rightarrow> bool) \<Rightarrow> 's \<Rightarrow> 's \<Rightarrow> bool" where
  "kept held owned s s' \<longleftrightarrow> (\<forall>j. held j s \<longrightarrow> held j s') \<and> (\<forall>j. owned j s \<longrightarrow> owned j s')"

lemma kept_refl [simp]: "kept held owned s s"
  by (simp add: kept_def)

lemma kept_trans: "kept held owned a b \<Longrightarrow> kept held owned b d \<Longrightarrow> kept held owned a d"
  by (simp add: kept_def)

definition step_post :: "pass_command \<Rightarrow> (string \<Rightarrow> 's \<Rightarrow> bool) \<Rightarrow> (string \<Rightarrow> 's \<Rightarrow> bool) \<Rightarrow>
    selectable_item \<Rightarrow> pass_acc \<Rightarrow> 's \<Rightarrow> pass_step \<Rightarrow> 's \<Rightarrow> bool" where
  "step_post c held owned item acc s step s' \<longleftrightarrow> kept held owned s s' \<and>
     (\<forall>acc' b. step = Pass_Next acc' b \<longrightarrow> acc_ok c acc' \<and>
        acc_ids acc' = acc_ids acc @ [si_work_item_id item] \<and>
        held (si_work_item_id item) s' \<and> owned (si_work_item_id item) s')"

lemma admitted_item_Inr: "admitted_item_post_init a = Inr b \<Longrightarrow> b = a \<and> \<not> blank (ai_work_item_id a)"
  by (auto simp: admitted_item_post_init_def split: if_splits)

lemma projection_summary_Inr: "projection_summary_post_init p = Inr q \<Longrightarrow> q = p"
  by (auto simp: projection_summary_post_init_def split: if_splits)

lemma add_admission_Inr:
  assumes "add_admission item record projection acc = Inr acc'"
  obtains a p where "acc' = acc\<lparr>ac_admitted := ac_admitted acc @ [a], ac_projections := ac_projections acc @ [p]\<rparr>"
    "ai_work_item_id a = si_work_item_id item" "ai_lane a = si_lane item" "\<not> blank (ai_work_item_id a)"
    "ps_work_item_id p = pr_work_item_id projection" "ps_lane p = pr_lane projection"
proof -
  from assms obtain a p where "admitted_summary item (lr_schedule_payload record) = Inr a"
    "projection_summary_of projection = Inr p"
    and acc: "acc' = acc\<lparr>ac_admitted := ac_admitted acc @ [a], ac_projections := ac_projections acc @ [p]\<rparr>"
    by (auto simp: add_admission_def)
  then show thesis
    by (intro that [OF acc])
      (auto simp: admitted_summary_def projection_summary_of_def
        dest!: admitted_item_Inr projection_summary_Inr lane_summary_Inr)
qed

lemma started_summary_Inr:
  "started_summary_of r = Inr (Some a) \<Longrightarrow> sa_work_item_id a = er_work_item_id r \<and> \<not> blank (sa_attempt_id a)"
  by (auto simp: started_summary_of_def started_summary_post_init_def split: option.splits if_splits)

lemma lease_selected_Inr:
  assumes "lease_selected ports item worker token expires now s = Inr (lease, s')"
  obtains (lost) kind where "po_lease ports kind (si_work_item_id item) worker token expires now s = Inr (None, s')"
      "lx_execution lease = None" "mk_work_kind (lk_work_kind (si_lane item)) = Inr kind"
    | (leased) kind rec l pj sa where
      "po_lease ports kind (si_work_item_id item) worker token expires now s = Inr (Some rec, sa)"
      "pj_work_item_id l = si_work_item_id item" "pj_lane l = si_lane item" "po_admit ports l sa = Inr (pj, s')"
      "lx_execution lease = Some rec" "lx_projection lease = pj" "mk_work_kind (lk_work_kind (si_lane item)) = Inr kind"
proof -
  from assms obtain kind ex sa where po: "po_lease ports kind (si_work_item_id item) worker token expires now s = Inr (ex, sa)"
    and kind: "mk_work_kind (lk_work_kind (si_lane item)) = Inr kind"
    and rest: "(case ex of None \<Rightarrow> Inr (\<lparr>lx_execution = None, lx_projection = None,
         lx_skipped_reason = Some ''execution_work_item_not_leased''\<rparr>, sa)
     | Some record \<Rightarrow>
         bindE (projection_lease_post_init \<lparr>pj_work_item_id = si_work_item_id item,
           pj_lane = si_lane item, pj_leased_at = now, pj_reason = ''capacity_window_admitted''\<rparr>) (\<lambda>l.
         bindE (po_admit ports l sa) (\<lambda>(projection, s2).
         Inr (\<lparr>lx_execution = Some record, lx_projection = projection,
           lx_skipped_reason = (if projection = None then Some ''capacity_projection_not_admitted''
             else None)\<rparr>, s2)))) = Inr (lease, s')"
    by (auto simp: lease_selected_def)
  show thesis
  proof (cases ex)
    case None
    with rest po kind show thesis by (intro lost) auto
  next
    case (Some rec)
    with rest obtain l pj where "projection_lease_post_init \<lparr>pj_work_item_id = si_work_item_id item,
        pj_lane = si_lane item, pj_leased_at = now, pj_reason = ''capacity_window_admitted''\<rparr> = Inr l"
      and "po_admit ports l sa = Inr (pj, s')" "lx_execution lease = Some rec" "lx_projection lease = pj" by auto
    moreover from this(1) have "pj_work_item_id l = si_work_item_id item" "pj_lane l = si_lane item"
      by (auto simp: projection_lease_post_init_def split: if_splits)
    ultimately show thesis using po kind Some by (intro leased) auto
  qed
qed

section \<open>One admission\<close>

context pass_contract begin

lemma reserve_started_post:
  assumes c: "pass_command_post_init c = Inr c" and inv: "inv s" and ok: "acc_ok c acc"
    and lane: "si_lane item = pc_lane c" and new: "si_work_item_id item \<notin> set (acc_ids acc)"
    and pr: "pr_work_item_id projection = si_work_item_id item" "pr_lane projection = pc_lane c"
    and er: "er_work_item_id er = si_work_item_id item" "er_attempt_id er \<noteq> None" "er_attempt_number er \<noteq> None"
    and hold: "held (si_work_item_id item) s" "owned (si_work_item_id item) s"
    and r: "reserve_started ports c ref item rec projection er attempt b acc s = Inr (step, s')"
  shows "inv s' \<and> step_post c held owned item acc s step s'"
proof -
  from r obtain v where v: "po_reserve ports attempt ref item (pc_execution_lane c) b (pc_now c) (pc_expires_at c) s = Inr (v, s')"
    by (auto simp: reserve_started_def split: if_splits option.splits)
  note law = reserve_law [OF inv v]
  show ?thesis
  proof (cases "rx_reserved v")
    case False
    with r v law show ?thesis
      by (auto simp: reserve_started_def step_post_def kept_def)
  next
    case True
    with r v obtain sm acc1 a where sm: "rx_summary v = Some sm"
      and a1: "add_admission item rec projection acc = Inr acc1"
      and st: "started_summary_of er = Inr (Some a)"
      and step: "step = Pass_Next (acc1\<lparr>ac_reservations := ac_reservations acc1 @ [sm],
        ac_started := ac_started acc1 @ [a]\<rparr>) (rx_budget_after v)"
      using er(2,3)
      by (auto simp: reserve_started_def started_summary_of_def split: option.splits)
    from law True sm have "rs_work_item_id sm = si_work_item_id item" "rs_lane sm = pc_execution_lane c" by auto
    with started_summary_Inr [OF st] ok lane new pr er(1) hold step law pass_command_checked(7) [OF c]
    show ?thesis
      by - (rule add_admission_Inr [OF a1], auto simp: step_post_def kept_def acc_ok_def acc_ids_def)
  qed
qed

lemma start_leased_post:
  assumes c: "pass_command_post_init c = Inr c" and inv: "inv s" and ok: "acc_ok c acc"
    and lane: "si_lane item = pc_lane c" and new: "si_work_item_id item \<notin> set (acc_ids acc)"
    and rec: "wi_id (lr_work_item rec) = si_work_item_id item"
    and pr: "pr_work_item_id projection = si_work_item_id item" "pr_lane projection = pc_lane c"
    and hold: "held (si_work_item_id item) s" "owned (si_work_item_id item) s"
    and r: "start_leased ports c ref item rec projection b acc s = Inr (step, s')"
  shows "inv s' \<and> step_post c held owned item acc s step s'"
proof -
  from r obtain prov er s1 where st: "po_start ports item (pc_execution_lane c) rec prov (pc_now c) s = Inr (er, s1)"
    and rest: "(case er_attempt_id er of
       None \<Rightarrow> (case er_command_ref er of
           None \<Rightarrow> Inl (RuntimeError ''execution boundary returned invalid reference'')
         | Some r \<Rightarrow> bindE (add_admission item rec projection acc) (\<lambda>acc1.
             Inr (Pass_Next (acc1\<lparr>ac_commands := ac_commands acc1 @ [r]\<rparr>) b, s1)))
     | Some attempt \<Rightarrow> reserve_started ports c ref item rec projection er attempt b acc s1) = Inr (step, s')"
    by (auto simp: start_leased_def)
  note law = start_law [OF inv st]
  from law rest obtain attempt where "reserve_started ports c ref item rec projection er attempt b acc s1 = Inr (step, s')"
    by auto
  from reserve_started_post [OF c _ ok lane new pr _ _ _ _ _ this] law rec hold show ?thesis
    by (auto simp: step_post_def kept_def)
qed

lemma admit_item_post:
  assumes c: "pass_command_post_init c = Inr c" and worker: "mk_worker_ref wv = Inr (pc_worker c)" and inv: "inv s" and ok: "acc_ok c acc"
    and lane: "si_lane item = pc_lane c" and new: "si_work_item_id item \<notin> set (acc_ids acc)"
    and r: "admit_item ports c index item b acc s = Inr (step, s')"
  shows "inv s' \<and> step_post c held owned item acc s step s'"
proof -
  from r obtain pv s1 where pv: "po_preview ports item (pc_execution_lane c) b (pc_now c) s = Inr (pv, s1)"
    by (auto simp: admit_item_def Let_def)
  from preview_law [OF pv] have s1: "s1 = s" .
  show ?thesis
  proof (cases "pv_available pv")
    case False
    with r pv s1 inv show ?thesis by (auto simp: admit_item_def Let_def step_post_def)
  next
    case True
    with r pv s1 obtain v token lease s2 where tok: "mk_lease_token v = Inr token"
      and le: "lease_selected ports item (pc_worker c) token (pc_expires_at c) (pc_now c) s = Inr (lease, s2)"
      and rest: "(case (lx_execution lease, lx_projection lease) of
          (Some record, Some projection) \<Rightarrow> start_leased ports c
            (indexed_ref (pc_token_prefix c) index (si_work_item_id item)) item record projection b acc s2
        | _ \<Rightarrow> Inr (Pass_Stop (lease_skipped_reason (lx_skipped_reason lease)), s2)) = Inr (step, s')"
      by (auto simp: admit_item_def Let_def)
    from le show ?thesis
    proof (cases rule: lease_selected_Inr)
      case (lost kind)
      with rest lease_law [OF inv lost(1) tok worker] show ?thesis by (auto simp: step_post_def kept_def)
    next
      case (leased kind rec l pj sa)
      note law = lease_law [OF inv leased(1) tok worker]
      then have "inv sa" by simp
      note alaw = admit_law [OF this leased(4)]
      show ?thesis
      proof (cases pj)
        case None
        with rest leased law alaw show ?thesis by (auto simp: step_post_def kept_def)
      next
        case (Some q)
        with rest leased have sl: "start_leased ports c (indexed_ref (pc_token_prefix c) index (si_work_item_id item))
            item rec q b acc s2 = Inr (step, s')" by simp
        from start_leased_post [OF c _ ok lane new _ _ _ _ _ sl] alaw law leased Some lane
        show ?thesis by (auto simp: step_post_def kept_def)
      qed
    qed
  qed
qed

section \<open>The whole pass\<close>

lemma stop_pass_post:
  assumes "stop_pass c acc reason sn = Inr (res, s')" "acc_ok c acc"
    and "kept held owned s sn" "length (acc_ids acc) \<le> nat (pc_max_items c)"
    and "\<forall>i \<in> set (acc_ids acc). \<not> held i s \<and> held i sn \<and> owned i sn"
  shows "pass_post c held owned s res s'"
  using stop_pass_Inr [OF assms(1)] assms(2-5)
  by (cases "ac_admitted acc = []") (auto simp: pass_post_def Let_def acc_ok_def acc_ids_def kept_def)

lemma pass_loop_post:
  assumes c: "pass_command_post_init c = Inr c" and worker: "mk_worker_ref wv = Inr (pc_worker c)"
  shows "pass_loop ports c index n b acc sn = Inr (res, s') \<Longrightarrow> inv sn \<Longrightarrow> acc_ok c acc \<Longrightarrow>
    kept held owned s sn \<Longrightarrow> length (acc_ids acc) + n \<le> nat (pc_max_items c) \<Longrightarrow>
    \<forall>i \<in> set (acc_ids acc). \<not> held i s \<and> held i sn \<and> owned i sn \<Longrightarrow>
    inv s' \<and> pass_post c held owned s res s'"
proof (induction n arbitrary: index b acc sn)
  case 0
  with stop_pass_post [OF _ 0(3)] stop_pass_Inr show ?case by fastforce
next
  case (Suc n)
  from Suc.prems(1) obtain sel s1 where sel: "po_select ports (pc_lane c) b sn = Inr (sel, s1)" by auto
  from select_law [OF Suc.prems(2) sel] have s1: "s1 = sn"
    and it: "\<And>item. sel_item sel = Some item \<Longrightarrow> si_lane item = pc_lane c \<and> \<not> held (si_work_item_id item) sn"
    by auto
  show ?case
  proof (cases "sel_item sel")
    case None
    with Suc.prems(1) sel s1 obtain reason s2 where
      "selection_skipped_reason ports c (sel_skipped sel) sn = Inr (reason, s2)"
      and st: "stop_pass c acc reason s2 = Inr (res, s')" by auto
    then have "s2 = sn"
      by (auto simp: selection_skipped_reason_def split: if_splits dest: active_law)
    with stop_pass_post [OF st Suc.prems(3)] stop_pass_Inr [OF st] Suc.prems show ?thesis by auto
  next
    case (Some item)
    with Suc.prems(1) sel s1 obtain step s2 where
      ad: "admit_item ports c index item b acc sn = Inr (step, s2)"
      and rest: "(case step of Pass_Stop reason \<Rightarrow> stop_pass c acc reason s2
         | Pass_Next acc1 budget1 \<Rightarrow> pass_loop ports c (Suc index) n budget1 acc1 s2) = Inr (res, s')" by auto
    from it [OF Some] have lane: "si_lane item = pc_lane c" and nh: "\<not> held (si_work_item_id item) sn" by auto
    have new: "si_work_item_id item \<notin> set (acc_ids acc)" using nh Suc.prems(6) by auto
    from admit_item_post [OF c worker Suc.prems(2,3) lane new ad]
    have inv2: "inv s2" and post: "step_post c held owned item acc sn step s2" by auto
    then have k: "kept held owned sn s2" by (simp add: step_post_def)
    show ?thesis
    proof (cases step)
      case (Pass_Stop reason)
      with rest have st: "stop_pass c acc reason s2 = Inr (res, s')" by simp
      have "\<forall>i \<in> set (acc_ids acc). \<not> held i s \<and> held i s2 \<and> owned i s2"
        using Suc.prems(6) k by (auto simp: kept_def)
      with stop_pass_post [OF st Suc.prems(3) kept_trans [OF Suc.prems(4) k]] stop_pass_Inr [OF st] Suc.prems(5) inv2
      show ?thesis by auto
    next
      case (Pass_Next acc1 b1)
      with post have a1: "acc_ok c acc1" "acc_ids acc1 = acc_ids acc @ [si_work_item_id item]"
        "held (si_work_item_id item) s2" "owned (si_work_item_id item) s2" by (auto simp: step_post_def)
      have "\<not> held (si_work_item_id item) s" using nh Suc.prems(4) by (auto simp: kept_def)
      then have "\<forall>i \<in> set (acc_ids acc1). \<not> held i s \<and> held i s2 \<and> owned i s2"
        using Suc.prems(6) k a1 by (auto simp: kept_def)
      with Suc.IH [of "Suc index" b1 acc1 s2] rest Pass_Next inv2 a1 kept_trans [OF Suc.prems(4) k] Suc.prems(5)
      show ?thesis by auto
    qed
  qed
qed

lemma pass_sound:
  assumes "pass_command_post_init c = Inr c" "mk_worker_ref wv = Inr (pc_worker c)" "inv s"
    "admission_pass ports c s = Inr (res, s')"
  shows "inv s' \<and> pass_post c held owned s res s'"
  using pass_loop_post [OF assms(1,2), of 0 "nat (pc_max_items c)" "pc_budget c" no_admissions s res s' s]
    assms acc_ok_empty
  by (simp add: admission_pass_def acc_ids_def no_admissions_def)

end

end
