(* ===== verification/WindowDrain.thy ===== *)
theory WindowDrain
  imports BudgetWindow
begin

text \<open>
  Draining a capacity window (\<open>application/run_capacity_window_drain.py\<close>): claim the dirty lane,
  then select, reserve, mark leased and execute one item after the other until a stop reason, clear
  the dirty flag and release the claim. The strategy that executes an admitted item works on a
  state of its own; an exception leaves with the state in which it was raised.
\<close>

section \<open>Commands and results\<close>

datatype drain_stop_reason =
    DRAINED_ITEMS
  | NO_FITTING_WORK
  | BUDGET_EXHAUSTED
  | WINDOW_FROZEN
  | PAUSE_REQUESTED
  | LANE_ALREADY_CLAIMED
  | MAX_ITEMS_REACHED

record drain_command =
  dc_run :: "string option"
  dc_lane :: lane_key
  dc_window :: lane_key
  dc_worker :: string
  dc_now :: utc
  dc_minute_requests :: int
  dc_minute_tokens :: int
  dc_daily_requests :: int
  dc_daily_tokens :: int
  dc_max_items :: "int option"
  dc_ttl :: int

definition drain_command_post_init :: "drain_command \<Rightarrow> py_error + drain_command" where
  "drain_command_post_init c =
     (if lk_account_ref (dc_window c) = None
        then Inl (ValueError ''execution_window_key account_ref is required'')
      else if dc_minute_requests c < 0
        then Inl (ValueError ''remaining_minute_requests must be a non-negative int'')
      else if dc_minute_tokens c < 0
        then Inl (ValueError ''remaining_minute_tokens must be a non-negative int'')
      else if dc_daily_requests c < 0
        then Inl (ValueError ''remaining_daily_requests must be a non-negative int'')
      else if dc_daily_tokens c < 0
        then Inl (ValueError ''remaining_daily_tokens must be a non-negative int'')
      else if lk_work_kind (dc_lane c) \<noteq> lk_work_kind (dc_window c)
        then Inl (ValueError ''selection and execution work_kind must match'')
      else if lk_provider (dc_lane c) \<noteq> lk_provider (dc_window c)
        then Inl (ValueError ''selection and execution provider must match'')
      else if lk_model_ref (dc_lane c) \<noteq> lk_model_ref (dc_window c)
        then Inl (ValueError ''selection and execution model_ref must match'')
      else Inr c)"

record strategy_result =
  sg_work_item_id :: string
  sg_dispatch_attempt_id :: "string option"
  sg_call_started :: bool
  sg_observation_recorded :: bool
  sg_freeze_until :: "utc option"

definition strategy_result_post_init :: "strategy_result \<Rightarrow> py_error + strategy_result" where
  "strategy_result_post_init r =
     (if sg_work_item_id r = [] then Inl (ValueError ''work_item_id must be non-empty'')
      else if sg_dispatch_attempt_id r = Some []
        then Inl (ValueError ''dispatch_attempt_id must be non-empty'')
      else if sg_observation_recorded r \<and> \<not> sg_call_started r
        then Inl (ValueError ''capacity_observation_recorded requires provider_call_started'')
      else if sg_call_started r \<and> \<not> sg_observation_recorded r \<and> sg_freeze_until r = None
        then Inl (ValueError ''freeze_until is required when provider started without observation'')
      else Inr r)"

record drain_result =
  dn_lane_id :: string
  dn_drained_count :: nat
  dn_call_count :: nat
  dn_stop_reason :: drain_stop_reason
  dn_work_item_ids :: "string list"
  dn_attempt_ids :: "string list"

text \<open>\<open>CapacityWindowDrainStrategy\<close>: both methods may raise and may change the strategy's state.\<close>

record 'w drain_strategy =
  ds_should_pause :: "string option \<Rightarrow> utc \<Rightarrow> 'w \<Rightarrow> py_error + (bool \<times> 'w)"
  ds_execute :: "string \<Rightarrow> lane_key \<Rightarrow> lane_key \<Rightarrow> capacity_reservation \<Rightarrow> string \<Rightarrow> utc \<Rightarrow> 'w \<Rightarrow>
    py_error + (strategy_result \<times> 'w)"

section \<open>One iteration\<close>

definition remaining_or_one :: "int option \<Rightarrow> int" where
  "remaining_or_one v = (case v of None \<Rightarrow> 1 | Some n \<Rightarrow> n)"

definition budget_from_snapshot :: "budget_snapshot \<Rightarrow> window_budget" where
  "budget_from_snapshot s =
     \<lparr>wb_requests = max 0 (remaining_or_one (bs_minute_requests s) - bs_reserved_minute_requests s),
      wb_tokens = max 0 (remaining_or_one (bs_minute_tokens s) - bs_reserved_minute_tokens s),
      wb_daily_requests = max 0 (remaining_or_one (bs_daily_requests s) - bs_reserved_daily_requests s),
      wb_daily_tokens = max 0 (remaining_or_one (bs_daily_tokens s) - bs_reserved_daily_tokens s)\<rparr>"

definition drain_observation :: "drain_command \<Rightarrow> capacity_observation" where
  "drain_observation c = \<lparr>co_minute_requests = Some (dc_minute_requests c),
     co_minute_tokens = Some (dc_minute_tokens c), co_daily_requests = Some (dc_daily_requests c),
     co_daily_tokens = Some (dc_daily_tokens c), co_minute_reset_at = None, co_daily_reset_at = None,
     co_observed_at = dc_now c\<rparr>"

definition leased_update :: "string \<Rightarrow> utc \<Rightarrow> lifecycle_update" where
  "leased_update i t = \<lparr>lu_work_item_id = i, lu_status = ''leased'', lu_changed_at = Aware t,
     lu_retry_plan = None, lu_model_ref = None\<rparr>"

record drain_acc =
  da_items :: "string list"
  da_attempts :: "string list"
  da_calls :: nat

datatype drain_step = Stop drain_stop_reason bool | Continue drain_acc

type_synonym ('w, 'a) drain_run = "(py_error \<times> queue_db \<times> 'w) + ('a \<times> queue_db \<times> 'w)"

text \<open>A statement of the queue's repositories inside the drain.\<close>

definition on_db :: "(queue_db \<Rightarrow> py_error + ('a \<times> queue_db)) \<Rightarrow> queue_db \<times> 'w \<Rightarrow> ('w, 'a) drain_run" where
  "on_db f s = (case f (fst s) of Inl e \<Rightarrow> Inl (e, s) | Inr (x, db) \<Rightarrow> Inr (x, db, snd s))"

definition then_run :: "('w, 'a) drain_run \<Rightarrow> ('a \<Rightarrow> queue_db \<times> 'w \<Rightarrow> ('w, 'b) drain_run) \<Rightarrow>
    ('w, 'b) drain_run" where
  "then_run m f = (case m of Inl e \<Rightarrow> Inl e | Inr (x, s) \<Rightarrow> f x s)"

text \<open>What happens to the reservation once the strategy has returned.\<close>

definition settle_reservation :: "drain_command \<Rightarrow> capacity_reservation \<Rightarrow> strategy_result \<Rightarrow>
    queue_db \<Rightarrow> queue_db" where
  "settle_reservation c v r db =
     (if \<not> sg_call_started r then release_reservation v (dc_now c) db
      else if sg_observation_recorded r then release_reservation v (dc_now c) db
      else case sg_freeze_until r of
        Some u \<Rightarrow> freeze_until (window_of (dc_window c)) u (dc_now c) db
      | None \<Rightarrow> db)"

definition account_item :: "selectable_item \<Rightarrow> strategy_result \<Rightarrow> drain_acc \<Rightarrow> drain_acc" where
  "account_item item r acc = \<lparr>da_items = da_items acc @ [si_work_item_id item],
     da_attempts = da_attempts acc @ (case sg_dispatch_attempt_id r of Some a \<Rightarrow> [a] | None \<Rightarrow> []),
     da_calls = da_calls acc + (if sg_call_started r then 1 else 0)\<rparr>"

definition execute_reserved :: "'w drain_strategy \<Rightarrow> drain_command \<Rightarrow> selectable_item \<Rightarrow>
    capacity_reservation \<Rightarrow> drain_acc \<Rightarrow> queue_db \<times> 'w \<Rightarrow> ('w, drain_step) drain_run" where
  "execute_reserved strategy c item v acc s =
     (case ds_execute strategy (si_work_item_id item) (dc_lane c) (dc_window c) v (dc_worker c)
        (dc_now c) (snd s) of
        Inl e \<Rightarrow> Inl (e, release_reservation v (dc_now c) (fst s), snd s)
      | Inr (r, w) \<Rightarrow> Inr (Continue (account_item item r acc), settle_reservation c v r (fst s), w))"

definition admit_selected :: "'w drain_strategy \<Rightarrow> drain_command \<Rightarrow> selectable_item \<Rightarrow> drain_acc \<Rightarrow>
    queue_db \<times> 'w \<Rightarrow> ('w, drain_step) drain_run" where
  "admit_selected strategy c item acc s =
     then_run (on_db (try_reserve (window_of (dc_window c)) 1 (si_required item) (dc_now c)) s) (\<lambda>reservation s1.
     case reservation of
       None \<Rightarrow> Inr (Stop BUDGET_EXHAUSTED False, s1)
     | Some v \<Rightarrow>
         then_run (on_db (\<lambda>db. bindE (lifecycle_update_post_init
             (leased_update (si_work_item_id item) (dc_now c))) (\<lambda>u. sync_projection_lifecycle u db)) s1)
           (\<lambda>_ s2. execute_reserved strategy c item v acc s2))"

definition drain_iteration :: "(string \<Rightarrow> string) \<Rightarrow> (string \<Rightarrow> bool) \<Rightarrow> 'w drain_strategy \<Rightarrow>
    drain_command \<Rightarrow> drain_acc \<Rightarrow> queue_db \<times> 'w \<Rightarrow> ('w, drain_step) drain_run" where
  "drain_iteration collate locked strategy c acc s =
     (case ds_should_pause strategy (dc_run c) (dc_now c) (snd s) of
        Inl e \<Rightarrow> Inl (e, s)
      | Inr (True, w) \<Rightarrow> Inr (Stop PAUSE_REQUESTED False, fst s, w)
      | Inr (False, w) \<Rightarrow>
          then_run (on_db (apply_capacity_observation (window_of (dc_window c)) (drain_observation c))
            (fst s, w)) (\<lambda>snapshot s1.
          if (case bs_frozen_until snapshot of Some u \<Rightarrow> dc_now c < u | None \<Rightarrow> False)
          then Inr (Stop WINDOW_FROZEN False, s1)
          else
            then_run (on_db (\<lambda>db. bindE (window_budget_post_init (budget_from_snapshot snapshot))
              (\<lambda>budget. bindE (select_admission_work_item collate locked (dc_lane c) budget db)
                (\<lambda>sel. Inr (sel, db)))) s1) (\<lambda>sel s2.
            case sel_item sel of
              None \<Rightarrow> Inr (Stop NO_FITTING_WORK True, s2)
            | Some item \<Rightarrow> admit_selected strategy c item acc s2)))"

section \<open>The loop\<close>

definition below_max :: "drain_command \<Rightarrow> drain_acc \<Rightarrow> bool" where
  "below_max c acc = (case dc_max_items c of None \<Rightarrow> True | Some n \<Rightarrow> int (length (da_items acc)) < n)"

text \<open>\<open>while ... break ... else\<close>; a loop that never stops is \<open>None\<close>.\<close>

partial_function (option) drain_loop :: "(string \<Rightarrow> string) \<Rightarrow> (string \<Rightarrow> bool) \<Rightarrow> 'w drain_strategy \<Rightarrow>
    drain_command \<Rightarrow> drain_acc \<Rightarrow> queue_db \<times> 'w \<Rightarrow>
    ('w, drain_stop_reason \<times> bool \<times> drain_acc) drain_run option" where
  "drain_loop collate locked strategy c acc s =
     (if below_max c acc
      then (case drain_iteration collate locked strategy c acc s of
          Inl e \<Rightarrow> Some (Inl e)
        | Inr (step, s') \<Rightarrow>
            (case step of
               Stop reason clear \<Rightarrow> Some (Inr ((reason, clear, acc), s'))
             | Continue acc' \<Rightarrow> drain_loop collate locked strategy c acc' s'))
      else Some (Inr ((MAX_ITEMS_REACHED, False, acc), s)))"

declare drain_loop.simps [code]

definition drain_outcome :: "lane_claim \<Rightarrow> drain_stop_reason \<Rightarrow> drain_acc \<Rightarrow> drain_result" where
  "drain_outcome claim reason acc = \<lparr>dn_lane_id = lc_lane_id claim,
     dn_drained_count = length (da_items acc), dn_call_count = da_calls acc,
     dn_stop_reason = (if da_items acc \<noteq> [] \<and> reason = NO_FITTING_WORK then DRAINED_ITEMS else reason),
     dn_work_item_ids = da_items acc, dn_attempt_ids = da_attempts acc\<rparr>"

definition no_items :: drain_acc where
  "no_items = \<lparr>da_items = [], da_attempts = [], da_calls = 0\<rparr>"

text \<open>After the loop: clear the flag when nothing was left, release the claim in any case.\<close>

definition finish_drain :: "drain_command \<Rightarrow> lane_claim \<Rightarrow>
    ('w, drain_stop_reason \<times> bool \<times> drain_acc) drain_run \<Rightarrow> ('w, drain_result) drain_run" where
  "finish_drain c claim out =
     (let release = release_lane_claim (lc_lane_id claim) (dc_worker c) (dc_now c) in
      case out of
        Inl (e, db, w) \<Rightarrow> Inl (e, release db, w)
      | Inr ((reason, clear, acc), db, w) \<Rightarrow>
          let db1 = (if clear then clear_dirty_flag (lc_lane_id claim) (dc_worker c) (dc_now c) db else db)
          in Inr (drain_outcome claim reason acc, release db1, w))"

definition run_capacity_window_drain :: "(string \<Rightarrow> string) \<Rightarrow> (string \<Rightarrow> bool) \<Rightarrow> (string \<Rightarrow> bool) \<Rightarrow>
    'w drain_strategy \<Rightarrow> drain_command \<Rightarrow> queue_db \<times> 'w \<Rightarrow> ('w, drain_result) drain_run option" where
  "run_capacity_window_drain collate locked flag_locked strategy c s =
     (case on_db (claim_dirty_lane flag_locked (dc_lane c) (dc_worker c) (dc_now c) (dc_ttl c)) s of
        Inl e \<Rightarrow> Some (Inl e)
      | Inr (None, s') \<Rightarrow> Some (Inr (\<lparr>dn_lane_id = lane_id (dc_lane c), dn_drained_count = 0,
          dn_call_count = 0, dn_stop_reason = LANE_ALREADY_CLAIMED, dn_work_item_ids = [],
          dn_attempt_ids = []\<rparr>, s'))
      | Inr (Some claim, s') \<Rightarrow>
          map_option (finish_drain c claim) (drain_loop collate locked strategy c no_items s'))"

end
