(* ===== verification/DrainProps.thy ===== *)
theory DrainProps
  imports WindowDrain
begin

text \<open>
  What a drain does: it always ends, takes the fitting rows of its lane in queue order, and stops
  for one of the reasons its own observation leaves possible.
\<close>

section \<open>Queue order\<close>

lemma hd_insort: "hd (insort_key f x ys) = (if ys = [] \<or> f x \<le> f (hd ys) then x else hd ys)"
  by (cases ys) auto

lemma min_by_sort: "min_by f xs = (case sort_key f xs of [] \<Rightarrow> None | y # _ \<Rightarrow> Some y)"
proof (induction xs)
  case (Cons x xs)
  have "sort_key f xs \<noteq> [] \<Longrightarrow> min_by f xs = Some (hd (sort_key f xs))"
    using Cons by (cases "sort_key f xs") auto
  moreover have "sort_key f xs = [] \<longleftrightarrow> xs = []"
    by (metis length_0_conv length_sort)
  moreover have "insort_key f x (sort_key f xs) = hd (insort_key f x (sort_key f xs)) #
      tl (insort_key f x (sort_key f xs))" by simp
  ultimately show ?case
    by (cases "xs = []") (auto simp: hd_insort split: list.splits)
qed simp

text \<open>The rows a lane offers to a budget: retryable ones first, each group in queue order.\<close>

definition unlocked_fits :: "(string \<Rightarrow> string) \<Rightarrow> (string \<Rightarrow> bool) \<Rightarrow> lane_key \<Rightarrow> int \<Rightarrow> string \<Rightarrow>
    queue_db \<Rightarrow> admission_row list" where
  "unlocked_fits collate locked lane m status db =
     sort_key (fit_order collate) (filter (\<lambda>r. \<not> locked (ca_id r)) (fit_rows lane status m db))"

definition lane_queue :: "(string \<Rightarrow> string) \<Rightarrow> (string \<Rightarrow> bool) \<Rightarrow> lane_key \<Rightarrow> window_budget \<Rightarrow>
    queue_db \<Rightarrow> admission_row list" where
  "lane_queue collate locked lane b db =
     (if admits_any_work b
      then unlocked_fits collate locked lane (max_required_window_tokens b) ''retryable_failed'' db @
        unlocked_fits collate locked lane (max_required_window_tokens b) ''ready'' db
      else [])"

definition rows_ok :: "queue_db \<Rightarrow> bool" where
  "rows_ok db \<longleftrightarrow> distinct (map ca_id (q_rows db)) \<and> (\<forall>r \<in> set (q_rows db). admission_check r)"

definition selectable_of :: "admission_row \<Rightarrow> selectable_item" where
  "selectable_of r = \<lparr>si_work_item_id = ca_id r, si_lane = ca_lane r, si_status = ca_status r,
     si_required = ca_required r, si_input = Some (ca_input r), si_artifact = Some (ca_artifact r)\<rparr>"

lemma sql_non_empty_ne: "sql_non_empty v \<Longrightarrow> v \<noteq> []"
  by (auto simp: sql_non_empty_def)

lemma row_lane_checked: "lane_check k \<Longrightarrow> row_lane k = Inr k"
  by (auto simp: row_lane_def lane_check_def required_str_def optional_str_def lane_key_post_init_def
    dest: sql_non_empty_ne)

lemma row_to_selectable_checked:
  "admission_check r \<Longrightarrow> ca_status r \<in> {''retryable_failed'', ''ready''} \<Longrightarrow>
     row_to_selectable r = Inr (selectable_of r)"
  by (auto simp: row_to_selectable_def admission_check_def required_str_def row_lane_checked
    selectable_post_init_def selectable_of_def dest: sql_non_empty_ne)

lemma unlocked_fits_set:
  "set (unlocked_fits collate locked lane m status db) =
     {r \<in> set (q_rows db). ca_lane r = lane \<and> ca_status r = status \<and> ca_required r \<le> m \<and>
        \<not> locked (ca_id r)}"
  by (auto simp: unlocked_fits_def fit_rows_def)

lemma select_first_fit_value:
  assumes "rows_ok db" "0 < m" "status \<in> {''retryable_failed'', ''ready''}"
  shows "select_first_fit collate locked lane status m db =
    Inr (case unlocked_fits collate locked lane m status db of [] \<Rightarrow> None | r # _ \<Rightarrow> Some (selectable_of r))"
proof (cases "unlocked_fits collate locked lane m status db")
  case Nil
  with assms show ?thesis by (simp add: select_first_fit_def min_by_sort unlocked_fits_def)
next
  case (Cons r rs)
  then have "r \<in> set (unlocked_fits collate locked lane m status db)" by simp
  with assms have "row_to_selectable r = Inr (selectable_of r)"
    by (auto simp: unlocked_fits_set rows_ok_def intro: row_to_selectable_checked)
  with Cons assms(2) show ?thesis by (simp add: select_first_fit_def min_by_sort unlocked_fits_def)
qed

lemma select_value:
  assumes "rows_ok db"
  shows "select_admission_work_item collate locked lane b db =
    Inr (case lane_queue collate locked lane b db of
       [] \<Rightarrow> \<lparr>sel_item = None, sel_skipped = Some (if admits_any_work b then ''no_fitting_work_item''
         else ''capacity_exhausted'')\<rparr>
     | r # _ \<Rightarrow> \<lparr>sel_item = Some (selectable_of r), sel_skipped = None\<rparr>)"
proof (cases "admits_any_work b")
  case True
  then have "0 < max_required_window_tokens b"
    by (simp add: admits_any_work_def max_required_window_tokens_def)
  with assms True show ?thesis
    by (auto simp: select_admission_work_item_def select_first_fit_value lane_queue_def Let_def
      split: list.splits)
qed (simp add: select_admission_work_item_def lane_queue_def)

section \<open>Leasing the head of the queue\<close>

definition drained_row :: "utc \<Rightarrow> admission_row \<Rightarrow> admission_row" where
  "drained_row t r = r\<lparr>ca_status := ''leased'', ca_retry_plan := None, ca_updated_at := t\<rparr>"

definition drain_rows :: "string set \<Rightarrow> utc \<Rightarrow> admission_row list \<Rightarrow> admission_row list" where
  "drain_rows ids t = map (\<lambda>r. if ca_id r \<in> ids then drained_row t r else r)"

lemma set_lifecycle_leased [simp]: "set_lifecycle (leased_update i t) t' = drained_row t'"
  by (simp add: set_lifecycle_def leased_update_def drained_row_def fun_eq_iff)

lemma lifecycle_update_Inr: "lifecycle_update_post_init u = Inr v \<Longrightarrow> v = u"
  by (auto simp: lifecycle_update_post_init_def split: if_splits option.splits)

lemma drained_row_simps [simp]:
  "ca_id (drained_row t r) = ca_id r" "ca_lane (drained_row t r) = ca_lane r"
  "ca_status (drained_row t r) = ''leased''" "ca_required (drained_row t r) = ca_required r"
  "drained_row t (drained_row t r) = drained_row t r"
  by (simp_all add: drained_row_def)

lemma drain_rows_comp: "drain_rows A t (drain_rows B t rs) = drain_rows (A \<union> B) t rs"
  by (auto simp: drain_rows_def)

lemma drain_rows_empty [simp]: "drain_rows {} t rs = rs"
  by (simp add: drain_rows_def)

lemma rows_ok_drain: "rows_ok db \<Longrightarrow> q_rows db' = drain_rows A t (q_rows db) \<Longrightarrow> rows_ok db'"
  by (auto simp: rows_ok_def drain_rows_def comp_def if_distrib [of ca_id] admission_check_def
    drained_row_def all_statuses_def cong: if_cong)

lemma unlocked_fits_drain:
  assumes "q_rows db' = drain_rows A t (q_rows db)" "status \<noteq> ''leased''"
  shows "unlocked_fits collate locked lane m status db' =
    filter (\<lambda>r. ca_id r \<notin> A) (unlocked_fits collate locked lane m status db)"
proof -
  let ?P = "\<lambda>r. ca_lane r = lane \<and> ca_status r = status \<and> ca_required r \<le> m \<and> \<not> locked (ca_id r)"
  have "filter ?P (drain_rows A t rs) = filter (\<lambda>r. ca_id r \<notin> A) (filter ?P rs)" for rs
    using assms(2) by (induction rs) (auto simp: drain_rows_def)
  then show ?thesis
    using assms(1) by (simp add: unlocked_fits_def fit_rows_def filter_sort conj_commute conj_left_commute)
qed

lemma lane_queue_drain:
  assumes "q_rows db' = drain_rows A t (q_rows db)"
  shows "lane_queue collate locked lane b db' =
    filter (\<lambda>r. ca_id r \<notin> A) (lane_queue collate locked lane b db)"
  using unlocked_fits_drain [OF assms] by (simp add: lane_queue_def)

lemma distinct_ids_subset:
  assumes "distinct (map ca_id rs)" "set xs \<subseteq> set rs" "distinct xs"
  shows "distinct (map ca_id xs)"
  using assms by (metis distinct_map inj_on_subset)

lemma lane_queue_in: "r \<in> set (lane_queue collate locked lane b db) \<Longrightarrow> r \<in> set (q_rows db) \<and>
    ca_lane r = lane \<and> ca_status r \<in> {''retryable_failed'', ''ready''} \<and>
    ca_required r \<le> max_required_window_tokens b \<and> admits_any_work b \<and> \<not> locked (ca_id r)"
  by (auto simp: lane_queue_def unlocked_fits_set split: if_splits)

lemma lane_queue_distinct:
  assumes "rows_ok db"
  shows "distinct (map ca_id (lane_queue collate locked lane b db))"
proof (rule distinct_ids_subset)
  from assms show "distinct (map ca_id (q_rows db))" by (simp add: rows_ok_def)
  show "set (lane_queue collate locked lane b db) \<subseteq> set (q_rows db)" using lane_queue_in by fast
  from assms have d: "distinct (q_rows db)" by (simp add: rows_ok_def distinct_map)
  have "set (unlocked_fits collate locked lane m ''retryable_failed'' db) \<inter>
      set (unlocked_fits collate locked lane m ''ready'' db) = {}" for m
    by (auto simp: unlocked_fits_set)
  with d show "distinct (lane_queue collate locked lane b db)"
    by (auto simp: lane_queue_def unlocked_fits_def fit_rows_def)
qed

lemma lane_queue_tail:
  assumes "rows_ok db" "lane_queue collate locked lane b db = r # rs"
    and "q_rows db' = drain_rows {ca_id r} t (q_rows db)"
  shows "lane_queue collate locked lane b db' = rs"
proof -
  have "distinct (map ca_id (r # rs))" using lane_queue_distinct [OF assms(1)] assms(2) by metis
  then have "filter (\<lambda>x. ca_id x \<noteq> ca_id r) rs = rs" by (subst filter_id_conv) (force simp: image_iff)
  with lane_queue_drain [OF assms(3)] assms(2) show ?thesis by simp
qed

lemma row_lane_Inr: "row_lane k = Inr l \<Longrightarrow> l = k"
  by (auto simp: row_lane_def lane_key_post_init_def split: if_splits)

lemma sync_Inr:
  assumes "sync_projection_lifecycle u db = Inr (Some x, db')"
  shows "\<exists>t old e. lu_changed_at u = Aware t \<and>
    List.find (\<lambda>r. ca_id r = lu_work_item_id u \<and> lifecycle_changes u r) (q_rows db) = Some old \<and>
    db' = snd (append_lane_event e (mark_lane_dirty (ca_lane (set_lifecycle u t old))
      (reason_for_status (lu_status u)) t
      (update_rows (\<lambda>x. ca_id x = lu_work_item_id u \<and> lifecycle_changes u x) (set_lifecycle u t) db)))"
  using assms
  by (auto simp: sync_projection_lifecycle_def Let_def append_lane_event_def dest!: row_lane_Inr
    split: datetime.splits option.splits)

lemma sync_leased_rows:
  assumes "rows_ok db" "r \<in> set (q_rows db)" "ca_status r \<in> {''retryable_failed'', ''ready''}"
    and s: "sync_projection_lifecycle (leased_update (ca_id r) t) db = Inr (x, db')"
  shows "q_rows db' = drain_rows {ca_id r} t (q_rows db) \<and> q_budgets db' = q_budgets db \<and>
    q_claims db' = q_claims db \<and>
    (\<exists>f. q_flags db' = (q_flags db)(lane_id (ca_lane r) \<mapsto> f) \<and> fl_claimed_by f = None)"
proof -
  let ?u = "leased_update (ca_id r) t"
  let ?P = "\<lambda>y. ca_id y = ca_id r \<and> lifecycle_changes ?u y"
  have u: "lu_work_item_id ?u = ca_id r" "lu_changed_at ?u = Aware t" by (simp_all add: leased_update_def)
  have ch: "lifecycle_changes ?u r" using assms(3) by (auto simp: lifecycle_changes_def leased_update_def)
  have only: "y = r" if "y \<in> set (q_rows db)" "ca_id y = ca_id r" for y
    using that assms(1,2) by (auto simp: rows_ok_def distinct_map dest: inj_onD)
  have f: "List.find ?P (q_rows db) = Some r"
    using assms(1,2) ch by (intro find_unique [where k = ca_id]) (auto simp: rows_ok_def)
  have "x \<noteq> None"
    using s f u by (auto simp: sync_projection_lifecycle_def Let_def append_lane_event_def)
  with s obtain x' where "sync_projection_lifecycle ?u db = Inr (Some x', db')" by auto
  from sync_Inr [OF this] f u obtain e where db': "db' = snd (append_lane_event e
      (mark_lane_dirty (ca_lane r) (reason_for_status (lu_status ?u)) t
        (update_rows ?P (drained_row t) db)))" by auto
  moreover have "map (\<lambda>y. if ?P y then drained_row t y else y) (q_rows db) =
      drain_rows {ca_id r} t (q_rows db)"
    using only ch by (auto simp: drain_rows_def)
  ultimately show ?thesis
    by (auto simp: append_lane_event_def mark_lane_dirty_def update_rows_def split: option.splits)
qed

section \<open>One iteration\<close>

lemma on_db_Inr [simp]: "on_db f s = Inr (x, s') \<longleftrightarrow> (\<exists>db. f (fst s) = Inr (x, db) \<and> s' = (db, snd s))"
  by (cases s') (auto simp: on_db_def split: sum.splits)

lemma then_run_Inr [simp]: "then_run m f = Inr y \<longleftrightarrow> (\<exists>x s. m = Inr (x, s) \<and> f x s = Inr y)"
  by (auto simp: then_run_def split: sum.splits)

text \<open>The budget every iteration sees: what the command says remains, nothing reserved.\<close>

definition command_budget :: "drain_command \<Rightarrow> window_budget" where
  "command_budget c = \<lparr>wb_requests = dc_minute_requests c, wb_tokens = dc_minute_tokens c,
     wb_daily_requests = dc_daily_requests c, wb_daily_tokens = dc_daily_tokens c\<rparr>"

definition drain_queue :: "(string \<Rightarrow> string) \<Rightarrow> (string \<Rightarrow> bool) \<Rightarrow> drain_command \<Rightarrow> queue_db \<Rightarrow>
    admission_row list" where
  "drain_queue collate locked c db = lane_queue collate locked (dc_lane c) (command_budget c) db"

lemma observed_budget:
  assumes "drain_command_post_init c = Inr c"
  shows "budget_from_snapshot (snapshot_of (observed_row (drain_observation c) old)) = command_budget c"
    and "window_budget_post_init (command_budget c) = Inr (command_budget c)"
    and "bs_frozen_until (snapshot_of (observed_row (drain_observation c) old)) = None"
  using assms
  by (auto simp: budget_from_snapshot_def remaining_or_one_def command_budget_def snapshot_of_def
    observed_row_def drain_observation_def budget_snapshot.defs drain_command_post_init_def
    window_budget_post_init_def split: if_splits)

lemma observed_reservable:
  assumes "r \<in> set (drain_queue collate locked c db)"
  shows "reservable 1 (ca_required r) t (observed_row (drain_observation c) old)"
  using lane_queue_in [OF assms [unfolded drain_queue_def]]
  by (auto simp: reservable_def observed_row_def drain_observation_def command_budget_def
    admits_any_work_def max_required_window_tokens_def)

lemma select_frame:
  "lane_queue collate locked lane b (db\<lparr>q_budgets := x\<rparr>) = lane_queue collate locked lane b db"
  by (simp add: lane_queue_def unlocked_fits_def fit_rows_def)

text \<open>Tables the budget statements do not touch.\<close>

lemma budget_frames [frame_simps]:
  "q_rows (release_reservation v t db) = q_rows db" "q_flags (release_reservation v t db) = q_flags db"
  "q_rows (freeze_until k u t db) = q_rows db" "q_flags (freeze_until k u t db) = q_flags db"
  by (simp_all add: release_reservation_def freeze_until_def split: option.splits)

lemma settle_frames [frame_simps]:
  "q_rows (settle_reservation c v r db) = q_rows db" "q_flags (settle_reservation c v r db) = q_flags db"
  by (simp_all add: settle_reservation_def frame_simps split: option.splits)

lemma execute_reserved_continue:
  assumes "execute_reserved strategy c item v acc s = Inr (step, db', w')"
  shows "\<exists>acc'. step = Continue acc' \<and> da_items acc' = da_items acc @ [si_work_item_id item] \<and>
    q_rows db' = q_rows (fst s) \<and> q_flags db' = q_flags (fst s)"
  using assms by (auto simp: execute_reserved_def account_item_def frame_simps split: sum.splits)

lemma admit_selected_step:
  assumes ok: "rows_ok db" and r: "r \<in> set (drain_queue collate locked c db)"
    and b: "q_budgets db (window_of (dc_window c)) = Some (observed_row (drain_observation c) old)"
    and s: "admit_selected strategy c (selectable_of r) acc (db, w) = Inr (step, db', w')"
  shows "\<exists>acc' f. step = Continue acc' \<and> da_items acc' = da_items acc @ [ca_id r] \<and>
    q_rows db' = drain_rows {ca_id r} (dc_now c) (q_rows db) \<and>
    q_flags db' = (q_flags db)(lane_id (dc_lane c) \<mapsto> f) \<and> fl_claimed_by f = None"
proof -
  from lane_queue_in [OF r [unfolded drain_queue_def]] have r': "r \<in> set (q_rows db)"
    "ca_lane r = dc_lane c" "ca_status r \<in> {''retryable_failed'', ''ready''}" by auto
  from ok r'(1) have pos: "0 < ca_required r" by (auto simp: rows_ok_def admission_check_def)
  let ?k = "window_of (dc_window c)"
  have res: "try_reserve ?k 1 (si_required (selectable_of r)) (dc_now c) db =
      Inr (Some \<lparr>cr_window = ?k, cr_requests = 1, cr_tokens = ca_required r, cr_reserved_at = dc_now c\<rparr>,
        db\<lparr>q_budgets := (q_budgets db)(?k \<mapsto>
          add_reserved 1 (ca_required r) (dc_now c) (observed_row (drain_observation c) old))\<rparr>)"
    (is "_ = Inr (Some ?v, ?db1)")
    using pos b observed_reservable [OF r] by (simp add: try_reserve_def selectable_of_def)
  from s res obtain x db2 where sync: "sync_projection_lifecycle (leased_update (ca_id r) (dc_now c)) ?db1 = Inr (x, db2)"
    and ex: "execute_reserved strategy c (selectable_of r) ?v acc (db2, w) = Inr (step, db', w')"
    by (auto simp: admit_selected_def selectable_of_def dest: lifecycle_update_Inr)
  have "rows_ok ?db1" "r \<in> set (q_rows ?db1)" using ok r'(1) by (simp_all add: rows_ok_def)
  from sync_leased_rows [OF this r'(3) sync] execute_reserved_continue [OF ex] r'(2)
  show ?thesis by (auto simp: selectable_of_def)
qed

lemma drain_iteration_step:
  assumes c: "drain_command_post_init c = Inr c" and ok: "rows_ok db"
    and s: "drain_iteration collate locked strategy c acc (db, w) = Inr (step, db', w')"
  shows "case drain_queue collate locked c db of
      [] \<Rightarrow> q_rows db' = q_rows db \<and> q_flags db' = q_flags db \<and>
        (step = Stop PAUSE_REQUESTED False \<or> step = Stop NO_FITTING_WORK True)
    | r # _ \<Rightarrow> q_rows db' = q_rows db \<and> q_flags db' = q_flags db \<and> step = Stop PAUSE_REQUESTED False \<or>
        (\<exists>acc' f. step = Continue acc' \<and> da_items acc' = da_items acc @ [ca_id r] \<and>
          q_rows db' = drain_rows {ca_id r} (dc_now c) (q_rows db) \<and>
          q_flags db' = (q_flags db)(lane_id (dc_lane c) \<mapsto> f) \<and> fl_claimed_by f = None)"
proof (cases "\<exists>w1. ds_should_pause strategy (dc_run c) (dc_now c) w = Inr (True, w1)")
  case True
  with s show ?thesis by (auto simp: drain_iteration_def split: list.splits)
next
  case False
  let ?k = "window_of (dc_window c)" and ?o = "observed_row (drain_observation c) (q_budgets db (window_of (dc_window c)))"
  let ?db1 = "db\<lparr>q_budgets := (q_budgets db)(?k \<mapsto> ?o)\<rparr>"
  have ok1: "rows_ok ?db1" using ok by (simp add: rows_ok_def)
  have q1: "lane_queue collate locked (dc_lane c) (command_budget c) ?db1 = drain_queue collate locked c db"
    by (simp add: drain_queue_def select_frame)
  from False s obtain w1 where p: "ds_should_pause strategy (dc_run c) (dc_now c) w = Inr (False, w1)"
    by (auto simp: drain_iteration_def split: sum.splits bool.splits)
  show ?thesis
  proof (cases "drain_queue collate locked c db")
    case Nil
    with s p select_value [OF ok1, of collate locked "dc_lane c" "command_budget c", unfolded q1]
    show ?thesis
      by (auto simp: drain_iteration_def apply_capacity_observation_def Let_def observed_budget [OF c]
        split: if_splits)
  next
    case (Cons r rs)
    with s p select_value [OF ok1, of collate locked "dc_lane c" "command_budget c", unfolded q1]
    have a: "admit_selected strategy c (selectable_of r) acc (?db1, w1) = Inr (step, db', w')"
      by (auto simp: drain_iteration_def apply_capacity_observation_def Let_def observed_budget [OF c]
        split: if_splits)
    have "r \<in> set (drain_queue collate locked c ?db1)" using Cons q1 by (simp add: drain_queue_def)
    from admit_selected_step [OF ok1 this _ a] Cons show ?thesis by auto
  qed
qed

section \<open>The loop\<close>

text \<open>
  A finished loop has taken a prefix of the queue. What it reports, and the rows and the flag it
  leaves, follow from the length of the prefix.
\<close>

definition loop_stop_ok :: "drain_command \<Rightarrow> nat \<Rightarrow> nat \<Rightarrow> drain_stop_reason \<Rightarrow> bool \<Rightarrow> drain_acc \<Rightarrow> bool" where
  "loop_stop_ok c k n reason clear acc \<longleftrightarrow>
     (reason = PAUSE_REQUESTED \<and> \<not> clear \<or> reason = NO_FITTING_WORK \<and> clear \<and> k = n \<or>
      reason = MAX_ITEMS_REACHED \<and> \<not> clear \<and> \<not> below_max c acc \<and>
        (0 < k \<longrightarrow> dc_max_items c = Some (int (length (da_items acc)))))"

lemma below_max_Suc:
  assumes "below_max c acc" "da_items acc' = da_items acc @ [i]" "\<not> below_max c acc'"
  shows "dc_max_items c = Some (int (length (da_items acc')))"
  using assms by (auto simp: below_max_def split: option.splits)

definition loop_post :: "(string \<Rightarrow> string) \<Rightarrow> (string \<Rightarrow> bool) \<Rightarrow> drain_command \<Rightarrow> drain_acc \<Rightarrow>
    queue_db \<Rightarrow> ('w, drain_stop_reason \<times> bool \<times> drain_acc) drain_run \<Rightarrow> bool" where
  "loop_post collate locked c acc db out \<longleftrightarrow>
     (\<forall>reason clear acc' db' w'. out = Inr ((reason, clear, acc'), db', w') \<longrightarrow>
      (\<exists>k \<le> length (drain_queue collate locked c db).
        da_items acc' = da_items acc @ map ca_id (take k (drain_queue collate locked c db)) \<and>
        q_rows db' = drain_rows (ca_id ` set (take k (drain_queue collate locked c db))) (dc_now c) (q_rows db) \<and>
        (if k = 0 then q_flags db' = q_flags db
         else \<exists>f. q_flags db' = (q_flags db)(lane_id (dc_lane c) \<mapsto> f) \<and> fl_claimed_by f = None) \<and>
        loop_stop_ok c k (length (drain_queue collate locked c db)) reason clear acc'))"

lemma loop_post_raise [simp]: "loop_post collate locked c acc db (Inl e)"
  by (simp add: loop_post_def)

lemma loop_post_stop:
  assumes "q_rows db' = q_rows db" "q_flags db' = q_flags db"
    and "loop_stop_ok c 0 (length (drain_queue collate locked c db)) reason clear acc"
  shows "loop_post collate locked c acc db (Inr ((reason, clear, acc), db', w'))"
  using assms by (auto simp: loop_post_def intro!: exI [of _ 0])

lemma loop_post_continue:
  assumes below: "below_max c acc" and a1: "da_items acc1 = da_items acc @ [ca_id r]"
    and q: "drain_queue collate locked c db = r # rs" "drain_queue collate locked c dbn = rs"
    and r1: "q_rows dbn = drain_rows {ca_id r} (dc_now c) (q_rows db)"
    and f1: "q_flags dbn = (q_flags db)(lane_id (dc_lane c) \<mapsto> f)" "fl_claimed_by f = None"
    and post: "loop_post collate locked c acc1 dbn out"
  shows "loop_post collate locked c acc db out"
  unfolding loop_post_def q
proof (intro allI impI)
  fix reason clear acc' db' w'
  assume "out = Inr ((reason, clear, acc'), db', w')"
  with post q(2) obtain k where k: "k \<le> length rs" "da_items acc' = da_items acc1 @ map ca_id (take k rs)"
    "q_rows db' = drain_rows (ca_id ` set (take k rs)) (dc_now c) (q_rows dbn)"
    "if k = 0 then q_flags db' = q_flags dbn
     else \<exists>f. q_flags db' = (q_flags dbn)(lane_id (dc_lane c) \<mapsto> f) \<and> fl_claimed_by f = None"
    "loop_stop_ok c k (length rs) reason clear acc'" unfolding loop_post_def by blast
  have "loop_stop_ok c (Suc k) (Suc (length rs)) reason clear acc'"
    using k(2,5) below_max_Suc [OF below, of acc' "ca_id r"] a1
    by (cases "k = 0") (auto simp: loop_stop_ok_def)
  moreover have "\<exists>f. q_flags db' = (q_flags db)(lane_id (dc_lane c) \<mapsto> f) \<and> fl_claimed_by f = None"
    using k(4) f1 by (auto split: if_splits)
  ultimately show "\<exists>k \<le> length (r # rs). da_items acc' = da_items acc @ map ca_id (take k (r # rs)) \<and>
      q_rows db' = drain_rows (ca_id ` set (take k (r # rs))) (dc_now c) (q_rows db) \<and>
      (if k = 0 then q_flags db' = q_flags db
       else \<exists>f. q_flags db' = (q_flags db)(lane_id (dc_lane c) \<mapsto> f) \<and> fl_claimed_by f = None) \<and>
      loop_stop_ok c k (length (r # rs)) reason clear acc'"
    using k(1,2,3) a1 r1 by (intro exI [of _ "Suc k"]) (simp add: drain_rows_comp)
qed

text \<open>The queue gets shorter with every item, so the loop ends whatever the strategy does.\<close>

lemma drain_loop_spec:
  assumes c: "drain_command_post_init c = Inr c"
  shows "rows_ok db \<Longrightarrow> \<exists>out. drain_loop collate locked strategy c acc (db, w) = Some out \<and>
    loop_post collate locked c acc db out"
proof (induction "drain_queue collate locked c db" arbitrary: db acc w)
  case (Nil db acc w)
  note q = Nil(1) [symmetric]
  note step = drain_iteration_step [OF c Nil(2), of collate locked strategy acc w, unfolded q list.case]
  show ?case
    using q step
    by (subst drain_loop.simps)
      (auto simp: loop_stop_ok_def split: sum.split drain_step.split intro!: loop_post_stop)
next
  case (Cons r rs db acc w)
  note q = Cons(2) [symmetric]
  note step = drain_iteration_step [OF c Cons(3), of collate locked strategy acc w, unfolded q list.case]
  consider (max) "\<not> below_max c acc"
    | (raise) e where "below_max c acc" "drain_iteration collate locked strategy c acc (db, w) = Inl e"
    | (run) st dbn w1 where "below_max c acc"
        "drain_iteration collate locked strategy c acc (db, w) = Inr (st, dbn, w1)"
    by (metis obj_sumE surj_pair)
  then show ?case
  proof cases
    case max
    then show ?thesis by (subst drain_loop.simps) (auto simp: loop_stop_ok_def intro!: loop_post_stop)
  next
    case raise
    then show ?thesis by (subst drain_loop.simps) simp
  next
    case run
    from step [OF run(2)] show ?thesis
    proof (elim disjE conjE exE)
      assume "q_rows dbn = q_rows db" "q_flags dbn = q_flags db" "st = Stop PAUSE_REQUESTED False"
      with run show ?thesis
        by (subst drain_loop.simps) (auto simp: loop_stop_ok_def intro!: loop_post_stop)
    next
      fix acc1 f
      assume st: "st = Continue acc1" and a1: "da_items acc1 = da_items acc @ [ca_id r]"
        and r1: "q_rows dbn = drain_rows {ca_id r} (dc_now c) (q_rows db)"
        and f1: "q_flags dbn = (q_flags db)(lane_id (dc_lane c) \<mapsto> f)" "fl_claimed_by f = None"
      have q1: "rs = drain_queue collate locked c dbn"
        using lane_queue_tail [OF Cons(3) q [unfolded drain_queue_def] r1] by (simp add: drain_queue_def)
      from Cons(1) [OF q1 rows_ok_drain [OF Cons(3) r1], of acc1 w1] obtain out where
        "drain_loop collate locked strategy c acc1 (dbn, w1) = Some out"
        "loop_post collate locked c acc1 dbn out" by blast
      moreover from this(2) have "loop_post collate locked c acc db out"
        by (rule loop_post_continue [OF run(1) a1 q q1 [symmetric] r1 f1])
      ultimately show ?thesis using run st by (subst drain_loop.simps) simp
    qed
  qed
qed

end
