(* ===== verification/AdmissionWorld.thy ===== *)
theory AdmissionWorld
  imports AdmissionPorts AdmissionLaws DrainProps
begin

text \<open>
  The admission pass on the tables: the wired ports keep the contract of the pass, so that what it
  promises holds of the projection rows and of the execution rows.
\<close>

section \<open>The contract\<close>

definition world_ok :: "admission_world \<Rightarrow> bool" where
  "world_ok w \<longleftrightarrow> exec_ok (aw_exec w) \<and> rows_ok (aw_queue w)"

text \<open>Leased in the projection, leased in the execution runtime.\<close>

definition projected_leased :: "string \<Rightarrow> admission_world \<Rightarrow> bool" where
  "projected_leased i w \<longleftrightarrow> (\<exists>r \<in> set (q_rows (aw_queue w)). ca_id r = i \<and> ca_status r = ''leased'')"

definition execution_leased :: "string \<Rightarrow> admission_world \<Rightarrow> bool" where
  "execution_leased i w \<longleftrightarrow> (\<exists>r. row_of (aw_exec w) i = Some r \<and> row_status r = ''leased'')"

lemma world_frames [simp]:
  "world_ok (w\<lparr>aw_queue := q\<rparr>) \<longleftrightarrow> exec_ok (aw_exec w) \<and> rows_ok q"
  "world_ok (w\<lparr>aw_exec := e\<rparr>) \<longleftrightarrow> exec_ok e \<and> rows_ok (aw_queue w)"
  "execution_leased i (w\<lparr>aw_queue := q\<rparr>) = execution_leased i w"
  "projected_leased i (w\<lparr>aw_exec := e\<rparr>) = projected_leased i w"
  by (simp_all add: world_ok_def execution_leased_def projected_leased_def)

lemma select_in_lane:
  assumes ok: "rows_ok db" and sel: "select_admission_work_item collate locked lane b db = Inr sel"
    and item: "sel_item sel = Some item"
  shows "\<exists>r \<in> set (q_rows db). item = selectable_of r \<and> ca_lane r = lane \<and>
    ca_status r \<in> {''retryable_failed'', ''ready''}"
proof -
  from sel item select_value [OF ok, of collate locked lane b] obtain r rs where
    "lane_queue collate locked lane b db = r # rs" "item = selectable_of r"
    by (auto split: list.splits)
  then have "r \<in> set (lane_queue collate locked lane b db)" by simp
  with \<open>item = selectable_of r\<close> show ?thesis
    by (auto simp: lane_queue_def unlocked_fits_set split: if_splits)
qed

lemma rows_ok_unique:
  "rows_ok db \<Longrightarrow> r \<in> set (q_rows db) \<Longrightarrow> r' \<in> set (q_rows db) \<Longrightarrow> ca_id r = ca_id r' \<Longrightarrow> r = r'"
  by (metis rows_ok_def distinct_map inj_onD)

lemma set_leased_id [simp]: "ca_id (set_leased t r) = ca_id r" "ca_lane (set_leased t r) = ca_lane r"
  "ca_status (set_leased t r) = ''leased''"
  by (simp_all add: set_leased_def)

lemma set_leased_check: "admission_check r \<Longrightarrow> admission_check (set_leased t r)"
  by (auto simp: admission_check_def set_leased_def all_statuses_def)

lemma rows_ok_leased:
  assumes "rows_ok db"
  shows "rows_ok (db\<lparr>q_rows := map (\<lambda>x. if ca_id x = i then set_leased t x else x) (q_rows db), q_events := es\<rparr>)"
proof -
  have "ca_id \<circ> (\<lambda>x. if ca_id x = i then set_leased t x else x) = ca_id" by auto
  with assms show ?thesis by (auto simp: rows_ok_def set_leased_check)
qed

lemma admit_projection_Inr:
  assumes "rows_ok db" "admit_projection_work_item locked l db = Inr (p, db')"
  shows "rows_ok db' \<and>
    (\<forall>j. (\<exists>r \<in> set (q_rows db'). ca_id r = j \<and> ca_status r = ''leased'') =
       ((\<exists>r \<in> set (q_rows db). ca_id r = j \<and> ca_status r = ''leased'') \<or> p \<noteq> None \<and> j = pj_work_item_id l)) \<and>
    (\<forall>q. p = Some q \<longrightarrow> pr_work_item_id q = pj_work_item_id l \<and> pr_lane q = pj_lane l)"
proof -
  from assms(2) obtain t where t: "pj_leased_at l = Aware t"
    by (auto simp: admit_projection_work_item_def split: datetime.splits)
  show ?thesis
  proof (cases "List.find (admissible locked l) (q_rows db)")
    case None
    with assms t show ?thesis by (auto simp: admit_projection_work_item_def)
  next
    case (Some r)
    then have r: "r \<in> set (q_rows db)" "ca_id r = pj_work_item_id l" "ca_lane r = pj_lane l"
      by (auto dest!: find_Some_in simp: admissible_def)
    from Some assms(2) t obtain es q where db': "db' = db\<lparr>q_rows := map (\<lambda>x. if ca_id x = ca_id r
        then set_leased t x else x) (q_rows db), q_events := es\<rparr>"
      and q: "p = Some q" "pr_work_item_id q = ca_id r" "pr_lane q = ca_lane r"
      by (auto simp: admit_projection_work_item_def append_lane_event_def update_rows_def required_str_def
        projection_lease_result_post_init_def row_lane_def optional_str_def lane_key_post_init_def
        split: if_splits)
    from db' have rows: "q_rows db' = map (\<lambda>x. if ca_id x = ca_id r then set_leased t x else x) (q_rows db)"
      by simp
    have "\<exists>x \<in> set (q_rows db). ca_id x = pj_work_item_id l" using r by blast
    then have "(\<exists>r \<in> set (q_rows db'). ca_id r = j \<and> ca_status r = ''leased'') =
       ((\<exists>r \<in> set (q_rows db). ca_id r = j \<and> ca_status r = ''leased'') \<or> p \<noteq> None \<and> j = pj_work_item_id l)" for j
      unfolding rows set_map bex_simps using q r(2) by auto metis+
    with q r rows_ok_leased [OF assms(1)] show ?thesis by (auto simp: db')
  qed
qed

lemma lease_by_id_effect:
  assumes ok: "exec_ok db" and le: "lease_due_work_item_by_id locked kind i w k e n db = Inr (res, db')"
    and texts: "\<not> blank (worker_ref_value w)" "\<not> blank (lease_token_value k)"
  shows "exec_ok db' \<and> (\<forall>j r. row_of db j = Some r \<longrightarrow> row_status r = ''leased'' \<longrightarrow> row_of db' j = Some r) \<and>
    (\<forall>rec. res = Some rec \<longrightarrow> wi_id (lr_work_item rec) = i \<and>
       (\<exists>r. row_of db' i = Some r \<and> row_status r = ''leased''))"
  using lease_by_id_selects [OF le]
proof (elim disjE bexE conjE)
  fix x
  assume x: "x \<in> set (due_rows kind db)" "row_id (fst x) = i"
    and s: "lease_selected_row x w k e n db = Inr (res, db')"
  have "row_of db i = Some (fst x)" "row_status (fst x) \<noteq> ''leased''"
    using x by (auto simp: exec_ok_row_of [OF ok] due_rows_in)
  with lease_selected_row_effect [OF ok x(1) s] lease_selected_step(1) [OF ok x(1) texts s] x(2)
  show ?thesis by (metis option.inject)
qed (use ok in auto)

lemma start_execution_Inr:
  assumes ok: "exec_ok db" and st: "start_execution dumps catalog item lane rec rsv now db = Inr (er, db')"
  shows "exec_ok db' \<and> (\<forall>j. row_of db' j = row_of db j) \<and> er_work_item_id er = wi_id (lr_work_item rec) \<and>
    er_attempt_id er \<noteq> None \<and> er_attempt_number er \<noteq> None"
proof -
  from st obtain a started db1 where a: "al_leased a = rec" and sa: "start_attempts dumps now [a] db = Inr (started, db1)"
    and rest: "(case started of
        [x] \<Rightarrow> bindE (execution_reference_post_init \<lparr>er_work_item_id = sd_work_item_id x,
            er_attempt_id = Some (sd_attempt_id x), er_attempt_number = Some (sd_attempt_number x),
            er_command_ref = None\<rparr>) (\<lambda>r. Inr (r, db1))
      | _ \<Rightarrow> Inl (RuntimeError ''capacity admission execution must start one attempt'')) = Inr (er, db')"
    unfolding start_execution_def admitted_leased_post_init_def
    by (elim bindE_InrE) (auto simp: Let_def intro: that [rotated])
  from rest obtain x where "started = [x]" "db1 = db'"
    and er: "er_work_item_id er = sd_work_item_id x" "er_attempt_id er \<noteq> None" "er_attempt_number er \<noteq> None"
    by (cases started rule: remdups_adj.cases)
      (auto simp: execution_reference_post_init_def Let_def split: if_splits)
  with sa have x: "start_attempts dumps now [a] db = Inr ([x], db')" by simp
  from x obtain d where d: "build_dispatch_record a now = Inr d"
    and save: "save_started_dispatch_attempt dumps d db = Inr db'" and xi: "sd_work_item_id x = dp_work_item_id d"
    by (auto simp: start_attempts_def started_attempt_post_init_def)
  from d have "dp_work_item_id d = wi_id (lr_work_item (al_leased a))"
    by (auto simp: build_dispatch_record_def dispatch_record_post_init_def Let_def split: if_splits option.splits)
  moreover from save obtain db1 where
    b: "insert_attempt (started_attempt_row d) db = Inr db1" "insert_dispatch (started_dispatch_row d) db1 = Inr db'"
    by (auto simp: save_started_dispatch_attempt_def split: option.splits)
  then have "row_of db' j = row_of db j" for j
    using insert_attempt_step [OF ok b(1)] insert_dispatch_step [OF _ b(2)] by (simp add: row_of_def)
  ultimately show ?thesis using dispatch_step(1) [OF ok save] a er xi by auto
qed

lemma insert_reservation_rows:
  "insert_reservation attempts v db = Inr db' \<Longrightarrow> q_rows db' = q_rows db"
  by (auto simp: insert_reservation_def split: datetime.splits if_splits)

lemma reserve_capacity_Inr:
  assumes "reserve_capacity obs attempts a ref item lane b now expires db = Inr (rx, db')"
  shows "q_rows db' = q_rows db \<and> (\<forall>sm. rx_reserved rx \<and> rx_summary rx = Some sm \<longrightarrow>
     rs_work_item_id sm = si_work_item_id item \<and> rs_lane sm = lane \<and> rs_tokens sm = si_required item)"
  using assms
  by (auto simp: reserve_capacity_def reservation_result_post_init_def reservation_summary_post_init_def
    lane_summary_post_init_def split: if_splits dest: insert_reservation_rows)

lemma world_same [simp]: "w\<lparr>aw_queue := aw_queue w\<rparr> = w" "w\<lparr>aw_exec := aw_exec w\<rparr> = w"
  by (cases w; simp)+

lemma on_queue_Inr:
  "on_queue f w = Inr (x, w') \<longleftrightarrow> (\<exists>db. f (aw_queue w) = Inr (x, db) \<and> w' = w\<lparr>aw_queue := db\<rparr>)"
  by (auto simp: on_queue_def)

lemma on_exec_Inr:
  "on_exec f w = Inr (x, w') \<longleftrightarrow> (\<exists>db. f (aw_exec w) = Inr (x, db) \<and> w' = w\<lparr>aw_exec := db\<rparr>)"
  by (auto simp: on_exec_def)

lemma world_select_Inr:
  "po_select (world_ports collate locked exec_locked dumps catalog observing) lane b w = Inr (sel, w') \<longleftrightarrow>
     select_admission_work_item collate locked lane b (aw_queue w) = Inr sel \<and> w' = w"
  by (auto simp: world_ports_def on_queue_Inr)

interpretation world: pass_contract "world_ports collate locked exec_locked dumps catalog observing"
  world_ok projected_leased execution_leased
  for collate locked exec_locked dumps catalog observing
proof (unfold_locales, goal_cases)
  case (1 s lane b sel s')
  from 1(2) have sel: "select_admission_work_item collate locked lane b (aw_queue s) = Inr sel" and "s' = s"
    by (simp_all only: world_select_Inr)
  from 1(1) have "rows_ok (aw_queue s)" by (simp add: world_ok_def)
  show ?case
  proof (intro conjI allI impI)
    fix item
    assume "sel_item sel = Some item"
    with select_in_lane [OF \<open>rows_ok (aw_queue s)\<close> sel] obtain r where
      r: "r \<in> set (q_rows (aw_queue s))" "item = selectable_of r" "ca_lane r = lane"
      "ca_status r \<in> {''retryable_failed'', ''ready''}" by blast
    show "si_lane item = lane" using r by (simp add: selectable_of_def)
    have "x = r" if "x \<in> set (q_rows (aw_queue s))" "ca_id x = ca_id r" for x
      using rows_ok_unique [OF \<open>rows_ok (aw_queue s)\<close> that(1) r(1) that(2)] .
    with r(2,4) show "\<not> projected_leased (si_work_item_id item) s"
      by (force simp: projected_leased_def selectable_of_def)
  qed fact
next
  case (2 item lane b now s pv s')
  then show ?case by (auto simp: world_ports_def)
next
  case (3 lane now s a s')
  then show ?case by (auto simp: world_ports_def)
next
  case (4 s kind i worker token expires now r s' v wv)
  then obtain db' where s': "s' = s\<lparr>aw_exec := db'\<rparr>"
    and le: "lease_due_work_item_by_id exec_locked kind i worker token expires now (aw_exec s) = Inr (r, db')"
    and ok: "exec_ok (aw_exec s)" "rows_ok (aw_queue s)"
    by (auto simp: world_ports_def on_exec_Inr world_ok_def)
  from lease_texts [OF 4(4,3)] lease_by_id_effect [OF ok(1) le] ok(2) show ?case
    by (auto simp: s' execution_leased_def)
next
  case (5 s l p s')
  then obtain db' where s': "s' = s\<lparr>aw_queue := db'\<rparr>"
    and ad: "admit_projection_work_item locked l (aw_queue s) = Inr (p, db')" and ok: "world_ok s"
    by (auto simp: world_ports_def on_queue_Inr)
  from ok have "rows_ok (aw_queue s)" by (simp add: world_ok_def)
  from admit_projection_Inr [OF this ad] ok show ?case by (simp add: s' world_ok_def projected_leased_def)
next
  case (6 s item lane rec rsv now er s')
  then obtain db' where s': "s' = s\<lparr>aw_exec := db'\<rparr>"
    and st: "start_execution dumps catalog item lane rec rsv now (aw_exec s) = Inr (er, db')" and ok: "world_ok s"
    by (auto simp: world_ports_def on_exec_Inr)
  from ok have "exec_ok (aw_exec s)" by (simp add: world_ok_def)
  from start_execution_Inr [OF this st] ok show ?case by (simp add: s' world_ok_def execution_leased_def)
next
  case (7 s attempt ref item lane b now expires rv s')
  then obtain db' where s': "s' = s\<lparr>aw_queue := db'\<rparr>" and ok: "world_ok s"
    and re: "reserve_capacity (observed observing s) (started_attempts s) attempt ref item lane b now expires
      (aw_queue s) = Inr (rv, db')"
    by (auto simp: world_ports_def on_queue_Inr)
  from reserve_capacity_Inr [OF re] ok show ?case by (simp add: s' world_ok_def rows_ok_def projected_leased_def)
qed

end
