(* ===== verification/AdmissionSamples.thy ===== *)
theory AdmissionSamples
  imports AdmissionWorld
begin

text \<open>
  A concrete lane: one scheduled item is projected, admitted by a pass and recovered after its lease
  expired. The properties of the pass are applied to its states.
\<close>

definition lane1 :: lane_key where
  "lane1 = \<lparr>lk_work_kind = ''k'', lk_provider = ''groq'', lk_model_ref = ''qwen/qwen3-32b'',
     lk_account_ref = None\<rparr>"

definition account_lane1 :: lane_key where
  "account_lane1 = lane1\<lparr>lk_account_ref := Some ''a''\<rparr>"

definition full_budget1 :: window_budget where
  "full_budget1 = \<lparr>wb_requests = 5, wb_tokens = 100, wb_daily_requests = 50, wb_daily_tokens = 1000\<rparr>"

definition candidate1 :: candidate where
  "candidate1 = \<lparr>cn_work_item_id = ''w1'', cn_work_kind = ''k'', cn_run = None, cn_project = None,
     cn_target = \<lparr>lt_provider = ''groq'', lt_model_ref = ''qwen/qwen3-32b'', lt_account_ref = None\<rparr>,
     cn_status = WI_READY, cn_retry_plan = None, cn_input = 10, cn_artifact = 5, cn_required = 20,
     cn_source_ref = []\<rparr>"

definition no_queue :: queue_db where
  "no_queue = \<lparr>q_rows = [], q_flags = (\<lambda>_. None), q_claims = (\<lambda>_. None), q_events = [],
     q_budgets = (\<lambda>_. None), q_reservations = []\<rparr>"

definition queue1 :: queue_db where
  "queue1 = no_queue\<lparr>q_rows := [candidate_row candidate1 (Utc 1)]\<rparr>"

definition command1 :: pass_command where
  "command1 = \<lparr>pc_run = ''run'', pc_phase = ''phase'', pc_operation_key = ''op'', pc_lane = lane1,
     pc_execution_lane = account_lane1, pc_budget = full_budget1, pc_worker = WorkerRef ''w'',
     pc_token_prefix = ''p'', pc_expires_at = Aware (Utc 9), pc_now = Aware (Utc 2), pc_max_items = 3\<rparr>"

abbreviation ports1 :: "admission_world pass_ports" where
  "ports1 \<equiv> world_ports (\<lambda>s. s) (\<lambda>_. False) (\<lambda>_. False) (\<lambda>_. []) default_groq_catalog False"

text \<open>Before the pass, after it, and after the recovery of the expired lease.\<close>

definition world1 :: admission_world where
  "world1 = \<lparr>aw_exec = db1, aw_queue = queue1, aw_observations = []\<rparr>"

definition pass1 :: "pass_result \<times> admission_world" where
  "pass1 = projr (admission_pass ports1 command1 world1)"

definition world2 :: admission_world where
  "world2 = snd pass1"

definition world3 :: admission_world where
  "world3 = snd (projr (recover_expired (\<lambda>s. s) (\<lambda>_. False) (Aware (Utc 9)) 5 world2))"

text \<open>The next pass, after the recovery.\<close>

definition command2 :: pass_command where
  "command2 = command1\<lparr>pc_expires_at := Aware (Utc 20), pc_now := Aware (Utc 10)\<rparr>"

definition pass2 :: "pass_result \<times> admission_world" where
  "pass2 = projr (admission_pass ports1 command2 world3)"

definition world4 :: admission_world where
  "world4 = snd pass2"

text \<open>The leased item is scheduled again: its projection row is overwritten as ready.\<close>

definition world5 :: admission_world where
  "world5 = world2\<lparr>aw_queue := projr (persist_candidate (\<lambda>_. True) (Utc 3) candidate1 (aw_queue world2))\<rparr>"

definition row5 :: admission_row where
  "row5 = hd (q_rows (aw_queue world5))"

text \<open>The attempt fails retryably, and the projection is synchronised.\<close>

definition retry_outcome1 :: outcome_record where
  "retry_outcome1 = outcome1\<lparr>oc_attempt_id := ''p:1:w1'', oc_lease_token := LeaseToken ''p:1:w1''\<rparr>"

definition retry_update1 :: lifecycle_update where
  "retry_update1 = \<lparr>lu_work_item_id = ''w1'', lu_status = ''retryable_failed'', lu_changed_at = Aware (Utc 5),
     lu_retry_plan = Some ''retry_same_route'', lu_model_ref = None\<rparr>"

definition world6 :: admission_world where
  "world6 = world2\<lparr>aw_exec := snd (projr (record_attempt_outcome (Utc 5) retry_outcome1 (aw_exec world2))),
     aw_queue := snd (projr (sync_projection_lifecycle retry_update1 (aw_queue world2)))\<rparr>"

definition row6 :: admission_row where
  "row6 = hd (q_rows (aw_queue world6))"

text \<open>A reservation with and without the table of observations.\<close>

definition reserved7 :: "reservation_result \<times> queue_db" where
  "reserved7 = projr (reserve_capacity (Some []) (\<lambda>_. True) ''a7'' ''p:1:w1'' (selectable_of row5) account_lane1
     full_budget1 (Aware (Utc 10)) (Aware (Utc 20)) queue1)"

definition reserved8 :: "reservation_result \<times> queue_db" where
  "reserved8 = projr (reserve_capacity None (\<lambda>_. True) ''a7'' ''p:1:w1'' (selectable_of row5) account_lane1
     full_budget1 (Aware (Utc 10)) (Aware (Utc 20)) queue1)"

lemma world1_ok: "world_ok world1"
proof -
  have "rows_ok queue1" by code_simp
  with db_ok(1) show ?thesis by (simp add: world_ok_def world1_def)
qed

end
