(* ===== verification/AdmissionProps.thy ===== *)
theory AdmissionProps
  imports AdmissionSamples
begin

text \<open>
  What the admission pass promises on the tables, and where the projection and the execution
  runtime drift apart: an expired lease that recovery gives back, and a row reopened in the
  projection only.
\<close>

section \<open>The pass on the tables\<close>










section \<open>The runtime loop\<close>









section \<open>The head of the queue\<close>








section \<open>A retry at the same place\<close>






end
