(* ===== verification/ReservationProps.thy ===== *)
theory ReservationProps
  imports AdmissionSamples
begin

text \<open>
  What a reservation of route capacity guarantees, how its result enters the next preview, and how
  the slot of an allocation is read back from the reservation's reference.
\<close>

section \<open>A reservation\<close>

lemma window_budget_Inr: "window_budget_post_init b = Inr b' \<Longrightarrow> b' = b"
  by (auto simp: window_budget_post_init_def split: if_splits)

lemma live_available_Inr:
  "live_available_budget obs lane account t b db = Inr available \<Longrightarrow>
     \<exists>live. budget_after_observation obs (lk_provider lane) account (lk_model_ref lane) t b = Inr live \<and>
       available = available_budget live (active_totals (lk_provider lane) account (lk_model_ref lane) t db)"
  by (auto simp: live_available_budget_def Let_def dest: window_budget_Inr)

lemma reserve_Inr:
  assumes "reserve_capacity obs attempts a ref item lane b now expires db = Inr (rx, db')" "rx_reserved rx"
  shows "\<exists>t e account available v. now = Aware t \<and> expires = Aware e \<and> t < e \<and>
    lk_account_ref lane = Some account \<and> live_available_budget obs lane account t b db = Inr available \<and>
    fits_available item available \<and> 0 < si_required item \<and>
    v = \<lparr>rv_attempt_id = a, rv_provider = lk_provider lane, rv_account_ref = account, rv_model_ref = lk_model_ref lane,
      rv_requests = 1, rv_tokens = si_required item, rv_expires_at = expires, rv_created_at = now\<rparr> \<and>
    insert_reservation attempts v db = Inr db' \<and> rx_budget_after rx = budget_after_reservation available (si_required item)"
proof -
  from assms obtain t e account available where
    te: "now = Aware t" "expires = Aware e" and acc: "lk_account_ref lane = Some account"
    and av: "live_available_budget obs lane account t b db = Inr available"
    and fit: "fits_available item available"
    and rest: "bindE (route_reservation_post_init \<lparr>rv_attempt_id = a, rv_provider = lk_provider lane,
         rv_account_ref = account, rv_model_ref = lk_model_ref lane, rv_requests = 1,
         rv_tokens = si_required item, rv_expires_at = expires, rv_created_at = now\<rparr>) (\<lambda>v.
       bindE (insert_reservation attempts v db) (\<lambda>db'.
       bindE (window_budget_post_init (budget_after_reservation available (si_required item))) (\<lambda>after.
       bindE (lane_summary_post_init lane) (\<lambda>l.
       bindE (reservation_summary_post_init \<lparr>rs_reservation_ref = ref,
         rs_work_item_id = si_work_item_id item, rs_lane = l, rs_requests = 1,
         rs_tokens = si_required item, rs_expires_at = expires\<rparr>) (\<lambda>summary.
       bindE (reservation_result_post_init \<lparr>rx_reserved = True, rx_budget_after = after,
         rx_summary = Some summary, rx_skipped_reason = None\<rparr>) (\<lambda>r. Inr (r, db'))))))) = Inr (rx, db')"
    unfolding reserve_capacity_def
    by (elim bindE_InrE) (auto simp: check_execution_lane_def aware_now_def reservation_result_post_init_def
      split: if_splits option.splits datetime.splits)
  from rest obtain v where v: "route_reservation_post_init \<lparr>rv_attempt_id = a, rv_provider = lk_provider lane,
         rv_account_ref = account, rv_model_ref = lk_model_ref lane, rv_requests = 1,
         rv_tokens = si_required item, rv_expires_at = expires, rv_created_at = now\<rparr> = Inr v"
    and ins: "insert_reservation attempts v db = Inr db'"
    and after: "rx_budget_after rx = budget_after_reservation available (si_required item)"
    by (elim bindE_InrE) (auto simp: reservation_result_post_init_def dest: window_budget_Inr split: if_splits)
  from v te have "v = \<lparr>rv_attempt_id = a, rv_provider = lk_provider lane, rv_account_ref = account,
      rv_model_ref = lk_model_ref lane, rv_requests = 1, rv_tokens = si_required item, rv_expires_at = expires,
      rv_created_at = now\<rparr>" "t < e" "0 < si_required item"
    by (auto simp: route_reservation_post_init_def split: if_splits)
  with te acc av fit ins after show ?thesis by blast
qed

lemma insert_reservation_Inr:
  assumes "insert_reservation attempts v db = Inr db'" "rv_expires_at v = Aware e" "rv_created_at v = Aware t"
  shows "(\<exists>r \<in> set (q_reservations db). rr_attempt_id r = rv_attempt_id v) \<and> db' = db \<or>
    (\<forall>r \<in> set (q_reservations db). rr_attempt_id r \<noteq> rv_attempt_id v) \<and>
    db' = db\<lparr>q_reservations := q_reservations db @
      [\<lparr>rr_attempt_id = rv_attempt_id v, rr_provider = rv_provider v, rr_account_ref = rv_account_ref v,
        rr_model_ref = rv_model_ref v, rr_requests = rv_requests v, rr_tokens = rv_tokens v,
        rr_actual_tokens = None, rr_status = ''active'', rr_expires_at = e, rr_created_at = t,
        rr_finalized_at = None\<rparr>]\<rparr>"
  using assms by (auto simp: insert_reservation_def split: if_splits)

lemma totals_after_insert:
  assumes ins: "insert_reservation attempts \<lparr>rv_attempt_id = a, rv_provider = p, rv_account_ref = acc,
      rv_model_ref = m, rv_requests = 1, rv_tokens = n, rv_expires_at = Aware e, rv_created_at = Aware t\<rparr> db = Inr db'"
    and "t < e"
  shows "(\<exists>r \<in> set (q_reservations db). rr_attempt_id r = a) \<and>
      active_totals p acc m t db' = active_totals p acc m t db \<and> db' = db \<or>
    (\<forall>r \<in> set (q_reservations db). rr_attempt_id r \<noteq> a) \<and>
    active_totals p acc m t db' = (fst (active_totals p acc m t db) + 1, snd (active_totals p acc m t db) + n)"
  using insert_reservation_Inr [OF ins, of e t] assms(2)
  by (auto simp: active_totals_def active_on_def Let_def)

text \<open>
  C20. The active reservations of a route never exceed what the window has left: when a reservation is
  made, the requests and the tokens of all active reservations of the route, the new one included, are
  within every remainder of the budget that the latest observation leaves.
\<close>

theorem reservation_within_live_budget:
  assumes "reserve_capacity obs attempts a ref item lane b (Aware t) expires db = Inr (rx, db')" "rx_reserved rx"
  shows "\<exists>account live. lk_account_ref lane = Some account \<and>
    budget_after_observation obs (lk_provider lane) account (lk_model_ref lane) t b = Inr live \<and>
    (let used = active_totals (lk_provider lane) account (lk_model_ref lane) t db' in
      fst used \<le> wb_requests live \<and> fst used \<le> wb_daily_requests live \<and>
      snd used \<le> wb_tokens live \<and> snd used \<le> wb_daily_tokens live)"
proof -
  from reserve_Inr [OF assms] obtain e account available where
    e: "expires = Aware e" "t < e" and acc: "lk_account_ref lane = Some account"
    and av: "live_available_budget obs lane account t b db = Inr available" and fit: "fits_available item available"
    and req: "0 < si_required item"
    and ins: "insert_reservation attempts \<lparr>rv_attempt_id = a, rv_provider = lk_provider lane, rv_account_ref = account,
      rv_model_ref = lk_model_ref lane, rv_requests = 1, rv_tokens = si_required item, rv_expires_at = Aware e,
      rv_created_at = Aware t\<rparr> db = Inr db'"
    by auto
  from live_available_Inr [OF av] obtain live where
    live: "budget_after_observation obs (lk_provider lane) account (lk_model_ref lane) t b = Inr live"
    and a: "available = available_budget live (active_totals (lk_provider lane) account (lk_model_ref lane) t db)"
    by blast
  from fit req a totals_after_insert [OF ins e(2)] acc live show ?thesis
    by (auto simp: fits_available_def admits_any_work_def max_required_window_tokens_def available_budget_def Let_def)
qed

theorem reservation_within_live_budget_witness:
  "\<exists>account live. lk_account_ref account_lane1 = Some account \<and>
    budget_after_observation (Some []) (lk_provider account_lane1) account (lk_model_ref account_lane1) (Utc 10)
      full_budget1 = Inr live \<and>
    (let used = active_totals (lk_provider account_lane1) account (lk_model_ref account_lane1) (Utc 10)
        (snd reserved7) in
      fst used \<le> wb_requests live \<and> fst used \<le> wb_daily_requests live \<and>
      snd used \<le> wb_tokens live \<and> snd used \<le> wb_daily_tokens live)"
proof -
  have "reserve_capacity (Some []) (\<lambda>_. True) ''a7'' ''p:1:w1'' (selectable_of row5) account_lane1 full_budget1
      (Aware (Utc 10)) (Aware (Utc 20)) queue1 = Inr (fst reserved7, snd reserved7)"
    unfolding reserved7_def by (rule returned) code_simp
  moreover have "rx_reserved (fst reserved7)" by code_simp
  ultimately show ?thesis by (rule reservation_within_live_budget)
qed



section \<open>The slot of an allocation\<close>

lemma from_first_scope:
  "CHR '':'' \<notin> set h \<Longrightarrow> from_first (CHR '':'' # p) (h @ CHR '':'' # p @ s) = Some (CHR '':'' # p @ s)"
  by (induction h) auto

lemma split_colon_free: "CHR '':'' \<notin> set h \<Longrightarrow> split_colon (h @ CHR '':'' # s) = h # split_colon s"
  by (induction h) auto

lemma nat_str_digits: "list_all ascii_digit (nat_str n)"
proof (induction n rule: nat_str.induct)
  case (1 n)
  have d: "ascii_digit (char_of (48 + k))" if "k < 10" for k :: nat
    using that by (simp add: ascii_digit_def)
  show ?case
    using 1 d by (subst nat_str.simps) auto
qed

lemma digits_no_colon: "list_all ascii_digit s \<Longrightarrow> CHR '':'' \<notin> set s"
  by (auto simp: list_all_iff ascii_digit_def)

lemma slot_of_nat_str: "slot_from_number (nat_str (Suc n)) = Inr (int n)"
proof -
  have "list_all digit_char (nat_str (Suc n))"
    using nat_str_digits [of "Suc n"] by (auto simp: list_all_iff digit_char_def)
  with nat_str_digits [of "Suc n"] show ?thesis
    by (simp add: slot_from_number_def digits_value_nat_str)
qed

text \<open>
  The slot is read back: from the reference of the reservation at an admission index, made with the
  prefix of a workflow (a head, the scope of knowledge extraction, the project and the document), the
  execution boundary reads the index again, whatever colons the work item id has.
\<close>

theorem slot_index_reads_back:
  assumes "CHR '':'' \<notin> set head" "CHR '':'' \<notin> set project" "CHR '':'' \<notin> set hash"
  shows "slot_index_of_ref (indexed_ref (head @ workflow_scope @ project @ '':'' @ hash) index i) = Inr (int index)"
proof -
  let ?tail = "project @ '':'' @ hash @ '':'' @ nat_str (Suc index) @ '':'' @ i"
  have "indexed_ref (head @ workflow_scope @ project @ '':'' @ hash) index i = head @ workflow_scope @ ?tail"
    by (simp add: indexed_ref_def)
  moreover have "from_first workflow_scope (head @ workflow_scope @ ?tail) = Some (workflow_scope @ ?tail)"
    using from_first_scope [OF assms(1), of "''knowledge-extraction:source-document:''" ?tail]
    by (simp add: workflow_scope_def)
  moreover have "split_colon (tl (workflow_scope @ ?tail)) = ''knowledge-extraction'' # ''source-document'' # project # hash #
      nat_str (Suc index) # split_colon i"
    using split_colon_free [of "''knowledge-extraction''"] split_colon_free [of "''source-document''"]
      split_colon_free [OF assms(2)] split_colon_free [OF assms(3)]
      split_colon_free [OF digits_no_colon [OF nat_str_digits]]
    by (simp add: workflow_scope_def)
  moreover have "split_colon i \<noteq> []" by (induction i) (auto split: list.splits)
  then have "\<not> length (project # hash # nat_str (Suc index) # split_colon i) < 4"
    by (cases "split_colon i") auto
  ultimately show ?thesis
    by (simp add: slot_index_of_ref_def Let_def slot_of_nat_str)
qed

theorem slot_index_reads_back_witness:
  "slot_index_of_ref (indexed_ref (''claim-builder-dispatch'' @ workflow_scope @ ''p1'' @ '':'' @ ''h1'') 11 ''a:2:b'') = Inr 11"
  using slot_index_reads_back [of "''claim-builder-dispatch''" "''p1''" "''h1''" 11 "''a:2:b''"] by simp

lemma pred_option_case: "pred_option P x = (case x of None \<Rightarrow> True | Some y \<Rightarrow> P y)"
  by (cases x) simp_all

lemma within_leaves: "within_budget r \<longleftrightarrow>
    (case bs_minute_requests r of None \<Rightarrow> True | Some m \<Rightarrow> bs_reserved_minute_requests r \<le> m) \<and>
    (case bs_minute_tokens r of None \<Rightarrow> True | Some m \<Rightarrow> bs_reserved_minute_tokens r \<le> m) \<and>
    (case bs_daily_requests r of None \<Rightarrow> True | Some m \<Rightarrow> bs_reserved_daily_requests r \<le> m) \<and>
    (case bs_daily_tokens r of None \<Rightarrow> True | Some m \<Rightarrow> bs_reserved_daily_tokens r \<le> m)"
  by (simp add: within_budget_def leaves_def pred_option_case)

lemma snapshot_add_reserved: "snapshot_of (add_reserved n t now r) = (snapshot_of r)\<lparr>
    bs_reserved_minute_requests := bs_reserved_minute_requests r + n,
    bs_reserved_minute_tokens := bs_reserved_minute_tokens r + t,
    bs_reserved_daily_requests := bs_reserved_daily_requests r + n,
    bs_reserved_daily_tokens := bs_reserved_daily_tokens r + t\<rparr>"
  by (simp add: snapshot_of_def add_reserved_def budget_snapshot.defs)

text \<open>
  C10. No run of window operations oversubscribes a budget: a reservation that succeeds after any
  run of observations, reservations, releases and freezes is made in a window that is not frozen, adds
  exactly what was asked for to the reserved requests and tokens of the minute and of the day, leaves
  what was reported to remain as it is, and no more is reserved afterwards than remains. No other
  window changes.
\<close>

theorem budget_never_oversubscribed:
  assumes "budgets_ok s" "budget_step\<^sup>*\<^sup>* s s1" "try_reserve k n t now s1 = Inr (Some v, s2)"
  shows "\<exists>r r'. q_budgets s1 k = Some r \<and> q_budgets s2 = (q_budgets s1)(k \<mapsto> r') \<and>
    (case bs_frozen_until r of None \<Rightarrow> True | Some u \<Rightarrow> u \<le> now) \<and>
    bs_reserved_minute_requests r' = bs_reserved_minute_requests r + n \<and>
    bs_reserved_minute_tokens r' = bs_reserved_minute_tokens r + t \<and>
    bs_reserved_daily_requests r' = bs_reserved_daily_requests r + n \<and>
    bs_reserved_daily_tokens r' = bs_reserved_daily_tokens r + t \<and>
    (case bs_minute_requests r of None \<Rightarrow> True | Some m \<Rightarrow> bs_reserved_minute_requests r' \<le> m) \<and>
    (case bs_minute_tokens r of None \<Rightarrow> True | Some m \<Rightarrow> bs_reserved_minute_tokens r' \<le> m) \<and>
    (case bs_daily_requests r of None \<Rightarrow> True | Some m \<Rightarrow> bs_reserved_daily_requests r' \<le> m) \<and>
    (case bs_daily_tokens r of None \<Rightarrow> True | Some m \<Rightarrow> bs_reserved_daily_tokens r' \<le> m) \<and>
    snapshot_of r' = (snapshot_of r)\<lparr>
      bs_reserved_minute_requests := bs_reserved_minute_requests r',
      bs_reserved_minute_tokens := bs_reserved_minute_tokens r',
      bs_reserved_daily_requests := bs_reserved_daily_requests r',
      bs_reserved_daily_tokens := bs_reserved_daily_tokens r'\<rparr> \<and> within_budget r'"
proof -
  from try_reserve_Some [OF assms(3)] obtain r where r: "q_budgets s1 k = Some r" "reservable n t now r"
    "q_budgets s2 = (q_budgets s1)(k \<mapsto> add_reserved n t now r)" by blast
  have "budgets_ok s2" using assms by (blast intro: budget_run_ok try_reserve_ok)
  then have "within_budget (add_reserved n t now r)" by (rule budgets_okD(2) [where k = k]) (simp add: r(3))
  with r(2) show ?thesis
    by (intro exI [of _ r] exI [of _ "add_reserved n t now r"])
      (simp add: r(1,3) within_leaves pred_option_case reservable_def snapshot_add_reserved, simp add: add_reserved_def)
qed

text \<open>A window with eight requests left for the minute takes three of them after five are released.\<close>

definition observation2 :: capacity_observation where
  "observation2 = \<lparr>co_minute_requests = Some 8, co_minute_tokens = Some 100, co_daily_requests = None,
     co_daily_tokens = None, co_minute_reset_at = None, co_daily_reset_at = None, co_observed_at = Utc 1\<rparr>"

definition window2 :: window_key where
  "window2 = (''groq'', Some ''a'', ''m'')"

definition observed2 :: "budget_snapshot \<times> queue_db" where
  "observed2 = projr (apply_capacity_observation window2 observation2 no_queue)"

definition taken2 :: "capacity_reservation option \<times> queue_db" where
  "taken2 = projr (try_reserve window2 8 90 (Utc 2) (snd observed2))"

definition freed2 :: queue_db where
  "freed2 = release_reservation (the (fst taken2)\<lparr>cr_requests := 5, cr_tokens := 40\<rparr>) (Utc 3) (snd taken2)"

definition taken3 :: "capacity_reservation option \<times> queue_db" where
  "taken3 = projr (try_reserve window2 3 50 (Utc 4) freed2)"

theorem budget_never_oversubscribed_witness:
  "\<exists>r r'. q_budgets freed2 window2 = Some r \<and> q_budgets (snd taken3) window2 = Some r' \<and>
    bs_reserved_minute_requests r' = bs_reserved_minute_requests r + 3 \<and> within_budget r'"
proof -
  have "apply_capacity_observation window2 observation2 no_queue = Inr (fst observed2, snd observed2)"
    unfolding observed2_def by (rule returned) code_simp
  then have "budget_step no_queue (snd observed2)" by (rule budget_step.observe)
  moreover have "try_reserve window2 8 90 (Utc 2) (snd observed2) = Inr (fst taken2, snd taken2)"
    unfolding taken2_def by (rule returned) code_simp
  then have "budget_step (snd observed2) (snd taken2)" by (rule budget_step.reserve)
  moreover have "budget_step (snd taken2) freed2" unfolding freed2_def by (rule budget_step.release) simp_all
  ultimately have "budget_step\<^sup>*\<^sup>* no_queue freed2" by (blast intro: converse_rtranclp_into_rtranclp)
  moreover have "budgets_ok no_queue" by (simp add: budgets_ok_def no_queue_def)
  moreover have "try_reserve window2 3 50 (Utc 4) freed2 = Inr (Some (the (fst taken3)), snd taken3)"
  proof -
    have "try_reserve window2 3 50 (Utc 4) freed2 = Inr (fst taken3, snd taken3)"
      unfolding taken3_def by (rule returned) code_simp
    moreover have "fst taken3 \<noteq> None" by code_simp
    ultimately show ?thesis by simp
  qed
  ultimately show ?thesis using budget_never_oversubscribed by fastforce
qed

end
