(* ===== verification/DrainClaims.thy ===== *)
theory DrainClaims
  imports AdmissionSamples
begin

text \<open>
  What a whole drain does: it ends whatever the strategy answers, takes a prefix of the lane's queue,
  and leaves the lane dirty and unclaimed once it took an item.
\<close>

lemma drain_queue_frame [simp]:
  "drain_queue collate locked c (db\<lparr>q_claims := x, q_flags := y\<rparr>) = drain_queue collate locked c db"
  "rows_ok (db\<lparr>q_claims := x, q_flags := y\<rparr>) = rows_ok db"
  by (simp_all add: drain_queue_def lane_queue_def unlocked_fits_def fit_rows_def rows_ok_def)

lemma claim_Inr:
  assumes "claim_dirty_lane flag_locked lane worker t ttl db = Inr (res, db')"
  shows "res = None \<and> db' = db \<or> (\<exists>claim. res = Some claim \<and> lc_lane_id claim = lane_id lane \<and>
    db' = db\<lparr>q_claims := q_claims db', q_flags := q_flags db'\<rparr>)"
  using assms
  by (auto simp: claim_dirty_lane_def Let_def split: if_splits option.splits)

text \<open>A strategy that dispatches every item without a provider call, and a dirty lane with two items.\<close>

definition quiet_strategy :: "nat drain_strategy" where
  "quiet_strategy = \<lparr>ds_should_pause = (\<lambda>_ _ w. Inr (False, w)),
     ds_execute = (\<lambda>i _ _ _ _ _ w. Inr (\<lparr>sg_work_item_id = i, sg_dispatch_attempt_id = Some (''d:'' @ i),
       sg_call_started = False, sg_observation_recorded = False, sg_freeze_until = None\<rparr>, Suc w))\<rparr>"

definition drain_command1 :: drain_command where
  "drain_command1 = \<lparr>dc_run = Some ''run'', dc_lane = lane1, dc_window = account_lane1, dc_worker = ''w'',
     dc_now = Utc 5, dc_minute_requests = 5, dc_minute_tokens = 100, dc_daily_requests = 50,
     dc_daily_tokens = 1000, dc_max_items = None, dc_ttl = 30\<rparr>"

definition dirty_queue1 :: queue_db where
  "dirty_queue1 = mark_lane_dirty lane1 ''x'' (Utc 1) (no_queue\<lparr>q_rows := [candidate_row candidate1 (Utc 2),
     candidate_row (candidate1\<lparr>cn_work_item_id := ''w2''\<rparr>) (Utc 1)]\<rparr>)"

definition drained1 :: "drain_result \<times> queue_db \<times> nat" where
  "drained1 = projr (the (run_capacity_window_drain (\<lambda>s. s) (\<lambda>_. False) (\<lambda>_. False) quiet_strategy drain_command1
     (dirty_queue1, 0)))"

lemma drain1_ok: "drain_command_post_init drain_command1 = Inr drain_command1" "rows_ok dirty_queue1"
  by code_simp+

lemma drain1_run: "run_capacity_window_drain (\<lambda>s. s) (\<lambda>_. False) (\<lambda>_. False) quiet_strategy drain_command1
    (dirty_queue1, 0) = Some (Inr (fst drained1, fst (snd drained1), snd (snd drained1)))"
proof -
  have "case run_capacity_window_drain (\<lambda>s. s) (\<lambda>_. False) (\<lambda>_. False) quiet_strategy drain_command1
      (dirty_queue1, 0) of Some x \<Rightarrow> \<not> isl x | None \<Rightarrow> False" by code_simp
  then show ?thesis by (auto simp: drained1_def split: option.splits sum.splits)
qed

text \<open>
  C15. A drain ends: for every checked command, every strategy (which may also raise) and every queue
  whose rows are valid the call returns, because every turn of the loop takes an item off the queue of
  its lane.
\<close>

theorem drain_terminates:
  assumes "drain_command_post_init c = Inr c" "rows_ok db"
  shows "\<exists>out. run_capacity_window_drain collate locked flag_locked strategy c (db, w) = Some out"
proof -
  let ?claim = "claim_dirty_lane flag_locked (dc_lane c) (dc_worker c) (dc_now c) (dc_ttl c) db"
  consider (bad) e where "?claim = Inl e" | (none) db1 where "?claim = Inr (None, db1)"
    | (some) claim db1 where "?claim = Inr (Some claim, db1)"
    by (metis obj_sumE surj_pair option.exhaust)
  then show ?thesis
  proof cases
    case bad
    then show ?thesis by (simp add: run_capacity_window_drain_def on_db_def)
  next
    case none
    then show ?thesis by (simp add: run_capacity_window_drain_def on_db_def)
  next
    case some
    then have "rows_ok db1" using claim_Inr [OF some] assms(2) drain_queue_frame(2) by (metis option.distinct(1))
    from drain_loop_spec [OF assms(1) this] some show ?thesis
      by (fastforce simp: run_capacity_window_drain_def on_db_def)
  qed
qed

theorem drain_terminates_witness:
  "\<exists>out. run_capacity_window_drain (\<lambda>s. s) (\<lambda>_. False) (\<lambda>_. False) quiet_strategy drain_command1 (dirty_queue1, 0) =
    Some out"
  by (rule drain_terminates [OF drain1_ok])


lemma unclaimed_kept:
  assumes "q_flags db i = Some f" "fl_claimed_by f = None"
  shows "clear_dirty_flag i worker t db = db" "release_lane_claim i worker t db = db"
  using assms by (simp_all add: clear_dirty_flag_def release_lane_claim_def)

lemma drain_result_cases:
  assumes c: "drain_command_post_init c = Inr c" and ok: "rows_ok db"
    and run: "run_capacity_window_drain collate locked flag_locked strategy c (db, w) = Some (Inr (res, db', w'))"
  shows "dn_stop_reason res = LANE_ALREADY_CLAIMED \<and> dn_work_item_ids res = [] \<and> db' = db \<or>
    (\<exists>claim reason clear acc db1 db2 w2. lc_lane_id claim = lane_id (dc_lane c) \<and> rows_ok db1 \<and>
      q_rows db1 = q_rows db \<and> drain_queue collate locked c db1 = drain_queue collate locked c db \<and>
      loop_post collate locked c no_items db1 (Inr ((reason, clear, acc), db2, w2)) \<and>
      finish_drain c claim (Inr ((reason, clear, acc), db2, w2)) = Inr (res, db', w'))"
proof -
  let ?claim = "claim_dirty_lane flag_locked (dc_lane c) (dc_worker c) (dc_now c) (dc_ttl c) db"
  consider (bad) e where "?claim = Inl e" | (none) db1 where "?claim = Inr (None, db1)"
    | (some) claim db1 where "?claim = Inr (Some claim, db1)"
    by (metis obj_sumE surj_pair option.exhaust)
  then show ?thesis
  proof cases
    case bad
    with run show ?thesis by (simp add: run_capacity_window_drain_def on_db_def)
  next
    case none
    with run claim_Inr [OF none] show ?thesis by (auto simp: run_capacity_window_drain_def on_db_def)
  next
    case some
    from claim_Inr [OF some] have id: "lc_lane_id claim = lane_id (dc_lane c)"
      and db1: "db1 = db\<lparr>q_claims := q_claims db1, q_flags := q_flags db1\<rparr>" by auto
    from some run obtain out where out: "drain_loop collate locked strategy c no_items (db1, w) = Some out"
      "finish_drain c claim out = Inr (res, db', w')"
      by (auto simp: run_capacity_window_drain_def on_db_def)
    have ok1: "rows_ok db1" "q_rows db1 = q_rows db"
      "drain_queue collate locked c db1 = drain_queue collate locked c db"
      using ok by (subst db1, simp)+
    from drain_loop_spec [OF c ok1(1), of collate locked strategy no_items w] out(1)
    have post: "loop_post collate locked c no_items db1 out" by auto
    from out(2) obtain reason clear acc db2 w2 where "out = Inr ((reason, clear, acc), db2, w2)"
      by (cases out) (auto simp: finish_drain_def Let_def)
    with post out(2) id ok1 show ?thesis by blast
  qed
qed



text \<open>
  A drain that took an item leaves its lane dirty: the synchronisation of the first item marks the
  lane dirty again and drops the drain's own claim, so the flag survives, unclaimed, even when the drain
  emptied the queue and asked for the flag to be cleared.
\<close>

theorem drain_keeps_lane_dirty:
  assumes "drain_command_post_init c = Inr c" "rows_ok db"
    and "run_capacity_window_drain collate locked flag_locked strategy c (db, w) = Some (Inr (res, db', w'))"
    and "dn_work_item_ids res \<noteq> []"
  shows "\<exists>f. q_flags db' (lane_id (dc_lane c)) = Some f \<and> fl_claimed_by f = None"
  using drain_result_cases [OF assms(1-3)]
proof (elim disjE exE conjE)
  fix claim reason clear acc db1 db2 w2
  assume id: "lc_lane_id claim = lane_id (dc_lane c)"
    and post: "loop_post collate locked c no_items db1 (Inr ((reason, clear, acc), db2, w2))"
    and fin: "finish_drain c claim (Inr ((reason, clear, acc), db2, w2)) = Inr (res, db', w')"
  from fin assms(4) have "da_items acc \<noteq> []"
    by (auto simp: finish_drain_def Let_def drain_outcome_def)
  with post have "\<exists>f g. q_flags db2 = g(lane_id (dc_lane c) \<mapsto> f) \<and> fl_claimed_by f = None"
    unfolding loop_post_def no_items_def by (auto split: if_splits)
  then obtain f where f: "q_flags db2 (lane_id (dc_lane c)) = Some f" "fl_claimed_by f = None" by auto
  from fin have "db' = db2"
    by (auto simp: finish_drain_def Let_def id unclaimed_kept [OF f])
  with f show ?thesis by simp
qed (use assms(4) in simp)

theorem drain_keeps_lane_dirty_witness:
  "\<exists>f. q_flags (fst (snd drained1)) (lane_id (dc_lane drain_command1)) = Some f \<and> fl_claimed_by f = None"
proof -
  have "dn_work_item_ids (fst drained1) \<noteq> []" by code_simp
  from drain_keeps_lane_dirty [OF drain1_ok drain1_run this] show ?thesis .
qed

end
