(* ===== verification/WorkflowRuntime.thy ===== *)
theory WorkflowRuntime
  imports ExecRecovery
begin

text \<open>
  The workflow runtime (\<open>src/src/contexts/workflow_runtime\<close>): commands, events and event cursors
  with their value objects, and the command log, the outbox and the cursor table. Appending is
  idempotent: a command by its idempotency key, an event by its id. A stored payload is the
  JSON value that was written.
\<close>

section \<open>Value objects\<close>

datatype workflow_command_id = WorkflowCommandId (command_id_value: string)
datatype workflow_event_id = WorkflowEventId (event_id_value: string)
datatype workflow_idempotency_key = WorkflowIdempotencyKey (idempotency_key_value: string)
datatype workflow_consumer_ref = WorkflowConsumerRef (consumer_ref_value: string)

definition mk_command_id :: "string \<Rightarrow> py_error + workflow_command_id" where
  "mk_command_id v = (if blank v then Inl (ValueError ''workflow_command_id must be non-empty'')
     else Inr (WorkflowCommandId v))"

definition mk_event_id :: "string \<Rightarrow> py_error + workflow_event_id" where
  "mk_event_id v = (if blank v then Inl (ValueError ''workflow_event_id must be non-empty'')
     else Inr (WorkflowEventId v))"

definition mk_idempotency_key :: "string \<Rightarrow> py_error + workflow_idempotency_key" where
  "mk_idempotency_key v = (if blank v then Inl (ValueError ''workflow_idempotency_key must be non-empty'')
     else Inr (WorkflowIdempotencyKey v))"

definition mk_consumer_ref :: "string \<Rightarrow> py_error + workflow_consumer_ref" where
  "mk_consumer_ref v = (if blank v then Inl (ValueError ''workflow_consumer_ref must be non-empty'')
     else Inr (WorkflowConsumerRef v))"

section \<open>Entities\<close>

datatype command_status = CMD_PENDING | CMD_RUNNING | CMD_COMPLETED | CMD_FAILED | CMD_CANCELLED

fun command_status_value :: "command_status \<Rightarrow> string" where
  "command_status_value CMD_PENDING = ''PENDING''"
| "command_status_value CMD_RUNNING = ''RUNNING''"
| "command_status_value CMD_COMPLETED = ''COMPLETED''"
| "command_status_value CMD_FAILED = ''FAILED''"
| "command_status_value CMD_CANCELLED = ''CANCELLED''"

definition parse_command_status :: "string \<Rightarrow> py_error + command_status" where
  "parse_command_status v = (case List.find (\<lambda>s. command_status_value s = v)
       [CMD_PENDING, CMD_RUNNING, CMD_COMPLETED, CMD_FAILED, CMD_CANCELLED] of
     Some s \<Rightarrow> Inr s
   | None \<Rightarrow> Inl (ValueError (v @ '' is not a valid WorkflowCommandStatus'')))"

record workflow_command =
  wc_id :: workflow_command_id
  wc_type :: string
  wc_run :: string
  wc_key :: workflow_idempotency_key
  wc_payload :: payload
  wc_status :: command_status
  wc_run_after :: datetime
  wc_created_at :: datetime
  wc_updated_at :: datetime
  wc_causation :: "workflow_event_id option"
  wc_correlation :: "string option"
  wc_attempts :: int

definition workflow_command_post_init :: "workflow_command \<Rightarrow> py_error + workflow_command" where
  "workflow_command_post_init c =
     (if blank (wc_type c) then Inl (ValueError ''command_type must be non-empty'')
      else if blank (wc_run c) then Inl (ValueError ''workflow_run_id must be non-empty'')
      else if \<not> tz_aware (wc_run_after c) then Inl (ValueError ''run_after must be timezone-aware'')
      else if \<not> tz_aware (wc_created_at c) then Inl (ValueError ''created_at must be timezone-aware'')
      else if \<not> tz_aware (wc_updated_at c) then Inl (ValueError ''updated_at must be timezone-aware'')
      else if (case wc_correlation c of Some v \<Rightarrow> blank v | None \<Rightarrow> False)
        then Inl (ValueError ''correlation_id must be non-empty'')
      else if wc_attempts c < 0 then Inl (ValueError ''attempt_count must be >= 0'')
      else Inr c)"

record workflow_event =
  we_id :: workflow_event_id
  we_type :: string
  we_run :: string
  we_payload :: payload
  we_occurred_at :: datetime
  we_causation :: "workflow_command_id option"
  we_correlation :: "string option"
  we_sequence :: "int option"

definition workflow_event_post_init :: "workflow_event \<Rightarrow> py_error + workflow_event" where
  "workflow_event_post_init e =
     (if blank (we_type e) then Inl (ValueError ''event_type must be non-empty'')
      else if blank (we_run e) then Inl (ValueError ''workflow_run_id must be non-empty'')
      else if \<not> tz_aware (we_occurred_at e) then Inl (ValueError ''occurred_at must be timezone-aware'')
      else if (case we_correlation e of Some v \<Rightarrow> blank v | None \<Rightarrow> False)
        then Inl (ValueError ''correlation_id must be non-empty'')
      else if (case we_sequence e of Some n \<Rightarrow> n \<le> 0 | None \<Rightarrow> False)
        then Inl (ValueError ''sequence_number must be > 0'')
      else Inr e)"

record event_cursor =
  ec_consumer :: workflow_consumer_ref
  ec_last_seen :: int
  ec_updated_at :: datetime

definition event_cursor_post_init :: "event_cursor \<Rightarrow> py_error + event_cursor" where
  "event_cursor_post_init c =
     (if ec_last_seen c < 0 then Inl (ValueError ''last_seen_sequence_number must be >= 0'')
      else if \<not> tz_aware (ec_updated_at c) then Inl (ValueError ''updated_at must be timezone-aware'')
      else Inr c)"

definition advance_to :: "event_cursor \<Rightarrow> int \<Rightarrow> datetime \<Rightarrow> py_error + event_cursor" where
  "advance_to c n t =
     (if n < ec_last_seen c then Inl (ValueError ''cannot move cursor backwards'')
      else event_cursor_post_init \<lparr>ec_consumer = ec_consumer c, ec_last_seen = n, ec_updated_at = t\<rparr>)"

section \<open>Payload equality\<close>

text \<open>
  \<open>dict(a) != dict(b)\<close> ignores the order of keys at every level, and in Python \<open>True == 1\<close>.
\<close>

fun canonical :: "json \<Rightarrow> json" where
  "canonical (JObject ps) = JObject (sort_key fst (map (\<lambda>(k, v). (k, canonical v)) ps))"
| "canonical (JArray xs) = JArray (map canonical xs)"
| "canonical (JBool b) = JInt (if b then 1 else 0)"
| "canonical v = v"

definition same_payload :: "payload \<Rightarrow> payload \<Rightarrow> bool" where
  "same_payload p q \<longleftrightarrow> canonical (JObject p) = canonical (JObject q)"

lemma same_payload_refl [simp]: "same_payload p p"
  by (simp add: same_payload_def)

section \<open>Tables\<close>

record command_row =
  cm_id :: string
  cm_type :: string
  cm_run :: string
  cm_key :: string
  cm_payload :: payload
  cm_status :: string
  cm_run_after :: utc
  cm_created_at :: utc
  cm_updated_at :: utc
  cm_causation :: "string option"
  cm_correlation :: "string option"
  cm_attempts :: int

record event_row =
  ev_sequence :: int
  ev_id :: string
  ev_type :: string
  ev_run :: string
  ev_payload :: payload
  ev_occurred_at :: utc
  ev_causation :: "string option"
  ev_correlation :: "string option"

text \<open>\<open>wf_next_sequence\<close> is the next value of the BIGSERIAL column.\<close>

record workflow_db =
  wf_commands :: "command_row list"
  wf_events :: "event_row list"
  wf_next_sequence :: int
  wf_cursors :: "string \<Rightarrow> (int \<times> utc) option"

definition not_blank_str :: "string \<Rightarrow> string \<Rightarrow> py_error + string" where
  "not_blank_str key v = (if blank v then Inl (TypeError (key @ '' must be non-empty string'')) else Inr v)"

definition null_or_str :: "string \<Rightarrow> string option \<Rightarrow> py_error + string option" where
  "null_or_str key v = (case v of
     Some s \<Rightarrow> if blank s then Inl (TypeError (key @ '' must be null or non-empty string'')) else Inr v
   | None \<Rightarrow> Inr None)"

definition hydrate_command :: "command_row \<Rightarrow> py_error + workflow_command" where
  "hydrate_command r =
     bindE (not_blank_str ''command_id'' (cm_id r)) (\<lambda>v. bindE (mk_command_id v) (\<lambda>i.
     bindE (not_blank_str ''command_type'' (cm_type r)) (\<lambda>type.
     bindE (not_blank_str ''workflow_run_id'' (cm_run r)) (\<lambda>run.
     bindE (not_blank_str ''idempotency_key'' (cm_key r)) (\<lambda>k. bindE (mk_idempotency_key k) (\<lambda>key.
     bindE (bindE (not_blank_str ''status'' (cm_status r)) parse_command_status) (\<lambda>status.
     bindE (optE (\<lambda>v. bindE (not_blank_str ''causation_event_id'' v) mk_event_id) (cm_causation r)) (\<lambda>cause.
     bindE (null_or_str ''correlation_id'' (cm_correlation r)) (\<lambda>corr.
       workflow_command_post_init
         \<lparr>wc_id = i, wc_type = type, wc_run = run, wc_key = key, wc_payload = cm_payload r,
          wc_status = status, wc_run_after = Aware (cm_run_after r),
          wc_created_at = Aware (cm_created_at r), wc_updated_at = Aware (cm_updated_at r),
          wc_causation = cause, wc_correlation = corr, wc_attempts = cm_attempts r\<rparr>)))))))))"

definition command_columns :: "workflow_command \<Rightarrow> utc \<Rightarrow> utc \<Rightarrow> utc \<Rightarrow> command_row" where
  "command_columns c run_after created updated =
     \<lparr>cm_id = command_id_value (wc_id c), cm_type = wc_type c, cm_run = wc_run c,
      cm_key = idempotency_key_value (wc_key c), cm_payload = wc_payload c,
      cm_status = command_status_value (wc_status c), cm_run_after = run_after,
      cm_created_at = created, cm_updated_at = updated,
      cm_causation = map_option event_id_value (wc_causation c),
      cm_correlation = wc_correlation c, cm_attempts = wc_attempts c\<rparr>"

section \<open>The command log\<close>

definition assert_same_command :: "workflow_command \<Rightarrow> workflow_command \<Rightarrow> py_error + unit" where
  "assert_same_command expected existing =
     (if wc_type expected \<noteq> wc_type existing
        then Inl (ValueError ''idempotency_key conflict has different command_type'')
      else if wc_run expected \<noteq> wc_run existing
        then Inl (ValueError ''idempotency_key conflict has different workflow_run_id'')
      else if \<not> same_payload (wc_payload expected) (wc_payload existing)
        then Inl (ValueError ''idempotency_key conflict has different payload'')
      else Inr ())"

definition load_by_idempotency_key :: "workflow_idempotency_key \<Rightarrow> workflow_db \<Rightarrow>
    py_error + workflow_command option" where
  "load_by_idempotency_key k db =
     optE hydrate_command (List.find (\<lambda>r. cm_key r = idempotency_key_value k) (wf_commands db))"

definition append_pending_command :: "workflow_command \<Rightarrow> workflow_db \<Rightarrow>
    py_error + (workflow_command \<times> workflow_db)" where
  "append_pending_command c db =
     (case (wc_run_after c, wc_created_at c, wc_updated_at c) of
        (Aware ra, Aware ca, Aware ua) \<Rightarrow>
          let r = command_columns c ra ca ua in
          if \<exists>x \<in> set (wf_commands db). cm_key x = cm_key r then
            bindE (load_by_idempotency_key (wc_key c) db) (\<lambda>found.
              case found of
                None \<Rightarrow> Inl (RuntimeError ''idempotency conflict did not return existing command'')
              | Some existing \<Rightarrow> bindE (assert_same_command c existing) (\<lambda>_. Inr (existing, db)))
          else if \<exists>x \<in> set (wf_commands db). cm_id x = cm_id r
            then Inl (DatabaseError ''workflow_runtime_command_log_pkey'')
          else if cm_attempts r < 0
            then Inl (DatabaseError ''workflow_runtime_command_log_attempt_count_non_negative'')
          else bindE (hydrate_command r) (\<lambda>stored.
            Inr (stored, db\<lparr>wf_commands := wf_commands db @ [r]\<rparr>))
      | _ \<Rightarrow> Inl (DatabaseError ''naive timestamp''))"

text \<open>The three status updates, which write the row of a command whatever its status was.\<close>

definition update_command :: "workflow_command_id \<Rightarrow> (command_row \<Rightarrow> command_row) \<Rightarrow> workflow_db \<Rightarrow>
    py_error + (workflow_command \<times> workflow_db)" where
  "update_command i f db =
     (case List.find (\<lambda>r. cm_id r = command_id_value i) (wf_commands db) of
        None \<Rightarrow> Inl (KeyError (command_id_value i))
      | Some r \<Rightarrow> bindE (hydrate_command (f r)) (\<lambda>c. Inr (c, db\<lparr>wf_commands :=
          map (\<lambda>x. if cm_id x = command_id_value i then f x else x) (wf_commands db)\<rparr>)))"

definition mark_command_completed :: "workflow_command_id \<Rightarrow> utc \<Rightarrow> workflow_db \<Rightarrow>
    py_error + (workflow_command \<times> workflow_db)" where
  "mark_command_completed i t db =
     update_command i (\<lambda>r. r\<lparr>cm_status := ''COMPLETED'', cm_updated_at := t\<rparr>) db"

definition mark_command_failed :: "workflow_command_id \<Rightarrow> utc \<Rightarrow> workflow_db \<Rightarrow>
    py_error + (workflow_command \<times> workflow_db)" where
  "mark_command_failed i t db =
     update_command i (\<lambda>r. r\<lparr>cm_status := ''FAILED'', cm_updated_at := t\<rparr>) db"

definition reschedule_pending_command :: "workflow_command_id \<Rightarrow> utc \<Rightarrow> utc \<Rightarrow> workflow_db \<Rightarrow>
    py_error + (workflow_command \<times> workflow_db)" where
  "reschedule_pending_command i run_after t db =
     update_command i (\<lambda>r. r\<lparr>cm_status := ''PENDING'', cm_run_after := run_after, cm_updated_at := t\<rparr>) db"

text \<open>
  \<open>db_now\<close> is the database's clock. Rows equal in both sort columns come in table order here; the
  database may return them in any order.
\<close>

definition list_pending_commands :: "(string \<Rightarrow> bool) \<Rightarrow> utc \<Rightarrow> string \<Rightarrow> int \<Rightarrow> workflow_db \<Rightarrow>
    py_error + workflow_command list" where
  "list_pending_commands locked db_now run limit db =
     (if blank run then Inl (ValueError ''workflow_run_id must be non-empty'')
      else if limit \<le> 0 then Inl (ValueError ''limit must be > 0'')
      else traverseE hydrate_command (take (nat limit)
        (sort_key (\<lambda>r. (cm_run_after r, cm_created_at r))
          (filter (\<lambda>r. cm_run r = run \<and> cm_status r = ''PENDING'' \<and> cm_run_after r \<le> db_now \<and>
            \<not> locked (cm_id r)) (wf_commands db)))))"

section \<open>The outbox\<close>

definition hydrate_event :: "event_row \<Rightarrow> py_error + workflow_event" where
  "hydrate_event r =
     bindE (not_blank_str ''event_id'' (ev_id r)) (\<lambda>v. bindE (mk_event_id v) (\<lambda>i.
     bindE (not_blank_str ''event_type'' (ev_type r)) (\<lambda>type.
     bindE (not_blank_str ''workflow_run_id'' (ev_run r)) (\<lambda>run.
     bindE (optE (\<lambda>v. bindE (not_blank_str ''causation_command_id'' v) mk_command_id) (ev_causation r)) (\<lambda>cause.
     bindE (null_or_str ''correlation_id'' (ev_correlation r)) (\<lambda>corr.
       workflow_event_post_init
         \<lparr>we_id = i, we_type = type, we_run = run, we_payload = ev_payload r,
          we_occurred_at = Aware (ev_occurred_at r), we_causation = cause, we_correlation = corr,
          we_sequence = Some (ev_sequence r)\<rparr>))))))"

definition event_columns :: "int \<Rightarrow> workflow_event \<Rightarrow> utc \<Rightarrow> event_row" where
  "event_columns n e t = \<lparr>ev_sequence = n, ev_id = event_id_value (we_id e), ev_type = we_type e,
     ev_run = we_run e, ev_payload = we_payload e, ev_occurred_at = t,
     ev_causation = map_option command_id_value (we_causation e), ev_correlation = we_correlation e\<rparr>"

definition assert_same_event :: "workflow_event \<Rightarrow> workflow_event \<Rightarrow> py_error + unit" where
  "assert_same_event expected existing =
     (if we_type expected \<noteq> we_type existing
        then Inl (ValueError ''event_id conflict has different event_type'')
      else if we_run expected \<noteq> we_run existing
        then Inl (ValueError ''event_id conflict has different workflow_run_id'')
      else if \<not> same_payload (we_payload expected) (we_payload existing)
        then Inl (ValueError ''event_id conflict has different payload'')
      else Inr ())"

text \<open>
  A conflicting insert draws a sequence number too. The notification of the live state is not
  modelled.
\<close>

definition append_event :: "workflow_event \<Rightarrow> workflow_db \<Rightarrow> py_error + (workflow_event \<times> workflow_db)" where
  "append_event e db =
     (case we_occurred_at e of
        Naive _ \<Rightarrow> Inl (DatabaseError ''naive timestamp'')
      | Aware t \<Rightarrow>
          let n = wf_next_sequence db; r = event_columns n e t;
              drawn = db\<lparr>wf_next_sequence := n + 1\<rparr> in
          case List.find (\<lambda>x. ev_id x = ev_id r) (wf_events db) of
            Some x \<Rightarrow> bindE (hydrate_event x) (\<lambda>existing.
              bindE (assert_same_event e existing) (\<lambda>_. Inr (existing, drawn)))
          | None \<Rightarrow> bindE (hydrate_event r) (\<lambda>stored.
              Inr (stored, drawn\<lparr>wf_events := wf_events db @ [r]\<rparr>)))"

definition list_events_after :: "int \<Rightarrow> int \<Rightarrow> workflow_db \<Rightarrow> py_error + workflow_event list" where
  "list_events_after after limit db =
     (if after < 0 then Inl (ValueError ''after_sequence_number must be >= 0'')
      else if limit \<le> 0 then Inl (ValueError ''limit must be > 0'')
      else traverseE hydrate_event (take (nat limit) (sort_key ev_sequence
        (filter (\<lambda>r. after < ev_sequence r) (wf_events db)))))"

section \<open>Event cursors\<close>

definition hydrate_cursor :: "string \<Rightarrow> int \<times> utc \<Rightarrow> py_error + event_cursor" where
  "hydrate_cursor ref row =
     bindE (not_blank_str ''consumer_ref'' ref) (\<lambda>v. bindE (mk_consumer_ref v) (\<lambda>consumer.
       event_cursor_post_init \<lparr>ec_consumer = consumer, ec_last_seen = fst row,
         ec_updated_at = Aware (snd row)\<rparr>))"

definition get_cursor :: "workflow_consumer_ref \<Rightarrow> workflow_db \<Rightarrow> py_error + event_cursor option" where
  "get_cursor consumer db =
     optE (hydrate_cursor (consumer_ref_value consumer)) (wf_cursors db (consumer_ref_value consumer))"

definition save_cursor :: "event_cursor \<Rightarrow> workflow_db \<Rightarrow> py_error + (event_cursor \<times> workflow_db)" where
  "save_cursor cursor db =
     bindE (get_cursor (ec_consumer cursor) db) (\<lambda>existing.
     bindE (case existing of
         None \<Rightarrow> Inr cursor
       | Some old \<Rightarrow> advance_to old (ec_last_seen cursor) (ec_updated_at cursor)) (\<lambda>effective.
     case ec_updated_at effective of
       Naive _ \<Rightarrow> Inl (DatabaseError ''naive timestamp'')
     | Aware t \<Rightarrow>
         let ref = consumer_ref_value (ec_consumer effective); row = (ec_last_seen effective, t) in
         if ec_last_seen effective < 0
           then Inl (DatabaseError ''workflow_runtime_event_cursors_last_seen_non_negative'')
         else bindE (hydrate_cursor ref row) (\<lambda>stored.
           Inr (stored, db\<lparr>wf_cursors := (wf_cursors db)(ref \<mapsto> row)\<rparr>))))"

section \<open>Idempotence of the command log\<close>

definition log_ok :: "workflow_db \<Rightarrow> bool" where
  "log_ok db \<longleftrightarrow> distinct (map cm_id (wf_commands db)) \<and> distinct (map cm_key (wf_commands db))"

inductive command_step :: "workflow_db \<Rightarrow> workflow_db \<Rightarrow> bool" where
  append: "append_pending_command c db = Inr (s, db') \<Longrightarrow> command_step db db'"
| completed: "mark_command_completed i t db = Inr (s, db') \<Longrightarrow> command_step db db'"
| failed: "mark_command_failed i t db = Inr (s, db') \<Longrightarrow> command_step db db'"
| rescheduled: "reschedule_pending_command i run_after t db = Inr (s, db') \<Longrightarrow> command_step db db'"

lemma command_post_init_Inr: "workflow_command_post_init c = Inr d \<Longrightarrow> d = c"
  by (auto simp: workflow_command_post_init_def split: if_splits)

lemma hydrate_command_Inr:
  assumes "hydrate_command r = Inr c"
  shows "wc_type c = cm_type r \<and> wc_run c = cm_run r \<and> wc_payload c = cm_payload r \<and>
    command_id_value (wc_id c) = cm_id r \<and> idempotency_key_value (wc_key c) = cm_key r \<and>
    command_status_value (wc_status c) = cm_status r"
  using assms
  by (auto simp: hydrate_command_def not_blank_str_def mk_command_id_def mk_idempotency_key_def
    parse_command_status_def dest!: command_post_init_Inr find_Some_in split: if_splits option.splits)

text \<open>The columns no statement changes once the row exists.\<close>

definition command_identity :: "command_row \<Rightarrow> string \<times> string \<times> string \<times> string \<times> payload" where
  "command_identity r = (cm_key r, cm_id r, cm_type r, cm_run r, cm_payload r)"

definition logged :: "string \<times> string \<times> string \<times> string \<times> payload \<Rightarrow> workflow_db \<Rightarrow> bool" where
  "logged k db \<longleftrightarrow> (\<exists>r \<in> set (wf_commands db). command_identity r = k \<and> (\<exists>c. hydrate_command r = Inr c))"

lemma optE_Inr_Some: "optE f x = Inr (Some y) \<longleftrightarrow> (\<exists>v. x = Some v \<and> f v = Inr y)"
  by (cases x) auto

lemma append_cases:
  assumes "append_pending_command c db = Inr (s, db')"
  shows "(\<exists>r \<in> set (wf_commands db). db' = db \<and> cm_key r = idempotency_key_value (wc_key c) \<and>
      hydrate_command r = Inr s \<and> wc_type s = wc_type c \<and> wc_run s = wc_run c \<and>
      same_payload (wc_payload c) (wc_payload s)) \<or>
    (\<exists>r. db' = db\<lparr>wf_commands := wf_commands db @ [r]\<rparr> \<and> hydrate_command r = Inr s \<and>
      cm_key r = idempotency_key_value (wc_key c) \<and> cm_key r \<notin> cm_key ` set (wf_commands db) \<and>
      cm_id r \<notin> cm_id ` set (wf_commands db) \<and> wc_type s = wc_type c \<and> wc_run s = wc_run c \<and>
      wc_payload s = wc_payload c)"
proof -
  from assms obtain ra ca ua where t: "wc_run_after c = Aware ra" "wc_created_at c = Aware ca"
    "wc_updated_at c = Aware ua"
    by (auto simp: append_pending_command_def split: datetime.splits)
  let ?r = "command_columns c ra ca ua"
  show ?thesis
  proof (cases "\<exists>x \<in> set (wf_commands db). cm_key x = cm_key ?r")
    case True
    with assms t have "db' = db \<and> (\<exists>r \<in> set (wf_commands db). cm_key r = idempotency_key_value (wc_key c) \<and>
        hydrate_command r = Inr s) \<and> assert_same_command c s = Inr ()"
      by (auto simp: append_pending_command_def Let_def load_by_idempotency_key_def optE_Inr_Some
        split: option.splits dest!: find_Some_in)
    then show ?thesis by (auto simp: assert_same_command_def split: if_splits)
  next
    case False
    with assms t have "db' = db\<lparr>wf_commands := wf_commands db @ [?r]\<rparr>" "hydrate_command ?r = Inr s"
      "cm_id ?r \<notin> cm_id ` set (wf_commands db)"
      by (auto simp: append_pending_command_def Let_def image_iff split: if_splits)
    with False hydrate_command_Inr [OF this(2)] show ?thesis
      by (intro disjI2 exI [of _ ?r]) (auto simp: command_columns_def image_iff)
  qed
qed

lemma update_command_step:
  assumes "log_ok db" "update_command i f db = Inr (s, db')"
    and f: "\<And>r. command_identity (f r) = command_identity r"
  shows "log_ok db' \<and> (logged k db \<longrightarrow> logged k db')"
proof -
  let ?g = "\<lambda>x. if cm_id x = command_id_value i then f x else x"
  from assms(2) obtain r0 where r0: "List.find (\<lambda>r. cm_id r = command_id_value i) (wf_commands db) = Some r0"
    and h: "hydrate_command (f r0) = Inr s" and db': "wf_commands db' = map ?g (wf_commands db)"
    by (auto simp: update_command_def split: option.splits)
  have "cm_id (f r) = cm_id r" "cm_key (f r) = cm_key r" for r
    using f [of r] by (simp_all add: command_identity_def)
  then have "map cm_id (map ?g rs) = map cm_id rs" "map cm_key (map ?g rs) = map cm_key rs" for rs
    by simp_all
  then have "log_ok db' \<longleftrightarrow> log_ok db" unfolding log_ok_def db' by (simp only:)
  with assms(1) have "log_ok db'" by simp
  moreover have "logged k db'" if "logged k db"
  proof -
    from that obtain r where r: "r \<in> set (wf_commands db)" "command_identity r = k" "\<exists>c. hydrate_command r = Inr c"
      by (auto simp: logged_def)
    have "r = r0" if "cm_id r = command_id_value i"
      using assms(1) r(1) that find_Some_in [OF r0] by (metis distinct_map inj_onD log_ok_def)
    with h r(3) have "\<exists>c. hydrate_command (?g r) = Inr c" by auto
    moreover have "command_identity (?g r) = k" using r(2) f by simp
    moreover have "?g r \<in> set (wf_commands db')" using r(1) db' by auto
    ultimately show ?thesis unfolding logged_def by blast
  qed
  ultimately show ?thesis by blast
qed

lemma append_step:
  assumes "log_ok db" "append_pending_command c db = Inr (s, db')"
  shows "log_ok db'" "logged k db \<Longrightarrow> logged k db'"
  using assms(1) append_cases [OF assms(2)] by (auto simp: log_ok_def logged_def)

lemma command_step_keeps:
  "command_step db db' \<Longrightarrow> log_ok db \<Longrightarrow> log_ok db' \<and> (logged k db \<longrightarrow> logged k db')"
proof (induction rule: command_step.induct)
  case (append c db s db')
  then show ?case using append_step by blast
next
  case (completed i t db s db')
  show ?case
    by (rule update_command_step [OF completed(2) completed(1) [unfolded mark_command_completed_def]])
      (simp add: command_identity_def)
next
  case (failed i t db s db')
  show ?case
    by (rule update_command_step [OF failed(2) failed(1) [unfolded mark_command_failed_def]])
      (simp add: command_identity_def)
next
  case (rescheduled i run_after t db s db')
  show ?case
    by (rule update_command_step [OF rescheduled(2) rescheduled(1) [unfolded reschedule_pending_command_def]])
      (simp add: command_identity_def)
qed

lemma command_run_keeps:
  "command_step\<^sup>*\<^sup>* db db' \<Longrightarrow> log_ok db \<Longrightarrow> log_ok db' \<and> (logged k db \<longrightarrow> logged k db')"
  by (induction rule: rtranclp_induct) (auto dest: command_step_keeps)

lemma append_logged:
  assumes "log_ok db" "logged k db" "fst k = idempotency_key_value (wc_key c)"
    and "wc_type c = fst (snd (snd k))" "wc_run c = fst (snd (snd (snd k)))"
    and "same_payload (wc_payload c) (snd (snd (snd (snd k))))"
    and "workflow_command_post_init c = Inr c"
  shows "\<exists>s. append_pending_command c db = Inr (s, db) \<and> command_id_value (wc_id s) = fst (snd k) \<and>
    (\<exists>r \<in> set (wf_commands db). hydrate_command r = Inr s)"
proof -
  from assms(2) obtain r s where r: "r \<in> set (wf_commands db)" "command_identity r = k" "hydrate_command r = Inr s"
    by (auto simp: logged_def)
  have key: "cm_key r = idempotency_key_value (wc_key c)" using r(2) assms(3) by (auto simp: command_identity_def)
  have "List.find (\<lambda>r. cm_key r = idempotency_key_value (wc_key c)) (wf_commands db) = Some r"
    using assms(1) r(1) key by (intro find_unique [where k = cm_key]) (auto simp: log_ok_def)
  then have "load_by_idempotency_key (wc_key c) db = Inr (Some s)"
    using r(3) by (simp add: load_by_idempotency_key_def)
  moreover have "assert_same_command c s = Inr ()"
    using hydrate_command_Inr [OF r(3)] r(2) assms(4-6) by (auto simp: assert_same_command_def command_identity_def)
  moreover from assms(7) obtain ra ca ua where "wc_run_after c = Aware ra" "wc_created_at c = Aware ca"
    "wc_updated_at c = Aware ua"
    by (auto simp: workflow_command_post_init_def tz_aware_iff split: if_splits)
  ultimately have "append_pending_command c db = Inr (s, db)"
    using r(1) key by (auto simp: append_pending_command_def Let_def command_columns_def)
  with r hydrate_command_Inr [OF r(3)] show ?thesis by (auto simp: command_identity_def)
qed

lemma append_accepts_logged:
  assumes "log_ok db" "append_pending_command c db = Inr (s, w1)"
  shows "logged (idempotency_key_value (wc_key c), command_id_value (wc_id s), wc_type c, wc_run c, wc_payload s) w1"
proof -
  have "\<exists>r \<in> set (wf_commands w1). cm_key r = idempotency_key_value (wc_key c) \<and> hydrate_command r = Inr s \<and>
      wc_type s = wc_type c \<and> wc_run s = wc_run c"
    using append_cases [OF assms(2)] by auto
  then obtain r where r: "r \<in> set (wf_commands w1)" "cm_key r = idempotency_key_value (wc_key c)"
    "hydrate_command r = Inr s" "wc_type s = wc_type c" "wc_run s = wc_run c"
    by blast
  with hydrate_command_Inr [OF r(3)] show ?thesis
    by (auto simp: logged_def command_identity_def intro!: bexI [of _ r])
qed

lemma append_payload: "append_pending_command c db = Inr (s, w1) \<Longrightarrow> same_payload (wc_payload c) (wc_payload s)"
  using append_cases [of c db s w1] by auto

lemma append_conflict:
  assumes "log_ok db" "logged k db" "fst k = idempotency_key_value (wc_key c)"
    and "\<not> (wc_type c = fst (snd (snd k)) \<and> wc_run c = fst (snd (snd (snd k))) \<and>
      same_payload (wc_payload c) (snd (snd (snd (snd k)))))"
  shows "\<nexists>r. append_pending_command c db = Inr r"
proof
  assume "\<exists>r. append_pending_command c db = Inr r"
  then obtain s db' where a: "append_pending_command c db = Inr (s, db')" by auto
  from assms(2) obtain x where x: "x \<in> set (wf_commands db)" "command_identity x = k" by (auto simp: logged_def)
  then have key: "cm_key x = idempotency_key_value (wc_key c)" using assms(3) by (auto simp: command_identity_def)
  with x(1) append_cases [OF a] obtain r where r: "r \<in> set (wf_commands db)"
    "cm_key r = idempotency_key_value (wc_key c)" "hydrate_command r = Inr s"
    "wc_type s = wc_type c" "wc_run s = wc_run c" "same_payload (wc_payload c) (wc_payload s)"
    by force
  have "r = x" using assms(1) x(1) r(1,2) key by (metis distinct_map inj_onD log_ok_def)
  with r hydrate_command_Inr [OF r(3)] x(2) assms(4) show False by (auto simp: command_identity_def)
qed

text \<open>
  C6. The command log is idempotent for good: once a command is appended, then after any run of
  appends, completions, failures and reschedulings, whatever became of the command, appending one under
  the same idempotency key leaves the log as it is. It returns the logged command, with the id it had,
  exactly when type, workflow run and payload are the same, and is refused otherwise.
\<close>

theorem command_logged_once:
  assumes "log_ok db" "append_pending_command c db = Inr (s, w1)" "command_step\<^sup>*\<^sup>* w1 w2"
    and "wc_key d = wc_key c" "workflow_command_post_init d = Inr d"
  shows "if wc_type d = wc_type c \<and> wc_run d = wc_run c \<and> same_payload (wc_payload d) (wc_payload c)
    then \<exists>s'. append_pending_command d w2 = Inr (s', w2) \<and> wc_id s' = wc_id s
    else \<exists>e. append_pending_command d w2 = Inl e"
proof -
  let ?k = "(idempotency_key_value (wc_key c), command_id_value (wc_id s), wc_type c, wc_run c, wc_payload s)"
  have "log_ok w1" using assms(1,2) by (rule append_step)
  moreover have "logged ?k w1" using assms(1,2) by (rule append_accepts_logged)
  ultimately have ok: "log_ok w2" "logged ?k w2" using command_run_keeps [OF assms(3)] by blast+
  have same: "same_payload (wc_payload d) (wc_payload s) \<longleftrightarrow> same_payload (wc_payload d) (wc_payload c)"
    using append_payload [OF assms(2)] by (auto simp: same_payload_def)
  show ?thesis
  proof (cases "wc_type d = wc_type c \<and> wc_run d = wc_run c \<and> same_payload (wc_payload d) (wc_payload c)")
    case True
    with append_logged [OF ok, of d] same assms(4,5) show ?thesis
      by (auto simp: workflow_command_id.expand)
  next
    case False
    with append_conflict [OF ok, of d] same assms(4) have "\<nexists>r. append_pending_command d w2 = Inr r" by simp
    then show ?thesis by (subst if_not_P [OF False]) (metis sum.exhaust)
  qed
qed

section \<open>A logged command\<close>

definition log_command1 :: workflow_command where
  "log_command1 = \<lparr>wc_id = WorkflowCommandId ''c1'', wc_type = ''T'', wc_run = ''run'',
     wc_key = WorkflowIdempotencyKey ''k1'', wc_payload = [(''a'', JInt 1)], wc_status = CMD_PENDING,
     wc_run_after = Aware (Utc 1), wc_created_at = Aware (Utc 1), wc_updated_at = Aware (Utc 1),
     wc_causation = None, wc_correlation = None, wc_attempts = 0\<rparr>"

definition no_log :: workflow_db where
  "no_log = \<lparr>wf_commands = [], wf_events = [], wf_next_sequence = 1, wf_cursors = (\<lambda>_. None)\<rparr>"

definition logged1 :: "workflow_command \<times> workflow_db" where
  "logged1 = projr (append_pending_command log_command1 no_log)"

definition logged2 :: "workflow_command \<times> workflow_db" where
  "logged2 = projr (mark_command_completed (wc_id log_command1) (Utc 5) (snd logged1))"

theorem command_logged_once_witness:
  "(\<exists>s'. append_pending_command (log_command1\<lparr>wc_id := WorkflowCommandId ''other''\<rparr>) (snd logged2) = Inr (s', snd logged2) \<and>
      wc_id s' = WorkflowCommandId ''c1'') \<and>
    (\<exists>e. append_pending_command (log_command1\<lparr>wc_payload := []\<rparr>) (snd logged2) = Inl e)"
proof -
  have ok: "log_ok no_log" by (simp add: log_ok_def no_log_def)
  have a: "append_pending_command log_command1 no_log = Inr (fst logged1, snd logged1)"
    unfolding logged1_def by (rule returned) code_simp
  have "mark_command_completed (wc_id log_command1) (Utc 5) (snd logged1) = Inr (fst logged2, snd logged2)"
    unfolding logged2_def by (rule returned) code_simp
  then have r: "command_step\<^sup>*\<^sup>* (snd logged1) (snd logged2)" by (blast intro: command_step.completed)
  have i: "wc_id (fst logged1) = WorkflowCommandId ''c1''" by code_simp
  have d: "workflow_command_post_init (log_command1\<lparr>wc_id := WorkflowCommandId ''other''\<rparr>) =
      Inr (log_command1\<lparr>wc_id := WorkflowCommandId ''other''\<rparr>)"
    "workflow_command_post_init (log_command1\<lparr>wc_payload := []\<rparr>) = Inr (log_command1\<lparr>wc_payload := []\<rparr>)"
    by code_simp+
  have p: "same_payload (wc_payload log_command1) (wc_payload log_command1)" "\<not> same_payload [] (wc_payload log_command1)"
    by code_simp+
  show ?thesis
    using command_logged_once [OF ok a r _ d(1)] command_logged_once [OF ok a r _ d(2)] i p by simp
qed

end
