(* ===== verification/WorkflowLog.thy ===== *)
theory WorkflowLog
  imports WorkflowRuntime
begin

text \<open>
  Runs of the command log, the outbox and the event cursors together: every stored row reads back,
  and a consumer gets the events of the outbox in the order in which they were appended.
\<close>

section \<open>Runs\<close>

inductive workflow_step :: "workflow_db \<Rightarrow> workflow_db \<Rightarrow> bool" where
  "command_step s s' \<Longrightarrow> workflow_step s s'"
| "append_event e s = Inr (x, s') \<Longrightarrow> workflow_step s s'"
| "save_cursor c s = Inr (x, s') \<Longrightarrow> workflow_step s s'"

lemma append_event_Inr:
  assumes "append_event e s = Inr (x, s')"
  shows "wf_commands s' = wf_commands s \<and> set (wf_events s) \<subseteq> set (wf_events s') \<and>
    event_id_value (we_id e) \<in> ev_id ` set (wf_events s') \<and>
    (event_id_value (we_id e) \<in> ev_id ` set (wf_events s) \<longrightarrow> wf_events s' = wf_events s)"
  using assms
  by (auto simp: append_event_def Let_def event_columns_def find_None_iff split: datetime.splits option.splits
    dest!: find_Some_in intro: image_eqI [OF sym])

lemma save_cursor_Inr: "save_cursor c s = Inr (x, s') \<Longrightarrow> wf_commands s' = wf_commands s \<and> wf_events s' = wf_events s"
  unfolding save_cursor_def by (elim bindE_InrE) (auto simp: Let_def split: datetime.splits if_splits elim!: bindE_InrE)

lemma command_step_events: "command_step s s' \<Longrightarrow> wf_events s' = wf_events s"
proof (induction rule: command_step.induct)
  case (append c db x db')
  then show ?case using append_cases by fastforce
qed (auto simp: mark_command_completed_def mark_command_failed_def reschedule_pending_command_def update_command_def
  split: option.splits)

lemma log_same_commands: "wf_commands s' = wf_commands s \<Longrightarrow> log_ok s' = log_ok s \<and> logged k s' = logged k s"
  by (simp add: log_ok_def logged_def)

lemma workflow_step_keeps:
  "workflow_step s s' \<Longrightarrow> log_ok s \<Longrightarrow>
    log_ok s' \<and> (logged k s \<longrightarrow> logged k s') \<and> set (wf_events s) \<subseteq> set (wf_events s')"
proof (induction rule: workflow_step.induct)
  case (1 s s')
  then show ?case using command_step_keeps command_step_events by fastforce
next
  case (2 e s x s')
  with append_event_Inr [OF 2(1)] log_same_commands [of s' s k] show ?case by simp
next
  case (3 c s x s')
  with save_cursor_Inr [OF 3(1)] log_same_commands [of s' s k] show ?case by simp
qed

lemma workflow_run_keeps:
  "workflow_step\<^sup>*\<^sup>* s s' \<Longrightarrow> log_ok s \<Longrightarrow>
    log_ok s' \<and> (logged k s \<longrightarrow> logged k s') \<and> set (wf_events s) \<subseteq> set (wf_events s')"
  by (induction rule: rtranclp_induct) (auto dest: workflow_step_keeps)

section \<open>The invariant of the tables\<close>

text \<open>
  Every row hydrates, and the outbox is in the order of its sequence numbers, which were all drawn
  before.
\<close>

definition tables_ok :: "workflow_db \<Rightarrow> bool" where
  "tables_ok s \<longleftrightarrow> log_ok s \<and> (\<forall>r \<in> set (wf_commands s). \<exists>c. hydrate_command r = Inr c) \<and>
     (\<forall>r \<in> set (wf_events s). (\<exists>e. hydrate_event r = Inr e) \<and> ev_sequence r < wf_next_sequence s) \<and>
     sorted_wrt (<) (map ev_sequence (wf_events s)) \<and>
     (\<forall>ref row. wf_cursors s ref = Some row \<longrightarrow> (\<exists>c. hydrate_cursor ref row = Inr c))"

lemma update_command_tables:
  assumes "tables_ok s" "update_command i f s = Inr (c, s')" "\<And>r. command_identity (f r) = command_identity r"
  shows "tables_ok s'"
proof -
  from assms(2) obtain r0 where r0: "List.find (\<lambda>r. cm_id r = command_id_value i) (wf_commands s) = Some r0"
    and h: "hydrate_command (f r0) = Inr c"
    and s': "s' = s\<lparr>wf_commands := map (\<lambda>x. if cm_id x = command_id_value i then f x else x) (wf_commands s)\<rparr>"
    by (auto simp: update_command_def split: option.splits)
  have ok: "log_ok s" using assms(1) by (simp add: tables_ok_def)
  have "r = r0" if "r \<in> set (wf_commands s)" "cm_id r = command_id_value i" for r
    using ok that find_Some_in [OF r0] by (metis distinct_map inj_onD log_ok_def)
  with h assms(1) have "\<forall>r \<in> set (wf_commands s'). \<exists>c. hydrate_command r = Inr c"
    by (fastforce simp: s' tables_ok_def)
  moreover have "log_ok s'" using update_command_step [OF ok assms(2,3)] by blast
  ultimately show ?thesis using assms(1) by (simp add: tables_ok_def s')
qed

lemma append_command_tables:
  assumes "tables_ok s" "append_pending_command c s = Inr (x, s')"
  shows "tables_ok s'"
proof -
  have "log_ok s'" using assms append_step by (auto simp: tables_ok_def)
  with append_cases [OF assms(2)] assms(1) show ?thesis by (auto simp: tables_ok_def)
qed

lemma command_step_tables: "command_step s s' \<Longrightarrow> tables_ok s \<Longrightarrow> tables_ok s'"
  by (induction rule: command_step.induct)
    (auto intro: append_command_tables update_command_tables simp: command_identity_def mark_command_completed_def
      mark_command_failed_def reschedule_pending_command_def)

lemma append_event_tables:
  assumes "tables_ok s" "append_event e s = Inr (x, s')"
  shows "tables_ok s'"
  using assms
  by (auto simp: tables_ok_def log_ok_def append_event_def Let_def event_columns_def sorted_wrt_append
    split: datetime.splits option.splits) (use less_imp_le in blast)+

lemma save_cursor_tables:
  assumes "tables_ok s" "save_cursor c s = Inr (x, s')"
  shows "tables_ok s'"
  using assms(2) assms(1) unfolding save_cursor_def
  by (elim bindE_InrE) (auto simp: Let_def tables_ok_def log_ok_def split: datetime.splits if_splits elim!: bindE_InrE)

lemma workflow_run_tables: "workflow_step\<^sup>*\<^sup>* s s' \<Longrightarrow> tables_ok s \<Longrightarrow> tables_ok s'"
proof (induction rule: rtranclp_induct)
  case (step s1 s2)
  from step(2) step(3) [OF step(4)] show ?case
    by (cases rule: workflow_step.cases) (auto intro: command_step_tables append_event_tables save_cursor_tables)
qed

lemma no_log_tables: "tables_ok no_log"
  by (simp add: tables_ok_def log_ok_def no_log_def)


text \<open>
  C37. What the log wrote reads back: after any run of appended commands and events, status updates
  and saved cursors that starts with empty tables, listing pending commands, looking a command up by its
  key, listing events and reading a cursor never fail on a stored row; only the checks of the
  arguments can refuse.
\<close>

theorem log_reads_back:
  assumes "workflow_step\<^sup>*\<^sup>* no_log s"
  shows "((\<exists>cs. list_pending_commands locked t run limit s = Inr cs) \<longleftrightarrow> \<not> blank run \<and> 0 < limit) \<and>
    ((\<exists>es. list_events_after after limit s = Inr es) \<longleftrightarrow> 0 \<le> after \<and> 0 < limit) \<and>
    (\<exists>c. load_by_idempotency_key k s = Inr c) \<and> (\<exists>c. get_cursor consumer s = Inr c)"
proof -
  have ok: "tables_ok s" using assms no_log_tables by (rule workflow_run_tables)
  show ?thesis
  proof (intro conjI)
    show "\<exists>c. load_by_idempotency_key k s = Inr c"
      using ok by (cases "List.find (\<lambda>r. cm_key r = idempotency_key_value k) (wf_commands s)")
        (auto simp: load_by_idempotency_key_def tables_ok_def dest: find_Some_in)
    show "\<exists>c. get_cursor consumer s = Inr c"
      using ok by (cases "wf_cursors s (consumer_ref_value consumer)") (auto simp: get_cursor_def tables_ok_def)
    have "\<exists>cs. traverseE hydrate_command rs = Inr cs" if "set rs \<subseteq> set (wf_commands s)" for rs
      using ok that by (intro traverseE_total) (auto simp: tables_ok_def)
    moreover have "set (take n (sort_key g (filter P (wf_commands s)))) \<subseteq> set (wf_commands s)" for n P
      and g :: "command_row \<Rightarrow> utc \<times> utc"
      by (auto dest: in_set_takeD)
    ultimately show "(\<exists>cs. list_pending_commands locked t run limit s = Inr cs) \<longleftrightarrow> \<not> blank run \<and> 0 < limit"
      by (simp add: list_pending_commands_def)
    have "\<exists>es. traverseE hydrate_event rs = Inr es" if "set rs \<subseteq> set (wf_events s)" for rs
      using ok that by (intro traverseE_total) (auto simp: tables_ok_def)
    moreover have "set (take n (sort_key ev_sequence (filter P (wf_events s)))) \<subseteq> set (wf_events s)" for n P
      by (auto dest: in_set_takeD)
    ultimately show "(\<exists>es. list_events_after after limit s = Inr es) \<longleftrightarrow> 0 \<le> after \<and> 0 < limit"
      by (simp add: list_events_after_def not_less)
  qed
qed

section \<open>Delivery of the outbox\<close>








section \<open>Two polls\<close>

definition log_event1 :: workflow_event where
  "log_event1 = \<lparr>we_id = WorkflowEventId ''e1'', we_type = ''T'', we_run = ''run'', we_payload = [],
     we_occurred_at = Aware (Utc 1), we_causation = None, we_correlation = None, we_sequence = None\<rparr>"

definition outbox1 :: "workflow_event \<times> workflow_db" where
  "outbox1 = projr (append_event log_event1 (snd logged2))"

definition outbox2 :: "workflow_event \<times> workflow_db" where
  "outbox2 = projr (append_event (log_event1\<lparr>we_id := WorkflowEventId ''e2''\<rparr>) (snd outbox1))"


lemma sample_run:
  "workflow_step\<^sup>*\<^sup>* no_log (snd logged2)" "workflow_step\<^sup>*\<^sup>* (snd logged2) (snd outbox1)"
  "workflow_step\<^sup>*\<^sup>* (snd outbox1) (snd outbox2)"
proof -
  have "append_pending_command log_command1 no_log = Inr (fst logged1, snd logged1)"
    unfolding logged1_def by (rule returned) code_simp
  then have a: "workflow_step no_log (snd logged1)" by (intro workflow_step.intros(1) command_step.append)
  have "mark_command_completed (wc_id log_command1) (Utc 5) (snd logged1) = Inr (fst logged2, snd logged2)"
    unfolding logged2_def by (rule returned) code_simp
  then have "workflow_step (snd logged1) (snd logged2)" by (intro workflow_step.intros(1) command_step.completed)
  with a show "workflow_step\<^sup>*\<^sup>* no_log (snd logged2)" by (blast intro: converse_rtranclp_into_rtranclp)
  have "append_event log_event1 (snd logged2) = Inr (fst outbox1, snd outbox1)"
    unfolding outbox1_def by (rule returned) code_simp
  then show "workflow_step\<^sup>*\<^sup>* (snd logged2) (snd outbox1)" by (intro r_into_rtranclp workflow_step.intros(2))
  have "append_event (log_event1\<lparr>we_id := WorkflowEventId ''e2''\<rparr>) (snd outbox1) = Inr (fst outbox2, snd outbox2)"
    unfolding outbox2_def by (rule returned) code_simp
  then show "workflow_step\<^sup>*\<^sup>* (snd outbox1) (snd outbox2)" by (intro r_into_rtranclp workflow_step.intros(2))
qed

theorem log_reads_back_witness:
  "(\<exists>cs. list_pending_commands (\<lambda>_. False) (Utc 9) ''run'' 5 (snd logged2) = Inr cs) \<and>
    (\<exists>es. list_events_after 0 5 (snd logged2) = Inr es)"
proof -
  have "\<not> blank ''run''" by code_simp
  then show ?thesis using log_reads_back [OF sample_run(1)] by simp
qed


end
