(* ===== verification/ClaimBuilderDrain.thy ===== *)
theory ClaimBuilderDrain
  imports DrainClaims WorkflowLog
begin

text \<open>
  The drain of the claim builder (\<open>sagas/claim_builder_capacity_drain_bridge.py\<close>,
  \<open>run_claim_builder_capacity_queue_once.py\<close>, \<open>trigger_claim_builder_capacity_drain_if_enabled.py\<close>):
  the strategy that appends a command and an event for each admitted item to the log and the outbox of
  the workflow. \<open>uuid5\<close> of the standard library is a parameter, and so is the resolver of the
  dispatch context, which the composition wires to one that finds nothing.
\<close>

section \<open>The bridge\<close>

definition claim_builder_work_kind :: string where
  "claim_builder_work_kind = ''knowledge_workbench.claim_builder.section_extraction''"

record drain_bridge =
  br_run :: string
  br_resolve :: "string \<Rightarrow> dispatch_context option"
  br_source_document :: "string option"
  br_active_model :: "string option"
  br_scheduled_count :: "int option"

text \<open>\<open>account_ref or '-'\<close>: an empty account counts as none.\<close>

definition bridge_attempt_id :: "(string \<Rightarrow> string) \<Rightarrow> string \<Rightarrow> string \<Rightarrow> string option \<Rightarrow> string" where
  "bridge_attempt_id uuid5 run item account =
     ''claim-builder-capacity-drain:'' @ uuid5 (run @ '':'' @ item @ '':'' @
       (case account of Some a \<Rightarrow> if a = [] then ''-'' else a | None \<Rightarrow> ''-''))"

definition text_field :: "string \<Rightarrow> string option \<Rightarrow> payload" where
  "text_field key v = (case v of Some s \<Rightarrow> [(key, JStr s)] | None \<Rightarrow> [])"

definition context_fields :: "dispatch_context option \<Rightarrow> payload" where
  "context_fields d = (case d of None \<Rightarrow> []
     | Some x \<Rightarrow> text_field ''source_ref'' (dx_source_ref x) @ text_field ''source_unit_ref'' (dx_source_unit_ref x))"

definition bridge_command_payload :: "drain_bridge \<Rightarrow> string \<Rightarrow> string \<Rightarrow> string \<Rightarrow> payload" where
  "bridge_command_payload b item attempt model =
     [(''workflow_run_id'', JStr (br_run b)), (''work_kind'', JStr claim_builder_work_kind),
      (''dispatch_attempt_id'', JStr attempt), (''work_item_id'', JStr item),
      (''claim_builder_prepare_command_id'', JStr (''capacity-drain-bridge:'' @ br_run b @ '':'' @ attempt)),
      (''claim_builder_prepare_idempotency_key'', JStr (''capacity-drain-bridge:'' @ br_run b @ '':'' @ attempt)),
      (''active_model_ref'', JStr model),
      (''llm_dispatch_preparation'', JObject [(''active_model_ref'', JStr model),
        (''bridge'', JStr ''claim_builder_capacity_drain'')])] @
     text_field ''source_document_ref'' (br_source_document b) @
     (case br_scheduled_count b of Some n \<Rightarrow> [(''scheduled_work_item_count'', JInt n)] | None \<Rightarrow> []) @
     context_fields (br_resolve b item)"

definition bridge_command :: "drain_bridge \<Rightarrow> string \<Rightarrow> string \<Rightarrow> string \<Rightarrow> utc \<Rightarrow> py_error + workflow_command" where
  "bridge_command b item attempt model t =
     (let key = ''execute-claim-builder-section:'' @ br_run b @ '':'' @ attempt in
      bindE (mk_command_id (''workflow-command:'' @ key)) (\<lambda>i.
      bindE (mk_idempotency_key key) (\<lambda>k.
      workflow_command_post_init
        \<lparr>wc_id = i, wc_type = ''ExecuteClaimBuilderSection'', wc_run = br_run b, wc_key = k,
         wc_payload = bridge_command_payload b item attempt model, wc_status = CMD_PENDING,
         wc_run_after = Aware t, wc_created_at = Aware t, wc_updated_at = Aware t,
         wc_causation = None, wc_correlation = None, wc_attempts = 0\<rparr>)))"

definition opt_json :: "string option \<Rightarrow> json" where
  "opt_json v = (case v of Some s \<Rightarrow> JStr s | None \<Rightarrow> JNull)"

definition bridge_event :: "drain_bridge \<Rightarrow> string \<Rightarrow> string \<Rightarrow> lane_key \<Rightarrow> lane_key \<Rightarrow> capacity_reservation \<Rightarrow>
    utc \<Rightarrow> py_error + workflow_event" where
  "bridge_event b item attempt lane window v t =
     bindE (mk_event_id (''workflow-event:'' @ br_run b @ '':ClaimBuilderDispatchAttemptPrepared:'' @ attempt)) (\<lambda>i.
     workflow_event_post_init
       \<lparr>we_id = i, we_type = ''ClaimBuilderDispatchAttemptPrepared'', we_run = br_run b,
        we_payload = [(''workflow_run_id'', JStr (br_run b)), (''work_item_id'', JStr item),
          (''dispatch_attempt_id'', JStr attempt), (''work_kind'', JStr claim_builder_work_kind),
          (''provider'', JStr (lk_provider window)), (''account_ref'', opt_json (lk_account_ref window)),
          (''model_ref'', JStr (lk_model_ref window)), (''selection_account_ref'', opt_json (lk_account_ref lane)),
          (''reserved_requests'', JInt (cr_requests v)), (''reserved_tokens'', JInt (cr_tokens v))] @
          context_fields (br_resolve b item),
        we_occurred_at = Aware t, we_causation = None, we_correlation = Some attempt, we_sequence = None\<rparr>)"

text \<open>A raise leaves the appended command to the rollback of the unit of work.\<close>

definition bridge_execute :: "(string \<Rightarrow> string) \<Rightarrow> drain_bridge \<Rightarrow> string \<Rightarrow> lane_key \<Rightarrow> lane_key \<Rightarrow>
    capacity_reservation \<Rightarrow> string \<Rightarrow> utc \<Rightarrow> workflow_db \<Rightarrow> py_error + (strategy_result \<times> workflow_db)" where
  "bridge_execute uuid5 b item lane window v worker t db =
     (let attempt = bridge_attempt_id uuid5 (br_run b) item (lk_account_ref window);
          model = (case br_active_model b of Some m \<Rightarrow> if m = [] then lk_model_ref window else m
            | None \<Rightarrow> lk_model_ref window) in
      bindE (bridge_command b item attempt model t) (\<lambda>c.
      bindE (append_pending_command c db) (\<lambda>(_, db1).
      bindE (bridge_event b item attempt lane window v t) (\<lambda>e.
      bindE (append_event e db1) (\<lambda>(_, db2).
      bindE (strategy_result_post_init \<lparr>sg_work_item_id = item, sg_dispatch_attempt_id = Some attempt,
        sg_call_started = False, sg_observation_recorded = False, sg_freeze_until = None\<rparr>) (\<lambda>r.
      Inr (r, db2)))))))"

definition bridge_strategy :: "(string \<Rightarrow> string) \<Rightarrow> drain_bridge \<Rightarrow> workflow_db drain_strategy" where
  "bridge_strategy uuid5 b = \<lparr>ds_should_pause = (\<lambda>_ _ db. Inr (False, db)), ds_execute = bridge_execute uuid5 b\<rparr>"

section \<open>One run of the queue\<close>

record queue_once_command =
  qo_run :: string
  qo_provider :: string
  qo_model_ref :: string
  qo_account_ref :: string
  qo_now :: utc
  qo_minute_requests :: int
  qo_minute_tokens :: int
  qo_daily_requests :: int
  qo_daily_tokens :: int
  qo_worker :: string
  qo_max_items :: "int option"

definition queue_once_lane :: "queue_once_command \<Rightarrow> string option \<Rightarrow> py_error + lane_key" where
  "queue_once_lane q account = lane_key_post_init \<lparr>lk_work_kind = claim_builder_work_kind,
     lk_provider = qo_provider q, lk_model_ref = qo_model_ref q, lk_account_ref = account\<rparr>"

definition queue_once_drain :: "queue_once_command \<Rightarrow> py_error + drain_command" where
  "queue_once_drain q =
     bindE (queue_once_lane q None) (\<lambda>lane.
     bindE (queue_once_lane q (Some (qo_account_ref q))) (\<lambda>window.
     drain_command_post_init
       \<lparr>dc_run = Some (qo_run q), dc_lane = lane, dc_window = window, dc_worker = qo_worker q, dc_now = qo_now q,
        dc_minute_requests = qo_minute_requests q, dc_minute_tokens = qo_minute_tokens q,
        dc_daily_requests = qo_daily_requests q, dc_daily_tokens = qo_daily_tokens q,
        dc_max_items = qo_max_items q, dc_ttl = 90\<rparr>))"

definition run_queue_once :: "(string \<Rightarrow> string) \<Rightarrow> (string \<Rightarrow> bool) \<Rightarrow> (string \<Rightarrow> bool) \<Rightarrow> (string \<Rightarrow> string) \<Rightarrow>
    drain_bridge \<Rightarrow> queue_once_command \<Rightarrow> queue_db \<times> workflow_db \<Rightarrow> (workflow_db, drain_result) drain_run option" where
  "run_queue_once collate locked flag_locked uuid5 b q s =
     (case queue_once_drain q of
        Inl e \<Rightarrow> Some (Inl (e, s))
      | Inr c \<Rightarrow> run_capacity_window_drain collate locked flag_locked (bridge_strategy uuid5 b) c s)"

text \<open>The two flags of \<open>llm_dispatch_ownership.py\<close>; the bridge is switched off in the source.\<close>

definition drain_bridge_enabled :: bool where
  "drain_bridge_enabled = False"

definition queue_core_enabled :: bool where
  "queue_core_enabled = True"

datatype drain_trigger_result = Drain_Skipped string | Drain_Ran drain_result

definition trigger_drain :: "bool \<Rightarrow> bool \<Rightarrow> (string \<Rightarrow> string) \<Rightarrow> (string \<Rightarrow> bool) \<Rightarrow> (string \<Rightarrow> bool) \<Rightarrow>
    (string \<Rightarrow> string) \<Rightarrow> drain_bridge \<Rightarrow> queue_once_command \<Rightarrow> queue_db \<times> workflow_db \<Rightarrow>
    (workflow_db, drain_trigger_result) drain_run option" where
  "trigger_drain bridge_enabled core_enabled collate locked flag_locked uuid5 b q s =
     (if \<not> bridge_enabled then Some (Inr (Drain_Skipped ''claim_builder_capacity_drain_bridge_disabled'', s))
      else if \<not> core_enabled then Some (Inr (Drain_Skipped ''capacity_queue_runtime_core_disabled'', s))
      else map_option (\<lambda>out. then_run out (\<lambda>r s'. Inr (Drain_Ran r, s')))
        (run_queue_once collate locked flag_locked uuid5 b q s))"

section \<open>A retried item is not dispatched again\<close>

lemma bridge_command_Inr:
  assumes "bridge_command b item attempt model t = Inr c"
  shows "idempotency_key_value (wc_key c) = ''execute-claim-builder-section:'' @ br_run b @ '':'' @ attempt"
  using assms unfolding bridge_command_def Let_def
  by (elim bindE_InrE) (auto simp: mk_idempotency_key_def dest!: command_post_init_Inr split: if_splits)

lemma event_post_init_Inr: "workflow_event_post_init e = Inr e' \<Longrightarrow> e' = e"
  by (auto simp: workflow_event_post_init_def split: if_splits)

lemma mk_event_id_Inr: "mk_event_id v = Inr i \<Longrightarrow> event_id_value i = v"
  by (auto simp: mk_event_id_def split: if_splits)

lemma bridge_event_Inr:
  assumes "bridge_event b item attempt lane window v t = Inr e"
  shows "event_id_value (we_id e) =
    ''workflow-event:'' @ br_run b @ '':ClaimBuilderDispatchAttemptPrepared:'' @ attempt"
proof -
  from assms obtain i where i: "mk_event_id (''workflow-event:'' @ br_run b @
      '':ClaimBuilderDispatchAttemptPrepared:'' @ attempt) = Inr i" "we_id e = i"
    unfolding bridge_event_def by (elim bindE_InrE) (drule event_post_init_Inr, simp)
  show ?thesis unfolding i(2) by (rule mk_event_id_Inr [OF i(1)])
qed

text \<open>What an execution of the bridge leaves behind.\<close>

lemma bridge_execute_Inr:
  assumes "bridge_execute uuid5 b item lane window v worker t s = Inr (r, s')"
  obtains c x s1 e y where
    "idempotency_key_value (wc_key c) = ''execute-claim-builder-section:'' @ br_run b @ '':'' @
      bridge_attempt_id uuid5 (br_run b) item (lk_account_ref window)"
    "append_pending_command c s = Inr (x, s1)"
    "event_id_value (we_id e) = ''workflow-event:'' @ br_run b @ '':ClaimBuilderDispatchAttemptPrepared:'' @
      bridge_attempt_id uuid5 (br_run b) item (lk_account_ref window)"
    "append_event e s1 = Inr (y, s')"
    "sg_dispatch_attempt_id r = Some (bridge_attempt_id uuid5 (br_run b) item (lk_account_ref window))"
  using assms unfolding bridge_execute_def Let_def
  by (elim bindE_InrE) (auto dest!: bridge_command_Inr bridge_event_Inr
    simp: strategy_result_post_init_def split: if_splits prod.splits elim!: bindE_InrE)

lemma append_known_key:
  assumes "log_ok s" "logged (idempotency_key_value (wc_key c), k) s" "append_pending_command c s = Inr (x, s')"
  shows "s' = s"
proof -
  from assms(2) obtain r where "r \<in> set (wf_commands s)" "cm_key r = idempotency_key_value (wc_key c)"
    by (auto simp: logged_def command_identity_def)
  with append_cases [OF assms(3)] show ?thesis by force
qed

text \<open>
  C33. The bridge dispatches a work item of a workflow on an account at most once. After it has
  executed an admitted item, and whatever the command log, the outbox and the cursors did since (the
  command may be completed or failed), executing the item again on the same account, for example when its
  retry was admitted later, appends neither a command nor an event, and still reports success under the
  same attempt id: the drain counts the item as dispatched, and no worker will ever run it.
\<close>

theorem retry_not_redispatched:
  assumes "log_ok s" "bridge_execute uuid5 b item lane window v worker t s = Inr (r, s1)"
    and "workflow_step\<^sup>*\<^sup>* s1 s2"
    and "bridge_execute uuid5 b' item lane' window' v' worker' t' s2 = Inr (r', s3)"
    and "br_run b' = br_run b" "lk_account_ref window' = lk_account_ref window"
  shows "wf_commands s3 = wf_commands s2 \<and> wf_events s3 = wf_events s2 \<and>
    sg_dispatch_attempt_id r' = sg_dispatch_attempt_id r"
proof -
  from assms(2) obtain c x sc e y where first: "append_pending_command c s = Inr (x, sc)"
    "append_event e sc = Inr (y, s1)" and k: "idempotency_key_value (wc_key c) = ''execute-claim-builder-section:'' @
      br_run b @ '':'' @ bridge_attempt_id uuid5 (br_run b) item (lk_account_ref window)"
    "event_id_value (we_id e) = ''workflow-event:'' @ br_run b @ '':ClaimBuilderDispatchAttemptPrepared:'' @
      bridge_attempt_id uuid5 (br_run b) item (lk_account_ref window)"
    "sg_dispatch_attempt_id r = Some (bridge_attempt_id uuid5 (br_run b) item (lk_account_ref window))"
    by (rule bridge_execute_Inr)
  from assms(4) obtain c' x' sc' e' y' where second: "append_pending_command c' s2 = Inr (x', sc')"
    "append_event e' sc' = Inr (y', s3)" and k': "idempotency_key_value (wc_key c') =
      ''execute-claim-builder-section:'' @ br_run b' @ '':'' @
      bridge_attempt_id uuid5 (br_run b') item (lk_account_ref window')"
    "event_id_value (we_id e') = ''workflow-event:'' @ br_run b' @ '':ClaimBuilderDispatchAttemptPrepared:'' @
      bridge_attempt_id uuid5 (br_run b') item (lk_account_ref window')"
    "sg_dispatch_attempt_id r' = Some (bridge_attempt_id uuid5 (br_run b') item (lk_account_ref window'))"
    by (rule bridge_execute_Inr)
  let ?k = "(idempotency_key_value (wc_key c), command_id_value (wc_id x), wc_type c, wc_run c, wc_payload x)"
  have "log_ok sc" "logged ?k sc" using assms(1) first(1) by (rule append_step, rule append_accepts_logged)
  then have "log_ok s1" "logged ?k s1" using append_event_Inr [OF first(2)] log_same_commands by blast+
  then have kept: "log_ok s2" "logged ?k s2" "set (wf_events s1) \<subseteq> set (wf_events s2)"
    using workflow_run_keeps [OF assms(3)] by blast+
  then have sc': "sc' = s2"
    by (intro append_known_key [OF _ _ second(1)]) (auto simp: k(1) k'(1) assms(5,6))
  have "event_id_value (we_id e') = event_id_value (we_id e)" using k(2) k'(2) assms(5,6) by simp
  then have "event_id_value (we_id e') \<in> ev_id ` set (wf_events s2)"
    using append_event_Inr [OF first(2)] kept(3) by auto
  with append_event_Inr [OF second(2)] sc' show ?thesis using k(3) k'(3) assms(5,6) by simp
qed

section \<open>An item whose command was completed\<close>

definition bridge1 :: drain_bridge where
  "bridge1 = \<lparr>br_run = ''run'', br_resolve = (\<lambda>_. None), br_source_document = None, br_active_model = None,
     br_scheduled_count = None\<rparr>"

definition held1 :: capacity_reservation where
  "held1 = \<lparr>cr_window = (''groq'', Some ''a'', ''m''), cr_requests = 1, cr_tokens = 20, cr_reserved_at = Utc 2\<rparr>"

definition bridged1 :: "strategy_result \<times> workflow_db" where
  "bridged1 = projr (bridge_execute (\<lambda>x. x) bridge1 ''w1'' lane1 account_lane1 held1 ''w'' (Utc 2) no_log)"

definition bridged2 :: "workflow_command \<times> workflow_db" where
  "bridged2 = projr (mark_command_completed (WorkflowCommandId (cm_id (hd (wf_commands (snd bridged1))))) (Utc 5) (snd bridged1))"

definition bridged3 :: "strategy_result \<times> workflow_db" where
  "bridged3 = projr (bridge_execute (\<lambda>x. x) bridge1 ''w1'' lane1 account_lane1 held1 ''w'' (Utc 8) (snd bridged2))"

theorem retry_not_redispatched_witness:
  "bridge_execute (\<lambda>x. x) bridge1 ''w1'' lane1 account_lane1 held1 ''w'' (Utc 8) (snd bridged2) =
      Inr (fst bridged3, snd bridged3) \<and>
    wf_commands (snd bridged3) = wf_commands (snd bridged2) \<and> map cm_status (wf_commands (snd bridged2)) = [''COMPLETED'']"
proof -
  have ok: "log_ok no_log" by (simp add: log_ok_def no_log_def)
  have a: "bridge_execute (\<lambda>x. x) bridge1 ''w1'' lane1 account_lane1 held1 ''w'' (Utc 2) no_log =
      Inr (fst bridged1, snd bridged1)"
    unfolding bridged1_def by (rule returned) code_simp
  have "mark_command_completed (WorkflowCommandId (cm_id (hd (wf_commands (snd bridged1))))) (Utc 5) (snd bridged1) =
      Inr (fst bridged2, snd bridged2)"
    unfolding bridged2_def by (rule returned) code_simp
  then have r: "workflow_step\<^sup>*\<^sup>* (snd bridged1) (snd bridged2)"
    by (intro r_into_rtranclp workflow_step.intros(1)) (rule command_step.completed)
  have b: "bridge_execute (\<lambda>x. x) bridge1 ''w1'' lane1 account_lane1 held1 ''w'' (Utc 8) (snd bridged2) =
      Inr (fst bridged3, snd bridged3)"
    unfolding bridged3_def by (rule returned) code_simp
  have "map cm_status (wf_commands (snd bridged2)) = [''COMPLETED'']" by code_simp
  with b retry_not_redispatched [OF ok a r b refl refl] show ?thesis by blast
qed

end
