(* ===== verification/Segmentation.thy ===== *)
theory Segmentation
  imports CrmPrelude Complex_Main
begin

text \<open>
  Segmentation of a document (\<open>document_segmentation/domain\<close>): the budget of a segment, the segment,
  and the policy that cuts Markdown at its top-level headings and splits what is too large: at lower
  headings if the parts then fit, else at paragraphs, else at words or characters. The estimator of
  tokens is a parameter where the source takes one. Quotients are exact here: the policy divides
  token counts as floats, which decides the same way below \<open>2 ^ 53\<close>, and the budget divides
  as decimals of 28 digits. SHA-256 is a parameter.
\<close>

section \<open>Lines and words\<close>

definition LF :: char where
  "LF = CHR 0x0A"

definition CR :: char where
  "CR = CHR 0x0D"

text \<open>\<open>text.replace("\r\n", "\n").replace("\r", "\n")\<close>.\<close>

fun normalize_newlines :: "string \<Rightarrow> string" where
  "normalize_newlines [] = []"
| "normalize_newlines [c] = [if c = CR then LF else c]"
| "normalize_newlines (c # d # s) =
     (if c = CR then LF # (if d = LF then normalize_newlines s else normalize_newlines (d # s))
      else c # normalize_newlines (d # s))"

text \<open>The pieces between the characters with \<open>P\<close>, empty ones included.\<close>

fun pieces :: "(char \<Rightarrow> bool) \<Rightarrow> string \<Rightarrow> string list" where
  "pieces P [] = [[]]"
| "pieces P (c # s) = (if P c then [] # pieces P s else (c # hd (pieces P s)) # tl (pieces P s))"

definition normalize_lines :: "string \<Rightarrow> string list" where
  "normalize_lines s = pieces (\<lambda>c. c = LF) (normalize_newlines s)"

text \<open>\<open>str.split()\<close>.\<close>

definition words :: "string \<Rightarrow> string list" where
  "words s = filter (\<lambda>w. w \<noteq> []) (pieces is_space s)"

fun join :: "string \<Rightarrow> string list \<Rightarrow> string" where
  "join sep [] = []"
| "join sep [x] = x"
| "join sep (x # y # xs) = x @ sep @ join sep (y # xs)"

definition rstrip :: "string \<Rightarrow> string" where
  "rstrip s = rev (dropWhile is_space (rev s))"

text \<open>\<open>"\n".join(lines).strip()\<close> and \<open>"\n\n".join(blocks).strip()\<close>.\<close>

definition lines_text :: "string list \<Rightarrow> string" where
  "lines_text ls = strip (join [LF] ls)"

definition blocks_text :: "string list \<Rightarrow> string" where
  "blocks_text bs = strip (join [LF, LF] bs)"

text \<open>The slices \<open>xs[i : i + n]\<close> for \<open>i\<close> in \<open>range(0, len(xs), n)\<close>, for a positive \<open>n\<close>.\<close>

function slices :: "nat \<Rightarrow> 'a list \<Rightarrow> 'a list list" where
  "slices n xs = (if xs = [] \<or> n = 0 then [] else take n xs # slices n (drop n xs))"
  by pat_completeness auto
termination
  by (relation "measure (\<lambda>(n, xs). length xs)") auto

declare slices.simps [simp del]

section \<open>The budget\<close>

type_synonym token_estimator = "string \<Rightarrow> int"

record segmentation_prompt =
  sp_prompt_name :: string
  sp_prompt_tokens :: int

definition segmentation_prompt_post_init :: "segmentation_prompt \<Rightarrow> py_error + segmentation_prompt" where
  "segmentation_prompt_post_init p =
     (if blank (sp_prompt_name p) then Inl (ValueError ''prompt_name must be non-empty'')
      else if sp_prompt_tokens p < 0 then Inl (ValueError ''prompt_token_count must be >= 0'')
      else Inr p)"

record segmentation_model =
  sm_profile_name :: string
  sm_max_request_input :: int
  sm_safety_gap :: int
  sm_multiplier :: rat

definition segmentation_model_post_init :: "segmentation_model \<Rightarrow> py_error + segmentation_model" where
  "segmentation_model_post_init m =
     (if blank (sm_profile_name m) then Inl (ValueError ''profile_name must be non-empty'')
      else if sm_max_request_input m \<le> 0 then Inl (ValueError ''max_request_input_tokens must be > 0'')
      else if sm_safety_gap m < 0 then Inl (ValueError ''segmentation_input_safety_gap_tokens must be >= 0'')
      else if sm_safety_gap m \<ge> sm_max_request_input m
        then Inl (ValueError ''segmentation_input_safety_gap_tokens must be < max_request_input_tokens'')
      else if sm_multiplier m \<le> 0 then Inl (ValueError ''char_to_token_multiplier must be > 0'')
      else Inr m)"

record segmentation_budget =
  sb_prompt :: segmentation_prompt
  sb_model :: segmentation_model

definition max_source_segment_tokens :: "segmentation_budget \<Rightarrow> int" where
  "max_source_segment_tokens b = (sm_max_request_input (sb_model b) - sp_prompt_tokens (sb_prompt b) -
     sm_safety_gap (sb_model b)) div 2"

definition segmentation_budget_post_init :: "segmentation_budget \<Rightarrow> py_error + segmentation_budget" where
  "segmentation_budget_post_init b =
     (if max_source_segment_tokens b \<le> 0 then Inl (ValueError ''max_source_segment_tokens must be > 0'')
      else Inr b)"

definition segment_estimate_tokens :: "segmentation_budget \<Rightarrow> token_estimator" where
  "segment_estimate_tokens b s =
     (if blank s then 0 else max 1 \<lceil>of_nat (length s) / sm_multiplier (sb_model b)\<rceil>)"

text \<open>\<open>RoughTokenEstimator\<close> with the multiplier \<open>n / d\<close>.\<close>

definition rough_estimate_tokens :: "int \<times> int \<Rightarrow> token_estimator" where
  "rough_estimate_tokens m s = (if blank s then 0
     else max 1 ((int (length s) * snd m + fst m - 1) div fst m))"

definition compaction_rough_multiplier :: "int \<times> int" where
  "compaction_rough_multiplier = (37, 10)"

definition text_fits_budget :: "segmentation_budget \<Rightarrow> token_estimator \<Rightarrow> string \<Rightarrow> bool" where
  "text_fits_budget b est s \<longleftrightarrow> est s \<le> max_source_segment_tokens b"

definition required_segment_count :: "int \<Rightarrow> segmentation_budget \<Rightarrow> py_error + int" where
  "required_segment_count n b =
     (if n \<le> 0 then Inl (ValueError ''estimated_tokens must be > 0'')
      else Inr ((n + max_source_segment_tokens b - 1) div max_source_segment_tokens b))"

section \<open>Segments\<close>

datatype segment_kind = DOCUMENT_PREAMBLE | SECTION | SUBSECTION | SPLIT_FRAGMENT | PARAGRAPH_GROUP

fun segment_kind_value :: "segment_kind \<Rightarrow> string" where
  "segment_kind_value DOCUMENT_PREAMBLE = ''DOCUMENT_PREAMBLE''"
| "segment_kind_value SECTION = ''SECTION''"
| "segment_kind_value SUBSECTION = ''SUBSECTION''"
| "segment_kind_value SPLIT_FRAGMENT = ''SPLIT_FRAGMENT''"
| "segment_kind_value PARAGRAPH_GROUP = ''PARAGRAPH_GROUP''"

record document_segment =
  dg_key :: string
  dg_kind :: segment_kind
  dg_text :: string
  dg_heading_path :: "string list"
  dg_ordinal :: int
  dg_tokens :: int

definition document_segment_post_init :: "document_segment \<Rightarrow> py_error + document_segment" where
  "document_segment_post_init s =
     (if blank (dg_key s) then Inl (ValueError ''segment_key must be non-empty'')
      else if blank (dg_text s) then Inl (ValueError ''text must be non-empty'')
      else if list_ex blank (dg_heading_path s) then Inl (ValueError ''heading_path must not contain empty headings'')
      else if dg_ordinal s < 0 then Inl (ValueError ''ordinal must be >= 0'')
      else if dg_tokens s \<le> 0 then Inl (ValueError ''estimated_tokens must be > 0'')
      else Inr s)"

section \<open>Headings\<close>

text \<open>The level and the title of a line \<open># title\<close> with one to six markers.\<close>

definition parse_atx_heading :: "string \<Rightarrow> (nat \<times> string) option" where
  "parse_atx_heading line =
     (let n = length (takeWhile (\<lambda>c. c = CHR ''#'') line) in
      if n < 1 \<or> 6 < n then None
      else if length line \<le> n \<or> line ! n \<noteq> CHR '' '' then None
      else let title = strip (drop (n + 1) line) in if title = [] then None else Some (n, title))"

definition is_h1 :: "string \<Rightarrow> bool" where
  "is_h1 line \<longleftrightarrow> (case parse_atx_heading line of Some (n, _) \<Rightarrow> n = 1 | None \<Rightarrow> False)"

definition is_lower_heading :: "string \<Rightarrow> bool" where
  "is_lower_heading line \<longleftrightarrow> (case parse_atx_heading line of Some (n, _) \<Rightarrow> 1 < n | None \<Rightarrow> False)"

definition heading_title :: "string \<Rightarrow> string" where
  "heading_title line = (case parse_atx_heading line of Some (_, t) \<Rightarrow> t | None \<Rightarrow> [])"

section \<open>Candidates\<close>

text \<open>A candidate, and a draft of a segment, which has the same fields.\<close>

record segment_draft =
  dr_text :: string
  dr_kind :: segment_kind
  dr_path :: "string list"

record h1_scan =
  hs_candidates :: "segment_draft list"
  hs_preamble :: "string list"
  hs_current :: "string list"
  hs_heading :: "string option"

definition section_candidate :: "string list \<Rightarrow> string \<Rightarrow> segment_draft" where
  "section_candidate ls h = \<lparr>dr_text = lines_text ls, dr_kind = SECTION, dr_path = [h]\<rparr>"

definition plain_candidate :: "segment_kind \<Rightarrow> string list \<Rightarrow> segment_draft list" where
  "plain_candidate k ls = (if lines_text ls = [] then []
     else [\<lparr>dr_text = lines_text ls, dr_kind = k, dr_path = []\<rparr>])"

text \<open>\<open>found_h1\<close> of the source holds exactly when a heading is set.\<close>

definition scan_line :: "string \<Rightarrow> h1_scan \<Rightarrow> h1_scan" where
  "scan_line line s =
     (if is_h1 line then
        (case hs_heading s of
           Some h \<Rightarrow> if hs_current s \<noteq> []
             then s\<lparr>hs_candidates := hs_candidates s @ [section_candidate (hs_current s) h],
               hs_heading := Some (heading_title line), hs_current := [line]\<rparr>
             else s\<lparr>hs_heading := Some (heading_title line), hs_current := [line]\<rparr>
         | None \<Rightarrow> s\<lparr>hs_candidates := hs_candidates s @
               (if hs_preamble s \<noteq> [] then plain_candidate DOCUMENT_PREAMBLE (hs_preamble s) else []),
             hs_preamble := [], hs_heading := Some (heading_title line), hs_current := [line]\<rparr>)
      else if hs_heading s \<noteq> None then s\<lparr>hs_current := hs_current s @ [line]\<rparr>
      else s\<lparr>hs_preamble := hs_preamble s @ [line]\<rparr>)"

definition split_h1_candidates :: "string \<Rightarrow> segment_draft list" where
  "split_h1_candidates text =
     (let s = fold scan_line (normalize_lines text)
        \<lparr>hs_candidates = [], hs_preamble = [], hs_current = [], hs_heading = None\<rparr> in
      hs_candidates s @
      (case hs_heading s of
         Some h \<Rightarrow> if hs_current s \<noteq> [] then [section_candidate (hs_current s) h] else []
       | None \<Rightarrow> if hs_preamble s \<noteq> [] then plain_candidate PARAGRAPH_GROUP (hs_preamble s) else []))"

section \<open>Blocks\<close>

text \<open>
  Lines grouped into blocks that begin where \<open>begins\<close> holds: the lines of
  \<open>_split_lower_heading_blocks\<close>. Blocks without visible text are dropped.
\<close>

definition close_block :: "string list \<Rightarrow> string list" where
  "close_block ls = (if ls = [] \<or> lines_text ls = [] then [] else [lines_text ls])"

fun heading_blocks :: "string list \<Rightarrow> string list \<Rightarrow> string list" where
  "heading_blocks current [] = close_block current"
| "heading_blocks current (l # ls) =
     (if is_lower_heading l \<and> current \<noteq> [] then close_block current @ heading_blocks [l] ls
      else heading_blocks (current @ [l]) ls)"

definition drop_h1 :: "string list \<Rightarrow> string list" where
  "drop_h1 ls = (case ls of l # rest \<Rightarrow> if is_h1 l then rest else ls | [] \<Rightarrow> [])"

definition split_lower_heading_blocks :: "string \<Rightarrow> string list" where
  "split_lower_heading_blocks text = heading_blocks [] (drop_h1 (normalize_lines text))"

definition strip_leading_h1 :: "string \<Rightarrow> string" where
  "strip_leading_h1 text = (case normalize_lines text of
     l # ls \<Rightarrow> if is_h1 l then lines_text ls else strip text
   | [] \<Rightarrow> strip text)"

definition close_paragraph :: "string list \<Rightarrow> string list" where
  "close_paragraph ls = (if ls = [] then [] else [lines_text ls])"

fun paragraphs_of :: "string list \<Rightarrow> string list \<Rightarrow> string list" where
  "paragraphs_of current [] = close_paragraph current"
| "paragraphs_of current (l # ls) =
     (if \<not> blank l then paragraphs_of (current @ [rstrip l]) ls
      else close_paragraph current @ paragraphs_of [] ls)"

definition split_paragraph_blocks :: "string \<Rightarrow> string list" where
  "split_paragraph_blocks text = filter (\<lambda>p. \<not> blank p) (paragraphs_of [] (normalize_lines text))"

section \<open>Balanced splits\<close>

text \<open>
  \<open>n\<close> is the number of parts and \<open>all_tokens\<close> the number of tokens of all blocks; a part is closed when
  the tokens so far reach its share and at least one block is left for each later part.
\<close>

fun balance_blocks :: "int \<Rightarrow> int \<Rightarrow> string list \<Rightarrow> string list \<Rightarrow> int \<Rightarrow> (string \<times> int) list \<Rightarrow> string list" where
  "balance_blocks n all_tokens parts current acc [] =
     (if current = [] then parts else parts @ [blocks_text current])"
| "balance_blocks n all_tokens parts current acc ((b, t) # rest) =
     (let k = int (length parts) in
      if n - 1 \<le> k then balance_blocks n all_tokens parts (current @ [b]) (acc + t) rest
      else if all_tokens * (k + 1) \<le> (acc + t) * n \<and> n - k - 1 \<le> int (length rest)
        then balance_blocks n all_tokens (parts @ [blocks_text (current @ [b])]) [] (acc + t) rest
      else balance_blocks n all_tokens parts (current @ [b]) (acc + t) rest)"

definition split_blocks_balanced :: "string list \<Rightarrow> int \<Rightarrow> token_estimator \<Rightarrow> py_error + string list" where
  "split_blocks_balanced blocks n est =
     (if n < 2 then Inl (ValueError ''target_part_count must be >= 2'')
      else let clean = map strip (filter (\<lambda>b. \<not> blank b) blocks) in
        if clean = [] then Inr []
        else if int (length clean) \<le> n then Inr clean
        else let tokens = map (\<lambda>b. max 1 (est b)) clean in
          Inr (filter (\<lambda>p. \<not> blank p) (balance_blocks n (sum_list tokens) [] [] 0 (zip clean tokens))))"

definition ceil_div :: "int \<Rightarrow> int \<Rightarrow> int" where
  "ceil_div a n = - ((- a) div n)"

text \<open>A step of 0 is refused by \<open>range\<close>; it needs an empty text.\<close>

definition split_text_balanced :: "string \<Rightarrow> int \<Rightarrow> py_error + string list" where
  "split_text_balanced text n =
     (let clean = strip text; ws = words clean in
      if n \<le> 1 then Inr [clean]
      else if n \<le> int (length ws)
        then Inr (filter (\<lambda>c. c \<noteq> []) (map (\<lambda>g. strip (join '' '' g)) (slices (nat (ceil_div (int (length ws)) n)) ws)))
      else if clean = [] then Inl (ValueError ''range() arg 3 must not be zero'')
      else Inr (filter (\<lambda>c. c \<noteq> []) (map strip (slices (nat (ceil_div (int (length clean)) n)) clean))))"

section \<open>Splitting a candidate\<close>

definition lower_heading_path :: "string list \<Rightarrow> string \<Rightarrow> string list" where
  "lower_heading_path parent chunk =
     (let titles = map heading_title (filter is_lower_heading (normalize_lines chunk)) in
      case titles of [] \<Rightarrow> parent | [t] \<Rightarrow> parent @ [t] | _ \<Rightarrow> parent @ [''mixed''])"

definition fragment :: "string list \<Rightarrow> string \<Rightarrow> segment_draft" where
  "fragment path chunk = \<lparr>dr_text = chunk, dr_kind = SPLIT_FRAGMENT, dr_path = path\<rparr>"

definition fallback_text_drafts :: "string \<Rightarrow> string list \<Rightarrow> segmentation_budget \<Rightarrow> token_estimator \<Rightarrow>
    py_error + segment_draft list" where
  "fallback_text_drafts text path b est =
     bindE (required_segment_count (max 1 (est text)) b) (\<lambda>n.
     bindE (split_text_balanced text n) (\<lambda>chunks.
     Inr (map (fragment path) (filter (\<lambda>c. \<not> blank c) chunks))))"

definition split_by_paragraph_or_text :: "segment_draft \<Rightarrow> segmentation_budget \<Rightarrow> int \<Rightarrow> token_estimator \<Rightarrow>
    py_error + segment_draft list" where
  "split_by_paragraph_or_text c b n est =
     (let source = (if dr_path c \<noteq> [] then strip_leading_h1 (dr_text c) else dr_text c);
          blocks = split_paragraph_blocks source in
      if 2 \<le> length blocks
      then bindE (split_blocks_balanced blocks (max 2 n) est) (\<lambda>chunks. Inr (map (fragment (dr_path c)) chunks))
      else fallback_text_drafts (if blank source then dr_text c else source) (dr_path c) b est)"

definition subsection_draft :: "segment_draft \<Rightarrow> string \<Rightarrow> segment_draft" where
  "subsection_draft c chunk =
     \<lparr>dr_text = chunk, dr_kind = SUBSECTION, dr_path = lower_heading_path (dr_path c) chunk\<rparr>"

definition split_oversized_candidate :: "segment_draft \<Rightarrow> segmentation_budget \<Rightarrow> token_estimator \<Rightarrow>
    py_error + segment_draft list" where
  "split_oversized_candidate c b est =
     bindE (required_segment_count (est (dr_text c)) b) (\<lambda>n.
     let blocks = split_lower_heading_blocks (dr_text c) in
     if dr_path c \<noteq> [] \<and> 2 \<le> length blocks
     then bindE (split_blocks_balanced blocks n est) (\<lambda>chunks.
       if chunks \<noteq> [] \<and> list_all (text_fits_budget b est) chunks
       then Inr (map (subsection_draft c) chunks)
       else split_by_paragraph_or_text c b n est)
     else split_by_paragraph_or_text c b n est)"

section \<open>The policy\<close>

record segmentation_command =
  sc_document_key :: string
  sc_text :: string
  sc_budget :: segmentation_budget

definition segmentation_command_post_init :: "segmentation_command \<Rightarrow> py_error + segmentation_command" where
  "segmentation_command_post_init c =
     (if blank (sc_document_key c) then Inl (ValueError ''document_key must be non-empty'')
      else if blank (sc_text c) then Inl (ValueError ''markdown_text must be non-empty'')
      else Inr c)"

definition segment_key :: "(string \<Rightarrow> string) \<Rightarrow> string \<Rightarrow> nat \<Rightarrow> segment_kind \<Rightarrow> string \<Rightarrow> string" where
  "segment_key sha256 doc n k text =
     ''segment:'' @ doc @ '':'' @ nat_str n @ '':'' @ segment_kind_value k @ '':'' @ sha256 text"

definition build_segment :: "(string \<Rightarrow> string) \<Rightarrow> string \<Rightarrow> token_estimator \<Rightarrow> nat \<times> segment_draft \<Rightarrow>
    py_error + document_segment" where
  "build_segment sha256 doc est = (\<lambda>(n, d). document_segment_post_init
     \<lparr>dg_key = segment_key sha256 doc n (dr_kind d) (dr_text d), dg_kind = dr_kind d, dg_text = dr_text d,
      dg_heading_path = dr_path d, dg_ordinal = int n, dg_tokens = max 1 (est (dr_text d))\<rparr>)"

definition candidate_drafts :: "segmentation_budget \<Rightarrow> token_estimator \<Rightarrow> segment_draft \<Rightarrow>
    py_error + segment_draft list" where
  "candidate_drafts b est c =
     (if est (dr_text c) \<le> max_source_segment_tokens b then Inr [c] else split_oversized_candidate c b est)"

definition segment_markdown :: "(string \<Rightarrow> string) \<Rightarrow> segmentation_command \<Rightarrow> token_estimator option \<Rightarrow>
    py_error + document_segment list" where
  "segment_markdown sha256 c estimator =
     (let est = (case estimator of None \<Rightarrow> segment_estimate_tokens (sc_budget c) | Some e \<Rightarrow> e) in
      bindE (traverseE (candidate_drafts (sc_budget c) est) (split_h1_candidates (sc_text c))) (\<lambda>drafts.
      traverseE (build_segment sha256 (sc_document_key c) est) (enumerate 0 (concat drafts))))"

end
