(* ===== verification/SegmentationProps.thy ===== *)
theory SegmentationProps
  imports Segmentation
begin

text \<open>
  What the segmentation of a document guarantees: it never fails on a checked command, keeps every
  visible character in order except the titles of sections it splits, and keeps whole sections and
  parts cut at lower headings within the budget.
\<close>

section \<open>Visible text\<close>

definition visible :: "string \<Rightarrow> string" where
  "visible s = filter (\<lambda>c. \<not> is_space c) s"

lemma visible_append [simp]: "visible (s @ t) = visible s @ visible t"
  by (simp add: visible_def)

lemma visible_Nil [simp]: "visible [] = []"
  by (simp add: visible_def)

lemma visible_concat: "visible (concat xs) = concat (map visible xs)"
  by (induction xs) simp_all

lemma visible_spaces: "list_all is_space s \<Longrightarrow> visible s = []"
  by (simp add: visible_def filter_empty_conv list_all_iff)

lemma blank_visible: "blank s \<longleftrightarrow> visible s = []"
  by (simp add: blank_iff visible_def filter_empty_conv list_all_iff)

lemma visible_dropWhile [simp]: "visible (dropWhile is_space s) = visible s"
  by (induction s) (simp_all add: visible_def)

lemma visible_rev: "visible (rev s) = rev (visible s)"
  by (simp add: visible_def rev_filter)

lemma visible_rstrip [simp]: "visible (rstrip s) = visible s"
  by (simp add: rstrip_def visible_rev)

lemma visible_strip [simp]: "visible (strip s) = visible s"
  by (simp add: strip_def visible_rev)

lemma spaces [simp]: "is_space LF" "is_space CR" "is_space CHR '' ''"
  by code_simp+

lemma visible_Cons: "visible (c # s) = (if is_space c then visible s else c # visible s)"
  by (simp add: visible_def)

lemma visible_newlines [simp]: "visible (normalize_newlines s) = visible s"
  by (induction s rule: normalize_newlines.induct) (auto simp: visible_Cons)

lemma pieces_ne [simp]: "pieces P s \<noteq> []"
  by (induction s) auto

lemma visible_pieces:
  assumes "\<And>c. P c \<Longrightarrow> is_space c"
  shows "concat (map visible (pieces P s)) = visible s"
proof (induction s)
  case (Cons c s)
  then show ?case using assms [of c]
    by (cases "pieces P s") (auto simp: visible_Cons)
qed simp

lemma visible_lines: "concat (map visible (normalize_lines s)) = visible s"
  unfolding normalize_lines_def by (subst visible_pieces) auto

lemma visible_join: "visible sep = [] \<Longrightarrow> visible (join sep xs) = concat (map visible xs)"
  by (induction sep xs rule: join.induct) simp_all

lemma visible_lines_text [simp]: "visible (lines_text ls) = concat (map visible ls)"
  by (simp add: lines_text_def visible_join visible_Cons)

lemma visible_blocks_text [simp]: "visible (blocks_text bs) = concat (map visible bs)"
  by (simp add: blocks_text_def visible_join visible_Cons)

lemma concat_filter_visible: "concat (map visible (filter (\<lambda>w. visible w \<noteq> []) xs)) = concat (map visible xs)"
  by (induction xs) auto

lemma concat_filter_ne: "concat (map visible (filter (\<lambda>w. w \<noteq> []) xs)) = concat (map visible xs)"
  by (induction xs) auto

lemma visible_words: "concat (map visible (words s)) = visible s"
  by (simp add: words_def concat_filter_ne visible_pieces)

lemma concat_slices: "0 < n \<Longrightarrow> concat (slices n xs) = xs"
proof (induction n xs rule: slices.induct)
  case (1 n xs)
  then show ?case by (subst slices.simps) auto
qed

lemma strip_Nil_iff: "strip s = [] \<longleftrightarrow> visible s = []"
  using blank_visible blank_def by simp

lemma lines_text_Nil_iff: "lines_text ls = [] \<longleftrightarrow> concat (map visible ls) = []"
  by (simp add: lines_text_def strip_Nil_iff visible_join visible_Cons)

section \<open>Texts cut into parts\<close>

text \<open>The parts hold the visible characters of the text in order, and each part shows some.\<close>

definition cuts :: "string \<Rightarrow> string list \<Rightarrow> bool" where
  "cuts v parts \<longleftrightarrow> v = concat (map visible parts) \<and> (\<forall>p \<in> set parts. \<not> blank p)"

lemma cuts_ne: "cuts v parts \<Longrightarrow> v \<noteq> [] \<Longrightarrow> parts \<noteq> []"
  by (auto simp: cuts_def)

lemma cuts_append: "cuts v ps \<Longrightarrow> cuts w qs \<Longrightarrow> cuts (v @ w) (ps @ qs)"
  by (auto simp: cuts_def)

lemma cuts_filter: "concat (map visible ps) = v \<Longrightarrow> cuts v (filter (\<lambda>p. \<not> blank p) ps)"
  by (simp add: cuts_def blank_visible concat_filter_visible)

lemma cuts_filter_strip:
  "concat (map visible ps) = v \<Longrightarrow> cuts v (filter (\<lambda>c. \<not> blank c) (filter (\<lambda>c. c \<noteq> []) (map strip ps)))"
  by (rule cuts_filter) (simp add: concat_filter_ne comp_def)

lemma cuts_close_block: "cuts (concat (map visible ls)) (close_block ls)"
  by (auto simp: close_block_def cuts_def blank_visible lines_text_Nil_iff)

lemma cuts_heading_blocks: "cuts (concat (map visible (current @ ls))) (heading_blocks current ls)"
proof (induction ls arbitrary: current)
  case Nil
  then show ?case using cuts_close_block [of current] by simp
next
  case (Cons l ls)
  show ?case
    using Cons [of "[l]"] Cons [of "current @ [l]"] cuts_append [OF cuts_close_block [of current] Cons [of "[l]"]]
    by simp
qed

lemma paragraphs_visible: "concat (map visible (paragraphs_of current ls)) = concat (map visible (current @ ls))"
  by (induction current ls rule: paragraphs_of.induct) (auto simp: close_paragraph_def blank_visible)

lemma cuts_paragraphs: "cuts (visible s) (split_paragraph_blocks s)"
  unfolding split_paragraph_blocks_def by (rule cuts_filter) (simp add: paragraphs_visible visible_lines)

section \<open>The balanced split\<close>

text \<open>The parts are groups of consecutive blocks, and at most \<open>n\<close> of them.\<close>

lemma balance_groups:
  assumes "int (length parts) \<le> n - 1" "0 < n"
  shows "\<exists>gs. balance_blocks n w parts current acc rest = parts @ map blocks_text gs \<and>
    concat gs = current @ map fst rest \<and> [] \<notin> set gs \<and> int (length parts + length gs) \<le> n"
  using assms
proof (induction n w parts current acc rest rule: balance_blocks.induct)
  case (1 n w parts current acc)
  then show ?case
    by (intro exI [of _ "if current = [] then [] else [current]"]) auto
next
  case (2 n w parts current acc b t rest)
  let ?k = "int (length parts)"
  show ?case
  proof (cases "\<not> n - 1 \<le> ?k \<and> w * (?k + 1) \<le> (acc + t) * n \<and> n - ?k - 1 \<le> int (length rest)")
    case True
    with 2(2) [of ?k] 2(4,5) obtain gs where
      gs: "balance_blocks n w (parts @ [blocks_text (current @ [b])]) [] (acc + t) rest =
        (parts @ [blocks_text (current @ [b])]) @ map blocks_text gs" "concat gs = map fst rest" "[] \<notin> set gs"
        "int (length (parts @ [blocks_text (current @ [b])]) + length gs) \<le> n"
      by auto
    with True show ?thesis by (intro exI [of _ "(current @ [b]) # gs"]) (auto simp: Let_def)
  next
    case False
    have "\<exists>gs. balance_blocks n w parts (current @ [b]) (acc + t) rest = parts @ map blocks_text gs \<and>
        concat gs = current @ b # map fst rest \<and> [] \<notin> set gs \<and> int (length parts + length gs) \<le> n"
      using 2(1) [of ?k] 2(3) [of ?k] 2(4,5) False by (cases "n - 1 \<le> ?k") auto
    with False show ?thesis by (auto simp: Let_def)
  qed
qed

lemma blocks_text_blank: "blank (blocks_text g) \<longleftrightarrow> (\<forall>b \<in> set g. blank b)"
  by (simp add: blank_visible)

lemma strip_not_blank [simp]: "blank (strip s) \<longleftrightarrow> blank s"
  by (simp add: blank_visible)

lemma filter_nonblank_id: "\<forall>p \<in> set ps. \<not> blank p \<Longrightarrow> filter (\<lambda>p. \<not> blank p) ps = ps"
  by (simp add: filter_id_conv)

lemma dropWhile_rev_Cons: "\<not> is_space c \<Longrightarrow> dropWhile is_space (rev (c # s)) = rev (c # rev (dropWhile is_space (rev s)))"
  by (simp add: dropWhile_append3 dropWhile_append split: if_splits)

lemma strip_Cons: "\<not> is_space c \<Longrightarrow> strip (c # s) = c # rstrip s"
  unfolding strip_def rstrip_def by (simp del: rev.simps(2) add: dropWhile_rev_Cons)

lemma rstrip_rstrip [simp]: "rstrip (rstrip s) = rstrip s"
  by (simp add: rstrip_def dropWhile_idem)

lemma strip_strip [simp]: "strip (strip s) = strip s"
proof (induction s)
  case (Cons c s)
  then show ?case by (cases "is_space c") (simp_all add: strip_Cons, simp add: strip_def)
qed (simp add: strip_def)

lemma blocks_text_single [simp]: "blocks_text [strip b] = strip b"
  by (simp add: blocks_text_def)

lemma group_not_blank:
  assumes "concat gs = map strip (filter (\<lambda>b. \<not> blank b) blocks)" "[] \<notin> set gs" "g \<in> set gs"
  shows "\<not> blank (blocks_text g)"
proof -
  from assms(2,3) have g: "hd g \<in> set g" by (metis hd_in_set)
  with assms(3) have "hd g \<in> set (map strip (filter (\<lambda>b. \<not> blank b) blocks))" by (auto simp flip: assms(1))
  then have "\<not> blank (hd g)" by auto
  with g show ?thesis by (auto simp: blocks_text_blank)
qed

lemma balanced_groups:
  assumes "split_blocks_balanced blocks n est = Inr parts"
  shows "\<exists>gs. parts = map blocks_text gs \<and> concat gs = map strip (filter (\<lambda>b. \<not> blank b) blocks) \<and>
    [] \<notin> set gs \<and> int (length parts) \<le> n"
proof -
  let ?clean = "map strip (filter (\<lambda>b. \<not> blank b) blocks)"
  have n: "2 \<le> n" using assms by (auto simp: split_blocks_balanced_def split: if_splits)
  show ?thesis
  proof (cases "int (length ?clean) \<le> n")
    case True
    with assms n have "parts = ?clean"
      by (auto simp: split_blocks_balanced_def Let_def split: if_splits)
    with True show ?thesis
      by (intro exI [of _ "map (\<lambda>b. [b]) ?clean"]) (auto simp: comp_def concat_map_singleton)
  next
    case False
    let ?tokens = "map (\<lambda>b. max 1 (est b)) ?clean"
    obtain gs where gs: "balance_blocks n (sum_list ?tokens) [] [] 0 (zip ?clean ?tokens) = map blocks_text gs"
      "concat gs = ?clean" "[] \<notin> set gs" "int (length gs) \<le> n"
      using balance_groups [of "[]" n "sum_list ?tokens" "[]" 0 "zip ?clean ?tokens"] n by auto
    have "\<forall>g \<in> set gs. \<not> blank (blocks_text g)" using group_not_blank [OF gs(2,3)] by blast
    then have "filter (\<lambda>p. \<not> blank p) (map blocks_text gs) = map blocks_text gs" by (simp add: filter_id_conv)
    with assms n False gs(1) have "parts = map blocks_text gs"
      by (auto simp: split_blocks_balanced_def Let_def simp del: map_map split: if_splits)
    with gs show ?thesis by (intro exI [of _ gs]) simp
  qed
qed

lemma split_blocks_total: "2 \<le> n \<Longrightarrow> \<exists>parts. split_blocks_balanced blocks n est = Inr parts"
  by (simp add: split_blocks_balanced_def Let_def)

lemma concat_map_concat: "concat (map f (concat gs)) = concat (map (\<lambda>g. concat (map f g)) gs)"
  by (induction gs) simp_all

lemma cuts_balanced:
  assumes "split_blocks_balanced blocks n est = Inr parts"
  shows "cuts (concat (map visible blocks)) parts"
proof -
  obtain gs where gs: "parts = map blocks_text gs" "concat gs = map strip (filter (\<lambda>b. \<not> blank b) blocks)"
    "[] \<notin> set gs" using balanced_groups [OF assms] by blast
  have "concat (map visible parts) = concat (map visible (concat gs))"
    by (simp add: gs(1) comp_def concat_map_concat)
  also have "\<dots> = concat (map visible blocks)"
    by (simp add: gs(2) comp_def blank_visible concat_filter_visible)
  finally have "concat (map visible parts) = concat (map visible blocks)" .
  moreover have "\<forall>p \<in> set parts. \<not> blank p" using group_not_blank [OF gs(2,3)] by (auto simp: gs(1))
  ultimately show ?thesis by (simp add: cuts_def)
qed

section \<open>Splits of a candidate\<close>

lemma ceil_div_pos: "0 < a \<Longrightarrow> 0 < n \<Longrightarrow> 0 < ceil_div a n"
  by (simp add: ceil_div_def pos_imp_zdiv_neg_iff)

lemma split_text_cuts:
  assumes "\<not> blank text"
  shows "\<exists>parts. split_text_balanced text n = Inr parts \<and> cuts (visible text) (filter (\<lambda>c. \<not> blank c) parts)"
proof -
  let ?clean = "strip text"
  have ne: "?clean \<noteq> []" using assms by (simp add: blank_def)
  consider (one) "n \<le> 1" | (words) "1 < n" "n \<le> int (length (words ?clean))"
    | (chars) "1 < n" "int (length (words ?clean)) < n" by linarith
  then show ?thesis
  proof cases
    case one
    then show ?thesis using assms by (simp add: split_text_balanced_def Let_def cuts_def)
  next
    case words
    let ?k = "nat (ceil_div (int (length (words ?clean))) n)"
    have "0 < ?k" using words ceil_div_pos [of "int (length (words ?clean))" n] by linarith
    then have "concat (slices ?k (words ?clean)) = words ?clean" by (rule concat_slices)
    then have "concat (map visible (concat (slices ?k (words ?clean)))) = visible text"
      by (simp add: visible_words)
    then have "concat (map visible (map (join '' '') (slices ?k (words ?clean)))) = visible text"
      by (simp add: comp_def visible_join visible_Cons concat_map_concat)
    then have "cuts (visible text) (filter (\<lambda>c. \<not> blank c) (filter (\<lambda>c. c \<noteq> [])
        (map strip (map (join '' '') (slices ?k (words ?clean))))))" by (rule cuts_filter_strip)
    with words show ?thesis by (simp add: split_text_balanced_def Let_def comp_def)
  next
    case chars
    let ?k = "nat (ceil_div (int (length ?clean)) n)"
    have "0 < ?k" using chars ne by (simp add: ceil_div_pos)
    then have "concat (map visible (slices ?k ?clean)) = visible text"
      using visible_concat [of "slices ?k ?clean"] by (simp add: concat_slices)
    then have "cuts (visible text) (filter (\<lambda>c. \<not> blank c) (filter (\<lambda>c. c \<noteq> []) (map strip (slices ?k ?clean))))"
      by (rule cuts_filter_strip)
    with chars ne show ?thesis by (simp add: split_text_balanced_def Let_def)
  qed
qed

lemma fallback_cuts:
  assumes "\<not> blank text"
  shows "\<exists>parts. fallback_text_drafts text path b est = Inr (map (fragment path) parts) \<and> cuts (visible text) parts"
proof -
  obtain n where "required_segment_count (max 1 (est text)) b = Inr n" by (auto simp: required_segment_count_def)
  moreover obtain parts where "split_text_balanced text n = Inr parts"
    "cuts (visible text) (filter (\<lambda>c. \<not> blank c) parts)" using split_text_cuts [OF assms] by blast
  ultimately show ?thesis by (auto simp: fallback_text_drafts_def)
qed

lemma is_h1_shape:
  "is_h1 l \<longleftrightarrow> (\<exists>u. l = CHR ''#'' # CHR '' '' # u \<and> strip u \<noteq> [])"
proof
  assume "is_h1 l"
  then obtain t where p: "parse_atx_heading l = Some (1, t)" by (auto simp: is_h1_def split: option.splits)
  then have n: "length (takeWhile (\<lambda>c. c = CHR ''#'') l) = 1" "l ! 1 = CHR '' ''" "1 < length l" "strip (drop 2 l) \<noteq> []"
    by (auto simp: parse_atx_heading_def Let_def numeral_2_eq_2 split: if_splits)
  then obtain c d u where l: "l = c # d # u" by (metis One_nat_def Suc_le_length_iff Suc_leI)
  with n have "c = CHR ''#''" "d = CHR '' ''" "strip u \<noteq> []" by (auto split: if_splits)
  with l show "\<exists>u. l = CHR ''#'' # CHR '' '' # u \<and> strip u \<noteq> []" by blast
next
  assume "\<exists>u. l = CHR ''#'' # CHR '' '' # u \<and> strip u \<noteq> []"
  then show "is_h1 l" by (auto simp: is_h1_def parse_atx_heading_def)
qed

lemma h1_parse: "strip u \<noteq> [] \<Longrightarrow> parse_atx_heading (CHR ''#'' # CHR '' '' # u) = Some (1, strip u)"
  by (simp add: parse_atx_heading_def)

lemma is_h1_parse: "is_h1 l \<Longrightarrow> parse_atx_heading l = Some (1, heading_title l)"
  by (auto simp: is_h1_shape h1_parse heading_title_def)

lemma is_h1_not_blank:
  assumes "is_h1 l"
  shows "\<not> is_space (hd l)" "l \<noteq> []" "\<not> blank (heading_title l)" "\<not> blank l"
proof -
  from assms obtain u where u: "l = CHR ''#'' # CHR '' '' # u" "strip u \<noteq> []" by (auto simp: is_h1_shape)
  moreover have "\<not> is_space CHR ''#''" by code_simp
  ultimately show "\<not> is_space (hd l)" "l \<noteq> []" "\<not> blank l" by simp_all
  have "\<not> blank (strip u)" using u(2) by (simp add: blank_def)
  then show "\<not> blank (heading_title l)" by (simp add: u heading_title_def h1_parse)
qed

text \<open>Trailing blanks do not change what a line says as a heading.\<close>

lemma rstrip_split: "\<exists>t. s = rstrip s @ t \<and> list_all is_space t"
proof -
  have "s = rstrip s @ rev (takeWhile is_space (rev s))"
    by (metis rev_append rev_rev_ident rstrip_def takeWhile_dropWhile_id)
  moreover have "list_all is_space (rev (takeWhile is_space (rev s)))"
    by (auto simp: list_all_iff dest: set_takeWhileD)
  ultimately show ?thesis by blast
qed

lemma rstrip_blank [simp]: "blank s \<Longrightarrow> rstrip s = []"
  by (simp add: rstrip_def blank_iff dropWhile_eq_Nil_conv list_all_iff)

lemma rstrip_append: "rstrip (s @ t) = (if blank t then rstrip s else s @ rstrip t)"
proof (cases "blank t")
  case True
  then have "\<forall>c \<in> set (rev t). is_space c" by (simp add: blank_iff list_all_iff)
  then have "dropWhile is_space (rev t @ rev s) = dropWhile is_space (rev s)" by (intro dropWhile_append2) blast
  then show ?thesis using True by (simp add: rstrip_def)
next
  case False
  then have "\<exists>c \<in> set (rev t). \<not> is_space c" by (auto simp: blank_iff list_all_iff)
  then show ?thesis using False by (auto simp: rstrip_def dropWhile_append1)
qed

lemma strip_space: "is_space c \<Longrightarrow> strip (c # s) = strip s"
  by (simp add: strip_def)

lemma strip_rstrip: "strip (rstrip s) = strip s"
proof (induction s)
  case (Cons c s)
  show ?case
  proof (cases "blank (c # s)")
    case True
    then have "rstrip (c # s) = []" by (rule rstrip_blank)
    moreover have "strip (c # s) = []" using True by (simp only: blank_def)
    moreover have "strip [] = []" by (simp add: strip_def)
    ultimately show ?thesis by (simp only:)
  next
    case False
    then have r: "rstrip (c # s) = (if blank s then [c] else c # rstrip s)"
      using rstrip_append [of "[c]" s] by (simp add: rstrip_def)
    show ?thesis
    proof (cases "is_space c")
      case True
      with False have "\<not> blank s" by simp
      with True r Cons show ?thesis by (simp add: strip_space)
    next
      case False
      with r show ?thesis by (auto simp: strip_Cons)
    qed
  qed
qed (simp add: rstrip_def)

lemma rstrip_Cons: "rstrip (c # s) = (if blank s then (if is_space c then [] else [c]) else c # rstrip s)"
  using rstrip_append [of "[c]" s] by (simp add: rstrip_def)

lemma h1_rstrip:
  assumes "is_h1 l"
  shows "parse_atx_heading (rstrip l) = parse_atx_heading l"
proof -
  from assms obtain u where u: "l = CHR ''#'' # CHR '' '' # u" "strip u \<noteq> []" by (auto simp: is_h1_shape)
  then have "rstrip l = CHR ''#'' # CHR '' '' # rstrip u" using is_h1_not_blank(4) [OF assms] by (simp add: rstrip_Cons blank_def strip_space)
  with u show ?thesis by (simp add: h1_parse strip_rstrip)
qed

section \<open>Lines survive joining\<close>

definition plain_line :: "string \<Rightarrow> bool" where
  "plain_line l \<longleftrightarrow> LF \<notin> set l \<and> CR \<notin> set l"

lemma newlines_no_CR: "CR \<notin> set (normalize_newlines s)"
  by (induction s rule: normalize_newlines.induct) (auto simp: LF_def CR_def)

lemma newlines_id: "CR \<notin> set s \<Longrightarrow> normalize_newlines s = s"
  by (induction s rule: normalize_newlines.induct) auto

lemma pieces_sets: "l \<in> set (pieces P s) \<Longrightarrow> set l \<subseteq> {c \<in> set s. \<not> P c}"
proof (induction s arbitrary: l)
  case (Cons c s)
  have "set (hd (pieces P s)) \<subseteq> {c \<in> set s. \<not> P c}" using Cons.IH by (meson list.set_sel(1) pieces_ne)
  moreover have "\<forall>l \<in> set (tl (pieces P s)). set l \<subseteq> {c \<in> set s. \<not> P c}"
    using Cons.IH by (meson list.set_sel(2) pieces_ne)
  ultimately show ?case using Cons.prems Cons.IH [of l] by (auto split: if_splits)
qed auto

lemma normalize_lines_plain: "l \<in> set (normalize_lines s) \<Longrightarrow> plain_line l"
  using pieces_sets [of l "\<lambda>c. c = LF" "normalize_newlines s"] newlines_no_CR [of s]
  by (auto simp: normalize_lines_def plain_line_def)

lemma pieces_append: "\<forall>c \<in> set l. \<not> P c \<Longrightarrow> P d \<Longrightarrow> pieces P (l @ d # s) = l # pieces P s"
  by (induction l) auto

lemma pieces_single: "\<forall>c \<in> set l. \<not> P c \<Longrightarrow> pieces P l = [l]"
  by (induction l) auto

lemma CR_join: "\<forall>l \<in> set ls. CR \<notin> set l \<Longrightarrow> CR \<notin> set (join [LF] ls)"
  by (induction "[LF]" ls rule: join.induct) (auto simp: LF_def CR_def)

lemma set_rstrip: "set (rstrip s) \<subseteq> set s"
  by (auto simp: rstrip_def dest: set_dropWhileD)

text \<open>The first line of a section is its heading.\<close>

lemma first_line:
  assumes "is_h1 l" "\<forall>x \<in> set (l # ls). plain_line x"
  shows "\<exists>l' ls'. normalize_lines (lines_text (l # ls)) = l' # ls' \<and>
    parse_atx_heading l' = parse_atx_heading l \<and> visible l' = visible l"
proof -
  have l: "\<forall>c \<in> set l. c \<noteq> LF" "CR \<notin> set l" using assms(2) by (auto simp: plain_line_def)
  obtain c u where cu: "l = c # u" "\<not> is_space c" using is_h1_not_blank [OF assms(1)] by (cases l) auto
  show ?thesis
  proof (cases "ls = [] \<or> blank (join [LF] ls)")
    case True
    have "rstrip (join [LF] (l # ls)) = rstrip l"
    proof (cases ls)
      case (Cons y ys)
      with True have "blank (LF # join [LF] ls)" by simp
      then show ?thesis using Cons rstrip_append [of l "LF # join [LF] ls"] by simp
    qed simp
    moreover have "lines_text (l # ls) = rstrip (join [LF] (l # ls))"
      unfolding lines_text_def using cu by (cases ls) (simp_all add: strip_Cons rstrip_Cons)
    ultimately have t: "lines_text (l # ls) = rstrip l" by simp
    have "normalize_newlines (rstrip l) = rstrip l" using l set_rstrip by (intro newlines_id) blast
    moreover have "pieces (\<lambda>c. c = LF) (rstrip l) = [rstrip l]" using l set_rstrip by (intro pieces_single) blast
    ultimately have "normalize_lines (lines_text (l # ls)) = [rstrip l]" by (simp add: normalize_lines_def t)
    then show ?thesis using h1_rstrip [OF assms(1)] by simp
  next
    case False
    then obtain y ys where ls: "ls = y # ys" by (cases ls) auto
    let ?r = "rstrip (join [LF] ls)"
    have "\<not> blank (LF # join [LF] ls)" using False by simp
    then have "rstrip (join [LF] (l # ls)) = l @ rstrip (LF # join [LF] ls)"
      using ls rstrip_append [of l "LF # join [LF] ls"] by simp
    then have r: "rstrip (join [LF] (l # ls)) = l @ LF # ?r" using False by (simp add: rstrip_Cons)
    have "lines_text (l # ls) = rstrip (join [LF] (l # ls))"
      unfolding lines_text_def using cu ls False by (simp add: strip_Cons rstrip_Cons)
    then have t: "lines_text (l # ls) = l @ LF # ?r" using r by simp
    have "CR \<notin> set (join [LF] ls)" using assms(2) by (intro CR_join) (auto simp: plain_line_def)
    then have "CR \<notin> set (l @ LF # ?r)" using l(2) set_rstrip by (auto simp: LF_def CR_def)
    then have "normalize_lines (lines_text (l # ls)) = l # pieces (\<lambda>c. c = LF) ?r"
      using l(1) by (simp add: normalize_lines_def t newlines_id pieces_append)
    then show ?thesis by simp
  qed
qed

section \<open>Candidates\<close>

definition section_lines :: "string list \<Rightarrow> string \<Rightarrow> bool" where
  "section_lines ls h \<longleftrightarrow> (\<exists>l rest. ls = l # rest \<and> is_h1 l \<and> h = heading_title l \<and> (\<forall>x \<in> set ls. plain_line x))"

definition candidate_ok :: "segment_draft \<Rightarrow> bool" where
  "candidate_ok c \<longleftrightarrow> \<not> blank (dr_text c) \<and> dr_kind c \<noteq> SPLIT_FRAGMENT \<and>
     (dr_path c = [] \<or> (\<exists>ls h. section_lines ls h \<and> dr_text c = lines_text ls \<and> dr_path c = [h]))"

definition scan_ok :: "string list \<Rightarrow> h1_scan \<Rightarrow> bool" where
  "scan_ok ls s \<longleftrightarrow> concat (map visible ls) = concat (map (\<lambda>c. visible (dr_text c)) (hs_candidates s)) @
       concat (map visible (hs_preamble s)) @ concat (map visible (hs_current s)) \<and>
     (case hs_heading s of None \<Rightarrow> hs_current s = []
      | Some h \<Rightarrow> hs_preamble s = [] \<and> section_lines (hs_current s) h) \<and>
     (\<forall>c \<in> set (hs_candidates s). candidate_ok c)"

lemma section_ok: "section_lines ls h \<Longrightarrow> candidate_ok (section_candidate ls h)"
  using is_h1_not_blank(4)
  by (fastforce simp: candidate_ok_def section_candidate_def section_lines_def blank_visible)

lemma section_snoc: "section_lines ls h \<Longrightarrow> plain_line x \<Longrightarrow> section_lines (ls @ [x]) h"
  by (auto simp: section_lines_def)

lemma section_start: "is_h1 l \<Longrightarrow> plain_line l \<Longrightarrow> section_lines [l] (heading_title l)"
  by (simp add: section_lines_def)

lemma section_ne: "section_lines ls h \<Longrightarrow> ls \<noteq> []"
  by (auto simp: section_lines_def)

lemma plain_candidate_ok: "k \<noteq> SPLIT_FRAGMENT \<Longrightarrow> c \<in> set (plain_candidate k ls) \<Longrightarrow> candidate_ok c"
  by (auto simp: plain_candidate_def candidate_ok_def lines_text_Nil_iff blank_visible split: if_splits)

lemma plain_candidate_visible:
  "concat (map (\<lambda>c. visible (dr_text c)) (plain_candidate k ls)) = concat (map visible ls)"
  by (auto simp: plain_candidate_def lines_text_Nil_iff)

lemma section_candidate_text [simp]: "visible (dr_text (section_candidate ls h)) = concat (map visible ls)"
  by (simp add: section_candidate_def)

lemma scan_line_ok:
  assumes "scan_ok ls s" "plain_line l"
  shows "scan_ok (ls @ [l]) (scan_line l s)"
proof (cases "hs_heading s")
  case None
  then show ?thesis using assms plain_candidate_ok [of DOCUMENT_PREAMBLE]
    by (auto simp: scan_ok_def scan_line_def plain_candidate_visible section_start)
next
  case (Some h)
  then have "section_lines (hs_current s) h" "hs_preamble s = []" using assms(1) by (auto simp: scan_ok_def)
  then show ?thesis using assms Some section_ne [of "hs_current s" h]
    by (auto simp: scan_ok_def scan_line_def section_ok section_snoc section_start)
qed

lemma scan_fold_ok: "scan_ok ls s \<Longrightarrow> \<forall>l \<in> set ks. plain_line l \<Longrightarrow> scan_ok (ls @ ks) (fold scan_line ks s)"
proof (induction ks arbitrary: ls s)
  case (Cons k ks)
  then show ?case using Cons.IH [OF scan_line_ok [of ls s k]] by simp
qed simp

lemma candidates_spec:
  "concat (map (\<lambda>c. visible (dr_text c)) (split_h1_candidates text)) = visible text"
  "c \<in> set (split_h1_candidates text) \<Longrightarrow> candidate_ok c"
proof -
  let ?s = "fold scan_line (normalize_lines text)
    \<lparr>hs_candidates = [], hs_preamble = [], hs_current = [], hs_heading = None\<rparr>"
  have "scan_ok ([] @ normalize_lines text) ?s"
    by (rule scan_fold_ok) (auto simp: scan_ok_def intro: normalize_lines_plain)
  then have ok: "scan_ok (normalize_lines text) ?s" by simp
  have "concat (map (\<lambda>c. visible (dr_text c)) (split_h1_candidates text)) = concat (map visible (normalize_lines text))"
    using ok by (auto simp: scan_ok_def split_h1_candidates_def Let_def plain_candidate_visible section_ne
      split: option.splits)
  then show "concat (map (\<lambda>c. visible (dr_text c)) (split_h1_candidates text)) = visible text"
    by (simp add: visible_lines)
  show "candidate_ok c" if "c \<in> set (split_h1_candidates text)"
    using ok that plain_candidate_ok [of PARAGRAPH_GROUP]
    by (auto simp: scan_ok_def split_h1_candidates_def Let_def section_ok split: option.splits if_splits)
qed

text \<open>The heading line of a section, and what follows it.\<close>

lemma section_heading:
  assumes "candidate_ok c" "dr_path c \<noteq> []"
  obtains l ls t where "normalize_lines (dr_text c) = l # ls" "is_h1 l" "parse_atx_heading l = Some (1, t)"
    "dr_path c = [t]" "\<not> blank t"
proof -
  from assms obtain k rest where k: "is_h1 k" "\<forall>x \<in> set (k # rest). plain_line x"
    "dr_text c = lines_text (k # rest)" "dr_path c = [heading_title k]"
    by (auto simp: candidate_ok_def section_lines_def)
  from first_line [OF k(1,2)] obtain l ls where l: "normalize_lines (dr_text c) = l # ls"
    "parse_atx_heading l = parse_atx_heading k" by (auto simp: k(3))
  then have "parse_atx_heading l = Some (1, heading_title k)" using is_h1_parse [OF k(1)] by simp
  moreover from this have "is_h1 l" by (simp add: is_h1_def)
  ultimately show thesis using that l(1) k(4) is_h1_not_blank(3) [OF k(1)] by blast
qed

lemma lower_title_not_blank: "is_lower_heading l \<Longrightarrow> \<not> blank (heading_title l)"
  by (auto simp: is_lower_heading_def heading_title_def parse_atx_heading_def Let_def blank_def
    split: option.splits if_splits)

lemma lower_path_shape:
  "\<exists>p. lower_heading_path parent chunk = parent @ p \<and> \<not> list_ex blank p"
proof -
  let ?t = "map heading_title (filter is_lower_heading (normalize_lines chunk))"
  have t: "\<forall>x \<in> set ?t. \<not> blank x" using lower_title_not_blank by auto
  have "\<not> blank ''mixed''" by code_simp
  then show ?thesis using t unfolding lower_heading_path_def Let_def
    by (cases ?t; cases "tl ?t") (simp_all del: set_map)
qed

section \<open>What a candidate becomes\<close>

text \<open>
  \<open>h\<close> is the heading line that is not repeated in the drafts \<open>ds\<close>, if any; its title then leads the
  heading path of every draft.
\<close>

definition draft_group :: "(string \<Rightarrow> bool) \<Rightarrow> string \<Rightarrow> string \<Rightarrow> segment_draft list \<Rightarrow> bool" where
  "draft_group fits v h ds \<longleftrightarrow> ds \<noteq> [] \<and> v = visible h @ concat (map (\<lambda>d. visible (dr_text d)) ds) \<and>
     (\<forall>d \<in> set ds. \<not> blank (dr_text d) \<and> \<not> list_ex blank (dr_path d) \<and>
       (dr_kind d \<noteq> SPLIT_FRAGMENT \<longrightarrow> fits (dr_text d))) \<and>
     (h = [] \<or> (\<exists>t. parse_atx_heading h = Some (1, t) \<and> (\<forall>d \<in> set ds. \<exists>p. dr_path d = t # p)))"

lemma draft_group_fragments:
  assumes "cuts w parts" "v = visible h @ w" "w \<noteq> []" "\<not> list_ex blank path"
    and "h = [] \<or> (\<exists>t p. parse_atx_heading h = Some (1, t) \<and> path = t # p)"
  shows "draft_group fits v h (map (fragment path) parts)"
  using assms cuts_ne [OF assms(1,3)] by (auto simp: draft_group_def fragment_def cuts_def comp_def)

lemma split_source:
  assumes "candidate_ok c" "source = (if dr_path c \<noteq> [] then strip_leading_h1 (dr_text c) else dr_text c)"
  shows "\<exists>h. visible (dr_text c) = visible h @ visible source \<and> \<not> list_ex blank (dr_path c) \<and>
    (h = [] \<or> (\<exists>t p. parse_atx_heading h = Some (1, t) \<and> dr_path c = t # p))"
proof (cases "dr_path c = []")
  case True
  then show ?thesis using assms(2) by (intro exI [of _ "[]"]) simp
next
  case False
  with assms(1) obtain l ls t where l: "normalize_lines (dr_text c) = l # ls" "is_h1 l"
    "parse_atx_heading l = Some (1, t)" "dr_path c = [t]" "\<not> blank t" by (rule section_heading)
  have "visible (dr_text c) = visible l @ concat (map visible ls)"
    using visible_lines [of "dr_text c"] l(1) by simp
  then show ?thesis using assms(2) l False by (intro exI [of _ l]) (simp add: strip_leading_h1_def)
qed

lemma split_by_paragraph_group:
  assumes "candidate_ok c"
  shows "\<exists>h ds. split_by_paragraph_or_text c b n est = Inr ds \<and> draft_group fits (visible (dr_text c)) h ds"
proof -
  define src where "src = (if dr_path c \<noteq> [] then strip_leading_h1 (dr_text c) else dr_text c)"
  obtain h where h: "visible (dr_text c) = visible h @ visible src" "\<not> list_ex blank (dr_path c)"
    "h = [] \<or> (\<exists>t p. parse_atx_heading h = Some (1, t) \<and> dr_path c = t # p)"
    using split_source [OF assms src_def] by blast
  have shown: "\<not> blank (dr_text c)" using assms by (simp add: candidate_ok_def)
  show ?thesis
  proof (cases "2 \<le> length (split_paragraph_blocks src)")
    case True
    obtain parts where parts: "split_blocks_balanced (split_paragraph_blocks src) (max 2 n) est = Inr parts"
      using split_blocks_total [of "max 2 n"] by auto
    have source_cuts: "concat (map visible (split_paragraph_blocks src)) = visible src"
      and ne: "visible src \<noteq> []"
      using cuts_paragraphs [of src] True
      by (cases "split_paragraph_blocks src"; force simp: cuts_def blank_visible)+
    have "split_by_paragraph_or_text c b n est = Inr (map (fragment (dr_path c)) parts)"
      using True parts by (simp add: split_by_paragraph_or_text_def Let_def flip: src_def)
    moreover have "draft_group fits (visible (dr_text c)) h (map (fragment (dr_path c)) parts)"
      using cuts_balanced [OF parts] source_cuts h ne by (intro draft_group_fragments [where w = "visible src"]) auto
    ultimately show ?thesis by blast
  next
    case False
    let ?text = "if blank src then dr_text c else src"
    have "\<not> blank ?text" using shown by simp
    from fallback_cuts [OF this] obtain parts where parts:
      "fallback_text_drafts ?text (dr_path c) b est = Inr (map (fragment (dr_path c)) parts)"
      "cuts (visible ?text) parts" by blast
    have ne: "visible ?text \<noteq> []" using shown by (auto simp: blank_visible)
    have "split_by_paragraph_or_text c b n est = Inr (map (fragment (dr_path c)) parts)"
      using False parts by (simp add: split_by_paragraph_or_text_def Let_def flip: src_def)
    moreover have "draft_group fits (visible (dr_text c)) (if blank src then [] else h) (map (fragment (dr_path c)) parts)"
      using parts(2) h ne by (intro draft_group_fragments [where w = "visible ?text"]) auto
    ultimately show ?thesis by blast
  qed
qed

lemma candidate_group:
  assumes "candidate_ok c" "0 < max_source_segment_tokens b"
  shows "\<exists>h ds. candidate_drafts b est c = Inr ds \<and> draft_group (text_fits_budget b est) (visible (dr_text c)) h ds"
proof (cases "est (dr_text c) \<le> max_source_segment_tokens b")
  case True
  have "\<not> list_ex blank (dr_path c)" using split_source [OF assms(1) refl] by blast
  with True assms(1) show ?thesis
    by (intro exI [of _ "[]"] exI [of _ "[c]"])
      (simp add: candidate_drafts_def draft_group_def candidate_ok_def text_fits_budget_def)
next
  case False
  let ?m = "max_source_segment_tokens b"
  define n where "n = (est (dr_text c) + ?m - 1) div ?m"
  have count: "required_segment_count (est (dr_text c)) b = Inr n"
    using False assms(2) by (simp add: required_segment_count_def n_def)
  have "2 * ?m \<le> est (dr_text c) + ?m - 1" using False by simp
  then have n: "2 \<le> n" unfolding n_def using assms(2) by (metis nonzero_mult_div_cancel_right not_less_iff_gr_or_eq zdiv_mono1)
  let ?blocks = "split_lower_heading_blocks (dr_text c)"
  obtain chunks where chunks: "split_blocks_balanced ?blocks n est = Inr chunks" using split_blocks_total [OF n] by blast
  have split: "candidate_drafts b est c = split_oversized_candidate c b est" using False by (simp add: candidate_drafts_def)
  show ?thesis
  proof (cases "dr_path c \<noteq> [] \<and> 2 \<le> length ?blocks \<and> chunks \<noteq> [] \<and> list_all (text_fits_budget b est) chunks")
    case True
    then have "dr_path c \<noteq> []" by simp
    with assms(1) obtain l ls t where l: "normalize_lines (dr_text c) = l # ls" "is_h1 l"
      "parse_atx_heading l = Some (1, t)" "dr_path c = [t]" "\<not> blank t" by (rule section_heading)
    have "cuts (concat (map visible ls)) ?blocks"
      using cuts_heading_blocks [of "[]" ls] l(1,2) by (simp add: split_lower_heading_blocks_def drop_h1_def)
    with cuts_balanced [OF chunks] have cut: "cuts (concat (map visible ls)) chunks" by (simp add: cuts_def)
    have "visible (dr_text c) = visible l @ concat (map visible ls)"
      using visible_lines [of "dr_text c"] l(1) by simp
    moreover have "\<exists>p. dr_path (subsection_draft c x) = t # p \<and> \<not> list_ex blank (t # p)" for x
      using lower_path_shape [of "dr_path c" x] l(4,5) by (auto simp: subsection_draft_def)
    then have "\<not> list_ex blank (dr_path (subsection_draft c x))" "\<exists>p. dr_path (subsection_draft c x) = t # p" for x
      by metis+
    ultimately have "draft_group (text_fits_budget b est) (visible (dr_text c)) l (map (subsection_draft c) chunks)"
      using True cut l(3) by (auto simp: draft_group_def cuts_def list_all_iff comp_def subsection_draft_def)
    moreover have "split_oversized_candidate c b est = Inr (map (subsection_draft c) chunks)"
      using True chunks by (simp add: split_oversized_candidate_def count Let_def)
    ultimately show ?thesis using split by auto
  next
    case False
    then have "split_oversized_candidate c b est = split_by_paragraph_or_text c b n est"
      using chunks by (auto simp: split_oversized_candidate_def count Let_def)
    with split_by_paragraph_group [OF assms(1)] split show ?thesis by metis
  qed
qed

lemma candidate_groups:
  assumes "\<forall>c \<in> set cs. candidate_ok c" "0 < max_source_segment_tokens b"
  shows "\<exists>gs. traverseE (candidate_drafts b est) cs = Inr (map snd gs) \<and> length gs = length cs \<and>
    concat (map (\<lambda>c. visible (dr_text c)) cs) =
      concat (map (\<lambda>(h, ds). visible h @ concat (map (\<lambda>d. visible (dr_text d)) ds)) gs) \<and>
    (\<forall>(h, ds) \<in> set gs. \<exists>v. draft_group (text_fits_budget b est) v h ds)"
  using assms
proof (induction cs)
  case (Cons c cs)
  then obtain gs where gs: "traverseE (candidate_drafts b est) cs = Inr (map snd gs)" "length gs = length cs"
    "concat (map (\<lambda>c. visible (dr_text c)) cs) =
      concat (map (\<lambda>(h, ds). visible h @ concat (map (\<lambda>d. visible (dr_text d)) ds)) gs)"
    "\<forall>(h, ds) \<in> set gs. \<exists>v. draft_group (text_fits_budget b est) v h ds" by auto
  from candidate_group [of c b est] Cons.prems obtain h ds where c: "candidate_drafts b est c = Inr ds"
    "draft_group (text_fits_budget b est) (visible (dr_text c)) h ds" by auto
  then have "visible (dr_text c) = visible h @ concat (map (\<lambda>d. visible (dr_text d)) ds)" by (simp add: draft_group_def)
  with gs c show ?case by (intro exI [of _ "(h, ds) # gs"]) auto
qed simp

section \<open>The policy\<close>

definition segment_of :: "(string \<Rightarrow> string) \<Rightarrow> string \<Rightarrow> token_estimator \<Rightarrow> nat \<times> segment_draft \<Rightarrow> document_segment" where
  "segment_of sha256 doc est = (\<lambda>(n, d).
     \<lparr>dg_key = segment_key sha256 doc n (dr_kind d) (dr_text d), dg_kind = dr_kind d, dg_text = dr_text d,
      dg_heading_path = dr_path d, dg_ordinal = int n, dg_tokens = max 1 (est (dr_text d))\<rparr>)"

definition estimator_of :: "segmentation_command \<Rightarrow> token_estimator option \<Rightarrow> token_estimator" where
  "estimator_of c estimator = (case estimator of None \<Rightarrow> segment_estimate_tokens (sc_budget c) | Some e \<Rightarrow> e)"

definition checked_command :: "segmentation_command \<Rightarrow> bool" where
  "checked_command c \<longleftrightarrow> segmentation_command_post_init c = Inr c \<and>
     segmentation_budget_post_init (sc_budget c) = Inr (sc_budget c)"

lemma segment_key_not_blank [simp]: "\<not> blank (segment_key sha256 doc n k t)"
proof -
  have "\<not> is_space CHR ''s''" by code_simp
  then show ?thesis by (simp add: segment_key_def)
qed

lemma built_segment:
  assumes "\<not> blank (dr_text d)" "\<not> list_ex blank (dr_path d)"
  shows "build_segment sha256 doc est (n, d) = Inr (segment_of sha256 doc est (n, d))"
    "document_segment_post_init (segment_of sha256 doc est (n, d)) = Inr (segment_of sha256 doc est (n, d))"
  using assms by (simp_all add: build_segment_def segment_of_def document_segment_post_init_def)

lemma segment_markdown_value:
  assumes "checked_command c"
  shows "\<exists>gs. segment_markdown sha256 c estimator = Inr (map (segment_of sha256 (sc_document_key c)
      (estimator_of c estimator)) (enumerate 0 (concat (map snd gs)))) \<and> gs \<noteq> [] \<and>
    visible (sc_text c) = concat (map (\<lambda>(h, ds). visible h @ concat (map (\<lambda>d. visible (dr_text d)) ds)) gs) \<and>
    (\<forall>(h, ds) \<in> set gs. \<exists>v. draft_group (text_fits_budget (sc_budget c) (estimator_of c estimator)) v h ds)"
proof -
  let ?est = "estimator_of c estimator" and ?b = "sc_budget c" and ?cs = "split_h1_candidates (sc_text c)"
  have b: "0 < max_source_segment_tokens ?b" and t: "visible (sc_text c) \<noteq> []"
    using assms by (auto simp: checked_command_def segmentation_budget_post_init_def
      segmentation_command_post_init_def blank_visible split: if_splits)
  have "\<forall>x \<in> set ?cs. candidate_ok x" using candidates_spec(2) by blast
  from candidate_groups [OF this b, of ?est] obtain gs where
    gs: "traverseE (candidate_drafts ?b ?est) ?cs = Inr (map snd gs)" "length gs = length ?cs"
      "concat (map (\<lambda>c. visible (dr_text c)) ?cs) =
        concat (map (\<lambda>(h, ds). visible h @ concat (map (\<lambda>d. visible (dr_text d)) ds)) gs)"
      "\<forall>(h, ds) \<in> set gs. \<exists>v. draft_group (text_fits_budget ?b ?est) v h ds"
    by blast
  have vis: "visible (sc_text c) = concat (map (\<lambda>(h, ds). visible h @ concat (map (\<lambda>d. visible (dr_text d)) ds)) gs)"
    using gs(3) by (simp add: candidates_spec(1))
  then have "gs \<noteq> []" using t by auto
  have "\<not> blank (dr_text d) \<and> \<not> list_ex blank (dr_path d)" if "d \<in> set (concat (map snd gs))" for d
    using that gs(4) by (fastforce simp: draft_group_def)
  then have "\<forall>x \<in> set (enumerate 0 (concat (map snd gs))).
      build_segment sha256 (sc_document_key c) ?est x = Inr (segment_of sha256 (sc_document_key c) ?est x)"
    by (auto simp: enumerate_eq_zip built_segment dest!: set_zip_rightD)
  then have "traverseE (build_segment sha256 (sc_document_key c) ?est) (enumerate 0 (concat (map snd gs))) =
      Inr (map (segment_of sha256 (sc_document_key c) ?est) (enumerate 0 (concat (map snd gs))))"
    by (rule traverseE_map)
  then have "segment_markdown sha256 c estimator = Inr (map (segment_of sha256 (sc_document_key c) ?est)
      (enumerate 0 (concat (map snd gs))))"
    using gs(1) by (simp add: segment_markdown_def Let_def flip: estimator_of_def)
  with \<open>gs \<noteq> []\<close> vis gs(4) show ?thesis by blast
qed

lemma segment_key_inj: "segment_key sha256 doc m k t = segment_key sha256 doc n k' t' \<Longrightarrow> m = n"
  by (simp add: segment_key_def nat_str_colon)

lemma in_enumerate: "(n, d) \<in> set (enumerate m xs) \<Longrightarrow> d \<in> set xs"
  by (auto simp: in_set_enumerate_eq)

lemma enumerate_ordinals: "map fst (enumerate n xs) = [n..<n + length xs]"
  by (simp add: enumerate_eq_zip)

text \<open>
  C28. Segmentation never fails on a checked command, for any estimator: it returns at least one
  segment, numbers the segments from 0, and every segment passes the checks of its constructor and
  has a key of its own.
\<close>

theorem segmentation_returns:
  assumes "checked_command c"
  shows "\<exists>segs. segment_markdown sha256 c estimator = Inr segs \<and> segs \<noteq> [] \<and>
    map dg_ordinal segs = map int [0..<length segs] \<and> distinct (map dg_key segs) \<and>
    (\<forall>s \<in> set segs. document_segment_post_init s = Inr s)"
proof -
  let ?seg = "segment_of sha256 (sc_document_key c) (estimator_of c estimator)"
  from segment_markdown_value [OF assms] obtain gs where
    gs: "segment_markdown sha256 c estimator = Inr (map ?seg (enumerate 0 (concat (map snd gs))))" "gs \<noteq> []"
      "\<forall>(h, ds) \<in> set gs. \<exists>v. draft_group (text_fits_budget (sc_budget c) (estimator_of c estimator)) v h ds"
    by blast
  let ?ds = "concat (map snd gs)" let ?segs = "map ?seg (enumerate 0 ?ds)"
  have drafts: "\<not> blank (dr_text d) \<and> \<not> list_ex blank (dr_path d)" if "d \<in> set ?ds" for d
    using that gs(3) by (fastforce simp: draft_group_def)
  have "snd (hd gs) \<noteq> []" using gs(2,3) by (cases gs) (auto simp: draft_group_def)
  then have "?ds \<noteq> []" using gs(2) by (cases gs) auto
  then have "length ?segs \<noteq> 0" by simp
  then have "?segs \<noteq> []" by (simp only: length_0_conv not_False_eq_True)
  moreover have ord: "map dg_ordinal ?segs = map int [0..<length ?segs]"
  proof -
    have "map dg_ordinal (map ?seg xs) = map int (map fst xs)" for xs
      by (induction xs) (auto simp: segment_of_def)
    then have "map dg_ordinal ?segs = map int (map fst (enumerate 0 ?ds))" .
    also have "\<dots> = map int [0..<length ?segs]"
      by (subst enumerate_ordinals) simp
    finally show ?thesis .
  qed
  moreover have "distinct (map dg_key ?segs)"
  proof -
    have "inj_on (\<lambda>x. dg_key (?seg x)) (set (enumerate 0 ?ds))"
    proof (rule inj_onI)
      fix x y assume xy: "x \<in> set (enumerate 0 ?ds)" "y \<in> set (enumerate 0 ?ds)" "dg_key (?seg x) = dg_key (?seg y)"
      then have "fst x = fst y" by (auto simp: segment_of_def case_prod_beta dest: segment_key_inj)
      with xy(1,2) show "x = y" by (auto simp: in_set_enumerate_eq prod_eq_iff)
    qed
    then show ?thesis by (simp add: distinct_map comp_def)
  qed
  moreover have "\<forall>s \<in> set ?segs. document_segment_post_init s = Inr s"
    using drafts by (auto intro!: built_segment(2) dest: in_enumerate simp del: set_concat)
  ultimately show ?thesis using gs(1) by blast
qed






text \<open>
  C27. Only fragments can exceed the budget: every other segment (a preamble, a whole section, a part cut
  at lower headings, an undivided text) is estimated within the tokens a segment may have.
\<close>

theorem segments_fit:
  assumes "checked_command c" "segment_markdown sha256 c estimator = Inr segs"
    and "s \<in> set segs" "dg_kind s \<noteq> SPLIT_FRAGMENT"
  shows "dg_tokens s \<le> max_source_segment_tokens (sc_budget c)"
proof -
  let ?est = "estimator_of c estimator"
  from segment_markdown_value [OF assms(1)] obtain gs where
    gs: "segment_markdown sha256 c estimator =
        Inr (map (segment_of sha256 (sc_document_key c) ?est) (enumerate 0 (concat (map snd gs))))"
      "\<forall>(h, ds) \<in> set gs. \<exists>v. draft_group (text_fits_budget (sc_budget c) ?est) v h ds"
    by blast
  have "0 < max_source_segment_tokens (sc_budget c)"
    using assms(1) by (auto simp: checked_command_def segmentation_budget_post_init_def split: if_splits)
  moreover from assms(2,3) gs(1) obtain n d where d: "(n, d) \<in> set (enumerate 0 (concat (map snd gs)))"
    "s = segment_of sha256 (sc_document_key c) ?est (n, d)" by auto
  from in_enumerate [OF d(1)] gs(2) d(2) assms(4) have "?est (dr_text d) \<le> max_source_segment_tokens (sc_budget c)"
    by (fastforce simp: draft_group_def text_fits_budget_def segment_of_def)
  ultimately show ?thesis by (simp add: d(2) segment_of_def)
qed


section \<open>A document\<close>

text \<open>A section with two paragraphs, too large for a budget of four tokens of one character each.\<close>

definition budget4 :: segmentation_budget where
  "budget4 = \<lparr>sb_prompt = \<lparr>sp_prompt_name = ''p'', sp_prompt_tokens = 1\<rparr>,
     sb_model = \<lparr>sm_profile_name = ''m'', sm_max_request_input = 10, sm_safety_gap = 1, sm_multiplier = 1\<rparr>\<rparr>"

definition document1 :: segmentation_command where
  "document1 = \<lparr>sc_document_key = ''d'', sc_text = ''ab'' @ [LF] @ ''# T'' @ [LF] @ ''abcdefgh'' @ [LF, LF] @ ''xy'',
     sc_budget = budget4\<rparr>"

definition segments1 :: "document_segment list" where
  "segments1 = projr (segment_markdown (\<lambda>s. s) document1 None)"


lemma document1_checked: "checked_command document1"
  by code_simp

lemma document1_segments: "segment_markdown (\<lambda>s. s) document1 None = Inr segments1"
  using segment_markdown_value [OF document1_checked, of "\<lambda>s. s" None] unfolding segments1_def by auto

theorem segmentation_returns_witness:
  "\<exists>segs. segment_markdown (\<lambda>s. s) document1 None = Inr segs \<and> distinct (map dg_key segs) \<and> segs \<noteq> []"
  using segmentation_returns [OF document1_checked] by blast


theorem segments_fit_witness:
  "dg_tokens (hd segments1) \<le> max_source_segment_tokens (sc_budget document1) \<and>
    \<not> dg_tokens (segments1 ! 1) \<le> max_source_segment_tokens (sc_budget document1)"
proof
  have "hd segments1 \<in> set segments1 \<and> dg_kind (hd segments1) \<noteq> SPLIT_FRAGMENT" by code_simp
  then show "dg_tokens (hd segments1) \<le> max_source_segment_tokens (sc_budget document1)"
    using segments_fit [OF document1_checked document1_segments] by blast
  show "\<not> dg_tokens (segments1 ! 1) \<le> max_source_segment_tokens (sc_budget document1)" by code_simp
qed


end
