(* ===== verification/ClaimOutput.thy ===== *)
theory ClaimOutput
  imports ExecStore Segmentation
begin

text \<open>
  The answer of the claim builder: its validation
  (\<open>extraction/application/policies/claim_builder_output_validation_policy.py\<close>), the decision on the
  attempt (\<open>claim_builder_attempt_decision_policy.py\<close>), the next action
  (\<open>claim_builder_attempt_next_action_policy.py\<close>) and the validator that chains them
  (\<open>ClaimBuilderLlmDispatchOutputValidator\<close> in
  \<open>application/sagas/handle_execute_claim_builder_section_command.py\<close>). \<open>json.loads\<close> is a parameter that
  gives no value where it raises \<open>JSONDecodeError\<close>; every value it gives is JSON, so the type checks of
  \<open>_is_json_input_value\<close> always pass. The debug log is left out.
\<close>

section \<open>Validation of the answer\<close>

datatype draft_claim_granularity = GRANULARITY_ATOMIC | GRANULARITY_COMPOSITE

fun granularity_value :: "draft_claim_granularity \<Rightarrow> string" where
  "granularity_value GRANULARITY_ATOMIC = ''atomic''"
| "granularity_value GRANULARITY_COMPOSITE = ''composite''"

definition parse_granularity :: "string \<Rightarrow> draft_claim_granularity option" where
  "parse_granularity v = List.find (\<lambda>g. granularity_value g = v) [GRANULARITY_ATOMIC, GRANULARITY_COMPOSITE]"

datatype validation_decision = VD_VALID_CLAIMS | VD_VALID_EMPTY | VD_RETRY_SAME_ROUTE
  | VD_RETRY_EMPTY_CLAIMS_CHECK_MODEL | VD_RETRY_FALLBACK_MODEL | VD_RETRY_LARGER_OUTPUT_LIMIT_MODEL
  | VD_TERMINAL_INVALID

fun validation_decision_value :: "validation_decision \<Rightarrow> string" where
  "validation_decision_value VD_VALID_CLAIMS = ''VALID_CLAIMS''"
| "validation_decision_value VD_VALID_EMPTY = ''VALID_EMPTY''"
| "validation_decision_value VD_RETRY_SAME_ROUTE = ''RETRY_SAME_ROUTE''"
| "validation_decision_value VD_RETRY_EMPTY_CLAIMS_CHECK_MODEL = ''RETRY_EMPTY_CLAIMS_CHECK_MODEL''"
| "validation_decision_value VD_RETRY_FALLBACK_MODEL = ''RETRY_FALLBACK_MODEL''"
| "validation_decision_value VD_RETRY_LARGER_OUTPUT_LIMIT_MODEL = ''RETRY_LARGER_OUTPUT_LIMIT_MODEL''"
| "validation_decision_value VD_TERMINAL_INVALID = ''TERMINAL_INVALID''"

datatype validation_failure = VF_OUTPUT_NOT_OBJECT | VF_CLAIMS_MISSING | VF_CLAIMS_NOT_LIST
  | VF_CLAIMS_EMPTY_RETRY_REQUIRED | VF_CLAIM_ITEM_NOT_OBJECT | VF_CLAIM_FIELD_SET_INVALID
  | VF_CLAIM_FIELD_NULL | VF_CLAIM_TEXT_EMPTY | VF_GRANULARITY_INVALID | VF_POSSIBLE_QUESTIONS_NOT_LIST
  | VF_POSSIBLE_QUESTION_EMPTY | VF_EXCLUSION_SCOPE_EMPTY | VF_EVIDENCE_BLOCK_EMPTY
  | VF_EVIDENCE_BLOCK_NOT_SOURCE_EXCERPT | VF_LATIN_TEXT_NOT_SUPPORTED_BY_EVIDENCE
  | VF_INVALID_JSON_RETRY_REQUIRED | VF_TRUNCATED_JSON_RETRY_REQUIRED

fun validation_failure_value :: "validation_failure \<Rightarrow> string" where
  "validation_failure_value VF_OUTPUT_NOT_OBJECT = ''OUTPUT_NOT_OBJECT''"
| "validation_failure_value VF_CLAIMS_MISSING = ''CLAIMS_MISSING''"
| "validation_failure_value VF_CLAIMS_NOT_LIST = ''CLAIMS_NOT_LIST''"
| "validation_failure_value VF_CLAIMS_EMPTY_RETRY_REQUIRED = ''CLAIMS_EMPTY_RETRY_REQUIRED''"
| "validation_failure_value VF_CLAIM_ITEM_NOT_OBJECT = ''CLAIM_ITEM_NOT_OBJECT''"
| "validation_failure_value VF_CLAIM_FIELD_SET_INVALID = ''CLAIM_FIELD_SET_INVALID''"
| "validation_failure_value VF_CLAIM_FIELD_NULL = ''CLAIM_FIELD_NULL''"
| "validation_failure_value VF_CLAIM_TEXT_EMPTY = ''CLAIM_TEXT_EMPTY''"
| "validation_failure_value VF_GRANULARITY_INVALID = ''GRANULARITY_INVALID''"
| "validation_failure_value VF_POSSIBLE_QUESTIONS_NOT_LIST = ''POSSIBLE_QUESTIONS_NOT_LIST''"
| "validation_failure_value VF_POSSIBLE_QUESTION_EMPTY = ''POSSIBLE_QUESTION_EMPTY''"
| "validation_failure_value VF_EXCLUSION_SCOPE_EMPTY = ''EXCLUSION_SCOPE_EMPTY''"
| "validation_failure_value VF_EVIDENCE_BLOCK_EMPTY = ''EVIDENCE_BLOCK_EMPTY''"
| "validation_failure_value VF_EVIDENCE_BLOCK_NOT_SOURCE_EXCERPT = ''EVIDENCE_BLOCK_NOT_SOURCE_EXCERPT''"
| "validation_failure_value VF_LATIN_TEXT_NOT_SUPPORTED_BY_EVIDENCE = ''LATIN_TEXT_NOT_SUPPORTED_BY_EVIDENCE''"
| "validation_failure_value VF_INVALID_JSON_RETRY_REQUIRED = ''INVALID_JSON_RETRY_REQUIRED''"
| "validation_failure_value VF_TRUNCATED_JSON_RETRY_REQUIRED = ''TRUNCATED_JSON_RETRY_REQUIRED''"

record validation_command =
  vc_payload :: json
  vc_source_text :: string
  vc_source_ref :: string
  vc_empty_attempts :: int

definition validation_command_post_init :: "validation_command \<Rightarrow> py_error + validation_command" where
  "validation_command_post_init c =
     (if blank (vc_source_ref c) then Inl (ValueError ''source_unit_ref must be non-empty'')
      else if vc_empty_attempts c < 0 then Inl (ValueError ''empty_claims_attempt_count must be >= 0'')
      else Inr c)"

record validated_claim =
  vl_claim :: string
  vl_granularity :: draft_claim_granularity
  vl_questions :: "string list"
  vl_exclusion_scope :: string
  vl_evidence_block :: string

definition validated_claim_post_init :: "validated_claim \<Rightarrow> py_error + validated_claim" where
  "validated_claim_post_init c =
     (if blank (vl_claim c) then Inl (ValueError ''claim must be non-empty'')
      else if list_ex blank (vl_questions c) then Inl (ValueError ''possible_question must be non-empty'')
      else if blank (vl_evidence_block c) then Inl (ValueError ''evidence_block must be non-empty'')
      else Inr c)"

record claim_validation =
  vr_decision :: validation_decision
  vr_claims :: "validated_claim list"
  vr_failure :: "validation_failure option"

definition validation_result_post_init :: "claim_validation \<Rightarrow> py_error + claim_validation" where
  "validation_result_post_init r =
     (if vr_decision r = VD_VALID_CLAIMS then
        (if vr_claims r = [] then Inl (ValueError ''VALID_CLAIMS requires non-empty claims'')
         else if vr_failure r \<noteq> None then Inl (ValueError ''VALID_CLAIMS requires empty failure_reason'')
         else Inr r)
      else if vr_decision r = VD_VALID_EMPTY then
        (if vr_claims r \<noteq> [] then Inl (ValueError ''VALID_EMPTY requires empty claims'')
         else if vr_failure r \<noteq> None then Inl (ValueError ''VALID_EMPTY requires empty failure_reason'')
         else Inr r)
      else if vr_claims r \<noteq> [] then Inl (ValueError ''retry/terminal decisions require empty claims'')
      else if vr_failure r = None then Inl (ValueError ''retry/terminal decisions require failure_reason'')
      else Inr r)"

text \<open>\<open>_failure\<close>; the constructor accepts the result of every decision to retry.\<close>

definition failure :: "validation_decision \<Rightarrow> validation_failure \<Rightarrow> claim_validation" where
  "failure d f = \<lparr>vr_decision = d, vr_claims = [], vr_failure = Some f\<rparr>"

text \<open>A helper returns its value or the failure that ends the validation.\<close>

definition retry_same_route :: "validation_failure \<Rightarrow> claim_validation + 'a" where
  "retry_same_route f = Inl (failure VD_RETRY_SAME_ROUTE f)"

definition string_value :: "json \<Rightarrow> validation_failure \<Rightarrow> claim_validation + string" where
  "string_value v f = (case v of JStr s \<Rightarrow> Inr s | _ \<Rightarrow> retry_same_route f)"

definition non_empty_string :: "json \<Rightarrow> validation_failure \<Rightarrow> claim_validation + string" where
  "non_empty_string v f = (case v of JStr s \<Rightarrow> if blank s then retry_same_route f else Inr s
     | _ \<Rightarrow> retry_same_route f)"

definition granularity_of :: "json \<Rightarrow> claim_validation + draft_claim_granularity" where
  "granularity_of v = (case v of
       JStr s \<Rightarrow> if blank s then retry_same_route VF_GRANULARITY_INVALID
         else (case parse_granularity s of Some g \<Rightarrow> Inr g | None \<Rightarrow> retry_same_route VF_GRANULARITY_INVALID)
     | _ \<Rightarrow> retry_same_route VF_GRANULARITY_INVALID)"

definition possible_questions :: "json \<Rightarrow> claim_validation + string list" where
  "possible_questions v = (case v of
       JArray qs \<Rightarrow> traverseE (\<lambda>q. non_empty_string q VF_POSSIBLE_QUESTION_EMPTY) qs
     | _ \<Rightarrow> retry_same_route VF_POSSIBLE_QUESTIONS_NOT_LIST)"

text \<open>The pattern \<open>[A-Za-z][A-Za-z0-9_-]*\<close>, matched from left to right.\<close>

definition latin_letter :: "char \<Rightarrow> bool" where
  "latin_letter c \<longleftrightarrow> (let n = (of_char c :: nat) in 65 \<le> n \<and> n \<le> 90 \<or> 97 \<le> n \<and> n \<le> 122)"

definition latin_part :: "char \<Rightarrow> bool" where
  "latin_part c \<longleftrightarrow> latin_letter c \<or> (let n = (of_char c :: nat) in 48 \<le> n \<and> n \<le> 57) \<or>
     c = CHR ''_'' \<or> c = CHR ''-''"

function latin_tokens :: "string \<Rightarrow> string list" where
  "latin_tokens [] = []"
| "latin_tokens (c # s) = (if latin_letter c
     then (c # takeWhile latin_part s) # latin_tokens (dropWhile latin_part s) else latin_tokens s)"
  by pat_completeness auto
termination
  by (relation "measure length") (auto simp: length_dropWhile_le le_imp_less_Suc)

definition latin_tokens_missing :: "string list \<Rightarrow> string \<Rightarrow> bool" where
  "latin_tokens_missing texts source_text \<longleftrightarrow>
     list_ex (\<lambda>t. list_ex (\<lambda>w. w \<notin> set (latin_tokens source_text)) (latin_tokens t)) texts"

definition claim_fields :: "string list" where
  "claim_fields = [''claim'', ''granularity'', ''possible_questions'', ''exclusion_scope'']"

definition claim_field :: "payload \<Rightarrow> string \<Rightarrow> json" where
  "claim_field m k = (case map_of m k of Some v \<Rightarrow> v | None \<Rightarrow> JNull)"

definition validate_claim_item :: "string \<Rightarrow> string \<Rightarrow> json \<Rightarrow> py_error + (claim_validation + validated_claim)" where
  "validate_claim_item source_text source_ref v = (case v of
     JObject m \<Rightarrow>
       if set (map fst m) \<noteq> set claim_fields then Inr (retry_same_route VF_CLAIM_FIELD_SET_INVALID)
       else if JNull \<in> set (map snd m) then Inr (retry_same_route VF_CLAIM_FIELD_NULL)
       else (case
         bindE (non_empty_string (claim_field m ''claim'') VF_CLAIM_TEXT_EMPTY) (\<lambda>claim.
         bindE (granularity_of (claim_field m ''granularity'')) (\<lambda>g.
         bindE (possible_questions (claim_field m ''possible_questions'')) (\<lambda>qs.
         bindE (string_value (claim_field m ''exclusion_scope'') VF_EXCLUSION_SCOPE_EMPTY) (\<lambda>x.
         if latin_tokens_missing (claim # x # qs) source_text
         then retry_same_route VF_LATIN_TEXT_NOT_SUPPORTED_BY_EVIDENCE
         else Inr \<lparr>vl_claim = claim, vl_granularity = g, vl_questions = qs, vl_exclusion_scope = x,
           vl_evidence_block = source_ref\<rparr>)))) of
           Inl f \<Rightarrow> Inr (Inl f)
         | Inr c \<Rightarrow> bindE (validated_claim_post_init c) (\<lambda>c. Inr (Inr c)))
   | _ \<Rightarrow> Inr (retry_same_route VF_CLAIM_ITEM_NOT_OBJECT))"

fun validate_claims :: "string \<Rightarrow> string \<Rightarrow> validated_claim list \<Rightarrow> json list \<Rightarrow> py_error + claim_validation" where
  "validate_claims source_text source_ref acc [] =
     validation_result_post_init \<lparr>vr_decision = VD_VALID_CLAIMS, vr_claims = acc, vr_failure = None\<rparr>"
| "validate_claims source_text source_ref acc (v # vs) =
     bindE (validate_claim_item source_text source_ref v) (\<lambda>r. case r of
       Inl f \<Rightarrow> Inr f
     | Inr c \<Rightarrow> validate_claims source_text source_ref (acc @ [c]) vs)"

definition validate_output :: "validation_command \<Rightarrow> py_error + claim_validation" where
  "validate_output c = (case vc_payload c of
     JObject p \<Rightarrow> (case map_of p ''claims'' of
         None \<Rightarrow> Inr (failure VD_RETRY_SAME_ROUTE VF_CLAIMS_MISSING)
       | Some (JArray vs) \<Rightarrow>
           if vs = [] then
             (if vc_empty_attempts c \<le> 0 then Inr (failure VD_RETRY_SAME_ROUTE VF_CLAIMS_EMPTY_RETRY_REQUIRED)
              else if vc_empty_attempts c = 1
              then Inr (failure VD_RETRY_EMPTY_CLAIMS_CHECK_MODEL VF_CLAIMS_EMPTY_RETRY_REQUIRED)
              else validation_result_post_init \<lparr>vr_decision = VD_VALID_EMPTY, vr_claims = [], vr_failure = None\<rparr>)
           else validate_claims (vc_source_text c) (vc_source_ref c) [] vs
       | Some _ \<Rightarrow> Inr (failure VD_RETRY_SAME_ROUTE VF_CLAIMS_NOT_LIST))
   | _ \<Rightarrow> Inr (failure VD_RETRY_SAME_ROUTE VF_OUTPUT_NOT_OBJECT))"

section \<open>Decision on the attempt\<close>

datatype attempt_outcome_kind = AK_VALID_CLAIMS | AK_VALID_EMPTY | AK_RETRY_SAME_ROUTE
  | AK_RETRY_EMPTY_CLAIMS_CHECK_MODEL | AK_RETRY_FALLBACK_MODEL | AK_RETRY_LARGER_INPUT_LIMIT_MODEL
  | AK_RETRY_LARGER_OUTPUT_LIMIT_MODEL | AK_TERMINAL_INVALID

fun attempt_outcome_kind_value :: "attempt_outcome_kind \<Rightarrow> string" where
  "attempt_outcome_kind_value AK_VALID_CLAIMS = ''VALID_CLAIMS''"
| "attempt_outcome_kind_value AK_VALID_EMPTY = ''VALID_EMPTY''"
| "attempt_outcome_kind_value AK_RETRY_SAME_ROUTE = ''RETRY_SAME_ROUTE''"
| "attempt_outcome_kind_value AK_RETRY_EMPTY_CLAIMS_CHECK_MODEL = ''RETRY_EMPTY_CLAIMS_CHECK_MODEL''"
| "attempt_outcome_kind_value AK_RETRY_FALLBACK_MODEL = ''RETRY_FALLBACK_MODEL''"
| "attempt_outcome_kind_value AK_RETRY_LARGER_INPUT_LIMIT_MODEL = ''RETRY_LARGER_INPUT_LIMIT_MODEL''"
| "attempt_outcome_kind_value AK_RETRY_LARGER_OUTPUT_LIMIT_MODEL = ''RETRY_LARGER_OUTPUT_LIMIT_MODEL''"
| "attempt_outcome_kind_value AK_TERMINAL_INVALID = ''TERMINAL_INVALID''"

datatype next_model_strategy = NM_SAME_MODEL | NM_EMPTY_CLAIMS_CHECK_MODEL_REQUIRED
  | NM_FALLBACK_MODEL_REQUIRED | NM_LARGER_INPUT_LIMIT_MODEL_REQUIRED | NM_LARGER_OUTPUT_LIMIT_MODEL_REQUIRED

fun next_model_strategy_value :: "next_model_strategy \<Rightarrow> string" where
  "next_model_strategy_value NM_SAME_MODEL = ''SAME_MODEL''"
| "next_model_strategy_value NM_EMPTY_CLAIMS_CHECK_MODEL_REQUIRED = ''EMPTY_CLAIMS_CHECK_MODEL_REQUIRED''"
| "next_model_strategy_value NM_FALLBACK_MODEL_REQUIRED = ''FALLBACK_MODEL_REQUIRED''"
| "next_model_strategy_value NM_LARGER_INPUT_LIMIT_MODEL_REQUIRED = ''LARGER_INPUT_LIMIT_MODEL_REQUIRED''"
| "next_model_strategy_value NM_LARGER_OUTPUT_LIMIT_MODEL_REQUIRED = ''LARGER_OUTPUT_LIMIT_MODEL_REQUIRED''"

record attempt_decision_command =
  ad_run :: string
  ad_work_item_id :: string
  ad_attempt_id :: string
  ad_attempt_number :: int
  ad_provider :: string
  ad_model_ref :: string
  ad_output_payload :: "json option"
  ad_raw_output :: "string option"
  ad_source_text :: string
  ad_truncated :: bool
  ad_validation :: "claim_validation option"

definition attempt_decision_command_post_init :: "attempt_decision_command \<Rightarrow> py_error + attempt_decision_command" where
  "attempt_decision_command_post_init c =
     (if blank (ad_run c) then Inl (ValueError ''workflow_run_id must be non-empty'')
      else if blank (ad_work_item_id c) then Inl (ValueError ''work_item_id must be non-empty'')
      else if blank (ad_attempt_id c) then Inl (ValueError ''dispatch_attempt_id must be non-empty'')
      else if blank (ad_provider c) then Inl (ValueError ''provider must be non-empty'')
      else if blank (ad_model_ref c) then Inl (ValueError ''model_ref must be non-empty'')
      else if ad_attempt_number c \<le> 0 then Inl (ValueError ''attempt_number must be > 0'')
      else Inr c)"

record attempt_decision =
  at_outcome_kind :: attempt_outcome_kind
  at_validation_decision :: "validation_decision option"
  at_validation_failure :: "validation_failure option"
  at_claims :: "validated_claim list"
  at_next_model :: "next_model_strategy option"
  at_retry_recommended :: bool

definition attempt_decision_post_init :: "attempt_decision \<Rightarrow> py_error + attempt_decision" where
  "attempt_decision_post_init d =
     (if at_outcome_kind d = AK_VALID_CLAIMS then
        (if at_claims d = [] then Inl (ValueError ''VALID_CLAIMS requires non-empty claims'')
         else if at_validation_failure d \<noteq> None then Inl (ValueError ''VALID_CLAIMS requires no failure reason'')
         else if at_retry_recommended d then Inl (ValueError ''VALID_CLAIMS must not recommend retry'')
         else Inr d)
      else if at_outcome_kind d = AK_VALID_EMPTY then
        (if at_claims d \<noteq> [] then Inl (ValueError ''VALID_EMPTY requires empty claims'')
         else if at_validation_failure d \<noteq> None then Inl (ValueError ''VALID_EMPTY requires no failure reason'')
         else if at_retry_recommended d then Inl (ValueError ''VALID_EMPTY must not recommend retry'')
         else Inr d)
      else if at_claims d \<noteq> [] then Inl (ValueError ''retry/terminal decisions require empty claims'')
      else if at_validation_failure d = None then Inl (ValueError ''retry/terminal decisions require failure reason'')
      else Inr d)"

definition raw_output_missing :: "string option \<Rightarrow> bool" where
  "raw_output_missing t = (case t of None \<Rightarrow> True | Some s \<Rightarrow> blank s)"

definition retry_decision :: "attempt_outcome_kind \<Rightarrow> claim_validation \<Rightarrow> next_model_strategy \<Rightarrow>
    py_error + attempt_decision" where
  "retry_decision k r s = attempt_decision_post_init
     \<lparr>at_outcome_kind = k, at_validation_decision = Some (vr_decision r), at_validation_failure = vr_failure r,
      at_claims = [], at_next_model = Some s, at_retry_recommended = True\<rparr>"

definition decision_from_validation :: "claim_validation \<Rightarrow> py_error + attempt_decision" where
  "decision_from_validation r = (case vr_decision r of
     VD_VALID_CLAIMS \<Rightarrow> attempt_decision_post_init
       \<lparr>at_outcome_kind = AK_VALID_CLAIMS, at_validation_decision = Some (vr_decision r), at_validation_failure = None,
        at_claims = vr_claims r, at_next_model = None, at_retry_recommended = False\<rparr>
   | VD_VALID_EMPTY \<Rightarrow> attempt_decision_post_init
       \<lparr>at_outcome_kind = AK_VALID_EMPTY, at_validation_decision = Some (vr_decision r), at_validation_failure = None,
        at_claims = [], at_next_model = None, at_retry_recommended = False\<rparr>
   | VD_RETRY_EMPTY_CLAIMS_CHECK_MODEL \<Rightarrow>
       retry_decision AK_RETRY_EMPTY_CLAIMS_CHECK_MODEL r NM_EMPTY_CLAIMS_CHECK_MODEL_REQUIRED
   | VD_RETRY_FALLBACK_MODEL \<Rightarrow> retry_decision AK_RETRY_FALLBACK_MODEL r NM_FALLBACK_MODEL_REQUIRED
   | VD_RETRY_LARGER_OUTPUT_LIMIT_MODEL \<Rightarrow>
       retry_decision AK_RETRY_LARGER_OUTPUT_LIMIT_MODEL r NM_LARGER_OUTPUT_LIMIT_MODEL_REQUIRED
   | VD_TERMINAL_INVALID \<Rightarrow> attempt_decision_post_init
       \<lparr>at_outcome_kind = AK_TERMINAL_INVALID, at_validation_decision = Some (vr_decision r),
        at_validation_failure = vr_failure r, at_claims = [], at_next_model = None, at_retry_recommended = False\<rparr>
   | VD_RETRY_SAME_ROUTE \<Rightarrow> retry_decision AK_RETRY_SAME_ROUTE r NM_SAME_MODEL)"

definition decide_attempt :: "attempt_decision_command \<Rightarrow> py_error + attempt_decision" where
  "decide_attempt c =
     (let same_route = attempt_decision_post_init
        \<lparr>at_outcome_kind = AK_RETRY_SAME_ROUTE, at_validation_decision = Some VD_RETRY_SAME_ROUTE,
         at_validation_failure = Some VF_OUTPUT_NOT_OBJECT, at_claims = [],
         at_next_model = Some NM_SAME_MODEL, at_retry_recommended = True\<rparr> in
      if ad_truncated c then attempt_decision_post_init
        \<lparr>at_outcome_kind = AK_RETRY_LARGER_OUTPUT_LIMIT_MODEL,
         at_validation_decision = Some VD_RETRY_LARGER_OUTPUT_LIMIT_MODEL,
         at_validation_failure = Some VF_TRUNCATED_JSON_RETRY_REQUIRED, at_claims = [],
         at_next_model = Some NM_LARGER_OUTPUT_LIMIT_MODEL_REQUIRED, at_retry_recommended = True\<rparr>
      else if raw_output_missing (ad_raw_output c) \<and> ad_output_payload c = None then same_route
      else (case ad_validation c of None \<Rightarrow> same_route | Some r \<Rightarrow> decision_from_validation r))"

section \<open>The next action\<close>

datatype next_action_kind = NA_PERSIST_VALID_CLAIMS | NA_ACCEPT_VALID_EMPTY | NA_RETRY_SAME_ROUTE
  | NA_RETRY_EMPTY_CLAIMS_CHECK_MODEL | NA_RETRY_FALLBACK_MODEL | NA_RETRY_LARGER_OUTPUT_LIMIT_MODEL
  | NA_RETRY_LARGER_INPUT_LIMIT_MODEL | NA_SPLIT_WORK_PAYLOAD | NA_DEFER_UNTIL_CAPACITY_RESET
  | NA_PAUSE_FOR_DAILY_LIMIT_RESET | NA_REQUEST_USER_LOW_QUALITY_CONTINUE_OR_WAIT | NA_TERMINAL_FAILURE

fun next_action_kind_value :: "next_action_kind \<Rightarrow> string" where
  "next_action_kind_value NA_PERSIST_VALID_CLAIMS = ''PERSIST_VALID_CLAIMS''"
| "next_action_kind_value NA_ACCEPT_VALID_EMPTY = ''ACCEPT_VALID_EMPTY''"
| "next_action_kind_value NA_RETRY_SAME_ROUTE = ''RETRY_SAME_ROUTE''"
| "next_action_kind_value NA_RETRY_EMPTY_CLAIMS_CHECK_MODEL = ''RETRY_EMPTY_CLAIMS_CHECK_MODEL''"
| "next_action_kind_value NA_RETRY_FALLBACK_MODEL = ''RETRY_FALLBACK_MODEL''"
| "next_action_kind_value NA_RETRY_LARGER_OUTPUT_LIMIT_MODEL = ''RETRY_LARGER_OUTPUT_LIMIT_MODEL''"
| "next_action_kind_value NA_RETRY_LARGER_INPUT_LIMIT_MODEL = ''RETRY_LARGER_INPUT_LIMIT_MODEL''"
| "next_action_kind_value NA_SPLIT_WORK_PAYLOAD = ''SPLIT_WORK_PAYLOAD''"
| "next_action_kind_value NA_DEFER_UNTIL_CAPACITY_RESET = ''DEFER_UNTIL_CAPACITY_RESET''"
| "next_action_kind_value NA_PAUSE_FOR_DAILY_LIMIT_RESET = ''PAUSE_FOR_DAILY_LIMIT_RESET''"
| "next_action_kind_value NA_REQUEST_USER_LOW_QUALITY_CONTINUE_OR_WAIT = ''REQUEST_USER_LOW_QUALITY_CONTINUE_OR_WAIT''"
| "next_action_kind_value NA_TERMINAL_FAILURE = ''TERMINAL_FAILURE''"

record next_action =
  na_kind :: next_action_kind
  na_reason :: string
  na_next_model :: "next_model_strategy option"
  na_requires_split :: bool
  na_should_persist :: bool
  na_should_complete :: bool

text \<open>\<open>run_after\<close> is None in every action the policy builds and is left out.\<close>

definition next_action_post_init :: "next_action \<Rightarrow> py_error + next_action" where
  "next_action_post_init a =
     (if blank (na_reason a) then Inl (ValueError ''reason must be non-empty'')
      else if na_kind a = NA_PERSIST_VALID_CLAIMS then
        (if \<not> na_should_persist a then Inl (ValueError ''PERSIST_VALID_CLAIMS must persist claims'')
         else if \<not> na_should_complete a then Inl (ValueError ''PERSIST_VALID_CLAIMS must mark work item completed'')
         else Inr a)
      else if na_kind a = NA_ACCEPT_VALID_EMPTY then
        (if na_should_persist a then Inl (ValueError ''ACCEPT_VALID_EMPTY must not persist claims'')
         else if \<not> na_should_complete a then Inl (ValueError ''ACCEPT_VALID_EMPTY must mark work item completed'')
         else Inr a)
      else if na_should_persist a then Inl (ValueError ''non-valid action must not persist claims'')
      else if na_should_complete a then Inl (ValueError ''non-valid action must not mark work item completed'')
      else Inr a)"

definition action_reason :: "attempt_decision \<Rightarrow> string \<Rightarrow> string" where
  "action_reason d fallback = (case at_validation_failure d of
       Some f \<Rightarrow> validation_failure_value f
     | None \<Rightarrow> (case at_validation_decision d of Some v \<Rightarrow> validation_decision_value v | None \<Rightarrow> fallback))"

definition retry_action :: "next_action_kind \<Rightarrow> attempt_decision \<Rightarrow> string \<Rightarrow> py_error + next_action" where
  "retry_action k d fallback = next_action_post_init
     \<lparr>na_kind = k, na_reason = action_reason d fallback, na_next_model = at_next_model d,
      na_requires_split = False, na_should_persist = False, na_should_complete = False\<rparr>"

definition decide_next_action :: "attempt_decision \<Rightarrow> py_error + next_action" where
  "decide_next_action d = (case at_outcome_kind d of
     AK_VALID_CLAIMS \<Rightarrow> next_action_post_init
       \<lparr>na_kind = NA_PERSIST_VALID_CLAIMS, na_reason = ''valid_claims'', na_next_model = None,
        na_requires_split = False, na_should_persist = True, na_should_complete = True\<rparr>
   | AK_VALID_EMPTY \<Rightarrow> next_action_post_init
       \<lparr>na_kind = NA_ACCEPT_VALID_EMPTY, na_reason = ''valid_empty'', na_next_model = None,
        na_requires_split = False, na_should_persist = False, na_should_complete = True\<rparr>
   | AK_RETRY_SAME_ROUTE \<Rightarrow> retry_action NA_RETRY_SAME_ROUTE d ''retry_same_route''
   | AK_RETRY_EMPTY_CLAIMS_CHECK_MODEL \<Rightarrow>
       retry_action NA_RETRY_EMPTY_CLAIMS_CHECK_MODEL d ''retry_empty_claims_check_model''
   | AK_RETRY_LARGER_INPUT_LIMIT_MODEL \<Rightarrow>
       retry_action NA_RETRY_LARGER_INPUT_LIMIT_MODEL d ''retry_larger_input_limit_model''
   | AK_RETRY_FALLBACK_MODEL \<Rightarrow> retry_action NA_RETRY_FALLBACK_MODEL d ''retry_fallback_model''
   | AK_RETRY_LARGER_OUTPUT_LIMIT_MODEL \<Rightarrow>
       retry_action NA_RETRY_LARGER_OUTPUT_LIMIT_MODEL d ''retry_larger_output_limit_model''
   | AK_TERMINAL_INVALID \<Rightarrow> next_action_post_init
       \<lparr>na_kind = NA_TERMINAL_FAILURE, na_reason = action_reason d ''terminal_invalid'', na_next_model = None,
        na_requires_split = False, na_should_persist = False, na_should_complete = False\<rparr>)"

section \<open>Reading the dispatch\<close>

definition mapping_of :: "json option \<Rightarrow> payload option" where
  "mapping_of v = (case v of Some (JObject p) \<Rightarrow> Some p | _ \<Rightarrow> None)"

definition non_blank_text :: "json option \<Rightarrow> string option" where
  "non_blank_text v = (case v of Some (JStr s) \<Rightarrow> if blank s then None else Some s | _ \<Rightarrow> None)"

definition raw_output_text :: "payload option \<Rightarrow> string option" where
  "raw_output_text out = (case out of None \<Rightarrow> None
     | Some p \<Rightarrow> (case map_of p ''raw_text'' of Some (JStr s) \<Rightarrow> Some s | _ \<Rightarrow> None))"

definition is_output_truncated :: "payload option \<Rightarrow> bool" where
  "is_output_truncated out = (case out of None \<Rightarrow> False
     | Some p \<Rightarrow> (case List.find (\<lambda>v. case v of Some (JBool b) \<Rightarrow> True | _ \<Rightarrow> False)
           (map (map_of p) [''output_truncated'', ''is_truncated'', ''truncated'']) of
         Some (Some (JBool b)) \<Rightarrow> b
       | _ \<Rightarrow> map_of p ''finish_reason'' = Some (JStr ''length'')))"

definition dispatch_schedule_payload :: "payload \<Rightarrow> py_error + payload" where
  "dispatch_schedule_payload d = (case mapping_of (payload_get d ''schedule_payload'') of
     Some p \<Rightarrow> Inr p | None \<Rightarrow> Inl (ValueError ''dispatch payload schedule_payload must be mapping''))"

definition dispatch_workflow_run_id :: "payload \<Rightarrow> py_error + string" where
  "dispatch_workflow_run_id d = bindE (dispatch_schedule_payload d) (\<lambda>p.
     Inr (case non_blank_text (payload_get p ''workflow_run_id'') of Some v \<Rightarrow> v | None \<Rightarrow> ''unknown-workflow-run''))"

definition dispatch_work_item_id :: "payload \<Rightarrow> py_error + string" where
  "dispatch_work_item_id d = (case non_blank_text (payload_get d ''work_item_id'') of
     Some v \<Rightarrow> Inr v | None \<Rightarrow> Inl (ValueError ''dispatch payload work_item_id must be non-empty''))"

definition dispatch_attempt_id :: "payload \<Rightarrow> string" where
  "dispatch_attempt_id d = (case non_blank_text (payload_get d ''attempt_id'') of
     Some v \<Rightarrow> v | None \<Rightarrow> ''unknown-dispatch-attempt'')"

definition allocation_mapping :: "payload \<Rightarrow> py_error + payload" where
  "allocation_mapping d = (case mapping_of (payload_get d ''llm_allocation'') of
     Some p \<Rightarrow> Inr p | None \<Rightarrow> Inl (ValueError ''dispatch payload llm_allocation must be mapping''))"

definition dispatch_provider :: "payload \<Rightarrow> py_error + string" where
  "dispatch_provider d = bindE (allocation_mapping d) (\<lambda>a. case non_blank_text (payload_get a ''provider'') of
     Some v \<Rightarrow> Inr v | None \<Rightarrow> Inl (ValueError ''llm_allocation provider must be non-empty''))"

definition dispatch_model_ref :: "payload \<Rightarrow> py_error + string" where
  "dispatch_model_ref d = bindE (allocation_mapping d) (\<lambda>a. case non_blank_text (payload_get a ''model_ref'') of
     Some v \<Rightarrow> Inr v | None \<Rightarrow> Inl (ValueError ''llm_allocation model_ref must be non-empty''))"

definition optional_mapping_text :: "payload \<Rightarrow> string \<Rightarrow> py_error + string option" where
  "optional_mapping_text p k = (case payload_get p k of
       None \<Rightarrow> Inr None
     | Some v \<Rightarrow> (case non_blank_text (Some v) of Some s \<Rightarrow> Inr (Some s)
         | None \<Rightarrow> Inl (ValueError (k @ '' must be non-empty text when provided''))))"

text \<open>The messages of the schedule, a JSON list.\<close>

definition provider_messages :: "payload \<Rightarrow> json list option" where
  "provider_messages p = (case payload_get p ''provider_messages'' of Some (JArray ms) \<Rightarrow> Some ms | _ \<Rightarrow> None)"

definition message_content :: "json \<Rightarrow> string option" where
  "message_content m = (case m of
       JObject p \<Rightarrow> (case payload_get p ''content'' of Some (JStr s) \<Rightarrow> Some s | _ \<Rightarrow> None)
     | _ \<Rightarrow> None)"

definition user_content :: "json \<Rightarrow> string option" where
  "user_content m = (case m of
       JObject p \<Rightarrow> if payload_get p ''role'' = Some (JStr ''user'') then message_content m else None
     | _ \<Rightarrow> None)"

definition source_user_message_content :: "payload \<Rightarrow> string" where
  "source_user_message_content d = (case mapping_of (payload_get d ''schedule_payload'') of
       None \<Rightarrow> []
     | Some p \<Rightarrow> (case provider_messages p of None \<Rightarrow> []
         | Some ms \<Rightarrow> (case List.map_filter user_content ms of [] \<Rightarrow> [] | c # _ \<Rightarrow> c)))"

text \<open>\<open>content.partition("\n\n")\<close>, the part behind the separator; empty without one.\<close>

fun source_text_from_user_message :: "string \<Rightarrow> string" where
  "source_text_from_user_message (c # d # s) =
     (if c = LF \<and> d = LF then s else source_text_from_user_message (d # s))"
| "source_text_from_user_message _ = []"

definition source_unit_text :: "payload \<Rightarrow> py_error + string" where
  "source_unit_text d = bindE (dispatch_schedule_payload d) (\<lambda>p. case provider_messages p of
       None \<Rightarrow> Inl (ValueError ''schedule_payload provider_messages must be list'')
     | Some ms \<Rightarrow> (case List.find (\<lambda>t. \<not> blank t) (map source_text_from_user_message (List.map_filter user_content ms)) of
         Some t \<Rightarrow> Inr t
       | None \<Rightarrow> Inl (ValueError ''source_unit_text missing from claim builder dispatch payload'')))"

definition source_context_text :: "payload \<Rightarrow> py_error + string" where
  "source_context_text d = (let t = source_user_message_content d in
     if \<not> blank t then Inr t else source_unit_text d)"

text \<open>\<open>str.splitlines\<close> on the code points below 256.\<close>

definition line_break :: "char \<Rightarrow> bool" where
  "line_break c \<longleftrightarrow> (let n = (of_char c :: nat) in 10 \<le> n \<and> n \<le> 13 \<or> 28 \<le> n \<and> n \<le> 30 \<or> n = 133)"

fun crlf_as_lf :: "string \<Rightarrow> string" where
  "crlf_as_lf (c # d # s) = (if c = CR \<and> d = LF then LF # crlf_as_lf s else c # crlf_as_lf (d # s))"
| "crlf_as_lf s = s"

definition splitlines :: "string \<Rightarrow> string list" where
  "splitlines s = (let ls = pieces line_break (crlf_as_lf s) in if last ls = [] then butlast ls else ls)"

definition source_ref_lines :: "string \<Rightarrow> string list" where
  "source_ref_lines content = filter (\<lambda>v. v \<noteq> []) (map (\<lambda>l. strip (drop (length ''source_unit_ref:'') l))
     (filter (\<lambda>l. take (length ''source_unit_ref:'') l = ''source_unit_ref:'') (splitlines content)))"

definition dispatch_source_unit_ref :: "payload \<Rightarrow> py_error + string" where
  "dispatch_source_unit_ref d =
     bindE (dispatch_schedule_payload d) (\<lambda>p.
     bindE (optional_mapping_text p ''source_unit_ref'') (\<lambda>direct. case direct of
       Some v \<Rightarrow> Inr v
     | None \<Rightarrow> (case provider_messages p of
         None \<Rightarrow> Inl (ValueError ''schedule_payload provider_messages must be list'')
       | Some ms \<Rightarrow> (case concat (map source_ref_lines (List.map_filter message_content ms)) of
           v # _ \<Rightarrow> Inr v
         | [] \<Rightarrow> Inl (ValueError ''source_unit_ref missing from claim builder dispatch payload'')))))"

section \<open>The validator of a dispatched attempt\<close>

text \<open>
  \<open>LlmDispatchExecutionStatus\<close> has the values of \<^typ>\<open>attempt_outcome_status\<close>. The metadata of a
  validation are JSON, except the entry \<open>_validated_claims\<close>, which is the field \<open>dv_claims\<close>.
\<close>

record dispatch_validation =
  dv_status :: attempt_outcome_status
  dv_error_kind :: "string option"
  dv_metadata :: payload
  dv_claims :: "validated_claim list option"

definition dispatch_validation_post_init :: "dispatch_validation \<Rightarrow> py_error + dispatch_validation" where
  "dispatch_validation_post_init v =
     (if (case dv_error_kind v of Some e \<Rightarrow> blank e | None \<Rightarrow> False)
      then Inl (ValueError ''error_kind must be non-empty'')
      else if dv_status v = OC_SUCCEEDED \<and> dv_error_kind v \<noteq> None
      then Inl (ValueError ''error_kind must be None for succeeded validation'')
      else if dv_status v \<noteq> OC_SUCCEEDED \<and> dv_error_kind v = None
      then Inl (ValueError ''error_kind is required for non-succeeded validation'')
      else Inr v)"

definition text_or_null :: "('a \<Rightarrow> string) \<Rightarrow> 'a option \<Rightarrow> json" where
  "text_or_null f v = (case v of Some x \<Rightarrow> JStr (f x) | None \<Rightarrow> JNull)"

definition decision_metadata :: "attempt_decision \<Rightarrow> next_action \<Rightarrow> payload" where
  "decision_metadata d a =
     [(''claim_builder_attempt_outcome_kind'', JStr (attempt_outcome_kind_value (at_outcome_kind d))),
      (''claim_builder_attempt_next_action_kind'', JStr (next_action_kind_value (na_kind a))),
      (''claim_builder_attempt_next_action_reason'', JStr (na_reason a)),
      (''claim_builder_attempt_next_model_strategy'', text_or_null next_model_strategy_value (na_next_model a)),
      (''claim_builder_should_persist_claims'', JBool (na_should_persist a)),
      (''claim_builder_should_mark_work_item_completed'', JBool (na_should_complete a)),
      (''claim_builder_requires_source_split'', JBool (na_requires_split a)),
      (''claim_builder_next_run_after'', JNull),
      (''validation_decision'', text_or_null validation_decision_value (at_validation_decision d)),
      (''validation_failure_reason'', text_or_null validation_failure_value (at_validation_failure d)),
      (''validated_claim_count'', JInt (int (length (at_claims d)))),
      (''next_model_strategy'', text_or_null next_model_strategy_value (at_next_model d)),
      (''retry_recommended'', JBool (at_retry_recommended d))]"

definition decision_to_dispatch_result :: "attempt_decision \<Rightarrow> next_action \<Rightarrow> py_error + dispatch_validation" where
  "decision_to_dispatch_result d a =
     (let failed = Some ''claim_builder_output_validation_failed'' in
      if at_outcome_kind d \<in> {AK_VALID_CLAIMS, AK_VALID_EMPTY} then dispatch_validation_post_init
        \<lparr>dv_status = OC_SUCCEEDED, dv_error_kind = None, dv_metadata = decision_metadata d a,
         dv_claims = Some (at_claims d)\<rparr>
      else if at_outcome_kind d = AK_TERMINAL_INVALID then dispatch_validation_post_init
        \<lparr>dv_status = OC_TERMINAL_FAILED, dv_error_kind = failed, dv_metadata = decision_metadata d a,
         dv_claims = Some (at_claims d)\<rparr>
      else dispatch_validation_post_init
        \<lparr>dv_status = OC_RETRYABLE_FAILED, dv_error_kind = failed, dv_metadata = decision_metadata d a,
         dv_claims = Some (at_claims d)\<rparr>)"

text \<open>\<open>_decoded_claim_builder_output\<close>: the failure of the decoding or the decoded JSON.\<close>

definition decoded_output :: "(string \<Rightarrow> json option) \<Rightarrow> payload option \<Rightarrow> claim_validation + json" where
  "decoded_output loads out = (case out of
       None \<Rightarrow> retry_same_route VF_OUTPUT_NOT_OBJECT
     | Some p \<Rightarrow> (case raw_output_text out of
         Some t \<Rightarrow> (case loads t of Some v \<Rightarrow> Inr v | None \<Rightarrow> retry_same_route VF_INVALID_JSON_RETRY_REQUIRED)
       | None \<Rightarrow> Inr (JObject p)))"

definition validate_dispatch_output :: "(string \<Rightarrow> json option) \<Rightarrow> payload \<Rightarrow> payload option \<Rightarrow>
    attempt_outcome_status \<Rightarrow> int \<Rightarrow> py_error + dispatch_validation" where
  "validate_dispatch_output loads d out status attempt =
     (if status \<noteq> OC_SUCCEEDED then dispatch_validation_post_init
        \<lparr>dv_status = status, dv_error_kind = None,
         dv_metadata = [(''validation_decision'', JNull), (''validated_claim_count'', JInt 0),
           (''retry_recommended'', JBool False)], dv_claims = None\<rparr>
      else
        bindE (case decoded_output loads out of
            Inl f \<Rightarrow> Inr (f, None)
          | Inr v \<Rightarrow>
              bindE (source_context_text d) (\<lambda>t.
              bindE (dispatch_source_unit_ref d) (\<lambda>u.
              bindE (validation_command_post_init
                \<lparr>vc_payload = v, vc_source_text = t, vc_source_ref = u, vc_empty_attempts = max (attempt - 1) 0\<rparr>) (\<lambda>c.
              bindE (validate_output c) (\<lambda>r. Inr (r, Some v)))))) (\<lambda>(r, v).
        bindE (dispatch_workflow_run_id d) (\<lambda>run.
        bindE (dispatch_work_item_id d) (\<lambda>item.
        bindE (dispatch_provider d) (\<lambda>provider.
        bindE (dispatch_model_ref d) (\<lambda>model.
        bindE (source_context_text d) (\<lambda>t.
        bindE (attempt_decision_command_post_init
          \<lparr>ad_run = run, ad_work_item_id = item, ad_attempt_id = dispatch_attempt_id d,
           ad_attempt_number = attempt, ad_provider = provider, ad_model_ref = model,
           ad_output_payload = (if v = Some JNull then None else v), ad_raw_output = raw_output_text out,
           ad_source_text = t, ad_truncated = is_output_truncated out, ad_validation = Some r\<rparr>) (\<lambda>c.
        bindE (decide_attempt c) (\<lambda>decision.
        bindE (decide_next_action decision) (\<lambda>action.
        decision_to_dispatch_result decision action))))))))))"

end
