(* ===== verification/ClaimOutputProps.thy ===== *)
theory ClaimOutputProps
  imports ClaimOutput
begin

text \<open>
  What the validator of the claim builder accepts, said without its control flow: \<open>claim_ok\<close> is the
  contract of one claim of an answer and \<open>answer_accepted\<close> that of the whole answer.
\<close>

section \<open>The contract of a claim\<close>

definition claim_parts :: "payload \<Rightarrow> (string \<times> draft_claim_granularity \<times> string list \<times> string) \<Rightarrow> bool" where
  "claim_parts m = (\<lambda>(claim, g, qs, x).
     claim_field m ''claim'' = JStr claim \<and> \<not> blank claim \<and>
     claim_field m ''granularity'' = JStr (granularity_value g) \<and>
     claim_field m ''possible_questions'' = JArray (map JStr qs) \<and> (\<forall>q \<in> set qs. \<not> blank q) \<and>
     claim_field m ''exclusion_scope'' = JStr x)"

definition grounded :: "string \<Rightarrow> string list \<Rightarrow> bool" where
  "grounded source_text texts \<longleftrightarrow> (\<forall>t \<in> set texts. set (latin_tokens t) \<subseteq> set (latin_tokens source_text))"

definition claim_ok :: "string \<Rightarrow> json \<Rightarrow> bool" where
  "claim_ok source_text v \<longleftrightarrow> (\<exists>m claim g qs x. v = JObject m \<and> set (map fst m) = set claim_fields \<and>
     JNull \<notin> set (map snd m) \<and> claim_parts m (claim, g, qs, x) \<and> grounded source_text (claim # x # qs))"

definition claim_grounded :: "string \<Rightarrow> string \<Rightarrow> validated_claim \<Rightarrow> bool" where
  "claim_grounded source_text source_ref c \<longleftrightarrow> \<not> blank (vl_claim c) \<and> (\<forall>q \<in> set (vl_questions c). \<not> blank q) \<and>
     vl_evidence_block c = source_ref \<and>
     grounded source_text (vl_claim c # vl_exclusion_scope c # vl_questions c)"

lemma grounded_iff: "\<not> latin_tokens_missing texts source_text \<longleftrightarrow> grounded source_text texts"
  by (auto simp: latin_tokens_missing_def grounded_def list_ex_iff)

lemma retry_same_route_Inl [simp]: "retry_same_route f \<noteq> Inr x"
  by (simp add: retry_same_route_def)

lemma non_empty_string_Inr [simp]: "non_empty_string v f = Inr s \<longleftrightarrow> v = JStr s \<and> \<not> blank s"
  by (auto simp: non_empty_string_def split: json.splits)

lemma string_value_Inr [simp]: "string_value v f = Inr s \<longleftrightarrow> v = JStr s"
  by (auto simp: string_value_def split: json.splits)

lemma granularity_not_blank [simp]: "\<not> blank (granularity_value g)"
  by (cases g) (simp_all, code_simp+)

lemma parse_granularity_Some: "parse_granularity s = Some g \<longleftrightarrow> s = granularity_value g"
  by (cases g) (auto simp: parse_granularity_def split: if_splits)

lemma parse_granularity_value [simp]: "parse_granularity (granularity_value g) = Some g"
  by (simp add: parse_granularity_Some)

lemma granularity_of_Inr [simp]: "granularity_of v = Inr g \<longleftrightarrow> v = JStr (granularity_value g)"
  by (auto simp: granularity_of_def split: json.splits option.splits if_splits) (simp add: parse_granularity_Some)

lemma possible_questions_Inr [simp]:
  "possible_questions v = Inr qs \<longleftrightarrow> v = JArray (map JStr qs) \<and> (\<forall>q \<in> set qs. \<not> blank q)"
proof -
  have "list_all2 (\<lambda>x y. x = JStr y \<and> \<not> blank y) vs qs \<longleftrightarrow> vs = map JStr qs \<and> (\<forall>q \<in> set qs. \<not> blank q)" for vs
    by (induction vs qs rule: list_induct2') auto
  then show ?thesis by (auto simp: possible_questions_def traverseE_Inr_iff split: json.splits)
qed

text \<open>Every failure of a helper asks for a retry on the same route.\<close>

definition retries :: "claim_validation + 'a \<Rightarrow> bool" where
  "retries r \<longleftrightarrow> (\<forall>x. r = Inl x \<longrightarrow> (\<exists>f. x = failure VD_RETRY_SAME_ROUTE f))"

lemma retries_bind: "retries m \<Longrightarrow> (\<And>x. m = Inr x \<Longrightarrow> retries (f x)) \<Longrightarrow> retries (bindE m f)"
  by (cases m) (auto simp: retries_def)

lemma retries_traverse: "(\<And>x. retries (f x)) \<Longrightarrow> retries (traverseE f xs)"
  by (induction xs) (auto intro!: retries_bind simp: retries_def [of "Inr _"])

lemma retries_parts [simp]:
  "retries (retry_same_route f)" "retries (Inr x)" "retries (non_empty_string v f)"
  "retries (string_value v f)" "retries (granularity_of v)" "retries (possible_questions v)"
  by (auto simp: retries_def retry_same_route_def non_empty_string_def string_value_def granularity_of_def
      split: json.splits option.splits if_splits)
    (auto simp: possible_questions_def retry_same_route_def non_empty_string_def
      split: json.splits if_splits dest!: retries_traverse [unfolded retries_def, rule_format, rotated])

lemma validate_claim_item_cases:
  assumes "\<not> blank source_ref"
  shows "if claim_ok source_text v
    then \<exists>c. validate_claim_item source_text source_ref v = Inr (Inr c) \<and> claim_grounded source_text source_ref c
    else \<exists>f. validate_claim_item source_text source_ref v = Inr (Inl (failure VD_RETRY_SAME_ROUTE f))"
proof (cases v)
  case (JObject m)
  let ?keys = "set (map fst m) = set claim_fields" and ?null = "JNull \<in> set (map snd m)"
  define body where "body = bindE (non_empty_string (claim_field m ''claim'') VF_CLAIM_TEXT_EMPTY) (\<lambda>claim.
         bindE (granularity_of (claim_field m ''granularity'')) (\<lambda>g.
         bindE (possible_questions (claim_field m ''possible_questions'')) (\<lambda>qs.
         bindE (string_value (claim_field m ''exclusion_scope'') VF_EXCLUSION_SCOPE_EMPTY) (\<lambda>x.
         if latin_tokens_missing (claim # x # qs) source_text
         then retry_same_route VF_LATIN_TEXT_NOT_SUPPORTED_BY_EVIDENCE
         else Inr \<lparr>vl_claim = claim, vl_granularity = g, vl_questions = qs, vl_exclusion_scope = x,
           vl_evidence_block = source_ref\<rparr>))))"
  have item: "validate_claim_item source_text source_ref v =
      (if \<not> ?keys then Inr (retry_same_route VF_CLAIM_FIELD_SET_INVALID)
       else if ?null then Inr (retry_same_route VF_CLAIM_FIELD_NULL)
       else case body of Inl f \<Rightarrow> Inr (Inl f) | Inr c \<Rightarrow> bindE (validated_claim_post_init c) (\<lambda>c. Inr (Inr c)))"
    by (simp add: validate_claim_item_def JObject body_def)
  have ok: "claim_ok source_text v \<longleftrightarrow> ?keys \<and> \<not> ?null \<and> (\<exists>c. body = Inr c)"
    unfolding claim_ok_def claim_parts_def JObject body_def
    by (simp add: grounded_iff [symmetric] split: if_splits) blast
  have body: "retries body" unfolding body_def by (intro retries_bind retries_parts) simp
  show ?thesis
  proof (cases "?keys \<and> \<not> ?null")
    case True
    show ?thesis
    proof (cases body)
      case (Inl f)
      with body obtain k where "f = failure VD_RETRY_SAME_ROUTE k" by (auto simp: retries_def)
      with Inl True ok item show ?thesis by auto
    next
      case (Inr c)
      then have c: "claim_grounded source_text source_ref c"
        unfolding body_def by (auto simp: claim_grounded_def grounded_iff split: if_splits)
      with assms have "validated_claim_post_init c = Inr c"
        by (auto simp: claim_grounded_def validated_claim_post_init_def list_ex_iff)
      with Inr True ok item c show ?thesis by simp
    qed
  next
    case False
    with ok item show ?thesis by (auto simp: retry_same_route_def)
  qed
qed (auto simp: validate_claim_item_def claim_ok_def retry_same_route_def)

lemma validate_claims_cases:
  assumes "\<not> blank source_ref"
  shows "if list_all (claim_ok source_text) vs
    then \<exists>cs. validate_claims source_text source_ref acc vs = validation_result_post_init
        \<lparr>vr_decision = VD_VALID_CLAIMS, vr_claims = acc @ cs, vr_failure = None\<rparr> \<and>
      length cs = length vs \<and> (\<forall>c \<in> set cs. claim_grounded source_text source_ref c)
    else \<exists>f. validate_claims source_text source_ref acc vs = Inr (failure VD_RETRY_SAME_ROUTE f)"
proof (induction vs arbitrary: acc)
  case (Cons v vs)
  show ?case
  proof (cases "claim_ok source_text v")
    case True
    with validate_claim_item_cases [OF assms, of source_text v] obtain c where
      c: "validate_claim_item source_text source_ref v = Inr (Inr c)" "claim_grounded source_text source_ref c"
      by auto
    show ?thesis
    proof (cases "list_all (claim_ok source_text) vs")
      case ok: True
      with Cons [of "acc @ [c]"] obtain cs where
        "validate_claims source_text source_ref (acc @ [c]) vs = validation_result_post_init
          \<lparr>vr_decision = VD_VALID_CLAIMS, vr_claims = acc @ c # cs, vr_failure = None\<rparr>"
        "length cs = length vs" "\<forall>c \<in> set cs. claim_grounded source_text source_ref c" by auto
      with True c ok show ?thesis by (auto intro!: exI [of _ "c # cs"])
    next
      case False
      with Cons [of "acc @ [c]"] True c show ?thesis by simp
    qed
  next
    case False
    with validate_claim_item_cases [OF assms, of source_text v] show ?thesis by auto
  qed
qed simp
section \<open>The contract of an answer\<close>

definition answer_claims :: "json \<Rightarrow> json list option" where
  "answer_claims v = (case v of
       JObject p \<Rightarrow> (case map_of p ''claims'' of Some (JArray vs) \<Rightarrow> Some vs | _ \<Rightarrow> None)
     | _ \<Rightarrow> None)"

definition answer_accepted :: "string \<Rightarrow> int \<Rightarrow> json \<Rightarrow> bool" where
  "answer_accepted source_text attempts v \<longleftrightarrow>
     (\<exists>vs. answer_claims v = Some vs \<and> (if vs = [] then 2 \<le> attempts else list_all (claim_ok source_text) vs))"

definition accepted_result :: "string \<Rightarrow> string \<Rightarrow> claim_validation \<Rightarrow> bool" where
  "accepted_result source_text source_ref r \<longleftrightarrow>
     vr_decision r = (if vr_claims r = [] then VD_VALID_EMPTY else VD_VALID_CLAIMS) \<and> vr_failure r = None \<and>
     (\<forall>c \<in> set (vr_claims r). claim_grounded source_text source_ref c)"

definition refused_result :: "claim_validation \<Rightarrow> bool" where
  "refused_result r \<longleftrightarrow> (\<exists>f. r = failure VD_RETRY_SAME_ROUTE f \<or> r = failure VD_RETRY_EMPTY_CLAIMS_CHECK_MODEL f)"

lemma validate_output_cases:
  assumes "\<not> blank (vc_source_ref c)"
  shows "\<exists>r. validate_output c = Inr r \<and>
    (if answer_accepted (vc_source_text c) (vc_empty_attempts c) (vc_payload c)
     then accepted_result (vc_source_text c) (vc_source_ref c) r \<and>
       answer_claims (vc_payload c) \<noteq> None \<and> length (vr_claims r) = length (the (answer_claims (vc_payload c)))
     else refused_result r)"
proof (cases "answer_claims (vc_payload c)")
  case None
  then obtain f where "validate_output c = Inr (failure VD_RETRY_SAME_ROUTE f)"
    by (auto simp: answer_claims_def validate_output_def split: json.splits option.splits)
  with None show ?thesis by (auto simp: answer_accepted_def refused_result_def)
next
  case (Some vs)
  then have v: "validate_output c = (if vs = [] then
      (if vc_empty_attempts c \<le> 0 then Inr (failure VD_RETRY_SAME_ROUTE VF_CLAIMS_EMPTY_RETRY_REQUIRED)
       else if vc_empty_attempts c = 1
       then Inr (failure VD_RETRY_EMPTY_CLAIMS_CHECK_MODEL VF_CLAIMS_EMPTY_RETRY_REQUIRED)
       else Inr \<lparr>vr_decision = VD_VALID_EMPTY, vr_claims = [], vr_failure = None\<rparr>)
      else validate_claims (vc_source_text c) (vc_source_ref c) [] vs)"
    by (auto simp: answer_claims_def validate_output_def validation_result_post_init_def
      split: json.splits option.splits)
  show ?thesis
  proof (cases "vs = []")
    case True
    with v Some show ?thesis by (auto simp: answer_accepted_def refused_result_def accepted_result_def)
  next
    case False
    show ?thesis
    proof (cases "list_all (claim_ok (vc_source_text c)) vs")
      case ok: True
      with validate_claims_cases [OF assms, of "vc_source_text c" vs "[]"] obtain cs where
        cs: "validate_claims (vc_source_text c) (vc_source_ref c) [] vs = validation_result_post_init
            \<lparr>vr_decision = VD_VALID_CLAIMS, vr_claims = cs, vr_failure = None\<rparr>"
          "length cs = length vs" "\<forall>x \<in> set cs. claim_grounded (vc_source_text c) (vc_source_ref c) x" by auto
      from cs(2) False have "cs \<noteq> []" by auto
      with cs v ok False Some show ?thesis
        by (simp add: validation_result_post_init_def answer_accepted_def accepted_result_def)
    next
      case no: False
      with validate_claims_cases [OF assms, of "vc_source_text c" vs "[]"] v False Some show ?thesis
        by (auto simp: answer_accepted_def refused_result_def)
    qed
  qed
qed

lemma failure_fields [simp]:
  "vr_decision (failure d f) = d" "vr_claims (failure d f) = []" "vr_failure (failure d f) = Some f"
  by (simp_all add: failure_def)

lemma failure_value_not_blank [simp]: "\<not> blank (validation_failure_value f)"
  by (cases f) (simp_all, code_simp+)

text \<open>Decision, action and dispatch result that follow an accepted and a refused validation.\<close>

definition judged :: "attempt_decision_command \<Rightarrow> py_error + dispatch_validation" where
  "judged c = bindE (decide_attempt c) (\<lambda>d. bindE (decide_next_action d) (\<lambda>a. decision_to_dispatch_result d a))"

lemma not_blank_texts [simp]: "\<not> blank ''valid_claims''" "\<not> blank ''valid_empty''"
  "\<not> blank ''claim_builder_output_validation_failed''"
  by code_simp+

definition completes :: "bool \<Rightarrow> bool \<Rightarrow> payload \<Rightarrow> bool" where
  "completes done persist m \<longleftrightarrow>
     map_of m ''claim_builder_should_mark_work_item_completed'' = Some (JBool done) \<and>
     map_of m ''claim_builder_should_persist_claims'' = Some (JBool persist)"

lemma decision_metadata_completes:
  "completes (na_should_complete a) (na_should_persist a) (decision_metadata d a)"
  by (simp add: completes_def decision_metadata_def)

lemma accepted_decision:
  assumes "accepted_result t u r"
  shows "decision_from_validation r = Inr \<lparr>at_outcome_kind = (if vr_claims r = [] then AK_VALID_EMPTY else AK_VALID_CLAIMS),
    at_validation_decision = Some (vr_decision r), at_validation_failure = None, at_claims = vr_claims r,
    at_next_model = None, at_retry_recommended = False\<rparr>"
  using assms by (cases "vr_claims r")
    (simp_all add: accepted_result_def decision_from_validation_def attempt_decision_post_init_def)

lemma judged_accepted:
  assumes "accepted_result t u r" "ad_validation c = Some r" "\<not> ad_truncated c"
    "\<not> (raw_output_missing (ad_raw_output c) \<and> ad_output_payload c = None)"
  shows "\<exists>v. judged c = Inr v \<and> dv_status v = OC_SUCCEEDED \<and> dv_claims v = Some (vr_claims r) \<and>
    completes True (vr_claims r \<noteq> []) (dv_metadata v)"
proof -
  let ?kind = "if vr_claims r = [] then AK_VALID_EMPTY else AK_VALID_CLAIMS"
  let ?d = "\<lparr>at_outcome_kind = ?kind, at_validation_decision = Some (vr_decision r), at_validation_failure = None,
    at_claims = vr_claims r, at_next_model = None, at_retry_recommended = False\<rparr>"
  have d: "decide_attempt c = Inr ?d"
    using assms(2-4) accepted_decision [OF assms(1)] by (simp only: decide_attempt_def Let_def if_False option.case refl)
  obtain a where a: "decide_next_action ?d = Inr a" "na_should_complete a" "na_should_persist a = (vr_claims r \<noteq> [])"
    by (cases "vr_claims r") (simp_all add: decide_next_action_def next_action_post_init_def del: blank_Cons)
  have "decision_to_dispatch_result ?d a = Inr \<lparr>dv_status = OC_SUCCEEDED, dv_error_kind = None,
      dv_metadata = decision_metadata ?d a, dv_claims = Some (vr_claims r)\<rparr>"
    by (simp add: decision_to_dispatch_result_def dispatch_validation_post_init_def)
  with d a decision_metadata_completes [of a ?d] show ?thesis by (simp add: judged_def)
qed

definition retry_kind :: "attempt_outcome_kind \<Rightarrow> bool" where
  "retry_kind k \<longleftrightarrow> k \<noteq> AK_VALID_CLAIMS \<and> k \<noteq> AK_VALID_EMPTY \<and> k \<noteq> AK_TERMINAL_INVALID"

lemma refused_decision:
  assumes "ad_truncated c \<or> (\<exists>r. ad_validation c = Some r \<and> refused_result r)"
  shows "\<exists>d. decide_attempt c = Inr d \<and> retry_kind (at_outcome_kind d) \<and> at_claims d = [] \<and>
    (\<exists>f. at_validation_failure d = Some f)"
proof (cases "ad_truncated c")
  case True
  then show ?thesis by (simp add: decide_attempt_def attempt_decision_post_init_def retry_kind_def)
next
  case False
  with assms obtain r f where r: "ad_validation c = Some r"
    "r = failure VD_RETRY_SAME_ROUTE f \<or> r = failure VD_RETRY_EMPTY_CLAIMS_CHECK_MODEL f"
    by (auto simp: refused_result_def)
  then have "\<exists>d. decision_from_validation r = Inr d \<and> retry_kind (at_outcome_kind d) \<and> at_claims d = [] \<and>
      (\<exists>f. at_validation_failure d = Some f)"
    by (elim disjE) (simp_all add: decision_from_validation_def retry_decision_def
      attempt_decision_post_init_def retry_kind_def)
  with False r(1) show ?thesis
    by (auto simp: decide_attempt_def attempt_decision_post_init_def retry_kind_def Let_def)
qed

lemma retry_action_Inr:
  assumes "at_validation_failure d = Some f" "k \<noteq> NA_PERSIST_VALID_CLAIMS" "k \<noteq> NA_ACCEPT_VALID_EMPTY"
  shows "\<exists>a. retry_action k d s = Inr a \<and> \<not> na_should_complete a \<and> \<not> na_should_persist a"
  using assms by (simp add: retry_action_def next_action_post_init_def action_reason_def)

lemma judged_refused:
  assumes "ad_truncated c \<or> (\<exists>r. ad_validation c = Some r \<and> refused_result r)"
  shows "\<exists>v. judged c = Inr v \<and> dv_status v = OC_RETRYABLE_FAILED \<and> dv_claims v = Some [] \<and>
    completes False False (dv_metadata v)"
proof -
  obtain d f where d: "decide_attempt c = Inr d" "retry_kind (at_outcome_kind d)" "at_claims d = []"
    "at_validation_failure d = Some f" using refused_decision [OF assms] by blast
  obtain a where a: "decide_next_action d = Inr a" "\<not> na_should_complete a" "\<not> na_should_persist a"
    using d(2) retry_action_Inr [OF d(4)]
    by (cases "at_outcome_kind d") (auto simp: decide_next_action_def retry_kind_def)
  have "decision_to_dispatch_result d a = Inr \<lparr>dv_status = OC_RETRYABLE_FAILED,
      dv_error_kind = Some ''claim_builder_output_validation_failed'',
      dv_metadata = decision_metadata d a, dv_claims = Some []\<rparr>"
    using d(2,3) by (simp add: decision_to_dispatch_result_def dispatch_validation_post_init_def retry_kind_def del: blank_Cons)
  with d(1) a decision_metadata_completes [of a d] show ?thesis by (simp add: judged_def)
qed

section \<open>The judgement of an answer\<close>

lemma kept_text_not_blank: "strip s \<noteq> [] \<Longrightarrow> \<not> blank (strip s)"
  using blank_def by (metis blank_iff list_all_iff strip_def dropWhile_eq_Nil_conv rev_is_Nil_conv set_rev hd_dropWhile hd_in_set)

lemma non_blank_text_Some: "non_blank_text v = Some s \<Longrightarrow> \<not> blank s"
  by (auto simp: non_blank_text_def split: option.splits json.splits if_splits)

lemma optional_mapping_text_Some: "optional_mapping_text p k = Inr (Some v) \<Longrightarrow> \<not> blank v"
  by (auto simp: optional_mapping_text_def split: option.splits dest: non_blank_text_Some)

lemma source_ref_lines_not_blank: "v \<in> set (source_ref_lines s) \<Longrightarrow> \<not> blank v"
  by (auto simp: source_ref_lines_def dest!: kept_text_not_blank)

lemma first_source_ref_not_blank: "concat (map source_ref_lines ms) = v # vs \<Longrightarrow> \<not> blank v"
proof -
  assume "concat (map source_ref_lines ms) = v # vs"
  then have "v \<in> set (concat (map source_ref_lines ms))" by simp
  then show ?thesis using source_ref_lines_not_blank by (simp only: set_concat set_map) blast
qed

lemma source_ref_not_blank:
  assumes "dispatch_source_unit_ref d = Inr u"
  shows "\<not> blank u"
proof -
  from assms obtain p direct where p: "optional_mapping_text p ''source_unit_ref'' = Inr direct"
    "(case direct of Some v \<Rightarrow> Inr v | None \<Rightarrow> (case provider_messages p of
         None \<Rightarrow> Inl (ValueError ''schedule_payload provider_messages must be list'')
       | Some ms \<Rightarrow> (case concat (map source_ref_lines (List.map_filter message_content ms)) of
           v # _ \<Rightarrow> Inr v
         | [] \<Rightarrow> Inl (ValueError ''source_unit_ref missing from claim builder dispatch payload'')))) = Inr u"
    unfolding dispatch_source_unit_ref_def by (elim bindE_InrE)
  show ?thesis
  proof (cases direct)
    case None
    with p(2) obtain ms vs where "concat (map source_ref_lines (List.map_filter message_content ms)) = u # vs"
      by (simp split: option.splits list.splits)
    then show ?thesis by (rule first_source_ref_not_blank)
  next
    case (Some v)
    with p show ?thesis using optional_mapping_text_Some by simp
  qed
qed

lemma dispatch_texts_not_blank:
  "dispatch_workflow_run_id d = Inr v \<Longrightarrow> \<not> blank v"
  "dispatch_work_item_id d = Inr v \<Longrightarrow> \<not> blank v"
  "\<not> blank (dispatch_attempt_id d)"
  "dispatch_provider d = Inr v \<Longrightarrow> \<not> blank v"
  "dispatch_model_ref d = Inr v \<Longrightarrow> \<not> blank v"
proof -
  have texts: "\<not> blank ''unknown-workflow-run''" "\<not> blank ''unknown-dispatch-attempt''" by code_simp+
  have "\<not> blank (case non_blank_text x of Some v \<Rightarrow> v | None \<Rightarrow> w)" if "\<not> blank w" for x w
    using that by (cases "non_blank_text x") (auto dest: non_blank_text_Some)
  with texts show "dispatch_workflow_run_id d = Inr v \<Longrightarrow> \<not> blank v" "\<not> blank (dispatch_attempt_id d)"
    by (auto simp only: dispatch_workflow_run_id_def dispatch_attempt_id_def bindE_Inr_iff sum.inject)
  have some: "(case non_blank_text x of Some v \<Rightarrow> Inr v | None \<Rightarrow> Inl e) = Inr v \<Longrightarrow> \<not> blank v" for x and e :: py_error
    by (cases "non_blank_text x") (auto dest: non_blank_text_Some)
  then show "dispatch_work_item_id d = Inr v \<Longrightarrow> \<not> blank v" "dispatch_provider d = Inr v \<Longrightarrow> \<not> blank v"
    "dispatch_model_ref d = Inr v \<Longrightarrow> \<not> blank v"
    by (auto simp only: dispatch_work_item_id_def dispatch_provider_def dispatch_model_ref_def bindE_Inr_iff)
qed

lemma source_ref_schedule: "dispatch_source_unit_ref d = Inr u \<Longrightarrow> \<exists>run. dispatch_workflow_run_id d = Inr run"
  by (auto simp: dispatch_source_unit_ref_def dispatch_workflow_run_id_def)

text \<open>The decoded answer with its validation, and the command of the decision.\<close>

definition output_judgement :: "(string \<Rightarrow> json option) \<Rightarrow> string \<Rightarrow> string \<Rightarrow> payload option \<Rightarrow> int \<Rightarrow>
    py_error + (claim_validation \<times> json option)" where
  "output_judgement loads t u out attempt = (case decoded_output loads out of
     Inl f \<Rightarrow> Inr (f, None)
   | Inr v \<Rightarrow>
       bindE (validation_command_post_init
         \<lparr>vc_payload = v, vc_source_text = t, vc_source_ref = u, vc_empty_attempts = max (attempt - 1) 0\<rparr>) (\<lambda>c.
       bindE (validate_output c) (\<lambda>r. Inr (r, Some v))))"

definition answer_ok :: "(string \<Rightarrow> json option) \<Rightarrow> string \<Rightarrow> payload option \<Rightarrow> int \<Rightarrow> bool" where
  "answer_ok loads t out attempt \<longleftrightarrow> \<not> is_output_truncated out \<and>
     (\<exists>v. decoded_output loads out = Inr v \<and> answer_accepted t (attempt - 1) v)"

lemma decoded_refused: "decoded_output loads out = Inl f \<Longrightarrow> refused_result f"
  by (auto simp: decoded_output_def refused_result_def retry_same_route_def split: option.splits)

lemma decoded_null: "answer_accepted t n v \<Longrightarrow> v \<noteq> JNull"
  by (auto simp: answer_accepted_def answer_claims_def)

lemma output_judgement_value:
  assumes "\<not> blank u" "1 \<le> attempt"
  shows "\<exists>r v. output_judgement loads t u out attempt = Inr (r, v) \<and>
    (if \<exists>v. decoded_output loads out = Inr v \<and> answer_accepted t (attempt - 1) v
     then accepted_result t u r \<and> v \<noteq> None \<and> v \<noteq> Some JNull else refused_result r)"
proof (cases "decoded_output loads out")
  case (Inl f)
  then show ?thesis by (auto simp: output_judgement_def dest: decoded_refused)
next
  case (Inr v)
  let ?c = "\<lparr>vc_payload = v, vc_source_text = t, vc_source_ref = u, vc_empty_attempts = max (attempt - 1) 0\<rparr>"
  have "validation_command_post_init ?c = Inr ?c" using assms by (simp add: validation_command_post_init_def)
  moreover have "max (attempt - 1) 0 = attempt - 1" using assms by simp
  ultimately show ?thesis using Inr validate_output_cases [of ?c] assms decoded_null
    by (auto simp: output_judgement_def split: if_splits)
qed

lemma validate_dispatch_output_value:
  assumes "source_context_text d = Inr t" "dispatch_source_unit_ref d = Inr u" "dispatch_workflow_run_id d = Inr run"
    "dispatch_work_item_id d = Inr i" "dispatch_provider d = Inr p" "dispatch_model_ref d = Inr m" "1 \<le> attempt"
    "output_judgement loads t u out attempt = Inr (r, v)"
  shows "validate_dispatch_output loads d out OC_SUCCEEDED attempt = judged
     \<lparr>ad_run = run, ad_work_item_id = i, ad_attempt_id = dispatch_attempt_id d,
      ad_attempt_number = attempt, ad_provider = p, ad_model_ref = m,
      ad_output_payload = (if v = Some JNull then None else v), ad_raw_output = raw_output_text out,
      ad_source_text = t, ad_truncated = is_output_truncated out, ad_validation = Some r\<rparr>"
proof -
  let ?c = "\<lparr>ad_run = run, ad_work_item_id = i, ad_attempt_id = dispatch_attempt_id d,
      ad_attempt_number = attempt, ad_provider = p, ad_model_ref = m,
      ad_output_payload = (if v = Some JNull then None else v), ad_raw_output = raw_output_text out,
      ad_source_text = t, ad_truncated = is_output_truncated out, ad_validation = Some r\<rparr>"
  have "attempt_decision_command_post_init ?c = Inr ?c"
    using assms dispatch_texts_not_blank by (simp add: attempt_decision_command_post_init_def)
  moreover have "(case decoded_output loads out of
            Inl f \<Rightarrow> Inr (f, None)
          | Inr v \<Rightarrow> bindE (source_context_text d) (\<lambda>t. bindE (dispatch_source_unit_ref d) (\<lambda>u.
              bindE (validation_command_post_init
                \<lparr>vc_payload = v, vc_source_text = t, vc_source_ref = u, vc_empty_attempts = max (attempt - 1) 0\<rparr>) (\<lambda>c.
              bindE (validate_output c) (\<lambda>r. Inr (r, Some v)))))) = Inr (r, v)"
    using assms by (cases "decoded_output loads out") (simp_all add: output_judgement_def)
  ultimately show ?thesis using assms by (simp add: validate_dispatch_output_def judged_def)
qed

text \<open>
  C18. The validator of the claim builder judges every answer to a readable dispatch, and never raises.
  The attempt succeeds exactly when the answer was not cut off and either every claim of it meets the
  contract (the four fields, texts that are not blank, and no Latin word that the source text does
  not have) or it has no claims and this is the third attempt or a later one; otherwise it is to be
  retried. The item is completed exactly when the attempt succeeded, and claims are stored exactly when
  there are some, each under the reference of the source unit. No answer ends the item, and only the number of
  the attempt decides whether an empty answer is accepted: after two attempts that failed for other
  reasons the first empty answer is final.
\<close>

theorem claim_builder_answer_judged:
  assumes "source_context_text d = Inr t" "dispatch_source_unit_ref d = Inr u"
    "dispatch_work_item_id d = Inr i" "dispatch_provider d = Inr p" "dispatch_model_ref d = Inr m" "1 \<le> attempt"
  shows "\<exists>v cs. validate_dispatch_output loads d out OC_SUCCEEDED attempt = Inr v \<and>
    dv_status v = (if answer_ok loads t out attempt then OC_SUCCEEDED else OC_RETRYABLE_FAILED) \<and>
    dv_claims v = Some cs \<and> (\<forall>c \<in> set cs. claim_grounded t u c) \<and>
    completes (answer_ok loads t out attempt) (cs \<noteq> []) (dv_metadata v)"
proof -
  obtain run where run: "dispatch_workflow_run_id d = Inr run" using source_ref_schedule [OF assms(2)] by blast
  obtain r v where j: "output_judgement loads t u out attempt = Inr (r, v)"
    "if \<exists>v. decoded_output loads out = Inr v \<and> answer_accepted t (attempt - 1) v
     then accepted_result t u r \<and> v \<noteq> None \<and> v \<noteq> Some JNull else refused_result r"
    using output_judgement_value [OF source_ref_not_blank [OF assms(2)] assms(6)] by blast
  let ?c = "\<lparr>ad_run = run, ad_work_item_id = i, ad_attempt_id = dispatch_attempt_id d,
      ad_attempt_number = attempt, ad_provider = p, ad_model_ref = m,
      ad_output_payload = (if v = Some JNull then None else v), ad_raw_output = raw_output_text out,
      ad_source_text = t, ad_truncated = is_output_truncated out, ad_validation = Some r\<rparr>"
  have eq: "validate_dispatch_output loads d out OC_SUCCEEDED attempt = judged ?c"
    by (rule validate_dispatch_output_value [OF assms(1,2) run assms(3-6) j(1)])
  show ?thesis
  proof (cases "answer_ok loads t out attempt")
    case True
    with j(2) have ok: "accepted_result t u r" "v \<noteq> None" "v \<noteq> Some JNull" "\<not> is_output_truncated out"
      by (auto simp: answer_ok_def split: if_splits)
    then have "\<exists>w. judged ?c = Inr w \<and> dv_status w = OC_SUCCEEDED \<and> dv_claims w = Some (vr_claims r) \<and>
        completes True (vr_claims r \<noteq> []) (dv_metadata w)" by (intro judged_accepted) auto
    with eq True ok(1) show ?thesis by (auto simp: accepted_result_def)
  next
    case False
    with j(2) have "is_output_truncated out \<or> refused_result r" by (auto simp: answer_ok_def split: if_splits)
    then have "\<exists>w. judged ?c = Inr w \<and> dv_status w = OC_RETRYABLE_FAILED \<and> dv_claims w = Some [] \<and>
        completes False False (dv_metadata w)" by (intro judged_refused) auto
    with eq False show ?thesis by auto
  qed
qed

section \<open>An answer that is accepted\<close>

definition dispatch_payload1 :: payload where
  "dispatch_payload1 = [(''work_item_id'', JStr ''w1''), (''llm_allocation'', JObject [(''provider'', JStr ''groq''),
      (''model_ref'', JStr ''m''), (''account_ref'', JStr ''a'')]),
     (''schedule_payload'', JObject [(''workflow_run_id'', JStr ''run''), (''source_unit_ref'', JStr ''u1''),
       (''provider_messages'', JArray [JObject [(''role'', JStr ''user''), (''content'', JStr ''Use GPT here'')]])])]"

definition answer1 :: payload where
  "answer1 = [(''claims'', JArray [JObject [(''claim'', JStr ''GPT''), (''granularity'', JStr ''atomic''),
      (''possible_questions'', JArray [JStr ''Use GPT?'']), (''exclusion_scope'', JStr [])]])]"

theorem claim_builder_answer_judged_witness:
  "\<exists>v cs. validate_dispatch_output (\<lambda>_. None) dispatch_payload1 (Some answer1) OC_SUCCEEDED 1 = Inr v \<and>
    dv_status v = (if answer_ok (\<lambda>_. None) ''Use GPT here'' (Some answer1) 1 then OC_SUCCEEDED else OC_RETRYABLE_FAILED) \<and>
    dv_claims v = Some cs \<and> (\<forall>c \<in> set cs. claim_grounded ''Use GPT here'' ''u1'' c) \<and>
    completes (answer_ok (\<lambda>_. None) ''Use GPT here'' (Some answer1) 1) (cs \<noteq> []) (dv_metadata v)"
proof -
  have "source_context_text dispatch_payload1 = Inr ''Use GPT here''" by code_simp
  moreover have "dispatch_source_unit_ref dispatch_payload1 = Inr ''u1''" by code_simp
  moreover have "dispatch_work_item_id dispatch_payload1 = Inr ''w1''" by code_simp
  moreover have "dispatch_provider dispatch_payload1 = Inr ''groq''" by code_simp
  moreover have "dispatch_model_ref dispatch_payload1 = Inr ''m''" by code_simp
  ultimately show ?thesis by (rule claim_builder_answer_judged) simp
qed

lemma answer1_accepted: "dv_status (projr (validate_dispatch_output (\<lambda>_. None) dispatch_payload1 (Some answer1)
    OC_SUCCEEDED 1)) = OC_SUCCEEDED"
  by code_simp

end
