(* ===== verification/DispatchAttempt.thy ===== *)
theory DispatchAttempt
  imports ExecReadback ClaimOutput
begin

text \<open>
  Executing a prepared dispatch attempt (\<open>interfaces/composition/execute_prepared_llm_dispatch_attempt.py\<close>)
  over the tables of the execution runtime: the dispatch is read
  (\<open>postgres_work_item_attempt_dispatch_read_repository.py\<close>), a recorded outcome is replayed, and
  otherwise the model is called, its answer validated and the outcome recorded
  (\<open>record_work_item_attempt_outcome.py\<close>). The executor of the model calls (\<open>llm_dispatch_executor_port.py\<close>)
  and the validator of the answer are parameters. The end of the theory holds the functions of
  \<open>handle_execute_claim_builder_section_command.py\<close> that read the result. Logging is left out.
\<close>

section \<open>Reading the dispatch\<close>

record dispatch_for_execution =
  fx_attempt_id :: string
  fx_work_item_id :: string
  fx_attempt_number :: int
  fx_lease_token :: lease_token
  fx_worker_ref :: string
  fx_payload :: payload
  fx_started_at :: datetime

definition dispatch_for_execution_post_init :: "dispatch_for_execution \<Rightarrow> py_error + dispatch_for_execution" where
  "dispatch_for_execution_post_init d =
     (if blank (fx_attempt_id d) then Inl (ValueError ''attempt_id must be non-empty'')
      else if blank (fx_work_item_id d) then Inl (ValueError ''work_item_id must be non-empty'')
      else if fx_attempt_number d \<le> 0 then Inl (ValueError ''attempt_number must be > 0'')
      else if blank (fx_worker_ref d) then Inl (ValueError ''worker_ref must be non-empty'')
      else if \<not> tz_aware (fx_started_at d) then Inl (ValueError ''started_at must be timezone-aware'')
      else Inr d)"

definition dispatch_row_text :: "string \<Rightarrow> string \<Rightarrow> py_error + string" where
  "dispatch_row_text key v = (if blank v then Inl (ValueError (key @ '' must be non-empty'')) else Inr v)"

definition get_dispatch_for_execution :: "string \<Rightarrow> exec_db \<Rightarrow> py_error + dispatch_for_execution option" where
  "get_dispatch_for_execution attempt_id db =
     (case List.find (\<lambda>d. dr_attempt_id d = attempt_id) (db_dispatches db) of
        None \<Rightarrow> Inr None
      | Some d \<Rightarrow> (case List.find (\<lambda>a. ar_attempt_id a = attempt_id) (db_attempts db) of
          None \<Rightarrow> Inr None
        | Some a \<Rightarrow>
            bindE (dispatch_row_text ''attempt_id'' (dr_attempt_id d)) (\<lambda>i.
            bindE (dispatch_row_text ''work_item_id'' (dr_work_item_id d)) (\<lambda>w.
            bindE (dispatch_row_text ''lease_token'' (dr_lease_token d)) (\<lambda>k.
            bindE (mk_lease_token k) (\<lambda>token.
            bindE (dispatch_row_text ''worker_ref'' (dr_worker_ref d)) (\<lambda>worker.
            bindE (dispatch_for_execution_post_init
              \<lparr>fx_attempt_id = i, fx_work_item_id = w, fx_attempt_number = dr_attempt_number d,
               fx_lease_token = token, fx_worker_ref = worker, fx_payload = dr_dispatch_payload d,
               fx_started_at = Aware (ar_started_at a)\<rparr>) (\<lambda>x. Inr (Some x)))))))))"

section \<open>The call of the model\<close>

record llm_input =
  li_attempt_id :: string
  li_work_item_id :: string
  li_attempt_number :: int
  li_payload :: payload
  li_started_at :: datetime

definition required_dispatch_keys :: "string list" where
  "required_dispatch_keys = [''llm_allocation'', ''llm_execution_settings'', ''schedule_payload'', ''work_item_id'']"

definition llm_input_post_init :: "llm_input \<Rightarrow> py_error + llm_input" where
  "llm_input_post_init i =
     (if blank (li_attempt_id i) then Inl (ValueError ''attempt_id must be non-empty'')
      else if blank (li_work_item_id i) then Inl (ValueError ''work_item_id must be non-empty'')
      else if li_attempt_number i \<le> 0 then Inl (ValueError ''attempt_number must be > 0'')
      else let missing = filter (\<lambda>k. map_of (li_payload i) k = None) required_dispatch_keys in
        if missing \<noteq> [] then Inl (ValueError (''dispatch_payload missing required keys: '' @ join '', '' missing))
        else if \<not> tz_aware (li_started_at i) then Inl (ValueError ''started_at must be timezone-aware'')
        else Inr i)"

record llm_result =
  lx_status :: attempt_outcome_status
  lx_finished_at :: datetime
  lx_output :: "payload option"
  lx_error_kind :: "string option"
  lx_observation :: "payload option"

definition llm_result_post_init :: "llm_result \<Rightarrow> py_error + llm_result" where
  "llm_result_post_init r =
     (if \<not> tz_aware (lx_finished_at r) then Inl (ValueError ''finished_at must be timezone-aware'')
      else if (case lx_error_kind r of Some e \<Rightarrow> blank e | None \<Rightarrow> False)
      then Inl (ValueError ''error_kind must be non-empty'')
      else if lx_status r = OC_SUCCEEDED then
        (if lx_output r = None then Inl (ValueError ''output_payload is required for succeeded result'')
         else if lx_error_kind r \<noteq> None then Inl (ValueError ''error_kind must be None for succeeded result'')
         else Inr r)
      else if lx_error_kind r = None then Inl (ValueError ''error_kind is required for failed results'')
      else Inr r)"

type_synonym llm_executor = "llm_input \<Rightarrow> py_error + llm_result"
type_synonym output_validator =
  "payload \<Rightarrow> payload option \<Rightarrow> attempt_outcome_status \<Rightarrow> int \<Rightarrow> py_error + dispatch_validation"

definition validate_output_if_requested :: "output_validator option \<Rightarrow> dispatch_for_execution \<Rightarrow> llm_result \<Rightarrow>
    py_error + dispatch_validation option" where
  "validate_output_if_requested validator d p = (case validator of
       None \<Rightarrow> Inr None
     | Some v \<Rightarrow> if lx_status p \<noteq> OC_SUCCEEDED then Inr None
         else bindE (v (fx_payload d) (lx_output p) (lx_status p) (fx_attempt_number d)) (\<lambda>r. Inr (Some r)))"

definition effective_llm_result :: "llm_result \<Rightarrow> dispatch_validation option \<Rightarrow> py_error + llm_result" where
  "effective_llm_result p v = (case v of
       None \<Rightarrow> Inr p
     | Some r \<Rightarrow> llm_result_post_init
         \<lparr>lx_status = dv_status r, lx_finished_at = lx_finished_at p, lx_output = lx_output p,
          lx_error_kind = dv_error_kind r, lx_observation = lx_observation p\<rparr>)"

section \<open>The retry plan\<close>

definition retry_plan_from_validation :: "payload option \<Rightarrow> work_item_retry_plan option" where
  "retry_plan_from_validation m = (case m of None \<Rightarrow> None | Some p \<Rightarrow>
     (case map_of p ''claim_builder_attempt_next_action_kind'' of
        Some (JStr k) \<Rightarrow>
          if k = ''RETRY_SAME_ROUTE'' then Some RETRY_SAME_ROUTE
          else if k = ''RETRY_EMPTY_CLAIMS_CHECK_MODEL'' then Some RETRY_VALIDATION_CHECK_ROUTE
          else if k = ''RETRY_FALLBACK_MODEL'' then Some RETRY_DAILY_FALLBACK_ROUTE
          else if k = ''RETRY_LARGER_OUTPUT_LIMIT_MODEL'' then Some RETRY_LARGER_OUTPUT_LIMIT_ROUTE
          else if k = ''RETRY_LARGER_INPUT_LIMIT_MODEL'' then Some RETRY_LARGER_INPUT_LIMIT_ROUTE
          else if k = ''DEFER_UNTIL_CAPACITY_RESET'' then Some WAIT_NEAREST_ADMISSION_WINDOW
          else if k = ''PAUSE_FOR_DAILY_LIMIT_RESET'' then Some WAIT_DAILY_ADMISSION_RESET
          else if k = ''SPLIT_WORK_PAYLOAD'' then Some SPLIT_WORK_PAYLOAD
          else if k = ''TERMINAL_FAILURE'' then Some RETRY_PLAN_TERMINAL
          else None
      | _ \<Rightarrow> None))"

definition retry_plan_for_result :: "llm_result \<Rightarrow> payload option \<Rightarrow> work_item_retry_plan option" where
  "retry_plan_for_result l m =
     (if lx_status l = OC_SUCCEEDED \<or> lx_status l = OC_TERMINAL_FAILED then None
      else (case retry_plan_from_validation m of
          Some p \<Rightarrow> Some p
        | None \<Rightarrow>
            if lx_error_kind l = Some ''request_too_large'' then Some RETRY_LARGER_INPUT_LIMIT_ROUTE
            else if lx_error_kind l = Some ''output_too_large'' then Some RETRY_LARGER_OUTPUT_LIMIT_ROUTE
            else if lx_error_kind l = Some ''daily_limit'' then Some RETRY_DAILY_FALLBACK_ROUTE
            else if lx_error_kind l = Some ''minute_limit'' then Some WAIT_NEAREST_ADMISSION_WINDOW
            else Some RETRY_SAME_ROUTE))"

text \<open>Keys that start with an underscore are not recorded, \<open>_validated_claims\<close> among them.\<close>

definition recordable_metadata :: "payload \<Rightarrow> payload" where
  "recordable_metadata m = filter (\<lambda>(k, _). take 1 k \<noteq> ''_'') m"

section \<open>Executing the attempt\<close>

record attempt_execution =
  ax_dispatch :: dispatch_for_execution
  ax_llm :: llm_result
  ax_item :: work_item
  ax_metadata :: "(payload \<times> validated_claim list option) option"

definition outcome_of_result :: "dispatch_for_execution \<Rightarrow> payload option \<Rightarrow> llm_result \<Rightarrow> dispatch_validation option \<Rightarrow>
    outcome_record" where
  "outcome_of_result d output l v =
     \<lparr>oc_attempt_id = fx_attempt_id d, oc_work_item_id = fx_work_item_id d,
      oc_attempt_number = fx_attempt_number d, oc_lease_token = fx_lease_token d,
      oc_finished_at = lx_finished_at l, oc_outcome_status = lx_status l, oc_error_kind = lx_error_kind l,
      oc_retry_plan = retry_plan_for_result l (map_option dv_metadata v),
      oc_validation_metadata = map_option (\<lambda>r. recordable_metadata (dv_metadata r)) v,
      oc_llm_output_payload = output\<rparr>"

definition record_outcome_use_case :: "utc \<Rightarrow> outcome_record \<Rightarrow> exec_db \<Rightarrow> py_error + (work_item \<times> exec_db)" where
  "record_outcome_use_case db_now r db =
     bindE (outcome_record_post_init r) (\<lambda>r. record_attempt_outcome db_now r db)"

definition result_from_recorded :: "recorded_outcome \<Rightarrow> py_error + llm_result" where
  "result_from_recorded r = llm_result_post_init
     \<lparr>lx_status = ro_outcome_status r, lx_finished_at = ro_finished_at r,
      lx_output = (if ro_outcome_status r = OC_SUCCEEDED then Some [(''already_recorded'', JBool True)] else None),
      lx_error_kind = ro_error_kind r, lx_observation = None\<rparr>"

definition execute_fresh_attempt :: "utc \<Rightarrow> llm_executor \<Rightarrow> output_validator option \<Rightarrow> dispatch_for_execution \<Rightarrow>
    exec_db \<Rightarrow> py_error + (attempt_execution \<times> exec_db)" where
  "execute_fresh_attempt db_now llm validator d db =
     bindE (llm_input_post_init
       \<lparr>li_attempt_id = fx_attempt_id d, li_work_item_id = fx_work_item_id d,
        li_attempt_number = fx_attempt_number d, li_payload = fx_payload d, li_started_at = fx_started_at d\<rparr>) (\<lambda>i.
     bindE (llm i) (\<lambda>p.
     bindE (validate_output_if_requested validator d p) (\<lambda>v.
     bindE (effective_llm_result p v) (\<lambda>l.
     bindE (record_outcome_use_case db_now (outcome_of_result d (lx_output p) l v) db) (\<lambda>(t, db').
       Inr (\<lparr>ax_dispatch = d, ax_llm = l, ax_item = t,
         ax_metadata = map_option (\<lambda>r. (dv_metadata r, dv_claims r)) v\<rparr>, db'))))))"

definition execute_prepared_attempt :: "utc \<Rightarrow> bool \<Rightarrow> llm_executor \<Rightarrow> output_validator option \<Rightarrow> string \<Rightarrow>
    exec_db \<Rightarrow> py_error + (attempt_execution \<times> exec_db)" where
  "execute_prepared_attempt db_now has_reader llm validator attempt_id db =
     (if blank attempt_id then Inl (ValueError ''attempt_id must be non-empty'')
      else
        bindE (get_dispatch_for_execution attempt_id db) (\<lambda>found. case found of
          None \<Rightarrow> Inl (ValueError ''dispatch attempt not found'')
        | Some d \<Rightarrow>
            bindE (if has_reader then get_recorded_attempt_outcome (fx_attempt_id d) db else Inr None) (\<lambda>recorded.
            case recorded of
              Some r \<Rightarrow> bindE (result_from_recorded r) (\<lambda>l.
                Inr (\<lparr>ax_dispatch = d, ax_llm = l, ax_item = ro_work_item r,
                  ax_metadata = map_option (\<lambda>m. (m, None)) (ro_validation_metadata r)\<rparr>, db))
            | None \<Rightarrow> execute_fresh_attempt db_now llm validator d db)))"

section \<open>What the handler reads from the result\<close>

definition metadata_flag :: "string \<Rightarrow> (payload \<times> validated_claim list option) option \<Rightarrow> bool" where
  "metadata_flag key m = (case m of None \<Rightarrow> False | Some (p, _) \<Rightarrow> map_of p key = Some (JBool True))"

definition should_mark_work_item_completed :: "(payload \<times> validated_claim list option) option \<Rightarrow> bool" where
  "should_mark_work_item_completed m = metadata_flag ''claim_builder_should_mark_work_item_completed'' m"

definition should_persist_claims :: "(payload \<times> validated_claim list option) option \<Rightarrow> bool" where
  "should_persist_claims m \<longleftrightarrow> (case m of None \<Rightarrow> False
     | Some (p, _) \<Rightarrow> map_of p ''claim_builder_attempt_next_action_kind'' = Some (JStr ''PERSIST_VALID_CLAIMS'')) \<and>
     metadata_flag ''claim_builder_should_persist_claims'' m"

definition validated_claims_from_metadata :: "(payload \<times> validated_claim list option) option \<Rightarrow> validated_claim list" where
  "validated_claims_from_metadata m = (case m of Some (_, Some cs) \<Rightarrow> cs | _ \<Rightarrow> [])"

text \<open>\<open>_persist_validated_draft_claims\<close>: the claims handed to the persistence port.\<close>

definition claims_to_persist :: "(payload \<times> validated_claim list option) option \<Rightarrow> validated_claim list" where
  "claims_to_persist m = (if should_persist_claims m then validated_claims_from_metadata m else [])"

definition provider_retry_row :: "attempt_outcome_kind \<Rightarrow> next_action_kind \<Rightarrow> string \<Rightarrow> json \<Rightarrow> bool \<Rightarrow> payload" where
  "provider_retry_row k a reason strategy again =
     [(''claim_builder_attempt_outcome_kind'', JStr (attempt_outcome_kind_value k)),
      (''claim_builder_attempt_next_action_kind'', JStr (next_action_kind_value a)),
      (''claim_builder_attempt_next_action_reason'', JStr reason),
      (''claim_builder_attempt_next_model_strategy'', strategy),
      (''claim_builder_should_persist_claims'', JBool False),
      (''claim_builder_should_mark_work_item_completed'', JBool False),
      (''claim_builder_requires_source_split'', JBool False),
      (''claim_builder_next_run_after'', JNull), (''validation_decision'', JNull),
      (''validation_failure_reason'', JNull), (''validated_claim_count'', JInt 0),
      (''next_model_strategy'', strategy), (''retry_recommended'', JBool again)]"

definition provider_retry_metadata :: "string option \<Rightarrow> payload option" where
  "provider_retry_metadata error = (case error of None \<Rightarrow> None | Some e \<Rightarrow>
     if e = ''minute_limit'' then Some (provider_retry_row AK_RETRY_SAME_ROUTE NA_DEFER_UNTIL_CAPACITY_RESET e
       (JStr (next_model_strategy_value NM_SAME_MODEL)) True)
     else if e = ''daily_limit'' then Some (provider_retry_row AK_RETRY_FALLBACK_MODEL NA_RETRY_FALLBACK_MODEL e
       (JStr ''DAILY_LIMIT_FALLBACK_MODEL_REQUIRED'') True)
     else if e = ''request_too_large''
     then Some (provider_retry_row AK_RETRY_LARGER_INPUT_LIMIT_MODEL NA_RETRY_LARGER_INPUT_LIMIT_MODEL e
       (JStr (next_model_strategy_value NM_LARGER_INPUT_LIMIT_MODEL_REQUIRED)) True)
     else if e = ''output_too_large''
     then Some (provider_retry_row AK_RETRY_LARGER_OUTPUT_LIMIT_MODEL NA_RETRY_LARGER_OUTPUT_LIMIT_MODEL e
       (JStr (next_model_strategy_value NM_LARGER_OUTPUT_LIMIT_MODEL_REQUIRED)) True)
     else if e \<in> {''invalid_output'', ''validation_failed'', ''empty_output'', ''network_error'', ''unknown''}
     then Some (provider_retry_row AK_RETRY_SAME_ROUTE NA_RETRY_SAME_ROUTE e
       (JStr (next_model_strategy_value NM_SAME_MODEL)) True)
     else if e = ''auth_error'' then Some (provider_retry_row AK_TERMINAL_INVALID NA_TERMINAL_FAILURE e JNull False)
     else None)"

definition attempt_action_metadata :: "attempt_execution \<Rightarrow> (payload \<times> validated_claim list option) option" where
  "attempt_action_metadata x = (case ax_metadata x of
       Some m \<Rightarrow> Some m
     | None \<Rightarrow> map_option (\<lambda>p. (p, None)) (provider_retry_metadata (lx_error_kind (ax_llm x))))"

end
