(* ===== verification/DispatchAttemptProps.thy ===== *)
theory DispatchAttemptProps
  imports DispatchAttempt ClaimOutputProps
begin

text \<open>
  A dispatch attempt whose outcome is recorded is replayed and not executed again: what the second
  execution reads back of the first one.
\<close>

section \<open>What a recording changes\<close>

lemma map_of_recordable: "take 1 k \<noteq> ''_'' \<Longrightarrow> map_of (recordable_metadata m) k = map_of m k"
  by (induction m) (auto simp: recordable_metadata_def)

lemma recordable_flag:
  "take 1 k \<noteq> ''_'' \<Longrightarrow> metadata_flag k (map_option (\<lambda>r. (recordable_metadata (dv_metadata r), None)) v) =
     metadata_flag k (map_option (\<lambda>r. (dv_metadata r, dv_claims r)) v)"
  by (cases v) (simp_all add: metadata_flag_def map_of_recordable)

lemma find_map_same:
  assumes "\<And>a. P (f a) = P a"
  shows "List.find P (map f xs) = map_option f (List.find P xs)"
  by (induction xs) (simp_all add: assms)

lemma record_outcome_frame:
  assumes "record_attempt_outcome now r db = Inr (t, db')"
  shows "db_dispatches db' = db_dispatches db \<and> db_attempts db' =
    map (\<lambda>a. if attempt_matches r a then attempt_outcome_update r a else a) (db_attempts db)"
  using record_outcome_Inr [OF assms]
  by (auto simp: update_attempts_Inr update_item_def update_items_Inr)

lemma dispatch_read_again:
  assumes "record_attempt_outcome now r db = Inr (t, db')"
  shows "get_dispatch_for_execution i db' = get_dispatch_for_execution i db"
proof -
  let ?f = "\<lambda>a. if attempt_matches r a then attempt_outcome_update r a else a"
  have "List.find (\<lambda>a. ar_attempt_id a = i) (db_attempts db') =
      map_option ?f (List.find (\<lambda>a. ar_attempt_id a = i) (db_attempts db))"
    unfolding record_outcome_frame [OF assms, THEN conjunct2]
    by (rule find_map_same) (simp add: attempt_outcome_update_def)
  then show ?thesis
    using record_outcome_frame [OF assms]
    by (cases "List.find (\<lambda>a. ar_attempt_id a = i) (db_attempts db)")
      (simp_all add: get_dispatch_for_execution_def attempt_outcome_update_def split: option.splits)
qed

lemma dispatch_attempt_id:
  assumes "get_dispatch_for_execution i db = Inr (Some d)"
  shows "fx_attempt_id d = i"
  using assms
  by (auto simp: get_dispatch_for_execution_def dispatch_row_text_def dispatch_for_execution_post_init_def
      find_Some_iff elim!: bindE_InrE split: option.splits if_splits)

lemma outcome_post_init_same: "outcome_record_post_init r = Inr r' \<Longrightarrow> r' = r"
  by (auto simp: outcome_record_post_init_def split: if_splits option.splits)

lemma llm_post_init_same: "llm_result_post_init r = Inr r' \<Longrightarrow> r' = r"
  by (auto simp: llm_result_post_init_def split: if_splits option.splits)

section \<open>A fresh execution\<close>

text \<open>What a fresh execution leaves: the outcome it recorded, as the recording accepted it.\<close>

lemma execute_fresh_Inr:
  assumes "execute_fresh_attempt now llm validator d db = Inr (x, db')"
  obtains ans v where "ax_dispatch x = d"
    "ax_metadata x = map_option (\<lambda>r. (dv_metadata r, dv_claims r)) v"
    "outcome_record_post_init (outcome_of_result d ans (ax_llm x) v) = Inr (outcome_of_result d ans (ax_llm x) v)"
    "record_attempt_outcome now (outcome_of_result d ans (ax_llm x) v) db = Inr (ax_item x, db')"
proof -
  from assms obtain p v l r where "effective_llm_result p v = Inr l"
      and r: "outcome_record_post_init (outcome_of_result d (lx_output p) l v) = Inr r"
      "record_attempt_outcome now r db = Inr (ax_item x, db')"
      and x: "ax_dispatch x = d" "ax_llm x = l" "ax_metadata x = map_option (\<lambda>r. (dv_metadata r, dv_claims r)) v"
    unfolding execute_fresh_attempt_def record_outcome_use_case_def
    by (elim bindE_InrE) (auto elim!: bindE_InrE)
  have "r = outcome_of_result d (lx_output p) l v" using r(1) by (rule outcome_post_init_same)
  with r x that [where v = v and ans = "lx_output p"] show ?thesis by simp
qed

lemma recorded_result:
  assumes "outcome_record_post_init r = Inr r" "ro_outcome_status k = oc_outcome_status r"
    "ro_finished_at k = oc_finished_at r" "ro_error_kind k = oc_error_kind r"
  shows "\<exists>l. result_from_recorded k = Inr l \<and> lx_status l = oc_outcome_status r \<and>
    lx_finished_at l = oc_finished_at r \<and> lx_error_kind l = oc_error_kind r"
  using assms
  by (cases "oc_outcome_status r")
    (auto simp: outcome_record_post_init_def result_from_recorded_def llm_result_post_init_def
      split: if_splits option.splits)

text \<open>
  C16. Executing a dispatch attempt is idempotent. Once an execution returned, executing the same attempt again
  on the tables it left, whatever the model or the validator would answer by then, calls neither: it leaves the tables
  alone and returns the same dispatch, status, finish time, error and work item, and the same verdict
  whether the work item is to be completed. The validated claims are not kept with the attempt, so
  no claim is handed to persistence by the replay.
\<close>

theorem attempt_replayed:
  assumes ok: "exec_ok db" and run: "execute_prepared_attempt now True llm validator i db = Inr (x, db')"
  shows "\<exists>y. execute_prepared_attempt now' True llm' validator' i db' = Inr (y, db') \<and>
    ax_dispatch y = ax_dispatch x \<and> ax_item y = ax_item x \<and>
    lx_status (ax_llm y) = lx_status (ax_llm x) \<and> lx_finished_at (ax_llm y) = lx_finished_at (ax_llm x) \<and>
    lx_error_kind (ax_llm y) = lx_error_kind (ax_llm x) \<and>
    should_mark_work_item_completed (ax_metadata y) = should_mark_work_item_completed (ax_metadata x) \<and>
    claims_to_persist (ax_metadata y) = []"
proof -
  from run obtain d k where d: "get_dispatch_for_execution i db = Inr (Some d)" and i: "\<not> blank i"
    and k: "get_recorded_attempt_outcome (fx_attempt_id d) db = Inr k"
    by (auto simp: execute_prepared_attempt_def elim!: bindE_InrE split: if_splits option.splits)
  have none: "claims_to_persist (map_option (\<lambda>m. (m, None)) p) = []" for p
    by (cases p) (simp_all add: claims_to_persist_def validated_claims_from_metadata_def)
  show ?thesis
  proof (cases k)
    case (Some r)
    with run d k i have "db' = db" "claims_to_persist (ax_metadata x) = []"
      and "execute_prepared_attempt now' True llm' validator' i db = Inr (x, db)"
      by (auto simp: execute_prepared_attempt_def none elim!: bindE_InrE)
    then show ?thesis by blast
  next
    case None
    with run d k i have "execute_fresh_attempt now llm validator d db = Inr (x, db')"
      by (simp add: execute_prepared_attempt_def)
    then obtain ans v where x: "ax_dispatch x = d"
        "ax_metadata x = map_option (\<lambda>r. (dv_metadata r, dv_claims r)) v"
      and r: "outcome_record_post_init (outcome_of_result d ans (ax_llm x) v) =
          Inr (outcome_of_result d ans (ax_llm x) v)"
      and rec: "record_attempt_outcome now (outcome_of_result d ans (ax_llm x) v) db = Inr (ax_item x, db')"
      by (rule execute_fresh_Inr)
    let ?r = "outcome_of_result d ans (ax_llm x) v"
    note readback = outcome_reads_back [OF ok r rec]
    have f: "oc_attempt_id ?r = fx_attempt_id d" "oc_outcome_status ?r = lx_status (ax_llm x)"
      "oc_finished_at ?r = lx_finished_at (ax_llm x)" "oc_error_kind ?r = lx_error_kind (ax_llm x)"
      "oc_validation_metadata ?r = map_option (\<lambda>r. recordable_metadata (dv_metadata r)) v"
      by (simp_all add: outcome_of_result_def)
    from readback f(1) obtain k' where k': "get_recorded_attempt_outcome (fx_attempt_id d) db' = Inr (Some k')"
      "ro_outcome_status k' = oc_outcome_status ?r" "ro_finished_at k' = oc_finished_at ?r"
      "ro_error_kind k' = oc_error_kind ?r" "ro_work_item k' = ax_item x"
      "ro_validation_metadata k' = oc_validation_metadata ?r" by auto
    from recorded_result [OF r k'(2-4)] obtain l where l: "result_from_recorded k' = Inr l"
      "lx_status l = lx_status (ax_llm x)" "lx_finished_at l = lx_finished_at (ax_llm x)"
      "lx_error_kind l = lx_error_kind (ax_llm x)" by (auto simp: f)
    have "take 1 ''claim_builder_should_mark_work_item_completed'' \<noteq> ''_''" by simp
    from recordable_flag [OF this, of v] have
      "should_mark_work_item_completed (map_option (\<lambda>m. (m, None)) (ro_validation_metadata k')) =
        should_mark_work_item_completed (ax_metadata x)"
      by (simp add: should_mark_work_item_completed_def k' f x option.map_comp o_def)
    then show ?thesis
      using i d k' l x none dispatch_read_again [OF rec, of i]
      by (simp add: execute_prepared_attempt_def)
  qed
qed
section \<open>A sample\<close>

definition dispatch2 :: dispatch_record where
  "dispatch2 = dispatch1\<lparr>dp_dispatch_payload := dispatch_payload1 @ [(''llm_execution_settings'', JObject [])]\<rparr>"

definition db7 :: exec_db where
  "db7 = db2\<lparr>db_attempts := [started_attempt_row dispatch2],
     db_dispatches := [started_dispatch_row dispatch2]\<rparr>"

definition answering_llm :: llm_executor where
  "answering_llm i = Inr \<lparr>lx_status = OC_SUCCEEDED, lx_finished_at = Aware (Utc 4), lx_output = Some answer1,
     lx_error_kind = None, lx_observation = None\<rparr>"

lemma db7_ok: "exec_ok db7"
proof -
  have "dispatch_record_post_init dispatch2 = Inr dispatch2" by code_simp
  moreover have "save_started_dispatch_attempt (\<lambda>_. []) dispatch2 db2 = Inr db7" by code_simp
  ultimately have "exec_step db2 db7" by (rule exec_step.dispatch)
  then show ?thesis using exec_step_sound [OF _ db_ok(2)] by blast
qed

theorem attempt_replayed_witness:
  "\<exists>x y db'. execute_prepared_attempt (Utc 5) True answering_llm (Some (validate_dispatch_output (\<lambda>_. None))) ''a1'' db7 =
       Inr (x, db') \<and> length (claims_to_persist (ax_metadata x)) = 1 \<and>
     execute_prepared_attempt (Utc 6) True (\<lambda>_. Inl (ValueError [])) None ''a1'' db' = Inr (y, db') \<and>
     should_mark_work_item_completed (ax_metadata y) \<and> claims_to_persist (ax_metadata y) = []"
proof -
  define run where "run = execute_prepared_attempt (Utc 5) True answering_llm
    (Some (validate_dispatch_output (\<lambda>_. None))) ''a1'' db7"
  have "map_sum id (\<lambda>(x, db). (length (claims_to_persist (ax_metadata x)),
      should_mark_work_item_completed (ax_metadata x))) run = Inr (1, True)"
    unfolding run_def by code_simp
  then obtain x db' where x: "run = Inr (x, db')" "length (claims_to_persist (ax_metadata x)) = 1"
      "should_mark_work_item_completed (ax_metadata x)" by (cases run) auto
  from attempt_replayed [OF db7_ok x(1) [unfolded run_def], of "Utc 6" "\<lambda>_. Inl (ValueError [])" None]
  show ?thesis using x unfolding run_def by auto
qed

end
