(* ===== verification/WorkflowViews.thy ===== *)
theory WorkflowViews
  imports WorkflowRuntime
begin

text \<open>
  The read models of a workflow run (\<open>src/src/contexts/workflow_runtime\<close>): the progress snapshot, the
  timeline and the resource usage, each an entity with the table its repository keeps. A snapshot and a
  usage are replaced by the next one of the run, a timeline entry is kept once it is written. Python
  dictionaries are association lists in insertion order; the key order of a stored JSON column is not observed.
\<close>

section \<open>Checks of the entities\<close>

definition must_text :: "string \<Rightarrow> string \<Rightarrow> py_error + unit" where
  "must_text name v = require (\<not> blank v) (ValueError (name @ '' must be non-empty''))"

definition must_non_negative :: "string \<Rightarrow> int \<Rightarrow> py_error + unit" where
  "must_non_negative name n = require (0 \<le> n) (ValueError (name @ '' must be >= 0''))"

definition must_aware :: "string \<Rightarrow> datetime \<Rightarrow> py_error + unit" where
  "must_aware name t = require (tz_aware t) (ValueError (name @ '' must be timezone-aware''))"

fun check_all :: "('a \<Rightarrow> py_error + unit) \<Rightarrow> 'a list \<Rightarrow> py_error + unit" where
  "check_all f [] = Inr ()"
| "check_all f (x # xs) = bindE (f x) (\<lambda>_. check_all f xs)"

lemma check_all_Inr [simp]: "check_all f xs = Inr u \<longleftrightarrow> (\<forall>x \<in> set xs. f x = Inr ())"
  by (induction xs) auto

lemma must_simps [simp]:
  "must_text name v = Inr u \<longleftrightarrow> \<not> blank v"
  "must_non_negative name n = Inr u \<longleftrightarrow> 0 \<le> n"
  "must_aware name t = Inr u \<longleftrightarrow> tz_aware t"
  by (simp_all add: must_text_def must_non_negative_def must_aware_def)

definition option_check :: "('a \<Rightarrow> py_error + unit) \<Rightarrow> 'a option \<Rightarrow> py_error + unit" where
  "option_check f v = (case v of Some x \<Rightarrow> f x | None \<Rightarrow> Inr ())"

lemma option_check_Inr [simp]: "option_check f v = Inr u \<longleftrightarrow> (\<forall>x. v = Some x \<longrightarrow> f x = Inr ())"
  by (cases v) (simp_all add: option_check_def)

text \<open>\<open>d[key] = value\<close>.\<close>

fun dict_put :: "string \<Rightarrow> 'a \<Rightarrow> (string \<times> 'a) list \<Rightarrow> (string \<times> 'a) list" where
  "dict_put k v [] = [(k, v)]"
| "dict_put k v (x # xs) = (if fst x = k then (k, v) # xs else x # dict_put k v xs)"

lemma map_of_dict_put: "map_of (dict_put k v xs) = (map_of xs)(k \<mapsto> v)"
  by (induction xs) auto

definition dict_update :: "(string \<times> 'a) list \<Rightarrow> (string \<times> 'a) list \<Rightarrow> (string \<times> 'a) list" where
  "dict_update xs ys = foldl (\<lambda>d (k, v). dict_put k v d) xs ys"

section \<open>The progress snapshot\<close>

record progress_snapshot =
  sn_run :: string
  sn_phase :: string
  sn_status :: string
  sn_total :: int
  sn_scheduled :: int
  sn_running :: int
  sn_completed :: int
  sn_deferred :: int
  sn_retryable_failed :: int
  sn_terminal_failed :: int
  sn_blocked :: int
  sn_counters :: "(string \<times> int) list"
  sn_started_at :: "datetime option"
  sn_updated_at :: datetime
  sn_completed_at :: "datetime option"

definition snapshot_counts :: "progress_snapshot \<Rightarrow> (string \<times> int) list" where
  "snapshot_counts s = [(''total_work_items'', sn_total s), (''scheduled_work_items'', sn_scheduled s),
     (''running_work_items'', sn_running s), (''completed_work_items'', sn_completed s),
     (''deferred_work_items'', sn_deferred s), (''retryable_failed_work_items'', sn_retryable_failed s),
     (''terminal_failed_work_items'', sn_terminal_failed s), (''blocked_work_items'', sn_blocked s)]"

definition validated_domain_counters :: "(string \<times> int) list \<Rightarrow> py_error + unit" where
  "validated_domain_counters cs = check_all (\<lambda>(k, v). bindE (must_text ''domain_counters key'' k)
     (\<lambda>_. must_non_negative (''domain_counters['' @ k @ '']'') v)) cs"

definition progress_snapshot_post_init :: "progress_snapshot \<Rightarrow> py_error + progress_snapshot" where
  "progress_snapshot_post_init s =
     bindE (must_text ''workflow_run_id'' (sn_run s)) (\<lambda>_.
     bindE (must_text ''current_phase'' (sn_phase s)) (\<lambda>_.
     bindE (must_text ''workflow_status'' (sn_status s)) (\<lambda>_.
     bindE (check_all (\<lambda>(n, v). must_non_negative n v) (snapshot_counts s)) (\<lambda>_.
     bindE (option_check (must_aware ''started_at'') (sn_started_at s)) (\<lambda>_.
     bindE (must_aware ''updated_at'' (sn_updated_at s)) (\<lambda>_.
     bindE (option_check (must_aware ''completed_at'') (sn_completed_at s)) (\<lambda>_.
     bindE (validated_domain_counters (sn_counters s)) (\<lambda>_. Inr s))))))))"

section \<open>The timeline\<close>

datatype timeline_severity = SEV_DEBUG | SEV_INFO | SEV_WARNING | SEV_ERROR | SEV_CRITICAL

record timeline_entry =
  tl_id :: string
  tl_run :: string
  tl_type :: string
  tl_phase :: string
  tl_severity :: timeline_severity
  tl_message :: string
  tl_payload :: payload
  tl_occurred_at :: datetime
  tl_source_ref :: "string option"
  tl_work_item :: "string option"
  tl_attempt :: "string option"

definition timeline_entry_post_init :: "timeline_entry \<Rightarrow> py_error + timeline_entry" where
  "timeline_entry_post_init e =
     bindE (must_text ''timeline_entry_id'' (tl_id e)) (\<lambda>_.
     bindE (must_text ''workflow_run_id'' (tl_run e)) (\<lambda>_.
     bindE (must_text ''event_type'' (tl_type e)) (\<lambda>_.
     bindE (must_text ''phase'' (tl_phase e)) (\<lambda>_.
     bindE (must_text ''message'' (tl_message e)) (\<lambda>_.
     bindE (must_aware ''occurred_at'' (tl_occurred_at e)) (\<lambda>_.
     bindE (option_check (must_text ''source_ref'') (tl_source_ref e)) (\<lambda>_.
     bindE (option_check (must_text ''work_item_id'') (tl_work_item e)) (\<lambda>_.
     bindE (option_check (must_text ''attempt_id'') (tl_attempt e)) (\<lambda>_. Inr e)))))))))"

section \<open>Resource usage\<close>

record usage_delta =
  ud_requests :: int
  ud_input_tokens :: int
  ud_output_tokens :: int
  ud_total_tokens :: int
  ud_cost_microusd :: int
  ud_duration_ms :: int

definition delta_fields :: "usage_delta \<Rightarrow> (string \<times> int) list" where
  "delta_fields u = [(''request_count'', ud_requests u), (''input_tokens'', ud_input_tokens u),
     (''output_tokens'', ud_output_tokens u), (''total_tokens'', ud_total_tokens u),
     (''estimated_cost_microusd'', ud_cost_microusd u), (''duration_ms'', ud_duration_ms u)]"

record resource_usage =
  ru_run :: string
  ru_totals :: usage_delta
  ru_providers :: "(string \<times> (string \<times> int) list) list"
  ru_updated_at :: datetime

definition freeze_provider_breakdown :: "(string \<times> (string \<times> int) list) list \<Rightarrow> py_error + unit" where
  "freeze_provider_breakdown ps = check_all (\<lambda>(p, ms). bindE (must_text ''provider_key'' p) (\<lambda>_.
     check_all (\<lambda>(f, v). bindE (must_text ''provider metric'' f) (\<lambda>_. must_non_negative (p @ ''.'' @ f) v)) ms)) ps"

definition resource_usage_post_init :: "resource_usage \<Rightarrow> py_error + resource_usage" where
  "resource_usage_post_init u =
     bindE (must_text ''workflow_run_id'' (ru_run u)) (\<lambda>_.
     bindE (check_all (\<lambda>(n, v). must_non_negative n v) (delta_fields (ru_totals u))) (\<lambda>_.
     bindE (must_aware ''updated_at'' (ru_updated_at u)) (\<lambda>_.
     bindE (freeze_provider_breakdown (ru_providers u)) (\<lambda>_. Inr u))))"

definition zero_delta :: usage_delta where
  "zero_delta = \<lparr>ud_requests = 0, ud_input_tokens = 0, ud_output_tokens = 0, ud_total_tokens = 0,
     ud_cost_microusd = 0, ud_duration_ms = 0\<rparr>"

definition zero_provider_values :: "(string \<times> int) list" where
  "zero_provider_values = delta_fields zero_delta"

definition plus_delta :: "usage_delta \<Rightarrow> usage_delta \<Rightarrow> usage_delta" where
  "plus_delta a b = \<lparr>ud_requests = ud_requests a + ud_requests b,
     ud_input_tokens = ud_input_tokens a + ud_input_tokens b,
     ud_output_tokens = ud_output_tokens a + ud_output_tokens b,
     ud_total_tokens = ud_total_tokens a + ud_total_tokens b,
     ud_cost_microusd = ud_cost_microusd a + ud_cost_microusd b,
     ud_duration_ms = ud_duration_ms a + ud_duration_ms b\<rparr>"

text \<open>\<open>values[field] += n\<close> raises on a missing field.\<close>

definition add_metric :: "(string \<times> int) list \<Rightarrow> string \<times> int \<Rightarrow> py_error + (string \<times> int) list" where
  "add_metric ms d = (case map_of ms (fst d) of
     None \<Rightarrow> Inl (KeyError (fst d))
   | Some v \<Rightarrow> Inr (map (\<lambda>(k, w). if k = fst d then (k, v + snd d) else (k, w)) ms))"

fun add_metrics :: "(string \<times> int) list \<Rightarrow> (string \<times> int) list \<Rightarrow> py_error + (string \<times> int) list" where
  "add_metrics ms [] = Inr ms"
| "add_metrics ms (d # ds) = bindE (add_metric ms d) (\<lambda>ms'. add_metrics ms' ds)"

definition add_provider_usage :: "string option \<Rightarrow> usage_delta \<Rightarrow> (string \<times> (string \<times> int) list) list \<Rightarrow>
    py_error + (string \<times> (string \<times> int) list) list" where
  "add_provider_usage key u ps = (case key of None \<Rightarrow> Inr ps
     | Some p \<Rightarrow>
         let qs = (if map_of ps p = None then ps @ [(p, zero_provider_values)] else ps) in
         bindE (add_metrics (the (map_of qs p)) (delta_fields u)) (\<lambda>ms.
           Inr (map (\<lambda>(k, v). if k = p then (k, ms) else (k, v)) qs)))"

definition add_usage :: "usage_delta \<Rightarrow> string option \<Rightarrow> datetime \<Rightarrow> resource_usage \<Rightarrow> py_error + resource_usage" where
  "add_usage u key t r =
     bindE (check_all (\<lambda>(n, v). must_non_negative n v) (delta_fields u)) (\<lambda>_.
     bindE (option_check (must_text ''provider_key'') key) (\<lambda>_.
     bindE (must_aware ''updated_at'' t) (\<lambda>_.
     bindE (add_provider_usage key u (ru_providers r)) (\<lambda>ps.
       resource_usage_post_init \<lparr>ru_run = ru_run r, ru_totals = plus_delta (ru_totals r) u,
         ru_providers = ps, ru_updated_at = t\<rparr>))))"

section \<open>The tables\<close>

text \<open>
  \<open>098_workflow_runtime_progress_read_models.sql\<close>: counts are INTEGER columns, costs and durations BIGINT, none
  negative.
\<close>

record views_db =
  vw_snapshots :: "string \<Rightarrow> progress_snapshot option"
  vw_timeline :: "timeline_entry list"
  vw_usage :: "string \<Rightarrow> resource_usage option"

definition int_column :: "int \<Rightarrow> bool" where
  "int_column n \<longleftrightarrow> 0 \<le> n \<and> n < 2 ^ 31"

definition bigint_column :: "int \<Rightarrow> bool" where
  "bigint_column n \<longleftrightarrow> 0 \<le> n \<and> n < 2 ^ 63"

definition get_snapshot :: "string \<Rightarrow> views_db \<Rightarrow> py_error + progress_snapshot option" where
  "get_snapshot run db = optE progress_snapshot_post_init (vw_snapshots db run)"

definition save_snapshot :: "progress_snapshot \<Rightarrow> views_db \<Rightarrow> py_error + (progress_snapshot \<times> views_db)" where
  "save_snapshot s db =
     (if \<not> list_all (\<lambda>(n, v). int_column v) (snapshot_counts s)
      then Inl (DatabaseError ''workflow_runtime_progress_snapshots'')
      else if \<not> (tz_aware (sn_updated_at s) \<and> pred_option tz_aware (sn_started_at s) \<and>
        pred_option tz_aware (sn_completed_at s)) then Inl (DatabaseError ''naive timestamp'')
      else bindE (progress_snapshot_post_init s) (\<lambda>stored.
        Inr (stored, db\<lparr>vw_snapshots := (vw_snapshots db)(sn_run s \<mapsto> s)\<rparr>)))"

definition append_entry :: "timeline_entry \<Rightarrow> views_db \<Rightarrow> py_error + (timeline_entry \<times> views_db)" where
  "append_entry e db =
     (if \<not> tz_aware (tl_occurred_at e) then Inl (DatabaseError ''naive timestamp'')
      else case List.find (\<lambda>x. tl_id x = tl_id e) (vw_timeline db) of
        Some x \<Rightarrow> bindE (timeline_entry_post_init x) (\<lambda>stored. Inr (stored, db))
      | None \<Rightarrow> bindE (timeline_entry_post_init e) (\<lambda>stored.
          Inr (stored, db\<lparr>vw_timeline := vw_timeline db @ [e]\<rparr>)))"

text \<open>Entries of one time come in table order here; the database may return them in any order.\<close>

definition list_recent_entries :: "string \<Rightarrow> int \<Rightarrow> views_db \<Rightarrow> py_error + timeline_entry list" where
  "list_recent_entries run limit db =
     (if blank run then Inl (ValueError ''workflow_run_id must be non-empty'')
      else if limit \<le> 0 then Inl (ValueError ''limit must be > 0'')
      else traverseE timeline_entry_post_init (take (nat limit)
        (rev (sort_key (\<lambda>e. utc_of (tl_occurred_at e)) (rev (filter (\<lambda>e. tl_run e = run) (vw_timeline db)))))))"

definition get_usage :: "string \<Rightarrow> views_db \<Rightarrow> py_error + resource_usage option" where
  "get_usage run db = optE resource_usage_post_init (vw_usage db run)"

definition save_usage :: "resource_usage \<Rightarrow> views_db \<Rightarrow> py_error + (resource_usage \<times> views_db)" where
  "save_usage u db =
     (let t = ru_totals u in
      if \<not> (int_column (ud_requests t) \<and> int_column (ud_input_tokens t) \<and> int_column (ud_output_tokens t) \<and>
        int_column (ud_total_tokens t) \<and> bigint_column (ud_cost_microusd t) \<and> bigint_column (ud_duration_ms t))
      then Inl (DatabaseError ''workflow_runtime_resource_usage_snapshots'')
      else if \<not> tz_aware (ru_updated_at u) then Inl (DatabaseError ''naive timestamp'')
      else bindE (resource_usage_post_init u) (\<lambda>stored.
        Inr (stored, db\<lparr>vw_usage := (vw_usage db)(ru_run u \<mapsto> u)\<rparr>)))"

section \<open>Provider shares\<close>

lemma snapshot_post_init_same: "progress_snapshot_post_init s = Inr t \<Longrightarrow> t = s"
  unfolding progress_snapshot_post_init_def by (elim bindE_InrE) simp

lemma timeline_post_init_same: "timeline_entry_post_init s = Inr t \<Longrightarrow> t = s"
  unfolding timeline_entry_post_init_def by (elim bindE_InrE) simp

lemma save_snapshot_Inr:
  assumes "save_snapshot s db = Inr (x, db')"
  shows "x = s \<and> db' = db\<lparr>vw_snapshots := (vw_snapshots db)(sn_run s \<mapsto> s)\<rparr> \<and>
    progress_snapshot_post_init s = Inr s"
  using assms unfolding save_snapshot_def
  by (auto simp del: bindE_Inr_iff split: if_splits elim!: bindE_InrE dest: snapshot_post_init_same)

end
