(* ===== verification/ClaimProgress.thy ===== *)
theory ClaimProgress
  imports WorkflowViews ClaimBuilderDrain ClaimOutput ExecReadback
begin

text \<open>
  Reconciling the progress of the claim builder (\<open>sagas/handle_reconcile_claim_builder_progress_command.py\<close>): the
  retry actions that are pending (\<open>postgres_claim_builder_retry_action_read_repository.py\<close> with its port), the
  decision, the next command of the workflow, and what the handler writes to the command log, the outbox, the
  snapshot and the timeline. Parameters are the standard library's \<open>isoformat\<close>, \<open>fromisoformat\<close>
  (\<open>from_iso\<close>) and SHA-256 (\<open>sha256\<close>), and PostgreSQL's text of a JSON value (\<open>json_text\<close>). The optional
  projection to the front end and logging are left out.
\<close>

section \<open>Ownership of the dispatch\<close>

record dispatch_ownership =
  ow_queue_core :: bool
  ow_claim_builder_bridge :: bool
  ow_compaction_bridge :: bool
  ow_queue_owns_dispatch :: bool

definition claim_builder_queue_owns :: "dispatch_ownership \<Rightarrow> bool" where
  "claim_builder_queue_owns p \<longleftrightarrow> ow_queue_core p \<and> ow_queue_owns_dispatch p \<and> ow_claim_builder_bridge p"

definition compaction_queue_owns :: "dispatch_ownership \<Rightarrow> bool" where
  "compaction_queue_owns p \<longleftrightarrow> ow_queue_core p \<and> ow_queue_owns_dispatch p \<and> ow_compaction_bridge p"

definition current_ownership :: dispatch_ownership where
  "current_ownership = \<lparr>ow_queue_core = queue_core_enabled, ow_claim_builder_bridge = drain_bridge_enabled,
     ow_compaction_bridge = False, ow_queue_owns_dispatch = True\<rparr>"

section \<open>Pending retry actions\<close>

record retry_action_record =
  ra_work_item :: string
  ra_attempt :: string
  ra_action :: string
  ra_strategy :: "string option"
  ra_split :: bool
  ra_run_after :: "datetime option"
  ra_plan :: "work_item_retry_plan option"

definition retry_action_record_post_init :: "retry_action_record \<Rightarrow> py_error + retry_action_record" where
  "retry_action_record_post_init r =
     bindE (must_text ''work_item_id'' (ra_work_item r)) (\<lambda>_.
     bindE (must_text ''dispatch_attempt_id'' (ra_attempt r)) (\<lambda>_.
     bindE (must_text ''next_action_kind'' (ra_action r)) (\<lambda>_.
     bindE (option_check (must_text ''next_model_strategy'') (ra_strategy r)) (\<lambda>_.
     bindE (option_check (must_aware ''next_run_after'') (ra_run_after r)) (\<lambda>_. Inr r)))))"

record retry_summary =
  rs_run :: string
  rs_kind :: work_kind
  rs_same_route :: int
  rs_empty_check :: int
  rs_fallback :: int
  rs_larger_output :: int
  rs_larger_input :: int
  rs_split :: int
  rs_defer :: int
  rs_pause :: int
  rs_ask_user :: int
  rs_run_after :: "datetime option"
  rs_plan :: "work_item_retry_plan option"
  rs_records :: "retry_action_record list"

definition retry_counts :: "retry_summary \<Rightarrow> (string \<times> int) list" where
  "retry_counts s =
     [(''retry_same_route_count'', rs_same_route s), (''retry_empty_claims_check_model_count'', rs_empty_check s),
      (''retry_fallback_model_count'', rs_fallback s), (''retry_larger_output_limit_route_count'', rs_larger_output s),
      (''retry_larger_input_model_count'', rs_larger_input s), (''split_required_count'', rs_split s),
      (''defer_until_capacity_reset_count'', rs_defer s), (''pause_for_daily_limit_reset_count'', rs_pause s),
      (''request_user_low_quality_continue_or_wait_count'', rs_ask_user s)]"

definition retry_summary_post_init :: "retry_summary \<Rightarrow> py_error + retry_summary" where
  "retry_summary_post_init s =
     bindE (must_text ''workflow_run_id'' (rs_run s)) (\<lambda>_.
     bindE (check_all (\<lambda>(n, v). must_non_negative n v) (retry_counts s)) (\<lambda>_.
     bindE (option_check (must_aware ''next_run_after'') (rs_run_after s)) (\<lambda>_. Inr s)))"

definition has_retry_actions :: "retry_summary \<Rightarrow> bool" where
  "has_retry_actions s \<longleftrightarrow> sum_list (map snd (retry_counts s)) > 0"

definition opt_text_json :: "('a \<Rightarrow> string) \<Rightarrow> 'a option \<Rightarrow> json" where
  "opt_text_json f v = (case v of Some x \<Rightarrow> JStr (f x) | None \<Rightarrow> JNull)"

definition retry_summary_payload :: "(datetime \<Rightarrow> string) \<Rightarrow> retry_summary \<Rightarrow> payload" where
  "retry_summary_payload isoformat s =
     [(''workflow_run_id'', JStr (rs_run s)), (''work_kind'', JStr (work_kind_value (rs_kind s)))] @
     map (\<lambda>(k, n). (k, JInt n)) (retry_counts s) @
     [(''next_run_after'', opt_text_json isoformat (rs_run_after s)),
      (''selected_retry_plan'', opt_text_json retry_plan_value (rs_plan s))]"

definition retry_action_values :: "string list" where
  "retry_action_values = map next_action_kind_value [NA_RETRY_SAME_ROUTE, NA_RETRY_EMPTY_CLAIMS_CHECK_MODEL,
     NA_RETRY_FALLBACK_MODEL, NA_RETRY_LARGER_OUTPUT_LIMIT_MODEL, NA_RETRY_LARGER_INPUT_LIMIT_MODEL,
     NA_SPLIT_WORK_PAYLOAD, NA_DEFER_UNTIL_CAPACITY_RESET, NA_PAUSE_FOR_DAILY_LIMIT_RESET,
     NA_REQUEST_USER_LOW_QUALITY_CONTINUE_OR_WAIT]"

definition automatic_retry_status_values :: "string list" where
  "automatic_retry_status_values = map wi_status_value [WI_READY, WI_LEASED, WI_RETRYABLE_FAILED]"

text \<open>
  The statement: of the run's events with a retry action the latest of each work item (\<open>DISTINCT ON\<close>, where
  events without the key form one group), in the order of the outbox, when the item may still be retried.
\<close>

definition retry_action_events :: "(json \<Rightarrow> string) \<Rightarrow> string \<Rightarrow> string \<Rightarrow> workflow_db \<Rightarrow> event_row list" where
  "retry_action_events json_text run kind w = filter (\<lambda>r. ev_run r = run \<and>
     payload_text json_text (ev_payload r) ''work_kind'' = Some kind \<and>
     (case payload_text json_text (ev_payload r) ''claim_builder_attempt_next_action_kind'' of
        Some a \<Rightarrow> a \<in> set retry_action_values | None \<Rightarrow> False)) (wf_events w)"

definition latest_retry_actions :: "(json \<Rightarrow> string) \<Rightarrow> string \<Rightarrow> string \<Rightarrow> workflow_db \<Rightarrow> event_row list" where
  "latest_retry_actions json_text run kind w =
     (let es = retry_action_events json_text run kind w; item = (\<lambda>r. payload_text json_text (ev_payload r) ''work_item_id'') in
      filter (\<lambda>r. list_all (\<lambda>x. item x = item r \<longrightarrow>
        (ev_occurred_at x, ev_sequence x) \<le> (ev_occurred_at r, ev_sequence r)) es) es)"

definition pending_retry_rows :: "(json \<Rightarrow> string) \<Rightarrow> string \<Rightarrow> string \<Rightarrow> workflow_db \<Rightarrow> exec_db \<Rightarrow> event_row list" where
  "pending_retry_rows json_text run kind w db = sort_key ev_sequence (filter (\<lambda>r.
     (case payload_text json_text (ev_payload r) ''work_item_id'' of None \<Rightarrow> False
      | Some i \<Rightarrow> (case row_of db i of None \<Rightarrow> False | Some x \<Rightarrow> row_status x \<in> set automatic_retry_status_values)))
     (latest_retry_actions json_text run kind w))"

definition action_required_text :: "payload \<Rightarrow> string \<Rightarrow> py_error + string" where
  "action_required_text p k = (case non_blank_text (payload_get p k) of
     Some v \<Rightarrow> Inr v | None \<Rightarrow> Inl (TypeError (k @ '' must be non-empty text'')))"

definition action_optional_text :: "payload \<Rightarrow> string \<Rightarrow> py_error + string option" where
  "action_optional_text p k = (case payload_get p k of None \<Rightarrow> Inr None
     | Some v \<Rightarrow> (case non_blank_text (Some v) of
         Some t \<Rightarrow> Inr (Some t) | None \<Rightarrow> Inl (TypeError (k @ '' must be null or non-empty text''))))"

definition action_required_bool :: "payload \<Rightarrow> string \<Rightarrow> py_error + bool" where
  "action_required_bool p k = (case payload_get p k of
     Some (JBool b) \<Rightarrow> Inr b | _ \<Rightarrow> Inl (TypeError (k @ '' must be bool'')))"

definition action_optional_datetime :: "(string \<Rightarrow> py_error + datetime) \<Rightarrow> payload \<Rightarrow> string \<Rightarrow>
    py_error + datetime option" where
  "action_optional_datetime from_iso p k = (case payload_get p k of None \<Rightarrow> Inr None
     | Some v \<Rightarrow> (case non_blank_text (Some v) of
         None \<Rightarrow> Inl (TypeError (k @ '' must be null or non-empty datetime text''))
       | Some t \<Rightarrow> bindE (from_iso t) (\<lambda>d.
           if tz_aware d then Inr (Some d) else Inl (ValueError (k @ '' must be timezone-aware'')))))"

definition plan_of_next_action :: "payload \<Rightarrow> py_error + work_item_retry_plan option" where
  "plan_of_next_action p =
     bindE (action_required_text p ''claim_builder_attempt_next_action_kind'') (\<lambda>a.
       if a = ''RETRY_SAME_ROUTE'' then Inr (Some RETRY_SAME_ROUTE)
       else if a = ''RETRY_EMPTY_CLAIMS_CHECK_MODEL'' then Inr (Some RETRY_VALIDATION_CHECK_ROUTE)
       else if a = ''RETRY_LARGER_OUTPUT_LIMIT_MODEL'' then Inr (Some RETRY_LARGER_OUTPUT_LIMIT_ROUTE)
       else if a = ''RETRY_LARGER_INPUT_LIMIT_MODEL'' then Inr (Some RETRY_LARGER_INPUT_LIMIT_ROUTE)
       else if a = ''DEFER_UNTIL_CAPACITY_RESET'' then Inr (Some WAIT_NEAREST_ADMISSION_WINDOW)
       else if a = ''PAUSE_FOR_DAILY_LIMIT_RESET'' then Inr (Some WAIT_DAILY_ADMISSION_RESET)
       else if a = ''RETRY_FALLBACK_MODEL''
       then bindE (action_optional_text p ''claim_builder_attempt_next_model_strategy'')
         (\<lambda>_. Inr (Some RETRY_DAILY_FALLBACK_ROUTE))
       else Inr None)"

definition retry_record_of_row :: "(string \<Rightarrow> py_error + datetime) \<Rightarrow> event_row \<Rightarrow> py_error + retry_action_record" where
  "retry_record_of_row from_iso r = (let p = ev_payload r in
     bindE (action_required_text p ''work_item_id'') (\<lambda>item.
     bindE (action_required_text p ''dispatch_attempt_id'') (\<lambda>attempt.
     bindE (action_required_text p ''claim_builder_attempt_next_action_kind'') (\<lambda>action.
     bindE (action_optional_text p ''claim_builder_attempt_next_model_strategy'') (\<lambda>strategy.
     bindE (action_required_bool p ''claim_builder_requires_source_split'') (\<lambda>split.
     bindE (action_optional_datetime from_iso p ''claim_builder_next_run_after'') (\<lambda>run_after.
     bindE (plan_of_next_action p) (\<lambda>plan.
     retry_action_record_post_init
       \<lparr>ra_work_item = item, ra_attempt = attempt, ra_action = action, ra_strategy = strategy, ra_split = split,
        ra_run_after = run_after, ra_plan = plan\<rparr>))))))))"

definition plan_priority :: "work_item_retry_plan list" where
  "plan_priority = [RETRY_LARGER_INPUT_LIMIT_ROUTE, RETRY_LARGER_OUTPUT_LIMIT_ROUTE, RETRY_DAILY_FALLBACK_ROUTE,
     RETRY_VALIDATION_CHECK_ROUTE, WAIT_NEAREST_ADMISSION_WINDOW, RETRY_SAME_ROUTE]"

definition plan_of_records :: "retry_action_record list \<Rightarrow> work_item_retry_plan option" where
  "plan_of_records rs = List.find (\<lambda>p. Some p \<in> set (map ra_plan rs)) plan_priority"

definition count_action :: "retry_action_record list \<Rightarrow> next_action_kind \<Rightarrow> int" where
  "count_action rs a = int (length (filter (\<lambda>r. ra_action r = next_action_kind_value a) rs))"

definition later_than :: "utc \<Rightarrow> datetime option \<Rightarrow> bool" where
  "later_than t d = (case d of Some (Aware u) \<Rightarrow> t < u | _ \<Rightarrow> False)"

fun first_time :: "utc list \<Rightarrow> datetime option" where
  "first_time [] = None"
| "first_time (t # ts) = Some (Aware (foldl min t ts))"

definition retry_summary_of :: "string \<Rightarrow> work_kind \<Rightarrow> utc \<Rightarrow> retry_action_record list \<Rightarrow> py_error + retry_summary" where
  "retry_summary_of run kind now rs = retry_summary_post_init
     \<lparr>rs_run = run, rs_kind = kind, rs_same_route = count_action rs NA_RETRY_SAME_ROUTE,
      rs_empty_check = count_action rs NA_RETRY_EMPTY_CLAIMS_CHECK_MODEL,
      rs_fallback = count_action rs NA_RETRY_FALLBACK_MODEL,
      rs_larger_output = count_action rs NA_RETRY_LARGER_OUTPUT_LIMIT_MODEL,
      rs_larger_input = count_action rs NA_RETRY_LARGER_INPUT_LIMIT_MODEL,
      rs_split = count_action rs NA_SPLIT_WORK_PAYLOAD, rs_defer = count_action rs NA_DEFER_UNTIL_CAPACITY_RESET,
      rs_pause = count_action rs NA_PAUSE_FOR_DAILY_LIMIT_RESET,
      rs_ask_user = count_action rs NA_REQUEST_USER_LOW_QUALITY_CONTINUE_OR_WAIT,
      rs_run_after = first_time (map (\<lambda>r. utc_of (the (ra_run_after r))) (filter (\<lambda>r. later_than now (ra_run_after r)) rs)),
      rs_plan = plan_of_records rs, rs_records = rs\<rparr>"

definition summarize_retry_actions :: "(json \<Rightarrow> string) \<Rightarrow> (string \<Rightarrow> py_error + datetime) \<Rightarrow> string \<Rightarrow> work_kind \<Rightarrow>
    datetime \<Rightarrow> workflow_db \<Rightarrow> exec_db \<Rightarrow> py_error + retry_summary" where
  "summarize_retry_actions json_text from_iso run kind now w db =
     (if blank run then Inl (ValueError ''workflow_run_id must be non-empty'')
      else case now of
        Naive _ \<Rightarrow> Inl (ValueError ''now must be timezone-aware'')
      | Aware t \<Rightarrow>
          bindE (traverseE (retry_record_of_row from_iso)
            (pending_retry_rows json_text run (work_kind_value kind) w db)) (\<lambda>rs. retry_summary_of run kind t rs))"

section \<open>The trigger of the capacity drain\<close>

record drain_trigger =
  dt_run :: string
  dt_source_document :: "string option"
  dt_preparation :: payload
  dt_max_items :: int
  dt_run_after :: datetime
  dt_occurred_at :: datetime
  dt_worker_ref :: string
  dt_context :: "payload option"

definition drain_trigger_post_init :: "drain_trigger \<Rightarrow> py_error + drain_trigger" where
  "drain_trigger_post_init c =
     bindE (must_text ''workflow_run_id'' (dt_run c)) (\<lambda>_.
     bindE (option_check (must_text ''source_document_ref'') (dt_source_document c)) (\<lambda>_.
     bindE (require (0 < dt_max_items c) (ValueError ''max_items must be positive int'')) (\<lambda>_.
     bindE (must_text ''worker_ref'' (dt_worker_ref c)) (\<lambda>_. Inr c))))"

definition account_text :: "payload \<Rightarrow> string \<Rightarrow> py_error + string" where
  "account_text p k = (case non_blank_text (payload_get p k) of
     Some v \<Rightarrow> Inr v | None \<Rightarrow> Inl (ValueError (''capacity account must include '' @ k)))"

definition capacity_windows :: "payload \<Rightarrow> json list \<Rightarrow> payload list" where
  "capacity_windows p raw = concat (map (\<lambda>v. case v of
       JObject o' \<Rightarrow> (case payload_get p ''active_model_ref'' of
           Some (JStr m) \<Rightarrow> if payload_get o' ''model_ref'' = Some (JStr m) then [o'] else []
         | _ \<Rightarrow> [o'])
     | _ \<Rightarrow> []) raw)"

definition first_capacity_window :: "payload \<Rightarrow> py_error + (string \<times> string \<times> string)" where
  "first_capacity_window p = (case payload_get p ''account_capacities'' of
       Some (JArray raw) \<Rightarrow> (case capacity_windows p raw of
           [] \<Rightarrow> Inl (ValueError ''llm_dispatch_preparation must include account capacity'')
         | x # _ \<Rightarrow> bindE (account_text x ''provider'') (\<lambda>provider.
             bindE (account_text x ''model_ref'') (\<lambda>model.
             bindE (account_text x ''account_ref'') (\<lambda>account. Inr (provider, model, account)))))
     | _ \<Rightarrow> Inl (ValueError ''llm_dispatch_preparation account_capacities must be sequence''))"

text \<open>The commands of the workflow carry the id \<open>workflow-command:\<close> with the key.\<close>

definition new_command :: "string \<Rightarrow> string \<Rightarrow> string \<Rightarrow> payload \<Rightarrow> datetime \<Rightarrow> datetime \<Rightarrow> py_error + workflow_command" where
  "new_command type run key p run_after now =
     bindE (mk_command_id (''workflow-command:'' @ key)) (\<lambda>i.
     bindE (mk_idempotency_key key) (\<lambda>k.
     workflow_command_post_init
       \<lparr>wc_id = i, wc_type = type, wc_run = run, wc_key = k, wc_payload = p, wc_status = CMD_PENDING,
        wc_run_after = run_after, wc_created_at = now, wc_updated_at = now, wc_causation = None,
        wc_correlation = None, wc_attempts = 0\<rparr>))"

definition drain_trigger_command :: "drain_trigger \<Rightarrow> py_error + workflow_command" where
  "drain_trigger_command c =
     bindE (first_capacity_window (dt_preparation c)) (\<lambda>(provider, model, account).
       let key = ''trigger-claim-builder-capacity-drain:'' @ dt_run c @ '':'' @
             (case dt_source_document c of None \<Rightarrow> ''-'' | Some d \<Rightarrow> d) @ '':'' @ provider @ '':'' @ model @ '':'' @ account;
           p = [(''workflow_run_id'', JStr (dt_run c)), (''provider'', JStr provider), (''model_ref'', JStr model),
                (''account_ref'', JStr account), (''worker_ref'', JStr (dt_worker_ref c)),
                (''max_items'', JInt (dt_max_items c)),
                (''llm_dispatch_preparation'', JObject (dt_preparation c))] @
               (case dt_source_document c of None \<Rightarrow> [] | Some d \<Rightarrow> [(''source_document_ref'', JStr d)]) in
       new_command ''TriggerClaimBuilderCapacityDrain'' (dt_run c) key
         (case dt_context c of None \<Rightarrow> p | Some x \<Rightarrow> dict_update p x) (dt_run_after c) (dt_occurred_at c))"

section \<open>The decision\<close>

datatype progress_decision = PREPARE_NEXT_BATCH_NOW | PREPARE_NEXT_BATCH_LATER | SECTION_EXTRACTION_DRAINED
  | CLAIM_BUILDER_SPLIT_REQUIRED | CLAIM_BUILDER_PROGRESS_BLOCKED

fun decision_value :: "progress_decision \<Rightarrow> string" where
  "decision_value PREPARE_NEXT_BATCH_NOW = ''PREPARE_NEXT_BATCH_NOW''"
| "decision_value PREPARE_NEXT_BATCH_LATER = ''PREPARE_NEXT_BATCH_LATER''"
| "decision_value SECTION_EXTRACTION_DRAINED = ''CLAIM_BUILDER_SECTION_EXTRACTION_DRAINED''"
| "decision_value CLAIM_BUILDER_SPLIT_REQUIRED = ''CLAIM_BUILDER_SPLIT_REQUIRED''"
| "decision_value CLAIM_BUILDER_PROGRESS_BLOCKED = ''CLAIM_BUILDER_PROGRESS_BLOCKED''"

definition has_retry_strategy :: "retry_summary \<Rightarrow> string \<Rightarrow> bool" where
  "has_retry_strategy s strategy \<longleftrightarrow> list_ex (\<lambda>r. map_option retry_plan_value (ra_plan r) = Some strategy) (rs_records s)"

definition selected_retry_plan :: "retry_summary \<Rightarrow> string option" where
  "selected_retry_plan s =
     (if rs_larger_input s > 0 then Some ''retry_larger_input_limit_route''
      else if rs_larger_output s > 0 then Some ''retry_larger_output_limit_route''
      else if has_retry_strategy s ''DAILY_LIMIT_retry_daily_fallback_route''
      then Some ''DAILY_LIMIT_retry_daily_fallback_route''
      else if rs_empty_check s > 0 then Some ''retry_validation_check_route''
      else if rs_fallback s > 0 then Some ''retry_daily_fallback_route''
      else if rs_same_route s > 0 then Some ''retry_same_route''
      else None)"

text \<open>\<open>has_future_waiting_work\<close> is constantly \<open>False\<close> in the source.\<close>

definition has_future_waiting_work :: "progress_summary \<Rightarrow> bool" where
  "has_future_waiting_work p = False"

definition decide_progress :: "progress_summary \<Rightarrow> retry_summary \<Rightarrow> utc \<Rightarrow> progress_decision" where
  "decide_progress p s now =
     (if rs_split s > 0 then CLAIM_BUILDER_SPLIT_REQUIRED
      else if selected_retry_plan s \<noteq> None \<and> later_than now (rs_run_after s) then PREPARE_NEXT_BATCH_LATER
      else if selected_retry_plan s \<noteq> None \<and> due_waiting_count p > 0 then PREPARE_NEXT_BATCH_NOW
      else if due_waiting_count p > 0 then PREPARE_NEXT_BATCH_NOW
      else if has_future_waiting_work p \<and> pg_next_due_at p \<noteq> None then PREPARE_NEXT_BATCH_LATER
      else if pg_total p > 0 \<and> terminal_coverage_count p \<ge> pg_total p then SECTION_EXTRACTION_DRAINED
      else CLAIM_BUILDER_PROGRESS_BLOCKED)"

definition all_sections_extracted :: "progress_summary \<Rightarrow> bool" where
  "all_sections_extracted p \<longleftrightarrow> pg_total p > 0 \<and> pg_completed p \<ge> pg_total p"

section \<open>The next command\<close>

definition command_optional_text :: "payload \<Rightarrow> string \<Rightarrow> py_error + string option" where
  "command_optional_text p k = (case payload_get p k of None \<Rightarrow> Inr None
     | Some v \<Rightarrow> (case non_blank_text (Some v) of Some t \<Rightarrow> Inr (Some t)
         | None \<Rightarrow> Inl (ValueError (''workflow command payload '' @ k @ '' must be non-empty text''))))"

definition command_source_document :: "workflow_command \<Rightarrow> string \<Rightarrow> py_error + string" where
  "command_source_document c run = bindE (command_optional_text (wc_payload c) ''source_document_ref'') (\<lambda>v. case v of
       Some d \<Rightarrow> Inr d
     | None \<Rightarrow> let n = length ''knowledge-extraction:'' in
         if take n run \<noteq> ''knowledge-extraction:'' then Inl (ValueError ''workflow_run_id must include source document ref'')
         else if blank (drop n run) then Inl (ValueError ''source_document_ref must be non-empty'')
         else Inr (drop n run))"

definition int_str :: "int \<Rightarrow> string" where
  "int_str n = (if n < 0 then CHR ''-'' # nat_str (nat (- n)) else nat_str (nat n))"

definition prepare_suffix_scope :: "string option \<Rightarrow> int \<Rightarrow> string" where
  "prepare_suffix_scope plan n = (case plan of Some v \<Rightarrow> v | None \<Rightarrow> ''default'') @ '':scheduled:'' @ int_str n"

definition prepare_idempotency_suffix :: "string \<Rightarrow> string \<Rightarrow> string option \<Rightarrow> string" where
  "prepare_idempotency_suffix pre scope causation = pre @ '':'' @ scope @
     (case causation of None \<Rightarrow> [] | Some c \<Rightarrow> '':'' @ c)"

definition prepare_causation_scope :: "(string \<Rightarrow> string) \<Rightarrow> workflow_command \<Rightarrow> py_error + string" where
  "prepare_causation_scope sha256 c =
     bindE (command_optional_text (wc_payload c) ''claim_builder_prepare_command_id'') (\<lambda>origin.
     bindE (command_optional_text (wc_payload c) ''claim_builder_prepare_idempotency_key'') (\<lambda>key.
       let material = (case origin of
           Some i \<Rightarrow> (case key of Some k \<Rightarrow> i @ '':'' @ k | None \<Rightarrow> i)
         | None \<Rightarrow> ''legacy-reconcile:'' @ command_id_value (wc_id c)) in
       Inr (''cause:'' @ take 16 (sha256 material))))"

text \<open>The three keys under which a prepare command carries the plan.\<close>

definition plan_fields :: "string option \<Rightarrow> payload" where
  "plan_fields plan = (case plan of None \<Rightarrow> []
     | Some v \<Rightarrow> [(''selected_retry_plan'', JStr v), (''claim_builder_retry_plan'', JStr v), (''retry_plan'', JStr v)])"

definition prepare_batch_command :: "workflow_command \<Rightarrow> string \<Rightarrow> progress_summary \<Rightarrow> string option \<Rightarrow> datetime \<Rightarrow>
    datetime \<Rightarrow> string \<Rightarrow> py_error + workflow_command" where
  "prepare_batch_command c run p plan run_after now suff =
     bindE (case payload_get (wc_payload c) ''llm_dispatch_preparation'' of
        None \<Rightarrow> Inr [] | Some (JObject d) \<Rightarrow> Inr [(''llm_dispatch_preparation'', JObject d)]
      | _ \<Rightarrow> Inl (ValueError ''llm_dispatch_preparation must be mapping'')) (\<lambda>d. new_command ''PrepareClaimBuilderDispatchBatch'' run
       (''prepare-claim-builder-dispatch-batch:'' @ run @ '':'' @ suff)
       ([(''workflow_run_id'', JStr run), (''work_kind'', JStr claim_builder_work_kind),
         (''scheduled_work_item_count'', JInt (pg_total p))] @ plan_fields plan @ d) run_after now)"

definition next_due_at :: "retry_summary \<Rightarrow> progress_summary \<Rightarrow> datetime option" where
  "next_due_at s p = (case rs_run_after s of Some t \<Rightarrow> Some t | None \<Rightarrow> pg_next_due_at p)"

definition drain_trigger_run_after :: "progress_decision \<Rightarrow> progress_summary \<Rightarrow> retry_summary \<Rightarrow> datetime \<Rightarrow>
    py_error + datetime" where
  "drain_trigger_run_after d p s now =
     (if d = PREPARE_NEXT_BATCH_NOW then Inr now
      else if d = PREPARE_NEXT_BATCH_LATER then (case next_due_at s p of
        None \<Rightarrow> Inl (ValueError ''next_due_at is required for delayed capacity drain'') | Some t \<Rightarrow> Inr t)
      else Inl (ValueError ''capacity drain trigger requires prepare decision''))"

definition progress_summary_payload :: "progress_summary \<Rightarrow> payload" where
  "progress_summary_payload p =
     [(''ready_count'', JInt (pg_ready p)), (''leased_count'', JInt (pg_leased p)),
      (''deferred_count'', JInt (pg_deferred p)), (''retryable_failed_count'', JInt (pg_retryable_failed p)),
      (''completed_count'', JInt (pg_completed p)), (''terminal_failed_count'', JInt (pg_terminal_failed p)),
      (''cancelled_count'', JInt (pg_cancelled p)), (''split_superseded_count'', JInt (pg_split_superseded p)),
      (''user_action_required_count'', JInt (pg_user_action_required p)), (''total_count'', JInt (pg_total p)),
      (''next_due_at'', JNull), (''due_deferred_count'', JInt (pg_due_deferred p)),
      (''due_retryable_failed_count'', JInt (pg_due_retryable_failed p))]"

definition capacity_drain_trigger_command :: "workflow_command \<Rightarrow> string \<Rightarrow> progress_decision \<Rightarrow> progress_summary \<Rightarrow>
    retry_summary \<Rightarrow> datetime \<Rightarrow> datetime \<Rightarrow> py_error + workflow_command" where
  "capacity_drain_trigger_command c run d p s run_after now =
     (case payload_get (wc_payload c) ''llm_dispatch_preparation'' of
        Some (JObject prep) \<Rightarrow>
          bindE (command_source_document c run) (\<lambda>doc.
          bindE (drain_trigger_post_init
            \<lparr>dt_run = run, dt_source_document = Some doc, dt_preparation = prep, dt_max_items = max 1 (pg_total p),
             dt_run_after = run_after, dt_occurred_at = now, dt_worker_ref = ''claim-builder-capacity-drain'',
             dt_context = Some ([(''trigger'', JStr ''claim_builder_progress_reconcile''),
               (''reconcile_command_id'', JStr (command_id_value (wc_id c))),
               (''reconcile_decision'', JStr (decision_value d)),
               (''scheduled_work_item_count'', JInt (pg_total p))] @ plan_fields (selected_retry_plan s))\<rparr>)
            drain_trigger_command)
      | _ \<Rightarrow> Inl (ValueError ''llm_dispatch_preparation must be mapping''))"

definition embeddings_command :: "workflow_command \<Rightarrow> string \<Rightarrow> progress_summary \<Rightarrow> datetime \<Rightarrow> py_error + workflow_command" where
  "embeddings_command c run p now =
     bindE (command_source_document c run) (\<lambda>doc.
       new_command ''GenerateDraftClaimEmbeddings'' run (''generate-draft-claim-embeddings:'' @ run)
         [(''workflow_run_id'', JStr run), (''source_document_ref'', JStr doc),
          (''work_kind'', JStr claim_builder_work_kind), (''summary'', JObject (progress_summary_payload p))] now now)"

definition next_command :: "dispatch_ownership \<Rightarrow> (datetime \<Rightarrow> string) \<Rightarrow> (string \<Rightarrow> string) \<Rightarrow> workflow_command \<Rightarrow>
    string \<Rightarrow> progress_decision \<Rightarrow> progress_summary \<Rightarrow> retry_summary \<Rightarrow> datetime \<Rightarrow>
    py_error + workflow_command option" where
  "next_command policy isoformat sha256 c run d p s now =
     (if claim_builder_queue_owns policy \<and> d \<in> {PREPARE_NEXT_BATCH_NOW, PREPARE_NEXT_BATCH_LATER} then
        bindE (drain_trigger_run_after d p s now) (\<lambda>run_after.
        bindE (capacity_drain_trigger_command c run d p s run_after now) (\<lambda>x. Inr (Some x)))
      else let plan = selected_retry_plan s; scope = prepare_suffix_scope plan (pg_total p) in
        bindE (if plan \<noteq> None then Inr None else map_sum id Some (prepare_causation_scope sha256 c)) (\<lambda>causation.
          if d = PREPARE_NEXT_BATCH_NOW then
            map_sum id Some (prepare_batch_command c run p plan now now
              (prepare_idempotency_suffix ''now'' scope causation))
          else if d = PREPARE_NEXT_BATCH_LATER then (case next_due_at s p of
              None \<Rightarrow> Inl (ValueError ''next_due_at is required for delayed prepare decision'')
            | Some t \<Rightarrow> map_sum id Some (prepare_batch_command c run p plan t now
                (prepare_idempotency_suffix ''later'' (scope @ '':'' @ isoformat t) causation)))
          else if d = SECTION_EXTRACTION_DRAINED \<and> all_sections_extracted p
          then map_sum id Some (embeddings_command c run p now)
          else Inr None))"

section \<open>Event, snapshot and timeline entry\<close>

definition command_event :: "string \<Rightarrow> workflow_command \<Rightarrow> string \<Rightarrow> payload \<Rightarrow> datetime \<Rightarrow> py_error + workflow_event" where
  "command_event type c run p now =
     bindE (mk_event_id (''workflow-event:'' @ run @ '':'' @ type @ '':'' @ command_id_value (wc_id c))) (\<lambda>i.
     workflow_event_post_init
       \<lparr>we_id = i, we_type = type, we_run = run, we_payload = p, we_occurred_at = now,
        we_causation = Some (wc_id c), we_correlation = Some (command_id_value (wc_id c)), we_sequence = None\<rparr>)"

definition reconciled_event :: "(datetime \<Rightarrow> string) \<Rightarrow> workflow_command \<Rightarrow> string \<Rightarrow> progress_decision \<Rightarrow>
    progress_summary \<Rightarrow> retry_summary \<Rightarrow> workflow_command option \<Rightarrow> datetime \<Rightarrow> py_error + workflow_event" where
  "reconciled_event isoformat c run d p s next now = command_event ''ClaimBuilderProgressReconciled'' c run
     [(''workflow_run_id'', JStr run), (''operation_key'', JStr ''reconcile_claim_builder_progress''),
      (''canonical_phase'', JStr ''CLAIM_BUILDER_SECTION_EXTRACTION''), (''work_kind'', JStr claim_builder_work_kind),
      (''decision'', JStr (decision_value d)), (''summary'', JObject (progress_summary_payload p)),
      (''retry_action_summary'', JObject (retry_summary_payload isoformat s)),
      (''selected_retry_plan'', opt_json (selected_retry_plan s)),
      (''next_command_type'', opt_json (map_option wc_type next)),
      (''next_run_after'', opt_json (map_option (\<lambda>x. isoformat (wc_run_after x)) next))] now"

definition all_sections_event :: "workflow_command \<Rightarrow> string \<Rightarrow> progress_summary \<Rightarrow> datetime \<Rightarrow> py_error + workflow_event" where
  "all_sections_event c run p now = command_event ''ClaimBuilderAllSectionsExtracted'' c run
     [(''workflow_run_id'', JStr run), (''operation_key'', JStr ''reconcile_claim_builder_progress''),
      (''canonical_phase'', JStr ''CLAIM_BUILDER_SECTION_EXTRACTION''), (''work_kind'', JStr claim_builder_work_kind),
      (''summary'', JObject (progress_summary_payload p)), (''completed_count'', JInt (pg_completed p)),
      (''total_count'', JInt (pg_total p)), (''next_command_type'', JStr ''GenerateDraftClaimEmbeddings'')] now"

definition progress_counters :: "progress_summary \<Rightarrow> retry_summary \<Rightarrow> (string \<times> int) list" where
  "progress_counters p s = concat (map (\<lambda>(k, v). case v of JInt n \<Rightarrow> [(''claim_builder_'' @ k, n)] | _ \<Rightarrow> [])
       (progress_summary_payload p)) @
     [(''claim_builder_terminal_coverage_count'', terminal_coverage_count p),
      (''claim_builder_due_waiting_count'', due_waiting_count p),
      (''claim_builder_retry_same_route_pending_count'', rs_same_route s),
      (''claim_builder_retry_empty_claims_check_model_pending_count'', rs_empty_check s),
      (''claim_builder_retry_fallback_model_pending_count'', rs_fallback s),
      (''claim_builder_retry_larger_output_limit_route_pending_count'', rs_larger_output s),
      (''claim_builder_retry_larger_input_model_pending_count'', rs_larger_input s),
      (''claim_builder_split_required_pending_count'', rs_split s),
      (''claim_builder_pause_for_daily_limit_reset_pending_count'', rs_pause s),
      (''claim_builder_request_user_low_quality_continue_or_wait_pending_count'', rs_ask_user s)]"

definition save_progress_snapshot :: "string \<Rightarrow> progress_decision \<Rightarrow> progress_summary \<Rightarrow> retry_summary \<Rightarrow> datetime \<Rightarrow>
    views_db \<Rightarrow> py_error + views_db" where
  "save_progress_snapshot run d p s now v =
     bindE (get_snapshot run v) (\<lambda>existing.
     bindE (progress_snapshot_post_init
       \<lparr>sn_run = run, sn_phase = ''CLAIM_BUILDER_SECTION_EXTRACTION'',
        sn_status = (if d = CLAIM_BUILDER_PROGRESS_BLOCKED then ''BLOCKED'' else ''RUNNING''),
        sn_total = pg_total p, sn_scheduled = pg_total p, sn_running = pg_leased p, sn_completed = pg_completed p,
        sn_deferred = pg_deferred p, sn_retryable_failed = pg_retryable_failed p,
        sn_terminal_failed = pg_terminal_failed p, sn_blocked = pg_user_action_required p,
        sn_counters = dict_update (case existing of Some x \<Rightarrow> sn_counters x | None \<Rightarrow> []) (progress_counters p s),
        sn_started_at = (case existing of Some x \<Rightarrow> sn_started_at x | None \<Rightarrow> Some now),
        sn_updated_at = now,
        sn_completed_at = (case existing of Some x \<Rightarrow> sn_completed_at x | None \<Rightarrow> None)\<rparr>) (\<lambda>x.
     bindE (save_snapshot x v) (\<lambda>(_, v'). Inr v')))"

definition progress_severity :: "progress_decision \<Rightarrow> progress_summary \<Rightarrow> timeline_severity" where
  "progress_severity d p =
     (if d \<in> {CLAIM_BUILDER_PROGRESS_BLOCKED, CLAIM_BUILDER_SPLIT_REQUIRED} then SEV_WARNING
      else if pg_terminal_failed p > 0 then SEV_WARNING else SEV_INFO)"

definition timeline_message :: "retry_summary \<Rightarrow> string" where
  "timeline_message s =
     (if selected_retry_plan s \<noteq> None then ''Claim builder retry action selected''
      else if rs_split s > 0 then ''Claim builder split action required''
      else ''Claim builder progress reconciled'')"

definition progress_timeline_entry :: "(datetime \<Rightarrow> string) \<Rightarrow> workflow_command \<Rightarrow> string \<Rightarrow> progress_decision \<Rightarrow>
    progress_summary \<Rightarrow> retry_summary \<Rightarrow> workflow_command option \<Rightarrow> datetime \<Rightarrow> py_error + timeline_entry" where
  "progress_timeline_entry isoformat c run d p s next now = timeline_entry_post_init
     \<lparr>tl_id = ''workflow-timeline:'' @ run @ '':ClaimBuilderProgressReconciled:'' @ command_id_value (wc_id c),
      tl_run = run, tl_type = ''ClaimBuilderProgressReconciled'', tl_phase = ''CLAIM_BUILDER_SECTION_EXTRACTION'',
      tl_severity = progress_severity d p, tl_message = timeline_message s,
      tl_payload = [(''workflow_run_id'', JStr run), (''work_kind'', JStr claim_builder_work_kind),
        (''decision'', JStr (decision_value d)), (''summary'', JObject (progress_summary_payload p)),
        (''retry_action_summary'', JObject (retry_summary_payload isoformat s)),
        (''selected_retry_plan'', opt_json (selected_retry_plan s)),
        (''next_command_type'', opt_json (map_option wc_type next))],
      tl_occurred_at = now, tl_source_ref = Some (wc_type c), tl_work_item = None, tl_attempt = None\<rparr>"

section \<open>The handler\<close>

record reconcile_result =
  rr_run :: string
  rr_decision :: progress_decision
  rr_events :: int
  rr_commands :: int
  rr_completed :: workflow_command_id

definition validate_reconcile_command :: "workflow_command \<Rightarrow> py_error + unit" where
  "validate_reconcile_command c =
     bindE (require (wc_type c = ''ReconcileClaimBuilderProgress'')
       (ValueError ''workflow_command command_type must be ReconcileClaimBuilderProgress'')) (\<lambda>_.
     require (wc_status c = CMD_PENDING) (ValueError ''workflow_command status must be PENDING''))"

definition command_run_id :: "workflow_command \<Rightarrow> py_error + string" where
  "command_run_id c =
     bindE (case map_of (wc_payload c) ''workflow_run_id'' of
         None \<Rightarrow> require (\<not> blank (wc_run c)) (ValueError ''workflow command payload must include workflow_run_id'')
       | Some v \<Rightarrow> require (non_blank_text (Some v) = Some (wc_run c))
           (ValueError (if non_blank_text (Some v) = None then ''workflow command payload must include workflow_run_id''
              else ''payload workflow_run_id must match workflow command''))) (\<lambda>_. Inr (wc_run c))"

text \<open>What the handler reads before it writes: the two summaries, the decision and the next command.\<close>

definition reconcile_plan :: "dispatch_ownership \<Rightarrow> (json \<Rightarrow> string) \<Rightarrow> (datetime \<Rightarrow> string) \<Rightarrow>
    (string \<Rightarrow> py_error + datetime) \<Rightarrow> (string \<Rightarrow> string) \<Rightarrow> workflow_command \<Rightarrow> exec_db \<Rightarrow> workflow_db \<Rightarrow>
    py_error + (progress_summary \<times> retry_summary \<times> progress_decision \<times> workflow_command option)" where
  "reconcile_plan policy json_text isoformat from_iso sha256 c db w =
     bindE (validate_reconcile_command c) (\<lambda>_.
     bindE (command_run_id c) (\<lambda>run.
     bindE (summarize_progress json_text run (WorkKind claim_builder_work_kind) (wc_updated_at c) db) (\<lambda>p.
     bindE (summarize_retry_actions json_text from_iso run (WorkKind claim_builder_work_kind) (wc_updated_at c) w db) (\<lambda>s.
       let d = decide_progress p s (utc_of (wc_updated_at c)) in
       bindE (next_command policy isoformat sha256 c run d p s (wc_updated_at c)) (\<lambda>next. Inr (p, s, d, next))))))"

definition append_next :: "workflow_command option \<Rightarrow> workflow_db \<Rightarrow> py_error + workflow_db" where
  "append_next next w = (case next of None \<Rightarrow> Inr w
     | Some x \<Rightarrow> bindE (append_pending_command x w) (\<lambda>(_, w'). Inr w'))"

definition append_new_event :: "py_error + workflow_event \<Rightarrow> workflow_db \<Rightarrow> py_error + workflow_db" where
  "append_new_event e w = bindE e (\<lambda>x. bindE (append_event x w) (\<lambda>(_, w'). Inr w'))"

definition reconcile_claim_builder_progress :: "dispatch_ownership \<Rightarrow> (json \<Rightarrow> string) \<Rightarrow> (datetime \<Rightarrow> string) \<Rightarrow>
    (string \<Rightarrow> py_error + datetime) \<Rightarrow> (string \<Rightarrow> string) \<Rightarrow> workflow_command \<Rightarrow> exec_db \<Rightarrow> workflow_db \<times> views_db \<Rightarrow>
    py_error + (reconcile_result \<times> workflow_db \<times> views_db)" where
  "reconcile_claim_builder_progress policy json_text isoformat from_iso sha256 c db st =
     bindE (reconcile_plan policy json_text isoformat from_iso sha256 c db (fst st)) (\<lambda>(p, s, d, next).
     let run = wc_run c; now = wc_updated_at c; extracted = (d = SECTION_EXTRACTION_DRAINED \<and> all_sections_extracted p) in
     bindE (append_next next (fst st)) (\<lambda>w1.
     bindE (append_new_event (reconciled_event isoformat c run d p s next now) w1) (\<lambda>w2.
     bindE (if extracted then append_new_event (all_sections_event c run p now) w2 else Inr w2) (\<lambda>w3.
     bindE (save_progress_snapshot run d p s now (snd st)) (\<lambda>v1.
     bindE (progress_timeline_entry isoformat c run d p s next now) (\<lambda>e.
     bindE (append_entry e v1) (\<lambda>(_, v2).
     bindE (mark_command_completed (wc_id c) (utc_of now) w3) (\<lambda>(_, w4).
       Inr (\<lparr>rr_run = run, rr_decision = d, rr_events = (if extracted then 2 else 1),
         rr_commands = (if next = None then 0 else 1), rr_completed = wc_id c\<rparr>, w4, v2)))))))))"

end
