(* ===== verification/ClaimProgressProps.thy ===== *)
theory ClaimProgressProps
  imports ClaimProgress
begin

text \<open>
  What a reconcile of the claim builder decides and writes, and what a second retry round finds in the log.
\<close>

section \<open>Counts and rows\<close>

lemma progress_post_init_same: "progress_summary_post_init p = Inr q \<Longrightarrow> q = p"
  by (auto simp: progress_summary_post_init_def split: option.splits if_splits)

lemma summarize_progress_Inr:
  assumes "summarize_progress json_text run kind now db = Inr p"
  shows "pg_ready p = count_status (workflow_rows json_text run kind db) WI_READY"
    "pg_leased p = count_status (workflow_rows json_text run kind db) WI_LEASED"
    "pg_retryable_failed p = count_status (workflow_rows json_text run kind db) WI_RETRYABLE_FAILED"
    "pg_completed p = count_status (workflow_rows json_text run kind db) WI_COMPLETED"
    "pg_total p = int (length (workflow_rows json_text run kind db))"
    "pg_deferred p = 0" "\<not> blank run" "tz_aware now"
  using assms by (auto simp: summarize_progress_def Let_def split: if_splits dest!: progress_post_init_same)





section \<open>Types of the next command\<close>

lemma new_command_Inr:
  assumes "new_command type run key p run_after now = Inr x"
  shows "wc_type x = type \<and> wc_run x = run \<and> idempotency_key_value (wc_key x) = key \<and> wc_payload x = p \<and>
    command_id_value (wc_id x) = ''workflow-command:'' @ key"
  using assms unfolding new_command_def
  by (elim bindE_InrE) (auto simp: mk_command_id_def mk_idempotency_key_def dest!: command_post_init_Inr split: if_splits)

lemma map_sum_Inr: "map_sum id f x = Inr y \<longleftrightarrow> (\<exists>v. x = Inr v \<and> y = f v)"
  by (cases x) auto

lemma prepare_batch_Inr:
  assumes "prepare_batch_command c run p plan run_after now suff = Inr x"
  shows "wc_type x = ''PrepareClaimBuilderDispatchBatch'' \<and> wc_run x = run \<and>
    idempotency_key_value (wc_key x) = ''prepare-claim-builder-dispatch-batch:'' @ run @ '':'' @ suff"
  using assms unfolding prepare_batch_command_def by (elim bindE_InrE) (auto dest!: new_command_Inr)


lemma embeddings_type: "embeddings_command c run p now = Inr x \<Longrightarrow> wc_type x = ''GenerateDraftClaimEmbeddings''"
  by (auto simp: embeddings_command_def dest!: new_command_Inr)


section \<open>What the handler writes\<close>

definition completed_in :: "string \<Rightarrow> utc \<Rightarrow> command_row \<Rightarrow> command_row" where
  "completed_in i t r = (if cm_id r = i then r\<lparr>cm_status := ''COMPLETED'', cm_updated_at := t\<rparr> else r)"

lemma mark_completed_Inr:
  assumes "mark_command_completed i t w = Inr (x, w')"
  shows "wf_commands w' = map (completed_in (command_id_value i) t) (wf_commands w)"
    "\<exists>r \<in> set (wf_commands w'). cm_id r = command_id_value i \<and> cm_status r = ''COMPLETED''"
proof -
  from assms show eq: "wf_commands w' = map (completed_in (command_id_value i) t) (wf_commands w)"
    by (auto simp: mark_command_completed_def update_command_def completed_in_def split: option.splits)
  from assms obtain r where "r \<in> set (wf_commands w)" "cm_id r = command_id_value i"
    by (auto simp: mark_command_completed_def update_command_def dest!: find_Some_in split: option.splits)
  then show "\<exists>r \<in> set (wf_commands w'). cm_id r = command_id_value i \<and> cm_status r = ''COMPLETED''"
    by (intro bexI [of _ "completed_in (command_id_value i) t r"]) (simp_all add: eq completed_in_def)
qed

lemma append_new_event_commands: "append_new_event e w = Inr w' \<Longrightarrow> wf_commands w' = wf_commands w"
  by (auto simp: append_new_event_def dest!: append_event_Inr)

lemma append_new_event_step: "append_new_event e w = Inr w' \<Longrightarrow> workflow_step\<^sup>*\<^sup>* w w'"
  by (auto simp: append_new_event_def dest: workflow_step.intros(2))

lemma save_progress_snapshot_Inr:
  assumes "save_progress_snapshot run d p s now v = Inr v'"
  shows "\<exists>x. vw_snapshots v' run = Some x \<and> sn_total x = pg_total p \<and> sn_completed x = pg_completed p \<and>
    (sn_status x = ''BLOCKED'' \<longleftrightarrow> d = CLAIM_BUILDER_PROGRESS_BLOCKED)"
  using assms unfolding save_progress_snapshot_def
  by (elim bindE_InrE)
    (auto elim!: bindE_InrE dest!: save_snapshot_Inr snapshot_post_init_same simp del: bindE_Inr_iff split: prod.splits)

lemma append_entry_snapshots: "append_entry e v = Inr (x, v') \<Longrightarrow> vw_snapshots v' = vw_snapshots v"
  by (auto simp: append_entry_def split: option.splits if_splits)

lemma reconcile_plan_Inr:
  assumes "reconcile_plan policy json_text isoformat from_iso sha256 c db w = Inr (p, s, d, nx)"
  shows "summarize_progress json_text (wc_run c) (WorkKind claim_builder_work_kind) (wc_updated_at c) db = Inr p"
    "summarize_retry_actions json_text from_iso (wc_run c) (WorkKind claim_builder_work_kind) (wc_updated_at c) w db = Inr s"
    "d = decide_progress p s (utc_of (wc_updated_at c))"
    "next_command policy isoformat sha256 c (wc_run c) d p s (wc_updated_at c) = Inr nx"
proof -
  have "run = wc_run c" if "command_run_id c = Inr run" for run
    using that by (auto simp: command_run_id_def)
  then show "summarize_progress json_text (wc_run c) (WorkKind claim_builder_work_kind) (wc_updated_at c) db = Inr p"
    "summarize_retry_actions json_text from_iso (wc_run c) (WorkKind claim_builder_work_kind) (wc_updated_at c) w db = Inr s"
    "d = decide_progress p s (utc_of (wc_updated_at c))"
    "next_command policy isoformat sha256 c (wc_run c) d p s (wc_updated_at c) = Inr nx"
    using assms unfolding reconcile_plan_def Let_def by (auto simp del: bindE_Inr_iff elim!: bindE_InrE)
qed

lemma reconcile_Inr:
  assumes "reconcile_claim_builder_progress policy json_text isoformat from_iso sha256 c db (w, v) = Inr (res, w', v')"
  obtains p s d nx w1 where
    "reconcile_plan policy json_text isoformat from_iso sha256 c db w = Inr (p, s, d, nx)"
    "append_next nx w = Inr w1"
    "wf_commands w' = map (completed_in (command_id_value (wc_id c)) (utc_of (wc_updated_at c))) (wf_commands w1)"
    "\<exists>r \<in> set (wf_commands w'). cm_id r = command_id_value (wc_id c) \<and> cm_status r = ''COMPLETED''"
    "\<exists>x. vw_snapshots v' (wc_run c) = Some x \<and> sn_total x = pg_total p \<and> sn_completed x = pg_completed p \<and>
       (sn_status x = ''BLOCKED'' \<longleftrightarrow> d = CLAIM_BUILDER_PROGRESS_BLOCKED)"
    "rr_decision res = d" "rr_commands res = (if nx = None then 0 else 1)" "workflow_step\<^sup>*\<^sup>* w1 w'"
proof -
  from assms obtain p s d nx where plan:
      "reconcile_plan policy json_text isoformat from_iso sha256 c db w = Inr (p, s, d, nx)"
    by (auto simp: reconcile_claim_builder_progress_def)
  let ?extracted = "d = SECTION_EXTRACTION_DRAINED \<and> all_sections_extracted p"
  from assms [unfolded reconcile_claim_builder_progress_def] plan obtain w1 w2 w3 v1 e y v2 z where
    steps: "append_next nx w = Inr w1"
      "append_new_event (reconciled_event isoformat c (wc_run c) d p s nx (wc_updated_at c)) w1 = Inr w2"
      "(if ?extracted then append_new_event (all_sections_event c (wc_run c) p (wc_updated_at c)) w2 else Inr w2) = Inr w3"
      "save_progress_snapshot (wc_run c) d p s (wc_updated_at c) v = Inr v1"
      "append_entry e v1 = Inr (y, v2)"
      "mark_command_completed (wc_id c) (utc_of (wc_updated_at c)) w3 = Inr (z, w')" "v' = v2"
    and res: "rr_decision res = d" "rr_commands res = (if nx = None then 0 else 1)"
    by (auto simp: Let_def simp del: bindE_Inr_iff elim!: bindE_InrE)
  have "wf_commands w3 = wf_commands w1"
    using steps(2,3) append_new_event_commands by (fastforce split: if_splits)
  moreover have "workflow_step\<^sup>*\<^sup>* w1 w2" "workflow_step\<^sup>*\<^sup>* w2 w3"
    using steps(2,3) append_new_event_step by (auto split: if_splits)
  moreover have "workflow_step\<^sup>*\<^sup>* w3 w'" using steps(6) by (blast intro: workflow_step.intros(1) command_step.completed)
  ultimately have "workflow_step\<^sup>*\<^sup>* w1 w'" "wf_commands w3 = wf_commands w1" by (blast intro: rtranclp_trans)+
  with that [OF plan steps(1)] mark_completed_Inr [OF steps(6)] save_progress_snapshot_Inr [OF steps(4)]
    append_entry_snapshots [OF steps(5)] steps(7) res show ?thesis by metis
qed


lemma completed_in_same [simp]: "cm_type (completed_in i t r) = cm_type r" "cm_id (completed_in i t r) = cm_id r"
  by (simp_all add: completed_in_def)

section \<open>The decision follows the work items\<close>



section \<open>A second round of retries\<close>

lemma next_prepare_now:
  assumes "next_command current_ownership isoformat sha256 c run PREPARE_NEXT_BATCH_NOW p s now = Inr nx"
    "selected_retry_plan s = Some plan"
  shows "\<exists>x. nx = Some x \<and> idempotency_key_value (wc_key x) = ''prepare-claim-builder-dispatch-batch:'' @ run @ '':'' @
    (''now:'' @ plan @ '':scheduled:'' @ int_str (pg_total p))"
  using assms
  by (auto simp: next_command_def claim_builder_queue_owns_def current_ownership_def drain_bridge_enabled_def map_sum_Inr
    prepare_idempotency_suffix_def prepare_suffix_scope_def dest!: prepare_batch_Inr)

lemma append_next_logged:
  assumes "append_next (Some x) w = Inr w1" "log_ok w"
  shows "log_ok w1 \<and> (\<exists>k. logged (idempotency_key_value (wc_key x), k) w1)"
  using assms append_accepts_logged append_step by (fastforce simp: append_next_def)

text \<open>
  C32. A retry round prepares no second batch under the same plan. When a reconcile selected a retry plan and
  prepared the next batch, then a later reconcile of the workflow that selects the same plan over as many work items
  appends no command, whatever the log did in between (the first prepare command may be completed long ago): the log is
  what it was, with the reconcile command completed, although the handler reports a next command. The waiting items
  are left to other reconciles.
\<close>

theorem retry_round_reuses_prepare:
  assumes ok: "log_ok w"
    and r1: "reconcile_claim_builder_progress current_ownership json_text isoformat from_iso sha256 c db (w, v) = Inr (res, w1, v1)"
      "rr_decision res = PREPARE_NEXT_BATCH_NOW"
      "summarize_retry_actions json_text from_iso (wc_run c) (WorkKind claim_builder_work_kind) (wc_updated_at c) w db = Inr s"
      "selected_retry_plan s = Some plan"
    and mid: "workflow_step\<^sup>*\<^sup>* w1 w2"
    and r2: "reconcile_claim_builder_progress current_ownership json_text isoformat from_iso sha256 c' db' (w2, v2) = Inr (res', w3, v3)"
      "rr_decision res' = PREPARE_NEXT_BATCH_NOW"
      "summarize_retry_actions json_text from_iso (wc_run c') (WorkKind claim_builder_work_kind) (wc_updated_at c') w2 db' = Inr s'"
      "selected_retry_plan s' = Some plan"
    and same: "wc_run c' = wc_run c"
      "length (workflow_rows json_text (wc_run c') (WorkKind claim_builder_work_kind) db') =
       length (workflow_rows json_text (wc_run c) (WorkKind claim_builder_work_kind) db)"
  shows "wf_commands w3 = map (completed_in (command_id_value (wc_id c')) (utc_of (wc_updated_at c'))) (wf_commands w2) \<and>
    rr_commands res' = 1"
proof -
  let ?key = "\<lambda>n. ''prepare-claim-builder-dispatch-batch:'' @ wc_run c @ '':'' @ (''now:'' @ plan @ '':scheduled:'' @ int_str n)"
  from r1(1) obtain p1 s1 d1 nx1 wa where plan1:
      "reconcile_plan current_ownership json_text isoformat from_iso sha256 c db w = Inr (p1, s1, d1, nx1)"
    and app1: "append_next nx1 w = Inr wa" and steps: "workflow_step\<^sup>*\<^sup>* wa w1" and d1: "rr_decision res = d1"
    by (rule reconcile_Inr)
  note read1 = reconcile_plan_Inr [OF plan1]
  have s1: "s1 = s" using read1(2) r1(3) by simp
  from next_prepare_now [OF read1(4) [unfolded d1 [symmetric] r1(2) s1] r1(4)] obtain x1 where
    x1: "nx1 = Some x1" "idempotency_key_value (wc_key x1) = ?key (pg_total p1)" by auto
  from append_next_logged [OF app1 [unfolded x1(1)] ok] obtain k where "log_ok wa" "logged (?key (pg_total p1), k) wa"
    unfolding x1(2) by blast
  then have kept: "log_ok w2" "logged (?key (pg_total p1), k) w2"
    using workflow_run_keeps [OF rtranclp_trans [OF steps mid]] by blast+
  from r2(1) obtain p2 s2 d2 nx2 wb where plan2:
      "reconcile_plan current_ownership json_text isoformat from_iso sha256 c' db' w2 = Inr (p2, s2, d2, nx2)"
    and app2: "append_next nx2 w2 = Inr wb"
    and w3: "wf_commands w3 = map (completed_in (command_id_value (wc_id c')) (utc_of (wc_updated_at c'))) (wf_commands wb)"
    and d2: "rr_decision res' = d2" "rr_commands res' = (if nx2 = None then 0 else 1)"
    by (rule reconcile_Inr)
  note read2 = reconcile_plan_Inr [OF plan2]
  have s2: "s2 = s'" using read2(2) r2(3) by simp
  from next_prepare_now [OF read2(4) [unfolded d2(1) [symmetric] r2(2) s2] r2(4)] obtain x2 where
    x2: "nx2 = Some x2" "idempotency_key_value (wc_key x2) = ?key (pg_total p2)" unfolding same(1) by auto
  have "pg_total p2 = pg_total p1"
    using summarize_progress_Inr(5) [OF read1(1)] summarize_progress_Inr(5) [OF read2(1)] same(2) by simp
  with x2 kept app2 have "wb = w2" using append_known_key [of w2 x2 k] by (auto simp: append_next_def)
  with w3 d2(2) x2(1) show ?thesis by simp
qed

section \<open>A workflow with one waiting section\<close>

definition section_plan :: work_item_schedule_plan where
  "section_plan = \<lparr>sp_work_item_id = ''w1'', sp_work_kind = WorkKind claim_builder_work_kind, sp_idempotency_key = ''key1'',
     sp_payload = [(''workflow_run_id'', JStr ''knowledge-extraction:d'')]\<rparr>"

definition section_db :: exec_db where
  "section_db = snd (projr (ensure_work_items_scheduled hash1 (Utc 1) [section_plan] empty_db))"

definition retry_event :: workflow_event where
  "retry_event = \<lparr>we_id = WorkflowEventId ''e1'', we_type = ''T'', we_run = ''knowledge-extraction:d'',
     we_payload = [(''work_kind'', JStr claim_builder_work_kind), (''work_item_id'', JStr ''w1''),
       (''dispatch_attempt_id'', JStr ''a1''), (''claim_builder_attempt_next_action_kind'', JStr ''RETRY_SAME_ROUTE''),
       (''claim_builder_requires_source_split'', JBool False)],
     we_occurred_at = Aware (Utc 1), we_causation = None, we_correlation = None, we_sequence = None\<rparr>"

definition reconcile_command :: "string \<Rightarrow> workflow_command" where
  "reconcile_command i = \<lparr>wc_id = WorkflowCommandId i, wc_type = ''ReconcileClaimBuilderProgress'',
     wc_run = ''knowledge-extraction:d'', wc_key = WorkflowIdempotencyKey i, wc_payload = [], wc_status = CMD_PENDING,
     wc_run_after = Aware (Utc 2), wc_created_at = Aware (Utc 2), wc_updated_at = Aware (Utc 2), wc_causation = None,
     wc_correlation = None, wc_attempts = 0\<rparr>"

definition retry_log :: workflow_db where
  "retry_log = snd (projr (append_pending_command (reconcile_command ''r2'') (snd (projr (append_pending_command
     (reconcile_command ''r1'') (snd (projr (append_event retry_event no_log))))))))"

definition no_views :: views_db where
  "no_views = \<lparr>vw_snapshots = (\<lambda>_. None), vw_timeline = [], vw_usage = (\<lambda>_. None)\<rparr>"

definition sample_reconcile :: "string \<Rightarrow> workflow_db \<times> views_db \<Rightarrow> py_error + (reconcile_result \<times> workflow_db \<times> views_db)" where
  "sample_reconcile i st = reconcile_claim_builder_progress current_ownership (\<lambda>_. []) (\<lambda>_. ''t'')
     (\<lambda>_. Inr (Aware (Utc 0))) (\<lambda>s. s) (reconcile_command i) section_db st"

definition sample_round1 :: "reconcile_result \<times> workflow_db \<times> views_db" where
  "sample_round1 = projr (sample_reconcile ''r1'' (retry_log, no_views))"

definition sample_round2 :: "reconcile_result \<times> workflow_db \<times> views_db" where
  "sample_round2 = projr (sample_reconcile ''r2'' (fst (snd sample_round1), no_views))"

definition sample_retry_summary :: "workflow_db \<Rightarrow> retry_summary" where
  "sample_retry_summary w = projr (summarize_retry_actions (\<lambda>_. []) (\<lambda>_. Inr (Aware (Utc 0)))
     ''knowledge-extraction:d'' (WorkKind claim_builder_work_kind) (Aware (Utc 2)) w section_db)"


lemma decided: "map_sum id (\<lambda>r. rr_decision (fst r)) x = Inr d \<Longrightarrow>
    x = Inr (fst (projr x), fst (snd (projr x)), snd (snd (projr x))) \<and> rr_decision (fst (projr x)) = d"
  by (cases x) auto

lemma sample_rounds:
  "sample_reconcile ''r1'' (retry_log, no_views) = Inr (fst sample_round1, fst (snd sample_round1), snd (snd sample_round1)) \<and>
     rr_decision (fst sample_round1) = PREPARE_NEXT_BATCH_NOW"
  "sample_reconcile ''r2'' (fst (snd sample_round1), no_views) =
     Inr (fst sample_round2, fst (snd sample_round2), snd (snd sample_round2)) \<and>
     rr_decision (fst sample_round2) = PREPARE_NEXT_BATCH_NOW"
proof -
  show "sample_reconcile ''r1'' (retry_log, no_views) = Inr (fst sample_round1, fst (snd sample_round1), snd (snd sample_round1)) \<and>
     rr_decision (fst sample_round1) = PREPARE_NEXT_BATCH_NOW"
    unfolding sample_round1_def by (rule decided) code_simp
  show "sample_reconcile ''r2'' (fst (snd sample_round1), no_views) =
     Inr (fst sample_round2, fst (snd sample_round2), snd (snd sample_round2)) \<and>
     rr_decision (fst sample_round2) = PREPARE_NEXT_BATCH_NOW"
    unfolding sample_round2_def by (rule decided) code_simp
qed


theorem retry_round_reuses_prepare_witness:
  "rr_commands (fst sample_round2) = 1 \<and> length (wf_commands (fst (snd sample_round2))) = length (wf_commands (fst (snd sample_round1)))"
proof -
  have ok: "log_ok retry_log" by code_simp
  have s: "summarize_retry_actions (\<lambda>_. []) (\<lambda>_. Inr (Aware (Utc 0))) (wc_run (reconcile_command i))
      (WorkKind claim_builder_work_kind) (wc_updated_at (reconcile_command i)) w section_db = Inr (sample_retry_summary w)"
    if "\<not> isl (summarize_retry_actions (\<lambda>_. []) (\<lambda>_. Inr (Aware (Utc 0))) ''knowledge-extraction:d''
      (WorkKind claim_builder_work_kind) (Aware (Utc 2)) w section_db)" for i w
    using that unfolding sample_retry_summary_def by (auto simp: reconcile_command_def isl_def)
  have i: "\<not> isl (summarize_retry_actions (\<lambda>_. []) (\<lambda>_. Inr (Aware (Utc 0))) ''knowledge-extraction:d''
      (WorkKind claim_builder_work_kind) (Aware (Utc 2)) retry_log section_db)"
    "\<not> isl (summarize_retry_actions (\<lambda>_. []) (\<lambda>_. Inr (Aware (Utc 0))) ''knowledge-extraction:d''
      (WorkKind claim_builder_work_kind) (Aware (Utc 2)) (fst (snd sample_round1)) section_db)"
    and plan: "selected_retry_plan (sample_retry_summary retry_log) = Some ''retry_same_route''"
    "selected_retry_plan (sample_retry_summary (fst (snd sample_round1))) = Some ''retry_same_route''"
    by code_simp+
  show ?thesis
    using retry_round_reuses_prepare [OF ok sample_rounds(1) [THEN conjunct1, unfolded sample_reconcile_def]
        sample_rounds(1) [THEN conjunct2] s [OF i(1)] plan(1)
        rtranclp.rtrancl_refl sample_rounds(2) [THEN conjunct1, unfolded sample_reconcile_def]
        sample_rounds(2) [THEN conjunct2] s [OF i(2)] plan(2)]
    by (simp add: reconcile_command_def)
qed

end
