(* ===== verification/Spec2Isabelle.thy ===== *)
theory Spec2Isabelle
  imports ExecReadback ExecuteLlm CompactionProps AdmissionProps ReservationProps ClaimBuilderDrain SegmentationProps ClaimOutputProps DispatchAttempt DispatchAttemptProps ClaimProgressProps
begin

text \<open>
  A verification library of the back end under \<open>src/src\<close>: the runtimes that schedule, lease,
  admit, execute and record work that calls language models, and the policies of the knowledge
  pipeline that decide what that work is. Every definition is translated from the Python source (the
  SQL of the repositories included); names follow the source, with a suffix or prefix where HOL has
  the name. This theory imports the whole library and holds no definitions of its own.

  \<^bold>\<open>How the parts interact.\<close> Work is scheduled as rows of the execution runtime. Scheduled rows are
  projected into the capacity admission queue, one lane per work kind and model route. An admission
  pass takes the first fitting row of a lane, reserves capacity of the provider window, leases the row
  in both places and starts an attempt; the older drain does the same for a whole lane under a claim.
  An attempt runs a task of the LLM runtime, whose policies choose routes, caps and budgets; its
  outcome is recorded in the execution runtime, and expired leases are recovered. Commands and events
  between the steps go through the command log and the outbox of the workflow runtime. The knowledge
  pipeline on top cuts documents into segments and plans which extracted claims are compared next.

  \<^bold>\<open>Foundations.\<close> \<open>CrmPrelude\<close>: Python text, datetimes with and without a time zone, exceptions as
  values of a sum (\<open>py_error + 'a\<close>, composed by \<open>bindE\<close>), sequences of fallible calls
  (\<open>traverseE\<close>), decimal printing, the theorem collections. \<open>Lifecycle\<close>: the locale of the contract the
  status machines share (validity is kept, final states are final, counters grow), with its lemmas on
  runs.

  \<^bold>\<open>Execution runtime\<close> (\<open>contexts/execution_runtime\<close>). \<open>WorkItem\<close>, \<open>WorkItemMachine\<close>: the entity,
  its value objects and the static methods of \<open>WorkItemStateMachine\<close>, with the status graph they refine.
  \<open>ExecTables\<close>: the rows with the constraints of the migrations, and hydration. \<open>ExecStore\<close>,
  \<open>ExecMaintenance\<close>, \<open>ExecDispatch\<close>, \<open>ExecReadback\<close>: the Postgres repositories, one definition per
  method, as functions on the tables. \<open>ExecRows\<close>, \<open>ExecRun\<close>: rows against entities, the step relation
  of the repositories, its invariant and its simulation of the state machine (an interpretation of
  \<open>Lifecycle\<close>). \<open>ExecSamples\<close>, \<open>ExecProps\<close>, \<open>ExecOutcomes\<close>, \<open>ExecScheduling\<close>, \<open>ExecRecovery\<close>: a concrete
  run, and the properties of leases, outcomes, scheduling, recovery, superseding and dispatch.
  \<open>LeaseAdmitted\<close>: the use case that leases an admitted batch, over a locale that the repositories
  interpret. \<open>Capacity\<close> (\<open>contexts/capacity_runtime/domain\<close>): the admission policy.

  \<^bold>\<open>LLM runtime\<close> (\<open>contexts/llm_runtime\<close>). \<open>LlmTask\<close>: the task, its attempt and its state machine.
  \<open>RoutePlanning\<close>, \<open>RouteCandidates\<close>, \<open>RouteCatalog\<close>: where a failed call goes next, where the candidates
  come from, the catalogue of routes, the output cap. \<open>ExecuteLlm\<close>: one execution attempt.
  \<open>LlmBudget\<close>: token budgets.

  \<^bold>\<open>Admission\<close> (\<open>contexts/capacity_admission_queue\<close>, \<open>interfaces/composition\<close>). \<open>AdmissionQueue\<close>,
  \<open>AdmissionProjection\<close>: lanes, projection rows, selector, admitter, dirty flags and claims, lifecycle
  synchronisation, building and writing candidates. \<open>BudgetWindow\<close>: the budget of a provider window
  and its invariant along runs. \<open>RouteReservation\<close>: observations and reservations of a route, and
  the use case that previews and reserves. \<open>AdmissionResult\<close>, \<open>AdmissionPass\<close>: the pass over its ports;
  \<open>AdmissionLaws\<close>: the locale of what the ports promise, and what a pass then guarantees;
  \<open>AdmissionPorts\<close>, \<open>AdmissionWorld\<close>: the ports as the composition wires them, on the tables, and the
  interpretation of the locale. \<open>WindowDrain\<close>, \<open>DrainProps\<close>, \<open>DrainClaims\<close>: the drain of a lane and
  what it does. \<open>AdmissionSamples\<close>, \<open>AdmissionProps\<close>, \<open>ReservationProps\<close>: concrete worlds and the
  properties of passes and reservations, among them where projection and execution drift apart.

  \<^bold>\<open>Workflow runtime\<close> (\<open>contexts/workflow_runtime\<close>). \<open>WorkflowRuntime\<close>, \<open>WorkflowLog\<close>: command log,
  outbox and cursors; idempotence, reading back, delivery in order. \<open>ClaimBuilderDrain\<close>
  (\<open>knowledge_workbench/application/sagas\<close>): the strategy that turns admitted items into commands.

  \<^bold>\<open>Knowledge pipeline\<close> (\<open>contexts/knowledge_workbench\<close>). \<open>CompactionModels\<close>, \<open>CompactionLineage\<close>,
  \<open>CompactionPlanner\<close>, \<open>CompactionProps\<close>: the planner of claim comparisons, its union-find against the
  equivalence that merges generate, and what the planner decides. \<open>Segmentation\<close>: the policy that cuts
  documents into segments within the budget of a prompt.

  \<^bold>\<open>Conventions.\<close> A frozen dataclass is a record and its \<open>__post_init__\<close> a \<open>..._post_init\<close> function that
  returns the record or the exception; enums are datatypes with a \<open>..._value\<close> function. A repository
  method takes the tables and returns a result with the new tables; a raise returns no tables, because
  the transaction is rolled back. \<open>SKIP LOCKED\<close>, the collation and the clock of the database are
  parameters. A table is a list of rows where order matters and a map where it does not. Datetimes are
  microseconds on the UTC axis (\<open>utc\<close>) or naive.

  \<^bold>\<open>Loops, bounds and fuel.\<close> Loops are structural recursions where the source walks a sequence.
  \<open>find_source\<close> of the lineage index and \<open>drain_loop\<close> are \<open>partial_function (option)\<close>: \<open>None\<close> is a run
  that does not return, and \<open>planner_decides\<close> and \<open>drain_terminates\<close> show that they return. \<open>Decimal\<close> and
  \<open>float\<close> quotients are exact rationals; the theories that use them say below which size that is the
  same. Text is \<open>string\<close>, code points below 256.

  \<^bold>\<open>Parameters.\<close> SHA-256, \<open>uuid5\<close>, canonical JSON text, the provider call, the output validation, the
  strategy of a drain and the resolver of a dispatch context are arguments of the definitions that use
  them. Generated event ids are positions in the event table instead of random UUIDs.

  \<^bold>\<open>Not modelled.\<close> The handlers of the claim-builder and compaction workflows as a whole and the SQL of
  the compaction state (long orchestrations over prompts, JSON answers and many tables; the parts they
  delegate to are modelled where they are listed above), read models for the user interface, prompt
  texts and parsers of model answers, provider adapters, curation, retrieval, publication and
  evaluation, the chat product (agent, services, Telegram and HTTP interfaces), configuration,
  logging, mail, queues, the front end, migrations beyond the constraints of the modelled tables,
  tools and tests. They are input and output, glue, or product areas of their own.

  \<^bold>\<open>What modelling showed\<close> is proved, not only noted: an item whose lease is recovered is stranded for the
  admission queue, a stale projection row blocks its lane, a retried item reuses an attempt id, a pass
  counts its own reservations twice, the drain ignores freezes and never clears its dirty flag, the
  bridge never dispatches a retry, a recovered success cannot be read back, a second save of a
  dispatch is refused, a separation can be forgotten after a merge.
\<close>

end
